(* ===== verification/Prelude.thy ===== *)
theory Prelude
  imports Main "HOL-Library.Monad_Syntax"
begin

text \<open>
  Shared vocabulary of the development.

  The workflow store of BalanceFrame is TypeScript over one SQLite connection. A method reads
  rows, may throw a JavaScript \<open>Error\<close>, and writes rows; \<^verbatim>\<open>db.transaction(f).immediate()\<close> undoes
  every write of \<open>f\<close> when \<open>f\<close> throws. This theory fixes how the components model that:
  \<^item> \<open>js_error\<close>: what a method throws; an \<open>Error\<close> carries the source's message;
  \<^item> \<open>'a result\<close>: a computation that only reads, so it returns a value or throws;
  \<^item> \<open>('s, 'a) op\<close>: a method over a store of type \<open>'s\<close>; when it throws, the store it returns is
    what the statements that ran before the throw made of it, and \<open>transaction\<close> restores it;
  \<^item> \<open>insertRow\<close>, \<open>updateWhere\<close>: SQL \<open>INSERT\<close> with its uniqueness constraints and \<open>UPDATE ... WHERE\<close>
    with its number of changed rows, on a table held as the list of its rows.
  The collections \<open>store_simps\<close> and \<open>read_simps\<close> carry the case analyses on these that the
  component proofs use.
\<close>

named_theorems store_simps "characterisation of the store operations by their outcome"
named_theorems read_simps "characterisation of the reading computations by their outcome"

subsection \<open>Errors and reading computations\<close>

datatype js_error =
    Error string
  | SqliteConstraint string
  | TypeError
  | RangeError
  | SyntaxError
  | ZodError

type_synonym 'a result = "js_error + 'a"

definition andThen :: "'a result \<Rightarrow> ('a \<Rightarrow> 'b result) \<Rightarrow> 'b result" where
  "andThen m f = (case m of Inl e \<Rightarrow> Inl e | Inr x \<Rightarrow> f x)"

definition require :: "bool \<Rightarrow> string \<Rightarrow> unit result" where
  "require b msg = (if b then Inr () else Inl (Error msg))"

lemma andThen_simps [simp]:
  "andThen (Inl e) f = Inl e"
  "andThen (Inr x) f = f x"
  by (simp_all add: andThen_def)

lemma andThen_eq_Inr [read_simps]:
  "andThen m f = Inr y \<longleftrightarrow> (\<exists>x. m = Inr x \<and> f x = Inr y)"
  by (cases m) simp_all

lemma require_eq_Inr [read_simps]: "require b msg = Inr u \<longleftrightarrow> b"
  by (simp add: require_def)

definition quoted :: "string \<Rightarrow> string" where
  "quoted s = CHR 0x27 # s @ [CHR 0x27]"

text \<open>\<open>Array.prototype.filter\<close>, \<open>some\<close> and \<open>map\<close> with a callback that may throw.\<close>

fun filterR :: "('a \<Rightarrow> bool result) \<Rightarrow> 'a list \<Rightarrow> 'a list result" where
  "filterR p [] = Inr []"
| "filterR p (x # xs) =
     andThen (p x) (\<lambda>b. andThen (filterR p xs) (\<lambda>ys. Inr (if b then x # ys else ys)))"

fun existsR :: "('a \<Rightarrow> bool result) \<Rightarrow> 'a list \<Rightarrow> bool result" where
  "existsR p [] = Inr False"
| "existsR p (x # xs) = andThen (p x) (\<lambda>b. if b then Inr True else existsR p xs)"

fun mapR :: "('a \<Rightarrow> 'b result) \<Rightarrow> 'a list \<Rightarrow> 'b list result" where
  "mapR f [] = Inr []"
| "mapR f (x # xs) = andThen (f x) (\<lambda>y. andThen (mapR f xs) (\<lambda>ys. Inr (y # ys)))"

lemma filterR_total:
  "(\<And>x. x \<in> set xs \<Longrightarrow> p x = Inr (q x)) \<Longrightarrow> filterR p xs = Inr (filter q xs)"
  by (induction xs) simp_all

lemma filterR_Inr_filter:
  "filterR p xs = Inr ys \<Longrightarrow> ys = filter (\<lambda>x. p x = Inr True) xs"
  by (induction xs arbitrary: ys) (auto simp: read_simps split: if_splits)

lemma filterR_Inr_defined:
  "filterR p xs = Inr ys \<Longrightarrow> x \<in> set xs \<Longrightarrow> \<exists>b. p x = Inr b"
  by (induction xs arbitrary: ys) (auto simp: read_simps)

lemma existsR_False:
  "existsR p xs = Inr False \<longleftrightarrow> (\<forall>x \<in> set xs. p x = Inr False)"
  by (induction xs) (auto simp: read_simps)

lemma existsR_True:
  "existsR p xs = Inr True \<Longrightarrow> \<exists>x \<in> set xs. p x = Inr True"
  by (induction xs) (auto simp: read_simps split: if_splits)

lemma mapR_Inr_length: "mapR f xs = Inr ys \<Longrightarrow> length ys = length xs"
  by (induction xs arbitrary: ys) (auto simp: read_simps)

lemma mapR_Inr_set: "mapR f xs = Inr ys \<Longrightarrow> y \<in> set ys \<Longrightarrow> \<exists>x \<in> set xs. f x = Inr y"
  by (induction xs arbitrary: ys) (fastforce simp: read_simps)+

lemma mapR_list_all:
  "mapR f xs = Inr ys \<Longrightarrow> (\<And>x y. f x = Inr y \<Longrightarrow> P y) \<Longrightarrow> list_all P ys"
  by (induction xs arbitrary: ys) (auto simp: read_simps)

lemma mapR_total: "(\<And>x. x \<in> set xs \<Longrightarrow> f x = Inr (g x)) \<Longrightarrow> mapR f xs = Inr (map g xs)"
  by (induction xs) simp_all

subsection \<open>Store operations and transactions\<close>

type_synonym ('s, 'a) op = "'s \<Rightarrow> 'a result \<times> 's"

definition returns :: "'a \<Rightarrow> ('s, 'a) op" where
  "returns x s = (Inr x, s)"

definition throws :: "js_error \<Rightarrow> ('s, 'a) op" where
  "throws e s = (Inl e, s)"

definition bindOp :: "('s, 'a) op \<Rightarrow> ('a \<Rightarrow> ('s, 'b) op) \<Rightarrow> ('s, 'b) op" where
  "bindOp m f s = (case m s of (Inl e, t) \<Rightarrow> (Inl e, t) | (Inr x, t) \<Rightarrow> f x t)"

definition reads :: "('s \<Rightarrow> 'a result) \<Rightarrow> ('s, 'a) op" where
  "reads f s = (f s, s)"

definition writes :: "('s \<Rightarrow> 's) \<Rightarrow> ('s, unit) op" where
  "writes f s = (Inr (), f s)"

definition requireOp :: "('s \<Rightarrow> bool) \<Rightarrow> string \<Rightarrow> ('s, unit) op" where
  "requireOp b msg s = (if b s then (Inr (), s) else (Inl (Error msg), s))"

text \<open>
  A rollback restores the tables; \<open>keep s t\<close> is the store with the tables of \<open>s\<close> and what is not part
  of the database (the position of the identifier generator) of \<open>t\<close>.
\<close>

definition transaction :: "('s \<Rightarrow> 's \<Rightarrow> 's) \<Rightarrow> ('s, 'a) op \<Rightarrow> ('s, 'a) op" where
  "transaction keep m s = (case m s of (Inl e, t) \<Rightarrow> (Inl e, keep s t) | (Inr x, t) \<Rightarrow> (Inr x, t))"

fun forEach :: "'a list \<Rightarrow> ('a \<Rightarrow> ('s, unit) op) \<Rightarrow> ('s, unit) op" where
  "forEach [] f = returns ()"
| "forEach (x # xs) f = bindOp (f x) (\<lambda>_. forEach xs f)"

lemma bindOp_Inr [store_simps]:
  "bindOp m f s = (Inr y, t) \<longleftrightarrow> (\<exists>x u. m s = (Inr x, u) \<and> f x u = (Inr y, t))"
  by (auto simp: bindOp_def split: prod.splits sum.splits)

lemma returns_Inr [store_simps]: "returns x s = (Inr y, t) \<longleftrightarrow> y = x \<and> t = s"
  by (auto simp: returns_def)

lemma throws_Inr [store_simps]: "throws e s = (Inr y, t) \<longleftrightarrow> False"
  by (simp add: throws_def)

lemma reads_Inr [store_simps]: "reads f s = (Inr y, t) \<longleftrightarrow> f s = Inr y \<and> t = s"
  by (auto simp: reads_def)

lemma writes_Inr [store_simps]: "writes f s = (Inr u, t) \<longleftrightarrow> t = f s"
  by (auto simp: writes_def)

lemma requireOp_Inr [store_simps]: "requireOp b msg s = (Inr u, t) \<longleftrightarrow> b s \<and> t = s"
  by (auto simp: requireOp_def)

lemma transaction_Inr [store_simps]: "transaction keep m s = (Inr y, t) \<longleftrightarrow> m s = (Inr y, t)"
  by (auto simp: transaction_def split: prod.splits sum.splits)

lemma transaction_Inl: "transaction keep m s = (Inl e, t) \<Longrightarrow> \<exists>u. t = keep s u"
  by (auto simp: transaction_def split: prod.splits sum.splits)

lemma bindOp_Inl_cases:
  assumes "bindOp m f s = (Inl e, t)"
  shows "m s = (Inl e, t) \<or> (\<exists>x u. m s = (Inr x, u) \<and> f x u = (Inl e, t))"
  using assms by (auto simp: bindOp_def split: prod.splits sum.splits)

lemma reads_Inl: "reads f s = (Inl e, t) \<Longrightarrow> t = s"
  by (simp add: reads_def)

lemma requireOp_Inl: "requireOp b msg s = (Inl e, t) \<Longrightarrow> t = s"
  by (simp add: requireOp_def split: if_splits)

text \<open>An invariant that the body keeps is kept by the whole loop.\<close>

lemma forEach_invariant:
  assumes "forEach xs f s = (r, t)" and "P s"
    and keep: "\<And>x u r' v. x \<in> set xs \<Longrightarrow> f x u = (r', v) \<Longrightarrow> P u \<Longrightarrow> P v"
  shows "P t"
  using assms
proof (induction xs arbitrary: s)
  case Nil
  then show ?case by (simp add: returns_def)
next
  case (Cons x xs)
  obtain r' v where fx: "f x s = (r', v)" by (cases "f x s")
  then have v: "P v" using Cons.prems(2,3) by (meson list.set_intros(1))
  have step: "\<And>y u r'' w. y \<in> set xs \<Longrightarrow> f y u = (r'', w) \<Longrightarrow> P u \<Longrightarrow> P w"
    using Cons.prems(3) by (meson list.set_intros(2))
  show ?case
  proof (cases r')
    case (Inl e)
    then show ?thesis using Cons.prems(1) fx v by (simp add: bindOp_def)
  next
    case (Inr u)
    then have "forEach xs f v = (r, t)" using Cons.prems(1) fx by (simp add: bindOp_def)
    then show ?thesis using v step by (rule Cons.IH)
  qed
qed

subsection \<open>Pre- and postconditions\<close>

text \<open>
  \<open>triple P m Q E\<close>: run from a store that satisfies \<open>P\<close>, \<open>m\<close> either returns \<open>x\<close> with a store that
  satisfies \<open>Q x\<close>, or throws and leaves a store that satisfies \<open>E\<close>. The rules follow the shape of an
  operation: what a read returned is a fact for the rest of the operation, a called operation is
  used through its own triple.
\<close>

definition triple :: "('s \<Rightarrow> bool) \<Rightarrow> ('s, 'a) op \<Rightarrow> ('a \<Rightarrow> 's \<Rightarrow> bool) \<Rightarrow> ('s \<Rightarrow> bool) \<Rightarrow> bool" where
  "triple P m Q E \<longleftrightarrow> (\<forall>s. P s \<longrightarrow> (case m s of (Inr x, t) \<Rightarrow> Q x t | (Inl e, t) \<Rightarrow> E t))"

named_theorems triple_rules "rules for pre- and postconditions of store operations"

lemma triple_reads [triple_rules]:
  assumes "\<And>s. P s \<Longrightarrow> E s"
    and "\<And>x s0. P s0 \<Longrightarrow> g s0 = Inr x \<Longrightarrow> triple (\<lambda>s. P s \<and> g s = Inr x) (f x) Q E"
  shows "triple P (bindOp (reads g) f) Q E"
  using assms by (fastforce simp: triple_def bindOp_def reads_def split: sum.splits)

lemma triple_reads_end [triple_rules]:
  assumes "\<And>s. P s \<Longrightarrow> E s" and "\<And>s x. P s \<Longrightarrow> g s = Inr x \<Longrightarrow> Q x s"
  shows "triple P (reads g) Q E"
  using assms by (fastforce simp: triple_def reads_def split: sum.splits)

lemma triple_returns [triple_rules]:
  "(\<And>s. P s \<Longrightarrow> Q x s) \<Longrightarrow> triple P (returns x) Q E"
  by (simp add: triple_def returns_def)

lemma triple_writes [triple_rules]:
  "(\<And>s. P s \<Longrightarrow> R (h s)) \<Longrightarrow> triple R (f ()) Q E \<Longrightarrow> triple P (bindOp (writes h) f) Q E"
  by (simp add: triple_def bindOp_def writes_def)

lemma triple_writes_end [triple_rules]:
  "(\<And>s. P s \<Longrightarrow> Q () (h s)) \<Longrightarrow> triple P (writes h) Q E"
  by (simp add: triple_def writes_def)

lemma triple_call:
  assumes "triple P' m R E'" "\<And>s. P s \<Longrightarrow> P' s" "\<And>s. E' s \<Longrightarrow> E s" "\<And>x. triple (R x) (f x) Q E"
  shows "triple P (bindOp m f) Q E"
  using assms by (fastforce simp: triple_def bindOp_def split: prod.splits sum.splits)

lemma triple_if [triple_rules]:
  "(b \<Longrightarrow> triple P m Q E) \<Longrightarrow> (\<not> b \<Longrightarrow> triple P n Q E) \<Longrightarrow> triple P (if b then m else n) Q E"
  by simp

lemma triple_option [triple_rules]:
  "(x = None \<Longrightarrow> triple P m Q E) \<Longrightarrow> (\<And>y. x = Some y \<Longrightarrow> triple P (f y) Q E) \<Longrightarrow>
     triple P (case x of None \<Rightarrow> m | Some y \<Rightarrow> f y) Q E"
  by (cases x) simp_all

lemma triple_prod [triple_rules]:
  "(\<And>a b. x = (a, b) \<Longrightarrow> triple P (f a b) Q E) \<Longrightarrow> triple P (case x of (a, b) \<Rightarrow> f a b) Q E"
  by (cases x) simp

lemma triple_bind_option [triple_rules]:
  "(x = None \<Longrightarrow> triple P (bindOp m g) Q E) \<Longrightarrow> (\<And>y. x = Some y \<Longrightarrow> triple P (bindOp (f y) g) Q E) \<Longrightarrow>
     triple P (bindOp (case x of None \<Rightarrow> m | Some y \<Rightarrow> f y) g) Q E"
  by (cases x) simp_all

lemma triple_bind_if [triple_rules]:
  "(b \<Longrightarrow> triple P (bindOp m g) Q E) \<Longrightarrow> (\<not> b \<Longrightarrow> triple P (bindOp n g) Q E) \<Longrightarrow>
     triple P (bindOp (if b then m else n) g) Q E"
  by simp

lemma bindOp_assoc: "bindOp (bindOp m f) g = bindOp m (\<lambda>x. bindOp (f x) g)"
  by (rule ext) (simp add: bindOp_def split: prod.splits sum.splits)

lemma bindOp_returns [simp]: "bindOp (returns x) f = f x"
  by (rule ext) (simp add: bindOp_def returns_def)

lemma triple_weaken:
  assumes "triple P' m Q' E'" "\<And>s. P s \<Longrightarrow> P' s" "\<And>x s. Q' x s \<Longrightarrow> Q x s" "\<And>s. E' s \<Longrightarrow> E s"
  shows "triple P m Q E"
  using assms by (fastforce simp: triple_def split: prod.splits sum.splits)

lemma triple_transaction:
  assumes "triple P m Q (\<lambda>_. True)" "\<And>s t. P s \<Longrightarrow> E (keep s t)"
  shows "triple P (transaction keep m) Q E"
  using assms by (fastforce simp: triple_def transaction_def split: prod.splits sum.splits)

lemma triple_forEach:
  assumes "\<And>x. x \<in> set xs \<Longrightarrow> triple I (f x) (\<lambda>_. I) E" "\<And>s. I s \<Longrightarrow> E s"
  shows "triple I (forEach xs f) (\<lambda>_. I) E"
  using assms(1)
proof (induction xs)
  case Nil
  show ?case by (auto intro: triple_rules)
next
  case (Cons x xs)
  then show ?case by (auto intro!: triple_call [where m = "f x" and R = "\<lambda>_. I" and E' = E])
qed

lemma tripleD_Inr: "triple P m Q E \<Longrightarrow> P s \<Longrightarrow> m s = (Inr x, t) \<Longrightarrow> Q x t"
  by (fastforce simp: triple_def)

lemma tripleD: "triple P m (\<lambda>_. I) I \<Longrightarrow> P s \<Longrightarrow> m s = (r, t) \<Longrightarrow> I t"
  by (cases r) (fastforce simp: triple_def)+

subsection \<open>Tables\<close>

text \<open>
  A table is the list of its rows in insertion order. \<open>SELECT ... .get()\<close> is \<open>find\<close>, \<open>.all()\<close> is
  \<open>filter\<close>. An \<open>INSERT\<close> throws when it would break a uniqueness constraint: \<open>clash\<close> says when the
  new row and an old one do.
\<close>

definition insertRow :: "('r \<Rightarrow> 'r \<Rightarrow> bool) \<Rightarrow> string \<Rightarrow> 'r \<Rightarrow> 'r list \<Rightarrow> 'r list result" where
  "insertRow clash table r rows =
     (if list_ex (clash r) rows then Inl (SqliteConstraint table) else Inr (rows @ [r]))"

definition updateWhere :: "('r \<Rightarrow> bool) \<Rightarrow> ('r \<Rightarrow> 'r) \<Rightarrow> 'r list \<Rightarrow> 'r list" where
  "updateWhere p f rows = map (\<lambda>r. if p r then f r else r) rows"

definition changes :: "('r \<Rightarrow> bool) \<Rightarrow> 'r list \<Rightarrow> nat" where
  "changes p rows = length (filter p rows)"

lemma insertRow_Inr [read_simps]:
  "insertRow clash table r rows = Inr rows' \<longleftrightarrow>
     rows' = rows @ [r] \<and> (\<forall>x \<in> set rows. \<not> clash r x)"
  by (auto simp: insertRow_def list_ex_iff)

lemma set_updateWhere:
  "set (updateWhere p f rows) = {f r | r. r \<in> set rows \<and> p r} \<union> {r \<in> set rows. \<not> p r}"
  by (auto simp: updateWhere_def)

lemma length_updateWhere [simp]: "length (updateWhere p f rows) = length rows"
  by (simp add: updateWhere_def)

lemma map_key_updateWhere:
  "(\<And>r. key (f r) = key r) \<Longrightarrow> map key (updateWhere p f rows) = map key rows"
  by (induction rows) (auto simp: updateWhere_def)

lemma updateWhere_has_key:
  assumes "\<And>r. key (f r) = key r"
  shows "(\<exists>r \<in> set (updateWhere p f rows). key r = k) \<longleftrightarrow> (\<exists>r \<in> set rows. key r = k)"
proof -
  have "key ` set (updateWhere p f rows) = key ` set rows"
    using arg_cong [OF map_key_updateWhere [of key f p rows, OF assms], of set] by simp
  then show ?thesis by (metis (mono_tags, lifting) image_iff)
qed

lemma updateWhere_none: "(\<And>r. r \<in> set rows \<Longrightarrow> \<not> p r) \<Longrightarrow> updateWhere p f rows = rows"
  by (induction rows) (auto simp: updateWhere_def)

lemma updateWhere_Cons [simp]:
  "updateWhere p f (r # rows) = (if p r then f r else r) # updateWhere p f rows"
  "updateWhere p f [] = []"
  by (simp_all add: updateWhere_def)

lemma updateWhere_append [simp]:
  "updateWhere p f (xs @ ys) = updateWhere p f xs @ updateWhere p f ys"
  by (simp add: updateWhere_def)

lemma changes_pos_iff: "0 < changes p rows \<longleftrightarrow> (\<exists>r \<in> set rows. p r)"
  by (induction rows) (auto simp: changes_def)

lemma changes_zero_iff: "changes p rows = 0 \<longleftrightarrow> (\<forall>r \<in> set rows. \<not> p r)"
  by (induction rows) (auto simp: changes_def)

lemma find_updateWhere_other:
  assumes "\<And>r. p r \<Longrightarrow> \<not> q r" and "\<And>r. p r \<Longrightarrow> \<not> q (f r)"
  shows "find q (updateWhere p f rows) = find q rows"
  using assms by (induction rows) auto

lemma find_SomeD: "find p xs = Some x \<Longrightarrow> x \<in> set xs \<and> p x"
  by (induction xs) (auto split: if_splits)

lemma find_NoneD: "find p xs = None \<longleftrightarrow> (\<forall>x \<in> set xs. \<not> p x)"
  by (induction xs) auto

lemma find_eq_SomeI:
  assumes "\<And>y. y \<in> set xs \<Longrightarrow> p y \<Longrightarrow> y = x" "x \<in> set xs" "p x"
  shows "find p xs = Some x"
proof (cases "find p xs")
  case None
  then have "\<forall>y \<in> set xs. \<not> p y" by (simp only: find_NoneD)
  with assms(2,3) show ?thesis by simp
next
  case (Some y)
  then have "y = x" using find_SomeD [OF Some] by (blast intro: assms(1))
  then show ?thesis using Some by simp
qed

lemma find_conj_unique:
  assumes uniq: "\<And>y. y \<in> set xs \<Longrightarrow> k y \<Longrightarrow> y = x" and x: "x \<in> set xs" "k x"
  shows "find (\<lambda>y. k y \<and> q y) xs = (if q x then Some x else None)"
proof (cases "q x")
  case True
  then have "find (\<lambda>y. k y \<and> q y) xs = Some x"
    by (intro find_eq_SomeI) (blast intro: uniq x)+
  then show ?thesis using True by simp
next
  case False
  have "\<not> (k y \<and> q y)" if "y \<in> set xs" for y
    using uniq [OF that] False by auto
  then have "find (\<lambda>y. k y \<and> q y) xs = None" unfolding find_NoneD by blast
  then show ?thesis using False by simp
qed

lemma find_append: "find p (xs @ ys) = (case find p xs of None \<Rightarrow> find p ys | Some x \<Rightarrow> Some x)"
  by (induction xs) auto

lemma find_unique:
  assumes "distinct (map key xs)" and "x \<in> set xs"
  shows "find (\<lambda>y. key y = key x) xs = Some x"
  using assms
proof (induction xs)
  case (Cons y ys)
  then show ?case by (cases "x = y") (auto simp: rev_image_eqI)
qed simp

lemma find_key_updateWhere:
  assumes "\<And>r. key (f r) = key r"
  shows "find (\<lambda>r. key r = k) (updateWhere p f rows) =
    map_option (\<lambda>r. if p r then f r else r) (find (\<lambda>r. key r = k) rows)"
  using assms by (induction rows) auto

text \<open>Rows with a unique key: an \<open>UPDATE\<close> whose condition fixes the key is about one row.\<close>

lemma find_key_mem:
  assumes "find (\<lambda>x. key x = k) rows = Some r"
  shows "r \<in> set rows" "key r = k"
  using find_SomeD [OF assms] by auto

lemma key_inj: "distinct (map key rows) \<Longrightarrow> x \<in> set rows \<Longrightarrow> y \<in> set rows \<Longrightarrow> key x = key y \<Longrightarrow> x = y"
  by (auto simp: distinct_map inj_on_def)

lemma changes_by_key:
  assumes "distinct (map key rows)" "\<And>j. p j \<Longrightarrow> key j = k"
  shows "0 < changes p rows \<longleftrightarrow> (\<exists>r. find (\<lambda>x. key x = k) rows = Some r \<and> p r)"
proof -
  have "find (\<lambda>x. key x = k) rows = Some j" if "p j" "j \<in> set rows" for j
    using find_unique [OF assms(1) that(2)] assms(2) [OF that(1)] by simp
  note found = this
  show ?thesis unfolding changes_pos_iff
  proof
    assume "\<exists>r \<in> set rows. p r"
    then obtain j where "j \<in> set rows" "p j" ..
    with found [of j] show "\<exists>r. find (\<lambda>x. key x = k) rows = Some r \<and> p r" by simp
  next
    assume "\<exists>r. find (\<lambda>x. key x = k) rows = Some r \<and> p r"
    then obtain r where "find (\<lambda>x. key x = k) rows = Some r" "p r" by (elim exE conjE)
    from this(2) find_key_mem(1) [OF this(1)] show "\<exists>r \<in> set rows. p r" ..
  qed
qed

lemma update_by_key:
  assumes "distinct (map key rows)" "\<And>j. p j \<Longrightarrow> key j = k" "find (\<lambda>x. key x = k) rows = Some r" "p r"
  shows "updateWhere p f rows = updateWhere (\<lambda>j. key j = k) (\<lambda>_. f r) rows"
proof -
  note r = find_key_mem [OF assms(3)]
  have "(if p j then f j else j) = (if key j = k then f r else j)" if "j \<in> set rows" for j
  proof (cases "key j = k")
    case True
    then have "j = r" using key_inj [OF assms(1) that r(1)] r(2) by metis
    then show ?thesis using assms(4) r(2) by simp
  next
    case False
    then show ?thesis using assms(2) [of j] by metis
  qed
  then show ?thesis unfolding updateWhere_def by (rule map_cong [OF refl])
qed

lemma find_put:
  assumes "key r' = k"
  shows "find (\<lambda>x. key x = j) (updateWhere (\<lambda>x. key x = k) (\<lambda>_. r') rows) =
    (if j = k \<and> find (\<lambda>x. key x = k) rows \<noteq> None then Some r' else find (\<lambda>x. key x = j) rows)"
  using assms by (induction rows) auto

lemma map_put:
  assumes "find (\<lambda>x. key x = k) rows = Some r" "distinct (map key rows)" "g r' = g r"
  shows "map g (updateWhere (\<lambda>x. key x = k) (\<lambda>_. r') rows) = map g rows"
proof -
  note r = find_key_mem [OF assms(1)]
  have "g (if key j = k then r' else j) = g j" if "j \<in> set rows" for j
  proof (cases "key j = k")
    case True
    then have "j = r" using key_inj [OF assms(2) that r(1)] r(2) by metis
    then show ?thesis using assms(3) r(2) by simp
  qed simp
  then show ?thesis by (simp add: updateWhere_def)
qed

lemma set_put: "set (updateWhere (\<lambda>x. key x = k) (\<lambda>_. r') rows) \<subseteq> insert r' {j \<in> set rows. key j \<noteq> k}"
  by (auto simp: updateWhere_def)

text \<open>\<open>LIMIT\<close>: a negative limit is none.\<close>

definition limitRows :: "int \<Rightarrow> 'r list \<Rightarrow> 'r list" where
  "limitRows n rows = (if n < 0 then rows else take (nat n) rows)"

text \<open>\<open>ORDER BY\<close>, for a strict comparison \<open>lt\<close> of two rows.\<close>

fun insertBy :: "('r \<Rightarrow> 'r \<Rightarrow> bool) \<Rightarrow> 'r \<Rightarrow> 'r list \<Rightarrow> 'r list" where
  "insertBy lt x [] = [x]"
| "insertBy lt x (y # ys) = (if lt y x then y # insertBy lt x ys else x # y # ys)"

definition sortBy :: "('r \<Rightarrow> 'r \<Rightarrow> bool) \<Rightarrow> 'r list \<Rightarrow> 'r list" where
  "sortBy lt rows = foldr (insertBy lt) rows []"

lemma set_insertBy [simp]: "set (insertBy lt x ys) = insert x (set ys)"
  by (induction ys) auto

lemma set_sortBy [simp]: "set (sortBy lt rows) = set rows"
  by (induction rows) (auto simp: sortBy_def)

lemma length_insertBy [simp]: "length (insertBy lt x ys) = Suc (length ys)"
  by (induction ys) auto

lemma length_sortBy [simp]: "length (sortBy lt rows) = length rows"
  by (induction rows) (auto simp: sortBy_def)

end
