(* ===== verification/Js_Value.thy ===== *)
theory Js_Value
  imports Prelude
begin

text \<open>
  JavaScript values as the store's validators see them, and the fragments of the language's
  standard library they use: property lookup, \<open>String.prototype.trim\<close> and \<open>toLowerCase\<close>,
  \<open>Number.isSafeInteger\<close>, decimal digit strings as \<open>BigInt\<close>, and the regular expressions of the
  validators as predicates.

  A string is the list of its code units; the model covers code units below 256. A number is the
  integer it denotes (\<open>NInt\<close>), a finite non-integer with its decimal form, NaN or an infinity. An
  object is its list of own enumerable properties, so cyclic objects and class instances are
  outside the model.
\<close>

datatype jsnum = NInt int | NFrac string | NNaN | NInf bool

datatype jsval =
    Undefined
  | Null
  | Bool bool
  | Num jsnum
  | Str string
  | Big int
  | Arr "jsval list"
  | Obj "(string \<times> jsval) list"

subsection \<open>Objects\<close>

definition field :: "(string \<times> jsval) list \<Rightarrow> string \<Rightarrow> jsval" where
  "field fs k = (case map_of fs k of None \<Rightarrow> Undefined | Some v \<Rightarrow> v)"

definition hasOwn :: "(string \<times> jsval) list \<Rightarrow> string \<Rightarrow> bool" where
  "hasOwn fs k \<longleftrightarrow> map_of fs k \<noteq> None"

text \<open>\<open>record\<close> of \<^verbatim>\<open>governance.ts\<close>: a non-null, non-array object, or null.\<close>

fun js_record :: "jsval \<Rightarrow> (string \<times> jsval) list option" where
  "js_record (Obj fs) = Some fs"
| "js_record _ = None"

subsection \<open>Characters and strings\<close>

definition code :: "char \<Rightarrow> int" where
  "code c = of_char c"

definition is_digit :: "char \<Rightarrow> bool" where
  "is_digit c \<longleftrightarrow> 48 \<le> code c \<and> code c \<le> 57"

definition is_upper :: "char \<Rightarrow> bool" where
  "is_upper c \<longleftrightarrow> 65 \<le> code c \<and> code c \<le> 90"

definition js_space :: "char \<Rightarrow> bool" where
  "js_space c \<longleftrightarrow> code c \<in> {9, 10, 11, 12, 13, 32, 160}"

definition trim :: "string \<Rightarrow> string" where
  "trim s = rev (dropWhile js_space (rev (dropWhile js_space s)))"

text \<open>The source's test \<^verbatim>\<open>typeof v === 'string' && v.trim()\<close>.\<close>

definition blank :: "string \<Rightarrow> bool" where
  "blank s \<longleftrightarrow> list_all js_space s"

definition lower :: "char \<Rightarrow> char" where
  "lower c = (if 65 \<le> code c \<and> code c \<le> 90 \<or> 192 \<le> code c \<and> code c \<le> 222 \<and> code c \<noteq> 215
     then char_of (code c + 32) else c)"

definition toLowerCase :: "string \<Rightarrow> string" where
  "toLowerCase s = map lower s"

fun startsWith :: "string \<Rightarrow> string \<Rightarrow> bool" where
  "startsWith [] s = True"
| "startsWith (p # ps) [] = False"
| "startsWith (p # ps) (c # s) = (p = c \<and> startsWith ps s)"

fun containsText :: "string \<Rightarrow> string \<Rightarrow> bool" where
  "containsText p [] = startsWith p []"
| "containsText p (c # s) = (startsWith p (c # s) \<or> containsText p s)"

lemma trim_eq_Nil: "trim s = [] \<longleftrightarrow> blank s"
proof -
  have "dropWhile js_space (rev xs) = [] \<longleftrightarrow> list_all js_space xs" for xs
    by (simp add: dropWhile_eq_Nil_conv list_all_iff)
  moreover have "list_all js_space (dropWhile js_space s) \<longleftrightarrow> list_all js_space s"
    by (induction s) auto
  ultimately show ?thesis by (simp add: trim_def blank_def)
qed

subsection \<open>Decimal digits\<close>

definition digit_char :: "int \<Rightarrow> char" where
  "digit_char d = char_of (48 + d)"

definition dec_val :: "string \<Rightarrow> int" where
  "dec_val s = foldl (\<lambda>a c. 10 * a + (code c - 48)) 0 s"

text \<open>\<open>padStart(k, '0')\<close> of a decimal number: its last \<open>k\<close> digits.\<close>

fun pad :: "nat \<Rightarrow> int \<Rightarrow> string" where
  "pad 0 n = []"
| "pad (Suc k) n = pad k (n div 10) @ [digit_char (n mod 10)]"

lemma dec_val_snoc [simp]: "dec_val (s @ [c]) = 10 * dec_val s + (code c - 48)"
  by (simp add: dec_val_def)

lemma dec_val_Nil [simp]: "dec_val [] = 0"
  by (simp add: dec_val_def)

lemma code_digit_char [simp]:
  assumes "0 \<le> d" "d \<le> 9"
  shows "code (digit_char d) = 48 + d"
  using assms unfolding code_def digit_char_def by (simp add: of_char_of take_bit_eq_mod)

lemma is_digit_digit_char [simp]: "0 \<le> d \<Longrightarrow> d \<le> 9 \<Longrightarrow> is_digit (digit_char d)"
  by (simp add: is_digit_def)

lemma mod_ten_digit: "0 \<le> (n::int) mod 10" "(n::int) mod 10 \<le> 9"
proof -
  have "n mod 10 < 10" by simp
  then show "n mod 10 \<le> 9" by linarith
qed simp

lemma length_pad [simp]: "length (pad k n) = k"
  by (induction k arbitrary: n) simp_all

lemma pad_digits: "list_all is_digit (pad k n)"
  by (induction k arbitrary: n) (simp_all add: mod_ten_digit)

lemma dec_val_pad: "dec_val (pad k n) = n mod 10 ^ k"
proof (induction k arbitrary: n)
  case 0
  then show ?case by simp
next
  case (Suc k)
  have "n mod 10 ^ Suc k = 10 * (n div 10 mod 10 ^ k) + n mod 10"
    by (simp add: zmod_zmult2_eq mult.commute)
  with Suc show ?case by (simp add: mod_ten_digit)
qed

lemma dec_val_nonneg: "list_all is_digit s \<Longrightarrow> 0 \<le> dec_val s"
  by (induction s rule: rev_induct) (auto simp: is_digit_def)

text \<open>The regular expressions \<open>/^(0|[1-9]\d*)$/\<close> and \<open>/^[A-Z]{3}$/\<close>.\<close>

definition decimal_text :: "string \<Rightarrow> bool" where
  "decimal_text s \<longleftrightarrow> s = ''0'' \<or> (s \<noteq> [] \<and> list_all is_digit s \<and> hd s \<noteq> CHR ''0'')"

definition currency_text :: "string \<Rightarrow> bool" where
  "currency_text s \<longleftrightarrow> length s = 3 \<and> list_all is_upper s"

lemma decimal_text_nonneg: "decimal_text s \<Longrightarrow> 0 \<le> dec_val s"
  proof -
  assume "decimal_text s"
  then have "list_all is_digit s" by (auto simp: decimal_text_def is_digit_def code_def)
  then show ?thesis by (rule dec_val_nonneg)
qed

subsection \<open>Numbers\<close>

definition max_safe_integer :: int where
  "max_safe_integer = 9007199254740991"

definition isSafeInteger :: "int \<Rightarrow> bool" where
  "isSafeInteger i \<longleftrightarrow> \<bar>i\<bar> \<le> max_safe_integer"

text \<open>\<open>String(n)\<close> for a non-negative integer below \<open>10^21\<close>.\<close>

fun decimal :: "nat \<Rightarrow> string" where
  "decimal n = (if n < 10 then [digit_char (int n)]
     else decimal (n div 10) @ [digit_char (int (n mod 10))])"

declare decimal.simps [simp del]

lemma dec_val_decimal: "dec_val (decimal n) = int n"
proof (induction n rule: decimal.induct)
  case (1 n)
  have m: "int (n mod 10) \<le> 9" by simp
  show ?case
  proof (cases "n < 10")
    case True
    then show ?thesis by (subst decimal.simps) (simp add: dec_val_def)
  next
    case False
    with 1 have "dec_val (decimal n) = 10 * int (n div 10) + int (n mod 10)"
      using m by (subst decimal.simps) simp
    also have "\<dots> = int n" by presburger
    finally show ?thesis .
  qed
qed

lemma decimal_inj: "decimal m = decimal n \<longleftrightarrow> m = n"
  by (metis dec_val_decimal of_nat_eq_iff)

subsection \<open>Iteration\<close>

text \<open>\<open>for (const x of v)\<close>: arrays and strings are iterable, every other modelled value throws.\<close>

fun js_iterate :: "jsval \<Rightarrow> jsval list result" where
  "js_iterate (Arr xs) = Inr xs"
| "js_iterate (Str s) = Inr (map (\<lambda>c. Str [c]) s)"
| "js_iterate _ = Inl TypeError"

end
