(* ===== verification/Iso_Time.thy ===== *)
theory Iso_Time
  imports Js_Value
begin

text \<open>
  Timestamps. The store accepts ISO-8601 text through \<open>isoTime\<close> (\<^verbatim>\<open>governance.ts\<close>) and writes
  instants back with \<^verbatim>\<open>new Date(t).toISOString()\<close>; every temporal decision is taken on the parsed
  instants, and the SQL clock columns of \<^verbatim>\<open>store.ts\<close> are compared as text.

  \<open>date_parse\<close> is \<open>Date.parse\<close> on the texts the source's regular expression admits, \<open>toISOString\<close> is
  \<open>Date.prototype.toISOString\<close>, both by ECMAScript's day arithmetic (\<open>DayFromYear\<close>, \<open>MakeDay\<close>). A
  field out of range (month 13, hour 25) makes \<open>Date.parse\<close> return NaN; a day up to 31 is accepted
  in every month and overflows into the next one, as the engine does. The lemmas: an instant of the
  years 0 to 9999 is recovered from its text, and the text order of such instants is their order
  in time.
\<close>

subsection \<open>Day arithmetic\<close>

definition dayFromYear :: "int \<Rightarrow> int" where
  "dayFromYear y =
     365 * (y - 1970) + (y - 1969) div 4 - (y - 1901) div 100 + (y - 1601) div 400"

definition leap :: "int \<Rightarrow> bool" where
  "leap y \<longleftrightarrow> y mod 4 = 0 \<and> (y mod 100 \<noteq> 0 \<or> y mod 400 = 0)"

text \<open>Days of the year before month \<open>m\<close>, for months 1 to 13.\<close>

definition daysBefore :: "bool \<Rightarrow> int \<Rightarrow> int" where
  "daysBefore lp m =
     (if m \<le> 1 then 0 else if m = 2 then 31
      else (if lp then 1 else 0) +
        (if m = 3 then 59 else if m = 4 then 90 else if m = 5 then 120 else if m = 6 then 151
         else if m = 7 then 181 else if m = 8 then 212 else if m = 9 then 243 else if m = 10 then 273
         else if m = 11 then 304 else if m = 12 then 334 else 365))"

definition makeDay :: "int \<Rightarrow> int \<Rightarrow> int \<Rightarrow> int" where
  "makeDay y m d = dayFromYear y + daysBefore (leap y) m + d - 1"

definition yearFromDay :: "int \<Rightarrow> int" where
  "yearFromDay n =
     (let y = 1970 + (400 * n) div 146097
      in if n < dayFromYear y then y - 1 else if dayFromYear (y + 1) \<le> n then y + 1 else y)"

definition monthFromDay :: "bool \<Rightarrow> int \<Rightarrow> int" where
  "monthFromDay lp k =
     (if k < daysBefore lp 2 then 1 else if k < daysBefore lp 3 then 2
      else if k < daysBefore lp 4 then 3 else if k < daysBefore lp 5 then 4
      else if k < daysBefore lp 6 then 5 else if k < daysBefore lp 7 then 6
      else if k < daysBefore lp 8 then 7 else if k < daysBefore lp 9 then 8
      else if k < daysBefore lp 10 then 9 else if k < daysBefore lp 11 then 10
      else if k < daysBefore lp 12 then 11 else 12)"

lemma div_step:
  assumes "0 < (m::int)"
  shows "x div m = (x - 1) div m + (if x mod m = 0 then 1 else 0)"
proof (cases "x mod m = 0")
  case True
  have "x = m * (x div m) + x mod m" by simp
  with True have "x - 1 = m * (x div m) - m + (m - 1)" by linarith
  then have "x - 1 = m * (x div m - 1) + (m - 1)"
    by (simp only: right_diff_distrib mult_1_right)
  then have "(x - 1) div m = x div m - 1"
    using assms int_div_pos_eq [of "x - 1" m "x div m - 1" "m - 1"] by simp
  with True show ?thesis by simp
next
  case False
  then have "1 \<le> x mod m" using assms pos_mod_sign [of m x] by linarith
  moreover have "x - 1 = m * (x div m) + (x mod m - 1)" by simp
  ultimately have "(x - 1) div m = x div m"
    using assms pos_mod_bound [of m x] int_div_pos_eq [of "x - 1" m "x div m" "x mod m - 1"]
    by linarith
  with False show ?thesis by simp
qed

lemma div_bounds:
  assumes "0 < (m::int)"
  shows "m * (x div m) \<le> x" "x < m * (x div m) + m"
proof -
  have "x = m * (x div m) + x mod m" by simp
  with assms pos_mod_sign [of m x] pos_mod_bound [of m x]
  show "m * (x div m) \<le> x" "x < m * (x div m) + m" by linarith+
qed

lemma leap_mod:
  "(y - 1968) mod 4 = 0 \<longleftrightarrow> y mod 4 = (0::int)"
  "(y - 1900) mod 100 = 0 \<longleftrightarrow> y mod 100 = (0::int)"
  "(y - 1600) mod 400 = 0 \<longleftrightarrow> y mod 400 = (0::int)"
  "y mod 100 = (0::int) \<Longrightarrow> y mod 4 = 0"
  "y mod 400 = (0::int) \<Longrightarrow> y mod 100 = 0"
proof -
  show "(y - 1968) mod 4 = 0 \<longleftrightarrow> y mod 4 = (0::int)"
    using dvd_add_left_iff [of 4 "-1968" y] by (simp add: mod_eq_0_iff_dvd)
  show "(y - 1900) mod 100 = 0 \<longleftrightarrow> y mod 100 = (0::int)"
    using dvd_add_left_iff [of 100 "-1900" y] by (simp add: mod_eq_0_iff_dvd)
  show "(y - 1600) mod 400 = 0 \<longleftrightarrow> y mod 400 = (0::int)"
    using dvd_add_left_iff [of 400 "-1600" y] by (simp add: mod_eq_0_iff_dvd)
  show "y mod 100 = (0::int) \<Longrightarrow> y mod 4 = 0"
    using dvd_trans [of 4 100 y] by (simp add: mod_eq_0_iff_dvd)
  show "y mod 400 = (0::int) \<Longrightarrow> y mod 100 = 0"
    using dvd_trans [of 100 400 y] by (simp add: mod_eq_0_iff_dvd)
qed

lemma dayFromYear_Suc: "dayFromYear (y + 1) = dayFromYear y + (if leap y then 366 else 365)"
proof -
  have "(y - 1968) div 4 = (y - 1969) div 4 + (if y mod 4 = 0 then 1 else 0)"
    using div_step [of 4 "y - 1968"] by (simp add: leap_mod(1))
  moreover have "(y - 1900) div 100 = (y - 1901) div 100 + (if y mod 100 = 0 then 1 else 0)"
    using div_step [of 100 "y - 1900"] by (simp add: leap_mod(2))
  moreover have "(y - 1600) div 400 = (y - 1601) div 400 + (if y mod 400 = 0 then 1 else 0)"
    using div_step [of 400 "y - 1600"] by (simp add: leap_mod(3))
  moreover have "dayFromYear (y + 1) =
      365 * (y - 1970) + 365 + (y - 1968) div 4 - (y - 1900) div 100 + (y - 1600) div 400"
    by (simp add: dayFromYear_def)
  ultimately have "dayFromYear (y + 1) = dayFromYear y + 365 + (if y mod 4 = 0 then 1 else 0)
      - (if y mod 100 = 0 then 1 else 0) + (if y mod 400 = 0 then 1 else 0)"
    unfolding dayFromYear_def [of y] by linarith
  moreover have "y mod 100 = 0 \<Longrightarrow> y mod 4 = 0" "y mod 400 = 0 \<Longrightarrow> y mod 100 = 0"
    by (rule leap_mod; assumption)+
  ultimately show ?thesis unfolding leap_def
    by (cases "y mod 4 = 0"; cases "y mod 100 = 0"; cases "y mod 400 = 0") simp_all
qed

lemma dayFromYear_mono: "y \<le> z \<Longrightarrow> dayFromYear y \<le> dayFromYear z"
proof (induction z rule: int_ge_induct)
  case (step z)
  then show ?case using dayFromYear_Suc [of z] by (simp split: if_splits)
qed simp

lemma dayFromYear_bounds:
  "146097 * (y - 1970) - 400 * dayFromYear y \<le> 800"
  "400 * dayFromYear y - 146097 * (y - 1970) \<le> 800"
proof -
  define a b c where "a = (y - 1969) div 4" and "b = (y - 1901) div 100" and "c = (y - 1601) div 400"
  have a: "4 * a \<le> y - 1969" "y - 1969 < 4 * a + 4"
    unfolding a_def by (rule div_bounds; simp)+
  have b: "100 * b \<le> y - 1901" "y - 1901 < 100 * b + 100"
    unfolding b_def by (rule div_bounds; simp)+
  have c: "400 * c \<le> y - 1601" "y - 1601 < 400 * c + 400"
    unfolding c_def by (rule div_bounds; simp)+
  have d: "dayFromYear y = 365 * (y - 1970) + a - b + c"
    by (simp add: dayFromYear_def a_def b_def c_def)
  from a b c d show "146097 * (y - 1970) - 400 * dayFromYear y \<le> 800"
    by (simp add: algebra_simps)
  from a b c d show "400 * dayFromYear y - 146097 * (y - 1970) \<le> 800"
    by (simp add: algebra_simps)
qed

lemma yearFromDay_bounds:
  "dayFromYear (yearFromDay n) \<le> n" "n < dayFromYear (yearFromDay n + 1)"
proof -
  define y where "y = 1970 + (400 * n) div 146097"
  have y: "146097 * (y - 1970) \<le> 400 * n" "400 * n < 146097 * (y - 1970) + 146097"
    using div_bounds [of 146097 "400 * n"] by (simp_all add: y_def)
  have "dayFromYear (y - 1) \<le> n"
    using y dayFromYear_bounds(2) [of "y - 1"] by (simp add: algebra_simps)
  moreover have "n < dayFromYear (y + 2)"
    using y dayFromYear_bounds(1) [of "y + 2"] by (simp add: algebra_simps)
  moreover have "yearFromDay n =
      (if n < dayFromYear y then y - 1 else if dayFromYear (y + 1) \<le> n then y + 1 else y)"
    by (simp add: yearFromDay_def y_def Let_def)
  ultimately show "dayFromYear (yearFromDay n) \<le> n" "n < dayFromYear (yearFromDay n + 1)"
    by (auto simp: add.assoc)
qed

lemma monthFromDay_bounds:
  assumes "0 \<le> k" "k < daysBefore lp 13"
  defines "m \<equiv> monthFromDay lp k"
  shows "1 \<le> m" "m \<le> 12" "daysBefore lp m \<le> k" "k < daysBefore lp (m + 1)"
    "k - daysBefore lp m < 31"
  using assms by (auto simp: monthFromDay_def daysBefore_def split: if_splits)

lemma daysBefore_13: "daysBefore lp 13 = (if lp then 366 else 365)"
  by (simp add: daysBefore_def)

subsection \<open>Parsing: \<open>isoTime\<close>\<close>

definition digits :: "nat \<Rightarrow> string \<Rightarrow> (int \<times> string) option" where
  "digits k s = (if k \<le> length s \<and> list_all is_digit (take k s)
     then Some (dec_val (take k s), drop k s) else None)"

definition expect :: "char \<Rightarrow> string \<Rightarrow> string option" where
  "expect c s = (case s of [] \<Rightarrow> None | d # t \<Rightarrow> if d = c then Some t else None)"

text \<open>The optional fraction; the engine keeps its first three digits.\<close>

definition fraction :: "string \<Rightarrow> (int \<times> string) option" where
  "fraction s =
     (case s of [] \<Rightarrow> Some (0, [])
      | c # t \<Rightarrow>
          if c = CHR ''.'' then
            (let ds = takeWhile is_digit t
             in if ds = [] then None else Some (dec_val (take 3 (ds @ ''00'')), dropWhile is_digit t))
          else Some (0, s))"

text \<open>The zone designator, as minutes ahead of UTC.\<close>

definition zone :: "string \<Rightarrow> int option" where
  "zone s =
     (if s = ''Z'' then Some 0
      else case s of [] \<Rightarrow> None
      | c # t \<Rightarrow>
          if c = CHR ''+'' \<or> c = CHR ''-'' then
            do {
              (h, t) \<leftarrow> digits 2 t;
              t \<leftarrow> expect CHR '':'' t;
              (m, t) \<leftarrow> digits 2 t;
              if t = [] \<and> h \<le> 23 \<and> m \<le> 59
              then Some ((if c = CHR ''-'' then -1 else 1) * (60 * h + m)) else None
            }
          else None)"

definition makeTime :: "int \<Rightarrow> int \<Rightarrow> int \<Rightarrow> int \<Rightarrow> int" where
  "makeTime h m s ms = 3600000 * h + 60000 * m + 1000 * s + ms"

definition date_parse :: "string \<Rightarrow> int option" where
  "date_parse txt = do {
     (y, t) \<leftarrow> digits 4 txt;
     t \<leftarrow> expect CHR ''-'' t;
     (mo, t) \<leftarrow> digits 2 t;
     t \<leftarrow> expect CHR ''-'' t;
     (d, t) \<leftarrow> digits 2 t;
     t \<leftarrow> expect CHR ''T'' t;
     (h, t) \<leftarrow> digits 2 t;
     t \<leftarrow> expect CHR '':'' t;
     (mi, t) \<leftarrow> digits 2 t;
     t \<leftarrow> expect CHR '':'' t;
     (s, t) \<leftarrow> digits 2 t;
     (ms, t) \<leftarrow> fraction t;
     z \<leftarrow> zone t;
     if 1 \<le> mo \<and> mo \<le> 12 \<and> 1 \<le> d \<and> d \<le> 31 \<and>
        (h \<le> 23 \<and> mi \<le> 59 \<and> s \<le> 59 \<or> h = 24 \<and> mi = 0 \<and> s = 0 \<and> ms = 0)
     then Some (86400000 * makeDay y mo d + makeTime h mi s ms - 60000 * z) else None
   }"

definition isoTime :: "string \<Rightarrow> int result" where
  "isoTime value =
     (case date_parse value of
        None \<Rightarrow> Inl (Error ''Invalid governance timestamp'')
      | Some t \<Rightarrow> Inr t)"

subsection \<open>Printing: \<open>toISOString\<close>\<close>

definition yearText :: "int \<Rightarrow> string" where
  "yearText y =
     (if 0 \<le> y \<and> y \<le> 9999 then pad 4 y
      else (if y < 0 then CHR ''-'' else CHR ''+'') # pad 6 \<bar>y\<bar>)"

text \<open>A \<open>Date\<close> holds at most \<^verbatim>\<open>8.64e15\<close> milliseconds either way; what \<open>isoTime\<close> returns is within.\<close>

definition date_range :: "int \<Rightarrow> bool" where
  "date_range t \<longleftrightarrow> \<bar>t\<bar> \<le> 8640000000000000"

definition toISOString :: "int \<Rightarrow> string" where
  "toISOString t =
     (if date_range t then
        (let n = t div 86400000; r = t mod 86400000; y = yearFromDay n; k = n - dayFromYear y;
             mo = monthFromDay (leap y) k
         in yearText y @ ''-'' @ pad 2 mo @ ''-'' @ pad 2 (k - daysBefore (leap y) mo + 1) @ ''T'' @
            pad 2 (r div 3600000) @ '':'' @ pad 2 (r div 60000 mod 60) @ '':'' @
            pad 2 (r div 1000 mod 60) @ ''.'' @ pad 3 (r mod 1000) @ ''Z'')
      else [])"

text \<open>The instants of the years 0 to 9999, whose text has a four-digit year.\<close>

definition iso_range :: "int \<Rightarrow> bool" where
  "iso_range t \<longleftrightarrow> -62167219200000 \<le> t \<and> t < 253402300800000"

lemma iso_range_date: "iso_range t \<Longrightarrow> date_range t"
  by (auto simp: iso_range_def date_range_def)

subsection \<open>Round trip\<close>

lemma digits_pad [simp]: "digits k (pad k n @ s) = Some (n mod 10 ^ k, s)"
  by (simp add: digits_def pad_digits dec_val_pad)

lemma expect_Cons [simp]: "expect c (c # s) = Some s"
  by (simp add: expect_def)

lemma fraction_pad [simp]: "fraction (CHR ''.'' # pad 3 n @ ''Z'') = Some (n mod 1000, ''Z'')"
proof -
  have z: "\<not> is_digit (CHR ''Z'')" by (simp add: is_digit_def code_def)
  have d: "\<forall>c \<in> set (pad 3 n). is_digit c" using pad_digits [of 3 n] by (simp add: list_all_iff)
  have "takeWhile is_digit (pad 3 n @ ''Z'') = pad 3 n"
    using d z by (simp add: takeWhile_append2)
  moreover have "dropWhile is_digit (pad 3 n @ ''Z'') = ''Z''"
    using d z by (simp add: dropWhile_append2)
  moreover have "pad 3 n \<noteq> []" by (metis length_pad list.size(3) zero_neq_numeral)
  moreover have "take 3 (pad 3 n @ ''00'') = pad 3 n" by simp
  ultimately show ?thesis by (simp add: fraction_def Let_def dec_val_pad)
qed

lemma zone_Z [simp]: "zone ''Z'' = Some 0"
  by (simp add: zone_def)

lemma iso_range_year: "iso_range t \<Longrightarrow> 0 \<le> yearFromDay (t div 86400000) \<and> yearFromDay (t div 86400000) \<le> 9999"
proof -
  assume t: "iso_range t"
  define n where "n = t div 86400000"
  have "86400000 * n \<le> t" "t < 86400000 * n + 86400000"
    using div_bounds [of 86400000 t] by (simp_all add: n_def)
  with t have n: "-719528 \<le> n" "n < 2932897" by (auto simp: iso_range_def)
  have "dayFromYear 0 = -719528" "dayFromYear 10000 = 2932897" by (simp_all add: dayFromYear_def)
  moreover have "\<not> yearFromDay n < 0"
    using dayFromYear_mono [of "yearFromDay n + 1" 0] yearFromDay_bounds [of n] n calculation
    by linarith
  moreover have "\<not> 10000 \<le> yearFromDay n"
    using dayFromYear_mono [of 10000 "yearFromDay n"] yearFromDay_bounds [of n] n calculation
    by linarith
  ultimately show ?thesis by (simp add: n_def)
qed

text \<open>The fields \<open>toISOString\<close> prints, and the ranges they stay in.\<close>

lemma day_fields:
  fixes n :: int
  defines "y \<equiv> yearFromDay n"
  defines "k \<equiv> n - dayFromYear y"
  defines "mo \<equiv> monthFromDay (leap y) k"
  defines "d \<equiv> k - daysBefore (leap y) mo + 1"
  shows "1 \<le> mo" "mo \<le> 12" "1 \<le> d" "d \<le> 31" "makeDay y mo d = n"
proof -
  have k: "0 \<le> k" "k < daysBefore (leap y) 13"
    using yearFromDay_bounds [of n] dayFromYear_Suc [of y]
    by (simp_all add: k_def y_def daysBefore_13 split: if_splits)
  show "1 \<le> mo" "mo \<le> 12" "1 \<le> d" "d \<le> 31"
    using monthFromDay_bounds [OF k] by (simp_all add: mo_def d_def)
  show "makeDay y mo d = n" by (simp add: makeDay_def d_def k_def)
qed

lemma time_fields:
  fixes r :: int
  assumes "0 \<le> r" "r < 86400000"
  defines "h \<equiv> r div 3600000" and "mi \<equiv> r div 60000 mod 60" and "s \<equiv> r div 1000 mod 60"
    and "ms \<equiv> r mod 1000"
  shows "0 \<le> h" "h \<le> 23" "0 \<le> mi" "mi \<le> 59" "0 \<le> s" "s \<le> 59" "0 \<le> ms" "ms \<le> 999"
    "makeTime h mi s ms = r"
proof -
  have "r div 60000 = 60 * h + mi"
    unfolding h_def mi_def using zdiv_zmult2_eq [of 60 r 60000] by simp
  moreover have "r div 1000 = 60 * (r div 60000) + s"
    unfolding s_def using zdiv_zmult2_eq [of 60 r 1000] by simp
  moreover have "r = 1000 * (r div 1000) + ms" unfolding ms_def by simp
  ultimately show "makeTime h mi s ms = r" unfolding makeTime_def by linarith
  show "0 \<le> h" using assms(1) by (simp add: h_def)
  show "h \<le> 23" using assms(2) div_bounds(1) [of 3600000 r] by (simp add: h_def)
  show "0 \<le> mi" "0 \<le> s" "0 \<le> ms" by (simp_all add: mi_def s_def ms_def)
  have "mi < 60" "s < 60" "ms < 1000" unfolding mi_def s_def ms_def by simp_all
  then show "mi \<le> 59" "s \<le> 59" "ms \<le> 999" by linarith+
qed

definition isoText :: "int \<Rightarrow> int \<Rightarrow> int \<Rightarrow> int \<Rightarrow> int \<Rightarrow> int \<Rightarrow> int \<Rightarrow> string" where
  "isoText y mo d h mi s ms =
     pad 4 y @ CHR ''-'' # pad 2 mo @ CHR ''-'' # pad 2 d @ CHR ''T'' # pad 2 h @ CHR '':'' #
     pad 2 mi @ CHR '':'' # pad 2 s @ CHR ''.'' # pad 3 ms @ ''Z''"

lemma date_parse_isoText:
  assumes "0 \<le> y" "y \<le> 9999" "1 \<le> mo" "mo \<le> 12" "1 \<le> d" "d \<le> 31" "0 \<le> h" "h \<le> 23"
    "0 \<le> mi" "mi \<le> 59" "0 \<le> s" "s \<le> 59" "0 \<le> ms" "ms \<le> 999"
  shows "date_parse (isoText y mo d h mi s ms) =
    Some (86400000 * makeDay y mo d + makeTime h mi s ms)"
  using assms by (simp add: date_parse_def isoText_def)

text \<open>Every instant of the range is printed from fields that determine it.\<close>

lemma toISOString_fields:
  assumes "iso_range t"
  obtains y mo d h mi s ms where
    "0 \<le> y" "y \<le> 9999" "1 \<le> mo" "mo \<le> 12" "1 \<le> d" "d \<le> 31" "0 \<le> h" "h \<le> 23"
    "0 \<le> mi" "mi \<le> 59" "0 \<le> s" "s \<le> 59" "0 \<le> ms" "ms \<le> 999"
    "toISOString t = isoText y mo d h mi s ms"
    "t = 86400000 * makeDay y mo d + makeTime h mi s ms"
    "makeDay y mo d < makeDay y (mo + 1) 1"
    "makeDay y mo d < dayFromYear (y + 1)"
proof -
  define n r where "n = t div 86400000" and "r = t mod 86400000"
  define y where "y = yearFromDay n"
  define k where "k = n - dayFromYear y"
  define mo where "mo = monthFromDay (leap y) k"
  define d where "d = k - daysBefore (leap y) mo + 1"
  have y: "0 \<le> y" "y \<le> 9999" using iso_range_year [OF assms] by (simp_all add: y_def n_def)
  have k: "0 \<le> k" "k < daysBefore (leap y) 13"
    using yearFromDay_bounds [of n] dayFromYear_Suc [of y]
    by (simp_all add: k_def y_def daysBefore_13 split: if_splits)
  have dd: "1 \<le> mo" "mo \<le> 12" "1 \<le> d" "d \<le> 31" "makeDay y mo d = n"
    using day_fields [of n] by (simp_all add: y_def k_def mo_def d_def)
  have r: "0 \<le> r" "r < 86400000" by (simp_all add: r_def)
  note tt = time_fields [OF r]
  have "makeDay y mo d < makeDay y (mo + 1) 1"
    using monthFromDay_bounds(4) [OF k] by (simp add: makeDay_def mo_def d_def)
  moreover have "makeDay y mo d < dayFromYear (y + 1)"
    using dd(5) yearFromDay_bounds(2) [of n] by (simp add: y_def)
  moreover have "toISOString t = isoText y mo d (r div 3600000) (r div 60000 mod 60)
      (r div 1000 mod 60) (r mod 1000)"
    using y iso_range_date [OF assms(1)] by (simp add: toISOString_def isoText_def Let_def yearText_def n_def r_def y_def k_def
        mo_def d_def)
  moreover have "t = 86400000 * makeDay y mo d + makeTime (r div 3600000) (r div 60000 mod 60)
      (r div 1000 mod 60) (r mod 1000)"
    using dd(5) tt(9) by (simp add: n_def r_def)
  ultimately show ?thesis using y dd(1-4) tt(1-8) that by blast
qed

lemma date_parse_toISOString:
  assumes "iso_range t"
  shows "date_parse (toISOString t) = Some t"
  using assms by (elim toISOString_fields) (simp add: date_parse_isoText)

lemma isoTime_toISOString [simp]: "iso_range t \<Longrightarrow> isoTime (toISOString t) = Inr t"
  by (simp add: isoTime_def date_parse_toISOString)

text \<open>An instant outside the four-digit years prints with a sign, which no governed read accepts.\<close>

lemma out_of_range_year:
  assumes "\<not> iso_range t"
  shows "yearFromDay (t div 86400000) < 0 \<or> 9999 < yearFromDay (t div 86400000)"
proof (rule ccontr)
  define n where "n = t div 86400000"
  have n: "86400000 * n \<le> t" "t < 86400000 * n + 86400000"
    using div_bounds [of 86400000 t] by (simp_all add: n_def)
  assume "\<not> ?thesis"
  then have y: "0 \<le> yearFromDay n" "yearFromDay n + 1 \<le> 10000" by (auto simp: n_def)
  have "dayFromYear 0 = -719528" "dayFromYear 10000 = 2932897" by (simp_all add: dayFromYear_def)
  then have "-719528 \<le> n" "n < 2932897"
    using dayFromYear_mono [OF y(1)] dayFromYear_mono [OF y(2)] yearFromDay_bounds [of n] by linarith+
  with n assms show False by (auto simp: iso_range_def)
qed

lemma signed_not_parsed: "c = CHR ''+'' \<or> c = CHR ''-'' \<Longrightarrow> date_parse (c # s) = None"
  by (auto simp: date_parse_def digits_def is_digit_def code_def)

lemma toISOString_out_of_range:
  assumes "\<not> iso_range t"
  shows "date_parse (toISOString t) = None"
proof (cases "date_range t")
  case True
  from out_of_range_year [OF assms]
  obtain c s where "yearText (yearFromDay (t div 86400000)) = c # s" and c: "c = CHR ''+'' \<or> c = CHR ''-''"
    by (auto simp: yearText_def)
  with True have "\<exists>s'. toISOString t = c # s'" unfolding toISOString_def Let_def by simp
  with signed_not_parsed [OF c] show ?thesis by auto
next
  case False
  then show ?thesis by (simp add: toISOString_def date_parse_def digits_def)
qed

lemma isoTime_toISOString_eq: "isoTime (toISOString t) = Inr u \<Longrightarrow> u = t"
  by (cases "iso_range t") (simp_all add: isoTime_def toISOString_out_of_range date_parse_toISOString)

subsection \<open>Text order\<close>

text \<open>SQLite compares text byte by byte.\<close>

fun textLess :: "string \<Rightarrow> string \<Rightarrow> bool" where
  "textLess [] [] = False"
| "textLess [] (b # bs) = True"
| "textLess (a # as) [] = False"
| "textLess (a # as) (b # bs) = (code a < code b \<or> a = b \<and> textLess as bs)"

lemma textLess_append:
  "length a = length a' \<Longrightarrow>
     textLess (a @ b) (a' @ b') \<longleftrightarrow> textLess a a' \<or> a = a' \<and> textLess b b'"
  by (induction a a' rule: list_induct2) auto

lemma pad_inj:
  assumes "0 \<le> m" "m < 10 ^ k" "0 \<le> n" "n < 10 ^ k"
  shows "pad k m = pad k n \<longleftrightarrow> m = n"
  using assms by (metis dec_val_pad mod_pos_pos_trivial)

lemma less_div_mod_10:
  "(m::int) < n \<longleftrightarrow> m div 10 < n div 10 \<or> m div 10 = n div 10 \<and> m mod 10 < n mod 10"
proof -
  have "10 * a + r < 10 * b + q \<longleftrightarrow> a < b \<or> a = b \<and> r < q"
    if "0 \<le> r" "r \<le> 9" "0 \<le> q" "q \<le> 9" for a b r q :: int
    using that by auto
  from this [of "m mod 10" "n mod 10" "m div 10" "n div 10"] show ?thesis
    using mod_ten_digit by simp
qed

lemma textLess_pad:
  assumes "0 \<le> m" "m < 10 ^ k" "0 \<le> n" "n < 10 ^ k"
  shows "textLess (pad k m) (pad k n) \<longleftrightarrow> m < n"
  using assms
proof (induction k arbitrary: m n)
  case 0
  then show ?case by simp
next
  case (Suc k)
  have d: "0 \<le> m div 10" "m div 10 < 10 ^ k" "0 \<le> n div 10" "n div 10 < 10 ^ k"
    using Suc.prems by auto
  have "textLess [digit_char (m mod 10)] [digit_char (n mod 10)] \<longleftrightarrow> m mod 10 < n mod 10"
    by (simp add: mod_ten_digit)
  then show ?case
    using Suc.IH [OF d] pad_inj [OF d] less_div_mod_10 [of m n] by (simp add: textLess_append)
qed

text \<open>The lexicographic order of the printed fields, and that time follows it.\<close>

fun lexLess :: "int list \<Rightarrow> int list \<Rightarrow> bool" where
  "lexLess (a # as) (b # bs) = (a < b \<or> a = b \<and> lexLess as bs)"
| "lexLess _ _ = False"

lemma lexLess_total:
  "length as = length bs \<Longrightarrow> lexLess as bs \<or> as = bs \<or> lexLess bs as"
  by (induction as bs rule: list_induct2) auto

lemma textLess_isoText:
  assumes "0 \<le> y" "y \<le> 9999" "1 \<le> mo" "mo \<le> 12" "1 \<le> d" "d \<le> 31" "0 \<le> h" "h \<le> 23"
    "0 \<le> mi" "mi \<le> 59" "0 \<le> s" "s \<le> 59" "0 \<le> ms" "ms \<le> 999"
    and "0 \<le> y'" "y' \<le> 9999" "1 \<le> mo'" "mo' \<le> 12" "1 \<le> d'" "d' \<le> 31" "0 \<le> h'" "h' \<le> 23"
    "0 \<le> mi'" "mi' \<le> 59" "0 \<le> s'" "s' \<le> 59" "0 \<le> ms'" "ms' \<le> 999"
  shows "textLess (isoText y mo d h mi s ms) (isoText y' mo' d' h' mi' s' ms') \<longleftrightarrow>
    lexLess [y, mo, d, h, mi, s, ms] [y', mo', d', h', mi', s', ms']"
  using assms by (simp add: isoText_def textLess_append textLess_pad pad_inj)

lemma daysBefore_mono: "m \<le> m' \<Longrightarrow> daysBefore lp m \<le> daysBefore lp m'"
proof (induction m' rule: int_ge_induct)
  case (step i)
  have "daysBefore lp i \<le> daysBefore lp (i + 1)" by (simp add: daysBefore_def)
  with step.IH show ?case by simp
qed simp

lemma lexLess_time:
  assumes "lexLess [y, mo, d, h, mi, s, ms] [y', mo', d', h', mi', s', ms']"
    and "1 \<le> mo" "1 \<le> mo'" "1 \<le> d'"
    and "0 \<le> h" "h \<le> 23" "0 \<le> mi" "mi \<le> 59" "0 \<le> s" "s \<le> 59" "0 \<le> ms" "ms \<le> 999"
    and "0 \<le> h'" "h' \<le> 23" "0 \<le> mi'" "mi' \<le> 59" "0 \<le> s'" "s' \<le> 59" "0 \<le> ms'" "ms' \<le> 999"
    and "makeDay y mo d < makeDay y (mo + 1) 1" "makeDay y mo d < dayFromYear (y + 1)"
  shows "86400000 * makeDay y mo d + makeTime h mi s ms <
    86400000 * makeDay y' mo' d' + makeTime h' mi' s' ms'"
proof (cases "y < y' \<or> y = y' \<and> (mo < mo' \<or> mo = mo' \<and> d < d')")
  case True
  have "0 \<le> daysBefore (leap y') mo'" by (simp add: daysBefore_def)
  then have lo: "dayFromYear y' \<le> makeDay y' mo' d'"
    using assms(4) unfolding makeDay_def by linarith
  have "makeDay y mo d < makeDay y' mo' d'"
    using True
  proof (elim disjE conjE)
    assume "y < y'"
    then have "dayFromYear (y + 1) \<le> dayFromYear y'" by (simp add: dayFromYear_mono)
    with lo assms(22) show ?thesis by linarith
  next
    assume "y = y'" "mo < mo'"
    moreover have "daysBefore (leap y) (mo + 1) \<le> daysBefore (leap y) mo'"
      using calculation by (simp add: daysBefore_mono)
    ultimately show ?thesis using assms(4,21) by (simp add: makeDay_def)
  qed (simp add: makeDay_def)
  then have "86400000 * makeDay y mo d + 86400000 \<le> 86400000 * makeDay y' mo' d'" by linarith
  moreover have "makeTime h mi s ms < 86400000" "0 \<le> makeTime h' mi' s' ms'"
    using assms by (simp_all add: makeTime_def)
  ultimately show ?thesis by linarith
next
  case False
  with assms(1) have eq: "y = y'" "mo = mo'" "d = d'"
    and "h < h' \<or> h = h' \<and> (mi < mi' \<or> mi = mi' \<and> (s < s' \<or> s = s' \<and> ms < ms'))"
    by auto
  then have "makeTime h mi s ms < makeTime h' mi' s' ms'"
    using assms(5-20) unfolding makeTime_def by auto
  with eq show ?thesis by simp
qed

text \<open>On the instants of the range, the text order is the order in time.\<close>

lemma textLess_toISOString:
  assumes "iso_range t" and "iso_range u"
  shows "textLess (toISOString t) (toISOString u) \<longleftrightarrow> t < u"
  using assms(1)
proof (rule toISOString_fields)
  fix y mo d h mi s ms
  assume t: "0 \<le> y" "y \<le> 9999" "1 \<le> mo" "mo \<le> 12" "1 \<le> d" "d \<le> 31" "0 \<le> h" "h \<le> 23"
    "0 \<le> mi" "mi \<le> 59" "0 \<le> s" "s \<le> 59" "0 \<le> ms" "ms \<le> 999"
    "toISOString t = isoText y mo d h mi s ms"
    "t = 86400000 * makeDay y mo d + makeTime h mi s ms"
    "makeDay y mo d < makeDay y (mo + 1) 1" "makeDay y mo d < dayFromYear (y + 1)"
  from assms(2) show ?thesis
  proof (rule toISOString_fields)
    fix y' mo' d' h' mi' s' ms'
    assume u: "0 \<le> y'" "y' \<le> 9999" "1 \<le> mo'" "mo' \<le> 12" "1 \<le> d'" "d' \<le> 31" "0 \<le> h'" "h' \<le> 23"
      "0 \<le> mi'" "mi' \<le> 59" "0 \<le> s'" "s' \<le> 59" "0 \<le> ms'" "ms' \<le> 999"
      "toISOString u = isoText y' mo' d' h' mi' s' ms'"
      "u = 86400000 * makeDay y' mo' d' + makeTime h' mi' s' ms'"
      "makeDay y' mo' d' < makeDay y' (mo' + 1) 1" "makeDay y' mo' d' < dayFromYear (y' + 1)"
    let ?f = "[y, mo, d, h, mi, s, ms]" and ?g = "[y', mo', d', h', mi', s', ms']"
    have "textLess (toISOString t) (toISOString u) \<longleftrightarrow> lexLess ?f ?g"
      unfolding t(15) u(15) by (rule textLess_isoText) (fact t u)+
    moreover have "lexLess ?f ?g \<Longrightarrow> t < u"
      unfolding t(16) u(16) by (rule lexLess_time) (assumption | rule t u)+
    moreover have "lexLess ?g ?f \<Longrightarrow> u < t"
      unfolding t(16) u(16) by (rule lexLess_time) (assumption | rule t u)+
    moreover have "?f = ?g \<Longrightarrow> t = u" using t(16) u(16) by simp
    ultimately show ?thesis using lexLess_total [of ?f ?g] by (auto simp del: lexLess.simps)
  qed
qed

end
