(* ===== verification/Grant_Restrictions.thy ===== *)
theory Grant_Restrictions
  imports Iso_Time
begin

text \<open>
  Money, counts, validity intervals and grant restrictions of \<^verbatim>\<open>governance.ts\<close>: the scalar validators
  (\<open>requireText\<close>, \<open>safeMinor\<close>, \<open>safeCount\<close>, \<open>validateFinancialDisclosure\<close>, \<open>isCurrentAt\<close>), the
  validator of a grant's restrictions (\<open>parseRestrictions\<close>), the bound a delegation must stay in
  (\<open>delegatedRestrictions\<close>) and the financial limit check (\<open>financialRestrictionsAllow\<close>).

  Restrictions are stored as JSON text and parsed again when read; \<open>restrictions_json\<close> is that
  stored value. The lemmas: what the validator accepts is well-formed, re-reading a stored
  restriction gives it back, and a delegated restriction never allows a financial total its issuer's
  own restriction denies.
\<close>

subsection \<open>Scalars\<close>

definition max_i64 :: int where
  "max_i64 = 9223372036854775807"

definition requireText :: "string \<Rightarrow> string \<Rightarrow> string result" where
  "requireText value label =
     (if blank value then Inl (Error (''Invalid '' @ label)) else Inr value)"

definition safeMinor :: "jsval \<Rightarrow> int result" where
  "safeMinor value =
     (case value of
        Str s \<Rightarrow>
          if decimal_text s then
            (if dec_val s > max_i64 then Inl (Error ''Money amount exceeds i64'') else Inr (dec_val s))
          else Inl (Error ''Invalid money amount'')
      | _ \<Rightarrow> Inl (Error ''Invalid money amount''))"

definition safeCount :: "jsval \<Rightarrow> int \<Rightarrow> int result" where
  "safeCount value minimum =
     (case value of
        Num (NInt i) \<Rightarrow>
          if isSafeInteger i \<and> \<not> i < minimum then Inr i else Inl (Error ''Invalid governance count'')
      | _ \<Rightarrow> Inl (Error ''Invalid governance count''))"

definition validGrossEntry :: "string \<times> jsval \<Rightarrow> bool" where
  "validGrossEntry e =
     (currency_text (fst e) \<and>
      (case snd e of Big a \<Rightarrow> \<not> (a < 0 \<or> a > max_i64) | _ \<Rightarrow> False))"

definition validateFinancialDisclosure :: "jsval \<Rightarrow> unit result" where
  "validateFinancialDisclosure value =
     (case js_record value of
        None \<Rightarrow> Inl (Error ''Invalid financial disclosure'')
      | Some totals \<Rightarrow>
          andThen (safeCount (field totals ''operationCount'') 0) (\<lambda>_.
            case js_record (field totals ''grossOutgoing'') of
              None \<Rightarrow> Inl (Error ''Invalid disclosure gross outgoing'')
            | Some gross \<Rightarrow>
                require (list_all validGrossEntry gross)
                  ''Invalid or overflowing disclosure gross outgoing''))"

text \<open>The half-open validity interval of memberships and delegations.\<close>

definition isCurrentAt :: "string \<Rightarrow> string option \<Rightarrow> string \<Rightarrow> bool result" where
  "isCurrentAt from until now =
     andThen (isoTime now) (\<lambda>instant.
     andThen (isoTime from) (\<lambda>start.
       if start \<le> instant then
         (case until of
            None \<Rightarrow> Inr True
          | Some u \<Rightarrow> andThen (isoTime u) (\<lambda>stop. Inr (instant < stop)))
       else Inr False))"

lemma safeMinor_Inr [read_simps]:
  "safeMinor v = Inr a \<longleftrightarrow> (\<exists>s. v = Str s \<and> decimal_text s \<and> a = dec_val s \<and> a \<le> max_i64)"
  by (auto simp: safeMinor_def split: jsval.splits)

lemma safeMinor_bounds: "safeMinor v = Inr a \<Longrightarrow> 0 \<le> a \<and> a \<le> max_i64"
  by (auto simp: read_simps decimal_text_nonneg)

lemma safeCount_Inr [read_simps]:
  "safeCount v k = Inr i \<longleftrightarrow> v = Num (NInt i) \<and> isSafeInteger i \<and> k \<le> i"
  by (auto simp: safeCount_def split: jsval.splits jsnum.splits)

lemma requireText_Inr [read_simps]: "requireText v l = Inr x \<longleftrightarrow> x = v \<and> \<not> blank v"
  by (auto simp: requireText_def)

lemma isCurrentAt_times:
  assumes "isoTime now = Inr n" "isoTime from = Inr f" "until = None \<or> isoTime (the until) = Inr u"
  shows "isCurrentAt from until now = Inr (f \<le> n \<and> (until = None \<or> n < u))"
  using assms by (auto simp: isCurrentAt_def split: option.splits)

subsection \<open>Restrictions\<close>

record money_limit =
  ml_currency :: string
  ml_minorUnits :: string

record restrictions =
  rs_aggregateOnly :: "bool option"
  rs_accountIds :: "string list option"
  rs_categoryIds :: "string list option"
  rs_operations :: "string list option"
  rs_proposalOnly :: "bool option"
  rs_maxGrossOutgoing :: "money_limit list option"
  rs_maxOperationCount :: "int option"

definition no_restrictions :: restrictions where
  "no_restrictions = \<lparr>rs_aggregateOnly = None, rs_accountIds = None, rs_categoryIds = None,
     rs_operations = None, rs_proposalOnly = None, rs_maxGrossOutgoing = None,
     rs_maxOperationCount = None\<rparr>"

definition restriction_keys :: "string list" where
  "restriction_keys = [''aggregateOnly'', ''accountIds'', ''categoryIds'', ''operations'',
     ''proposalOnly'', ''maxGrossOutgoing'', ''maxOperationCount'']"

fun textItem :: "jsval \<Rightarrow> string result" where
  "textItem (Str s) = (if blank s then Inl (Error ''Invalid grant restriction'') else Inr s)"
| "textItem _ = Inl (Error ''Invalid grant restriction'')"

definition parseFlag :: "(string \<times> jsval) list \<Rightarrow> string \<Rightarrow> bool option result" where
  "parseFlag fs key =
     (case field fs key of
        Undefined \<Rightarrow> Inr None
      | Bool b \<Rightarrow> Inr (Some b)
      | _ \<Rightarrow> Inl (Error ''Invalid grant restriction''))"

definition parseTextList :: "(string \<times> jsval) list \<Rightarrow> string \<Rightarrow> string list option result" where
  "parseTextList fs key =
     (case field fs key of
        Undefined \<Rightarrow> Inr None
      | Arr xs \<Rightarrow> andThen (mapR textItem xs) (\<lambda>ys. Inr (Some ys))
      | _ \<Rightarrow> Inl (Error ''Invalid grant restriction''))"

definition parseLimit :: "jsval \<Rightarrow> money_limit result" where
  "parseLimit entry =
     (case js_record entry of
        None \<Rightarrow> Inl (Error ''Invalid gross outgoing limit'')
      | Some item \<Rightarrow>
          (case field item ''currency'' of
             Str c \<Rightarrow>
               if currency_text c then
                 andThen (safeMinor (field item ''minorUnits'')) (\<lambda>_.
                   case field item ''minorUnits'' of
                     Str m \<Rightarrow> Inr \<lparr>ml_currency = c, ml_minorUnits = m\<rparr>
                   | _ \<Rightarrow> Inl TypeError)
               else Inl (Error ''Invalid gross outgoing limit'')
           | _ \<Rightarrow> Inl (Error ''Invalid gross outgoing limit'')))"

definition parseLimits :: "(string \<times> jsval) list \<Rightarrow> money_limit list option result" where
  "parseLimits fs =
     (case field fs ''maxGrossOutgoing'' of
        Undefined \<Rightarrow> Inr None
      | Arr xs \<Rightarrow> andThen (mapR parseLimit xs) (\<lambda>ys. Inr (Some ys))
      | _ \<Rightarrow> Inl (Error ''Invalid gross outgoing limit''))"

definition parseMaxCount :: "(string \<times> jsval) list \<Rightarrow> int option result" where
  "parseMaxCount fs =
     (case field fs ''maxOperationCount'' of
        Undefined \<Rightarrow> Inr None
      | v \<Rightarrow> andThen (safeCount v 0) (\<lambda>i. Inr (Some i)))"

definition parseRestrictions :: "jsval \<Rightarrow> restrictions result" where
  "parseRestrictions value =
     (case js_record value of
        None \<Rightarrow> Inl (Error ''Invalid grant restrictions'')
      | Some fs \<Rightarrow>
          andThen (require (list_all (\<lambda>(k, _). k \<in> set restriction_keys) fs)
            ''Unknown grant restriction'') (\<lambda>_.
          andThen (parseFlag fs ''aggregateOnly'') (\<lambda>agg.
          andThen (parseFlag fs ''proposalOnly'') (\<lambda>prop.
          andThen (parseTextList fs ''accountIds'') (\<lambda>accs.
          andThen (parseTextList fs ''categoryIds'') (\<lambda>cats.
          andThen (parseTextList fs ''operations'') (\<lambda>ops.
          andThen (parseLimits fs) (\<lambda>limits.
          andThen (parseMaxCount fs) (\<lambda>count.
            Inr \<lparr>rs_aggregateOnly = agg, rs_accountIds = accs, rs_categoryIds = cats,
              rs_operations = ops, rs_proposalOnly = prop, rs_maxGrossOutgoing = limits,
              rs_maxOperationCount = count\<rparr>)))))))))"

text \<open>The value \<^verbatim>\<open>JSON.parse(JSON.stringify(restrictions))\<close>: the present fields only.\<close>

definition present :: "string \<Rightarrow> ('a \<Rightarrow> jsval) \<Rightarrow> 'a option \<Rightarrow> (string \<times> jsval) list" where
  "present k f v = (case v of None \<Rightarrow> [] | Some x \<Rightarrow> [(k, f x)])"

definition limit_json :: "money_limit \<Rightarrow> jsval" where
  "limit_json l = Obj [(''currency'', Str (ml_currency l)), (''minorUnits'', Str (ml_minorUnits l))]"

definition restrictions_json :: "restrictions \<Rightarrow> jsval" where
  "restrictions_json r = Obj (
     present ''aggregateOnly'' Bool (rs_aggregateOnly r) @
     present ''accountIds'' (\<lambda>xs. Arr (map Str xs)) (rs_accountIds r) @
     present ''categoryIds'' (\<lambda>xs. Arr (map Str xs)) (rs_categoryIds r) @
     present ''operations'' (\<lambda>xs. Arr (map Str xs)) (rs_operations r) @
     present ''proposalOnly'' Bool (rs_proposalOnly r) @
     present ''maxGrossOutgoing'' (\<lambda>xs. Arr (map limit_json xs)) (rs_maxGrossOutgoing r) @
     present ''maxOperationCount'' (\<lambda>i. Num (NInt i)) (rs_maxOperationCount r))"

definition valid_limit :: "money_limit \<Rightarrow> bool" where
  "valid_limit l \<longleftrightarrow> currency_text (ml_currency l) \<and> decimal_text (ml_minorUnits l) \<and>
     dec_val (ml_minorUnits l) \<le> max_i64"

definition valid_texts :: "string list option \<Rightarrow> bool" where
  "valid_texts v \<longleftrightarrow> (case v of None \<Rightarrow> True | Some xs \<Rightarrow> list_all (\<lambda>x. \<not> blank x) xs)"

definition valid_restrictions :: "restrictions \<Rightarrow> bool" where
  "valid_restrictions r \<longleftrightarrow>
     valid_texts (rs_accountIds r) \<and> valid_texts (rs_categoryIds r) \<and> valid_texts (rs_operations r) \<and>
     (case rs_maxGrossOutgoing r of None \<Rightarrow> True | Some ls \<Rightarrow> list_all valid_limit ls) \<and>
     (case rs_maxOperationCount r of None \<Rightarrow> True | Some i \<Rightarrow> isSafeInteger i \<and> 0 \<le> i)"

lemma textItem_Inr [read_simps]: "textItem v = Inr s \<longleftrightarrow> v = Str s \<and> \<not> blank s"
  by (cases v) auto

lemma parseLimit_Inr: "parseLimit v = Inr l \<Longrightarrow> valid_limit l"
  by (auto simp: parseLimit_def valid_limit_def read_simps split: option.splits jsval.splits if_splits)

lemma mapR_textItem_valid: "mapR textItem xs = Inr ys \<Longrightarrow> list_all (\<lambda>y. \<not> blank y) ys"
  by (erule mapR_list_all) (simp add: read_simps)

lemma mapR_parseLimit_valid: "mapR parseLimit xs = Inr ys \<Longrightarrow> list_all valid_limit ys"
  by (erule mapR_list_all) (rule parseLimit_Inr)

lemma parseTextList_Inr: "parseTextList fs k = Inr v \<Longrightarrow> valid_texts v"
  by (auto simp: parseTextList_def valid_texts_def read_simps split: jsval.splits
      dest: mapR_textItem_valid)

lemma parseLimits_Inr:
  "parseLimits fs = Inr v \<Longrightarrow> (case v of None \<Rightarrow> True | Some ls \<Rightarrow> list_all valid_limit ls)"
  by (auto simp: parseLimits_def read_simps split: jsval.splits
      dest: mapR_parseLimit_valid)

lemma parseMaxCount_Inr:
  "parseMaxCount fs = Inr v \<Longrightarrow> (case v of None \<Rightarrow> True | Some i \<Rightarrow> isSafeInteger i \<and> 0 \<le> i)"
  by (auto simp: parseMaxCount_def read_simps split: jsval.splits)

lemma parseRestrictions_valid:
  assumes "parseRestrictions v = Inr r"
  shows "valid_restrictions r"
proof -
  from assms obtain fs where "parseTextList fs ''accountIds'' = Inr (rs_accountIds r)"
    "parseTextList fs ''categoryIds'' = Inr (rs_categoryIds r)"
    "parseTextList fs ''operations'' = Inr (rs_operations r)"
    "parseLimits fs = Inr (rs_maxGrossOutgoing r)" "parseMaxCount fs = Inr (rs_maxOperationCount r)"
    by (auto simp: parseRestrictions_def read_simps split: option.splits)
  then show ?thesis
    unfolding valid_restrictions_def
    using parseTextList_Inr parseLimits_Inr parseMaxCount_Inr by blast
qed

lemma mapR_textItem_Str: "list_all (\<lambda>x. \<not> blank x) xs \<Longrightarrow> mapR textItem (map Str xs) = Inr xs"
  by (induction xs) simp_all

lemma parseLimit_json: "valid_limit l \<Longrightarrow> parseLimit (limit_json l) = Inr l"
  by (simp add: parseLimit_def limit_json_def valid_limit_def field_def safeMinor_def)

lemma mapR_parseLimit_json: "list_all valid_limit ls \<Longrightarrow> mapR parseLimit (map limit_json ls) = Inr ls"
  by (induction ls) (simp_all add: parseLimit_json)

lemma parse_restrictions_json:
  assumes "valid_restrictions r"
  shows "parseRestrictions (restrictions_json r) = Inr r"
proof -
  obtain agg accs cats ops pr lim cnt where r: "r = \<lparr>rs_aggregateOnly = agg, rs_accountIds = accs,
      rs_categoryIds = cats, rs_operations = ops, rs_proposalOnly = pr, rs_maxGrossOutgoing = lim,
      rs_maxOperationCount = cnt\<rparr>" by (cases r)
  from assms show ?thesis
    unfolding r valid_restrictions_def valid_texts_def
    by (cases agg; cases accs; cases cats; cases ops; cases pr; cases lim; cases cnt)
      (simp_all add: parseRestrictions_def restrictions_json_def present_def restriction_keys_def
        parseFlag_def parseTextList_def parseLimits_def parseMaxCount_def field_def require_def
        mapR_textItem_Str mapR_parseLimit_json safeCount_def)
qed

lemma valid_no_restrictions [simp]: "valid_restrictions no_restrictions"
  by (simp add: valid_restrictions_def no_restrictions_def valid_texts_def)

subsection \<open>Financial limits\<close>

text \<open>Totals per currency are an association list; \<open>totalOf\<close> is \<^verbatim>\<open>gross[currency] ?? 0n\<close>.\<close>

definition totalOf :: "(string \<times> int) list \<Rightarrow> string \<Rightarrow> int" where
  "totalOf gross c = (case map_of gross c of None \<Rightarrow> 0 | Some a \<Rightarrow> a)"

definition financialRestrictionsAllow :: "restrictions \<Rightarrow> int \<Rightarrow> (string \<times> int) list \<Rightarrow> bool" where
  "financialRestrictionsAllow r operationCount gross =
     (if (case rs_maxOperationCount r of None \<Rightarrow> False | Some m \<Rightarrow> operationCount > m) then False
      else case rs_maxGrossOutgoing r of
          None \<Rightarrow> True
        | Some limits \<Rightarrow>
            list_all (\<lambda>limit. \<not> totalOf gross (ml_currency limit) > dec_val (ml_minorUnits limit)) limits \<and>
            list_all (\<lambda>(currency, amount).
              case find (\<lambda>entry. ml_currency entry = currency) limits of
                None \<Rightarrow> False
              | Some limit \<Rightarrow> \<not> amount > dec_val (ml_minorUnits limit)) gross)"

subsection \<open>Delegated restrictions\<close>

definition listWithin :: "string list option \<Rightarrow> string list option \<Rightarrow> bool" where
  "listWithin values bounds =
     (case values of None \<Rightarrow> True
      | Some vs \<Rightarrow> (case bounds of None \<Rightarrow> True | Some bs \<Rightarrow> list_all (\<lambda>v. v \<in> set bs) vs))"

definition grossWithin :: "money_limit list option \<Rightarrow> money_limit list option \<Rightarrow> bool" where
  "grossWithin requested issuer =
     (case requested of None \<Rightarrow> True
      | Some rq \<Rightarrow> (case issuer of None \<Rightarrow> True
         | Some bs \<Rightarrow> list_all (\<lambda>limit.
             case find (\<lambda>entry. ml_currency entry = ml_currency limit) bs of
               None \<Rightarrow> False
             | Some bound \<Rightarrow> dec_val (ml_minorUnits limit) \<le> dec_val (ml_minorUnits bound)) rq))"

definition countWithin :: "int option \<Rightarrow> int option \<Rightarrow> bool" where
  "countWithin requested issuer =
     (case requested of None \<Rightarrow> True
      | Some a \<Rightarrow> (case issuer of None \<Rightarrow> True | Some b \<Rightarrow> \<not> a > b))"

definition override :: "'a option \<Rightarrow> 'a option \<Rightarrow> 'a option" where
  "override base over = (case over of None \<Rightarrow> base | Some x \<Rightarrow> Some x)"

definition mergeRestrictions :: "restrictions \<Rightarrow> restrictions \<Rightarrow> restrictions" where
  "mergeRestrictions issuer requested =
     \<lparr>rs_aggregateOnly = override (rs_aggregateOnly issuer) (rs_aggregateOnly requested),
      rs_accountIds = override (rs_accountIds issuer) (rs_accountIds requested),
      rs_categoryIds = override (rs_categoryIds issuer) (rs_categoryIds requested),
      rs_operations = override (rs_operations issuer) (rs_operations requested),
      rs_proposalOnly = override (rs_proposalOnly issuer) (rs_proposalOnly requested),
      rs_maxGrossOutgoing = override (rs_maxGrossOutgoing issuer) (rs_maxGrossOutgoing requested),
      rs_maxOperationCount = override (rs_maxOperationCount issuer) (rs_maxOperationCount requested)\<rparr>"

definition delegatedRestrictions :: "jsval \<Rightarrow> jsval \<Rightarrow> restrictions result" where
  "delegatedRestrictions requestedValue issuerValue =
     andThen (if requestedValue = Undefined then Inr no_restrictions
              else parseRestrictions requestedValue) (\<lambda>requested.
     andThen (parseRestrictions issuerValue) (\<lambda>issuer.
       if rs_aggregateOnly issuer = Some True \<and> rs_aggregateOnly requested = Some False \<or>
          rs_proposalOnly issuer = Some True \<and> rs_proposalOnly requested = Some False \<or>
          \<not> listWithin (rs_accountIds requested) (rs_accountIds issuer) \<or>
          \<not> listWithin (rs_categoryIds requested) (rs_categoryIds issuer) \<or>
          \<not> listWithin (rs_operations requested) (rs_operations issuer) \<or>
          \<not> grossWithin (rs_maxGrossOutgoing requested) (rs_maxGrossOutgoing issuer) \<or>
          \<not> countWithin (rs_maxOperationCount requested) (rs_maxOperationCount issuer)
       then Inl (Error ''Delegation restrictions exceed issuer grant'')
       else Inr (mergeRestrictions issuer requested)))"

text \<open>What \<open>delegatedRestrictions\<close> guarantees of its result, field by field.\<close>

definition tighter :: "restrictions \<Rightarrow> restrictions \<Rightarrow> bool" where
  "tighter d i \<longleftrightarrow>
     (rs_aggregateOnly i = Some True \<longrightarrow> rs_aggregateOnly d = Some True) \<and>
     (rs_proposalOnly i = Some True \<longrightarrow> rs_proposalOnly d = Some True) \<and>
     (\<forall>bs. rs_accountIds i = Some bs \<longrightarrow> (\<exists>vs. rs_accountIds d = Some vs \<and> set vs \<subseteq> set bs)) \<and>
     (\<forall>bs. rs_categoryIds i = Some bs \<longrightarrow> (\<exists>vs. rs_categoryIds d = Some vs \<and> set vs \<subseteq> set bs)) \<and>
     (\<forall>bs. rs_operations i = Some bs \<longrightarrow> (\<exists>vs. rs_operations d = Some vs \<and> set vs \<subseteq> set bs)) \<and>
     (\<forall>bs. rs_maxGrossOutgoing i = Some bs \<longrightarrow> (\<exists>ls. rs_maxGrossOutgoing d = Some ls \<and>
        (ls = bs \<or> grossWithin (Some ls) (Some bs)))) \<and>
     (\<forall>m. rs_maxOperationCount i = Some m \<longrightarrow> (\<exists>c. rs_maxOperationCount d = Some c \<and> c \<le> m))"

lemma delegatedRestrictions_merge:
  assumes "delegatedRestrictions rv iv = Inr d" "parseRestrictions iv = Inr i"
  obtains q where "d = mergeRestrictions i q"
    "\<not> (rs_aggregateOnly i = Some True \<and> rs_aggregateOnly q = Some False)"
    "\<not> (rs_proposalOnly i = Some True \<and> rs_proposalOnly q = Some False)"
    "listWithin (rs_accountIds q) (rs_accountIds i)"
    "listWithin (rs_categoryIds q) (rs_categoryIds i)"
    "listWithin (rs_operations q) (rs_operations i)"
    "grossWithin (rs_maxGrossOutgoing q) (rs_maxGrossOutgoing i)"
    "countWithin (rs_maxOperationCount q) (rs_maxOperationCount i)"
proof -
  from assms obtain q where "(if rv = Undefined then Inr no_restrictions else parseRestrictions rv) = Inr q"
    by (auto simp: delegatedRestrictions_def andThen_eq_Inr simp del: andThen_simps)
  with assms that [of q] show ?thesis
    by (simp add: delegatedRestrictions_def split: if_splits)
qed

lemma listWithin_override:
  "listWithin q i \<Longrightarrow> i = Some bs \<Longrightarrow> \<exists>vs. override i q = Some vs \<and> set vs \<subseteq> set bs"
  by (cases q) (auto simp: listWithin_def override_def list_all_iff)

lemma delegatedRestrictions_tighter:
  assumes "delegatedRestrictions rv iv = Inr d" "parseRestrictions iv = Inr i"
  shows "tighter d i"
  using assms
proof (rule delegatedRestrictions_merge)
  fix q
  assume q: "d = mergeRestrictions i q"
    "\<not> (rs_aggregateOnly i = Some True \<and> rs_aggregateOnly q = Some False)"
    "\<not> (rs_proposalOnly i = Some True \<and> rs_proposalOnly q = Some False)"
    "listWithin (rs_accountIds q) (rs_accountIds i)"
    "listWithin (rs_categoryIds q) (rs_categoryIds i)"
    "listWithin (rs_operations q) (rs_operations i)"
    and gross: "grossWithin (rs_maxGrossOutgoing q) (rs_maxGrossOutgoing i)"
    and count: "countWithin (rs_maxOperationCount q) (rs_maxOperationCount i)"
  have flag: "\<not> (a = Some True \<and> b = Some False) \<Longrightarrow> a = Some True \<longrightarrow> override a b = Some True"
    for a b :: "bool option" by (cases b) (auto simp: override_def)
  have "\<forall>m. rs_maxOperationCount i = Some m \<longrightarrow>
      (\<exists>c. override (rs_maxOperationCount i) (rs_maxOperationCount q) = Some c \<and> c \<le> m)"
    using count by (cases "rs_maxOperationCount q") (auto simp: countWithin_def override_def)
  moreover have "\<forall>bs. rs_maxGrossOutgoing i = Some bs \<longrightarrow>
      (\<exists>ls. override (rs_maxGrossOutgoing i) (rs_maxGrossOutgoing q) = Some ls \<and>
        (ls = bs \<or> grossWithin (Some ls) (Some bs)))"
    using gross by (cases "rs_maxGrossOutgoing q") (auto simp: override_def)
  ultimately show ?thesis
    using flag [OF q(2)] flag [OF q(3)] listWithin_override [OF q(4)] listWithin_override [OF q(5)]
      listWithin_override [OF q(6)]
    unfolding tighter_def q(1) mergeRestrictions_def by simp
qed

lemma grossWithin_total:
  assumes "grossWithin (Some ls) (Some bs)" "distinct (map ml_currency bs)" "b \<in> set bs"
    and ok: "list_all (\<lambda>l. \<not> totalOf g (ml_currency l) > dec_val (ml_minorUnits l)) ls"
    and cov: "list_all (\<lambda>(c, a). case find (\<lambda>e. ml_currency e = c) ls of None \<Rightarrow> False
        | Some l \<Rightarrow> \<not> a > dec_val (ml_minorUnits l)) g"
    and pos: "0 \<le> dec_val (ml_minorUnits b)"
  shows "totalOf g (ml_currency b) \<le> dec_val (ml_minorUnits b)"
proof (cases "map_of g (ml_currency b)")
  case None
  then show ?thesis using pos by (simp add: totalOf_def)
next
  case (Some a)
  then have "(ml_currency b, a) \<in> set g" by (rule map_of_SomeD)
  with cov obtain l where l: "find (\<lambda>e. ml_currency e = ml_currency b) ls = Some l"
    by (fastforce simp: list_all_iff split: option.splits)
  then have l': "l \<in> set ls" "ml_currency l = ml_currency b" using find_SomeD [OF l] by auto
  moreover have "find (\<lambda>e. ml_currency e = ml_currency b) bs = Some b"
    using assms(2,3) by (rule find_unique)
  ultimately have "dec_val (ml_minorUnits l) \<le> dec_val (ml_minorUnits b)"
    using assms(1) by (auto simp: grossWithin_def list_all_iff)
  moreover have "totalOf g (ml_currency l) \<le> dec_val (ml_minorUnits l)"
    using ok l'(1) by (force simp: list_all_iff)
  ultimately show ?thesis using l'(2) by simp
qed

lemma tighter_financial:
  assumes "tighter d i" "valid_restrictions i"
    and distinct: "\<And>bs. rs_maxGrossOutgoing i = Some bs \<Longrightarrow> distinct (map ml_currency bs)"
    and allow: "financialRestrictionsAllow d n g"
  shows "financialRestrictionsAllow i n g"
proof -
  have count: "\<And>m. rs_maxOperationCount i = Some m \<Longrightarrow> n \<le> m"
    using assms(1) allow unfolding tighter_def financialRestrictionsAllow_def
    by (fastforce split: if_splits)
  show ?thesis
  proof (cases "rs_maxGrossOutgoing i")
    case None
    then show ?thesis using count
      by (auto simp: financialRestrictionsAllow_def split: option.splits)
  next
    case (Some bs)
    with assms(1) obtain ls where ls: "rs_maxGrossOutgoing d = Some ls"
      and within: "ls = bs \<or> grossWithin (Some ls) (Some bs)" by (auto simp: tighter_def)
    from allow ls have ok: "list_all (\<lambda>l. \<not> totalOf g (ml_currency l) > dec_val (ml_minorUnits l)) ls"
      and cov: "list_all (\<lambda>(c, a). case find (\<lambda>e. ml_currency e = c) ls of None \<Rightarrow> False
        | Some l \<Rightarrow> \<not> a > dec_val (ml_minorUnits l)) g"
      by (auto simp: financialRestrictionsAllow_def split: if_splits)
    have "list_all (\<lambda>l. \<not> totalOf g (ml_currency l) > dec_val (ml_minorUnits l)) bs \<and>
      list_all (\<lambda>(c, a). case find (\<lambda>e. ml_currency e = c) bs of None \<Rightarrow> False
        | Some l \<Rightarrow> \<not> a > dec_val (ml_minorUnits l)) g"
    proof (cases "ls = bs")
      case True
      with ok cov show ?thesis by simp
    next
      case False
      with within have w: "grossWithin (Some ls) (Some bs)" by simp
      have pos: "b \<in> set bs \<Longrightarrow> 0 \<le> dec_val (ml_minorUnits b)" for b
        using assms(2) Some
        by (auto simp: valid_restrictions_def valid_limit_def list_all_iff decimal_text_nonneg)
      have "list_all (\<lambda>l. \<not> totalOf g (ml_currency l) > dec_val (ml_minorUnits l)) bs"
        using grossWithin_total [OF w distinct [OF Some] _ ok cov pos]
        by (auto simp: list_all_iff not_less)
      moreover have "case find (\<lambda>e. ml_currency e = c) bs of None \<Rightarrow> False
          | Some b \<Rightarrow> \<not> a > dec_val (ml_minorUnits b)" if "(c, a) \<in> set g" for c a
      proof -
        from cov that obtain l where l: "find (\<lambda>e. ml_currency e = c) ls = Some l"
          and a: "a \<le> dec_val (ml_minorUnits l)"
          by (fastforce simp: list_all_iff not_less split: option.splits)
        have "l \<in> set ls" "ml_currency l = c" using find_SomeD [OF l] by auto
        with w a show ?thesis
          by (fastforce simp: grossWithin_def list_all_iff split: option.splits)
      qed
      ultimately show ?thesis by (auto simp: list_all_iff)
    qed
    then show ?thesis using count Some
      by (auto simp: financialRestrictionsAllow_def split: option.splits)
  qed
qed

end
