(* ===== verification/Approval_Policy.thy ===== *)
theory Approval_Policy
  imports Grant_Restrictions
begin

text \<open>
  The versioned approval policy of a space (\<^verbatim>\<open>governance.ts\<close>): \<open>parsePolicy\<close> validates what a caller
  submits and what a stored row holds, and \<open>requiredApproversFor\<close> is the approval count the
  evaluator derives from a policy and one complete payload. The lemmas: an accepted policy asks for
  at least one approver, a stored policy is read back unchanged, and the approval count is the
  largest of the minimum, the thresholds the payload reaches and the counts of its operations.
\<close>

datatype assistance = Analysis_only | Recommend_actions | Create_approval_proposal | Execute_approved_actions

definition assistance_of :: "string \<Rightarrow> assistance option" where
  "assistance_of s =
     (if s = ''analysis_only'' then Some Analysis_only
      else if s = ''recommend_actions'' then Some Recommend_actions
      else if s = ''create_approval_proposal'' then Some Create_approval_proposal
      else if s = ''execute_approved_actions'' then Some Execute_approved_actions
      else None)"

fun assistance_text :: "assistance \<Rightarrow> string" where
  "assistance_text Analysis_only = ''analysis_only''"
| "assistance_text Recommend_actions = ''recommend_actions''"
| "assistance_text Create_approval_proposal = ''create_approval_proposal''"
| "assistance_text Execute_approved_actions = ''execute_approved_actions''"

record approval_threshold =
  at_currency :: string
  at_amountMinorUnits :: string
  at_requiredApprovers :: int

record governance_policy =
  gp_minimumApprovers :: int
  gp_approvalThresholds :: "approval_threshold list"
  gp_operationApprovers :: "(string \<times> int) list"
  gp_assistanceMaximum :: "assistance option"

definition parseThreshold :: "jsval \<Rightarrow> approval_threshold result" where
  "parseThreshold raw =
     (case js_record raw of
        None \<Rightarrow> Inl (Error ''Invalid approval threshold'')
      | Some t \<Rightarrow>
          (case field t ''currency'' of
             Str c \<Rightarrow>
               (case field t ''amountMinorUnits'' of
                  Str m \<Rightarrow>
                    if currency_text c then
                      andThen (safeMinor (Str m)) (\<lambda>_.
                      andThen (safeCount (field t ''requiredApprovers'') 1) (\<lambda>n.
                        Inr \<lparr>at_currency = c, at_amountMinorUnits = m, at_requiredApprovers = n\<rparr>))
                    else Inl (Error ''Invalid approval threshold'')
                | _ \<Rightarrow> Inl (Error ''Invalid approval threshold''))
           | _ \<Rightarrow> Inl (Error ''Invalid approval threshold'')))"

definition parseOperationApprover :: "string \<times> jsval \<Rightarrow> (string \<times> int) result" where
  "parseOperationApprover e =
     andThen (requireText (fst e) ''operation'') (\<lambda>operation.
     andThen (safeCount (snd e) 1) (\<lambda>count. Inr (operation, count)))"

text \<open>JavaScript's \<open>v ?? d\<close>.\<close>

fun nullish :: "jsval \<Rightarrow> jsval \<Rightarrow> jsval" where
  "nullish Undefined d = d"
| "nullish Null d = d"
| "nullish v d = v"

definition parseThresholds :: "jsval \<Rightarrow> approval_threshold list result" where
  "parseThresholds v =
     (case nullish v (Arr []) of
        Arr raw \<Rightarrow> mapR parseThreshold raw
      | _ \<Rightarrow> Inl (Error ''Invalid approval thresholds''))"

definition parseOperationApprovers :: "jsval \<Rightarrow> (string \<times> int) list result" where
  "parseOperationApprovers v =
     (case js_record (nullish v (Obj [])) of
        None \<Rightarrow> Inl (Error ''Invalid operation approval requirements'')
      | Some ops \<Rightarrow> mapR parseOperationApprover ops)"

fun parseAssistance :: "jsval \<Rightarrow> assistance option result" where
  "parseAssistance Undefined = Inr None"
| "parseAssistance Null = Inr None"
| "parseAssistance (Str s) =
     (case assistance_of s of
        None \<Rightarrow> Inl (Error ''Invalid assistance maximum'')
      | Some a \<Rightarrow> Inr (Some a))"
| "parseAssistance _ = Inl (Error ''Invalid assistance maximum'')"

definition parsePolicy :: "jsval \<Rightarrow> governance_policy result" where
  "parsePolicy value =
     (case js_record value of
        None \<Rightarrow> Inl (Error ''Invalid governance policy'')
      | Some input \<Rightarrow>
          andThen (if field input ''minimumApprovers'' = Undefined then Inr 1
                   else safeCount (field input ''minimumApprovers'') 1) (\<lambda>minimum.
          andThen (parseThresholds (field input ''approvalThresholds'')) (\<lambda>thresholds.
          andThen (parseOperationApprovers (field input ''operationApprovers'')) (\<lambda>operations.
          andThen (parseAssistance (field input ''assistanceMaximum'')) (\<lambda>assistance.
            Inr \<lparr>gp_minimumApprovers = minimum, gp_approvalThresholds = thresholds,
              gp_operationApprovers = operations, gp_assistanceMaximum = assistance\<rparr>)))))"

text \<open>The stored JSON of a policy.\<close>

definition threshold_json :: "approval_threshold \<Rightarrow> jsval" where
  "threshold_json t = Obj [(''currency'', Str (at_currency t)),
     (''amountMinorUnits'', Str (at_amountMinorUnits t)),
     (''requiredApprovers'', Num (NInt (at_requiredApprovers t)))]"

definition policy_json :: "governance_policy \<Rightarrow> jsval" where
  "policy_json p = Obj (
     [(''minimumApprovers'', Num (NInt (gp_minimumApprovers p))),
      (''approvalThresholds'', Arr (map threshold_json (gp_approvalThresholds p))),
      (''operationApprovers'', Obj (map (\<lambda>(k, n). (k, Num (NInt n))) (gp_operationApprovers p)))] @
     present ''assistanceMaximum'' (\<lambda>a. Str (assistance_text a)) (gp_assistanceMaximum p))"

definition valid_threshold :: "approval_threshold \<Rightarrow> bool" where
  "valid_threshold t \<longleftrightarrow> currency_text (at_currency t) \<and> decimal_text (at_amountMinorUnits t) \<and>
     dec_val (at_amountMinorUnits t) \<le> max_i64 \<and> isSafeInteger (at_requiredApprovers t) \<and>
     1 \<le> at_requiredApprovers t"

definition valid_policy :: "governance_policy \<Rightarrow> bool" where
  "valid_policy p \<longleftrightarrow> isSafeInteger (gp_minimumApprovers p) \<and> 1 \<le> gp_minimumApprovers p \<and>
     list_all valid_threshold (gp_approvalThresholds p) \<and>
     list_all (\<lambda>(k, n). \<not> blank k \<and> isSafeInteger n \<and> 1 \<le> n) (gp_operationApprovers p)"

subsection \<open>Validation and storage\<close>

lemma parseThreshold_valid: "parseThreshold v = Inr t \<Longrightarrow> valid_threshold t"
  by (auto simp: parseThreshold_def valid_threshold_def read_simps
      split: option.splits jsval.splits if_splits)

lemma parseOperationApprover_valid:
  "parseOperationApprover e = Inr p \<Longrightarrow> (case p of (k, n) \<Rightarrow> \<not> blank k \<and> isSafeInteger n \<and> 1 \<le> n)"
  by (auto simp: parseOperationApprover_def read_simps)

lemma parseThresholds_valid:
  assumes "parseThresholds v = Inr ts"
  shows "list_all valid_threshold ts"
proof -
  from assms obtain xs where "mapR parseThreshold xs = Inr ts"
    by (auto simp: parseThresholds_def split: jsval.splits)
  then show ?thesis by (rule mapR_list_all) (rule parseThreshold_valid)
qed

lemma parseOperationApprovers_valid:
  assumes "parseOperationApprovers v = Inr ops"
  shows "list_all (\<lambda>(k, n). \<not> blank k \<and> isSafeInteger n \<and> 1 \<le> n) ops"
proof -
  from assms obtain xs where "mapR parseOperationApprover xs = Inr ops"
    by (auto simp: parseOperationApprovers_def split: option.splits)
  then show ?thesis by (rule mapR_list_all) (rule parseOperationApprover_valid)
qed

lemma one_safe: "isSafeInteger 1"
  by (simp add: isSafeInteger_def max_safe_integer_def)

lemma parsePolicy_valid:
  assumes "parsePolicy v = Inr p"
  shows "valid_policy p"
proof -
  from assms obtain input where
    m: "(if field input ''minimumApprovers'' = Undefined then Inr 1
         else safeCount (field input ''minimumApprovers'') 1) = Inr (gp_minimumApprovers p)"
    and t: "parseThresholds (field input ''approvalThresholds'') = Inr (gp_approvalThresholds p)"
    and o: "parseOperationApprovers (field input ''operationApprovers'') = Inr (gp_operationApprovers p)"
    by (auto simp: parsePolicy_def andThen_eq_Inr simp del: andThen_simps split: option.splits)
  have "isSafeInteger (gp_minimumApprovers p) \<and> 1 \<le> gp_minimumApprovers p"
    using m one_safe by (simp add: read_simps split: if_splits)
  then show ?thesis
    using parseThresholds_valid [OF t] parseOperationApprovers_valid [OF o]
    by (simp add: valid_policy_def)
qed

lemma assistance_roundtrip [simp]: "assistance_of (assistance_text a) = Some a"
  by (cases a) (simp_all add: assistance_of_def)

lemma mapR_threshold_json:
  "list_all valid_threshold ts \<Longrightarrow> mapR parseThreshold (map threshold_json ts) = Inr ts"
  by (induction ts)
    (simp_all add: parseThreshold_def threshold_json_def valid_threshold_def field_def
      safeMinor_def safeCount_def)

lemma mapR_operation_json:
  "list_all (\<lambda>(k, n). \<not> blank k \<and> isSafeInteger n \<and> 1 \<le> n) ops \<Longrightarrow>
     mapR parseOperationApprover (map (\<lambda>(k, n). (k, Num (NInt n))) ops) = Inr ops"
  by (induction ops)
    (auto simp: parseOperationApprover_def requireText_def safeCount_def)

lemma parse_policy_json:
  assumes "valid_policy p"
  shows "parsePolicy (policy_json p) = Inr p"
  using assms
  by (cases p; cases "gp_assistanceMaximum p")
    (simp_all add: parsePolicy_def policy_json_def valid_policy_def present_def field_def
      parseThresholds_def parseOperationApprovers_def mapR_threshold_json mapR_operation_json
      safeCount_def)

subsection \<open>Approval count\<close>

definition operationApproversFor :: "governance_policy \<Rightarrow> string \<Rightarrow> int" where
  "operationApproversFor p operation =
     (case map_of (gp_operationApprovers p) operation of None \<Rightarrow> 0 | Some n \<Rightarrow> n)"

definition requiredApproversFor :: "governance_policy \<Rightarrow> (string \<times> int) list \<Rightarrow> string list \<Rightarrow> int" where
  "requiredApproversFor p totals operationNames =
     foldl (\<lambda>n operation. max n (operationApproversFor p operation))
       (foldl (\<lambda>n t. if totalOf totals (at_currency t) \<ge> dec_val (at_amountMinorUnits t)
           then max n (at_requiredApprovers t) else n)
         (gp_minimumApprovers p) (gp_approvalThresholds p))
       operationNames"

lemma foldl_max_ge:
  "(n::int) \<le> foldl (\<lambda>n x. max n (f x)) n xs"
  "x \<in> set xs \<Longrightarrow> f x \<le> foldl (\<lambda>n x. max n (f x)) n xs"
  by (induction xs arbitrary: n) (auto intro: order_trans [OF max.cobounded1] order_trans [OF max.cobounded2])

lemma foldl_max_if_ge:
  "(n::int) \<le> foldl (\<lambda>n x. if P x then max n (f x) else n) n xs"
  "x \<in> set xs \<Longrightarrow> P x \<Longrightarrow> f x \<le> foldl (\<lambda>n x. if P x then max n (f x) else n) n xs"
  by (induction xs arbitrary: n) (auto intro: order_trans [OF max.cobounded1] order_trans [OF max.cobounded2])

lemma foldl_max_attained:
  "foldl (\<lambda>n x. max n (f x)) (n::int) xs = n \<or> (\<exists>x \<in> set xs. foldl (\<lambda>n x. max n (f x)) n xs = f x)"
proof (induction xs arbitrary: n)
  case (Cons x xs)
  from Cons [of "max n (f x)"] show ?case by (auto simp: max_def)
qed simp

lemma foldl_max_if_attained:
  "foldl (\<lambda>n x. if P x then max n (f x) else n) (n::int) xs = n \<or>
   (\<exists>x \<in> set xs. P x \<and> foldl (\<lambda>n x. if P x then max n (f x) else n) n xs = f x)"
proof (induction xs arbitrary: n)
  case (Cons x xs)
  from Cons [of "max n (f x)"] Cons [of n] show ?case by (auto simp: max_def)
qed simp

lemma requiredApproversFor_minimum: "gp_minimumApprovers p \<le> requiredApproversFor p totals names"
  unfolding requiredApproversFor_def
  by (rule order_trans [OF foldl_max_if_ge(1) foldl_max_ge(1)])

lemma requiredApproversFor_threshold:
  assumes "t \<in> set (gp_approvalThresholds p)"
    and "dec_val (at_amountMinorUnits t) \<le> totalOf totals (at_currency t)"
  shows "at_requiredApprovers t \<le> requiredApproversFor p totals names"
  unfolding requiredApproversFor_def
  by (rule order_trans [OF foldl_max_if_ge(2) [where f = at_requiredApprovers
        and P = "\<lambda>t. dec_val (at_amountMinorUnits t) \<le> totalOf totals (at_currency t)", OF assms]
      foldl_max_ge(1)])

lemma requiredApproversFor_operation:
  "operation \<in> set names \<Longrightarrow> operationApproversFor p operation \<le> requiredApproversFor p totals names"
  unfolding requiredApproversFor_def by (rule foldl_max_ge(2))

lemma requiredApproversFor_attained:
  fixes p totals names
  defines "n \<equiv> requiredApproversFor p totals names"
  shows "n = gp_minimumApprovers p \<or>
    (\<exists>t \<in> set (gp_approvalThresholds p). dec_val (at_amountMinorUnits t) \<le> totalOf totals (at_currency t) \<and>
       n = at_requiredApprovers t) \<or>
    (\<exists>operation \<in> set names. n = operationApproversFor p operation)"
proof -
  let ?P = "\<lambda>t. dec_val (at_amountMinorUnits t) \<le> totalOf totals (at_currency t)"
  let ?base = "foldl (\<lambda>n t. if ?P t then max n (at_requiredApprovers t) else n)
      (gp_minimumApprovers p) (gp_approvalThresholds p)"
  have "n = ?base \<or> (\<exists>operation \<in> set names. n = operationApproversFor p operation)"
    unfolding n_def requiredApproversFor_def by (rule foldl_max_attained)
  moreover have "?base = gp_minimumApprovers p \<or>
      (\<exists>t \<in> set (gp_approvalThresholds p). ?P t \<and> ?base = at_requiredApprovers t)"
    by (rule foldl_max_if_attained)
  ultimately show ?thesis by (metis (no_types, lifting))
qed

end
