(* ===== verification/Auth_Payload.thy ===== *)
theory Auth_Payload
  imports Approval_Policy
begin

text \<open>
  The payload of an authorization request (\<^verbatim>\<open>governance.ts\<close>). A payload is an arbitrary JSON object;
  before any grant is consulted the evaluator extracts from all of it, however deeply nested,
  \<^item> the governed operations (\<open>operationList\<close>),
  \<^item> the resources it names (\<open>payloadResources\<close>),
  \<^item> the gross outgoing amount per currency (\<open>financialTotals\<close>), and
  \<^item> the facts the restrictions are checked against (\<open>prepareAuthorizationPayload\<close>).
  The lemmas say that the extraction misses nothing: every operation and every resource reference
  at any depth is found, an unreadable one makes the whole extraction fail, and the totals are the
  exact sums of the outgoing amounts, never above the 64-bit bound.
\<close>

record resource_ref =
  rr_kind :: string
  rr_id :: string

text \<open>Template-literal keys such as \<^verbatim>\<open>`${kind}:${id}`\<close>.\<close>

definition resourceKey :: "string \<Rightarrow> string \<Rightarrow> string" where
  "resourceKey kind rid = kind @ '':'' @ rid"

abbreviation refKey :: "resource_ref \<Rightarrow> string" where
  "refKey r \<equiv> resourceKey (rr_kind r) (rr_id r)"

subsection \<open>Every value of a payload\<close>

text \<open>The values reachable from a value through arrays and objects, itself included.\<close>

inductive subval :: "jsval \<Rightarrow> jsval \<Rightarrow> bool" where
  subval_refl: "subval v v"
| subval_arr: "subval u x \<Longrightarrow> x \<in> set xs \<Longrightarrow> subval u (Arr xs)"
| subval_obj: "subval u x \<Longrightarrow> (k, x) \<in> set fs \<Longrightarrow> subval u (Obj fs)"

inductive_cases subval_ArrE: "subval u (Arr xs)"
inductive_cases subval_ObjE: "subval u (Obj fs)"

subsection \<open>Operations\<close>

text \<open>The checks on one object that has an \<open>operation\<close> property.\<close>

definition operationOk :: "(string \<times> jsval) list \<Rightarrow> bool" where
  "operationOk object =
     ((case field object ''operation'' of Str s \<Rightarrow> \<not> blank s | _ \<Rightarrow> False) \<and>
      (field object ''direction'' = Undefined \<or> field object ''direction'' = Str ''incoming'' \<or>
       field object ''direction'' = Str ''outgoing'') \<and>
      (field object ''amount'' = Undefined \<or>
       (case js_record (field object ''amount'') of
          None \<Rightarrow> False
        | Some amount \<Rightarrow>
            (case field amount ''currency'' of Str c \<Rightarrow> currency_text c | _ \<Rightarrow> False) \<and>
            (case safeMinor (field amount ''minorUnits'') of Inl _ \<Rightarrow> False | Inr _ \<Rightarrow> True))))"

fun visitOperations :: "jsval \<Rightarrow> (string \<times> jsval) list list option"
  and visitOperationsList :: "jsval list \<Rightarrow> (string \<times> jsval) list list option"
  and visitOperationsFields :: "(string \<times> jsval) list \<Rightarrow> (string \<times> jsval) list list option" where
  "visitOperations (Arr xs) = visitOperationsList xs"
| "visitOperations (Obj fs) =
     (if hasOwn fs ''operation'' then
        (if operationOk fs then map_option (Cons fs) (visitOperationsFields fs) else None)
      else visitOperationsFields fs)"
| "visitOperations _ = Some []"
| "visitOperationsList [] = Some []"
| "visitOperationsList (x # xs) =
     (case visitOperations x of None \<Rightarrow> None
      | Some a \<Rightarrow> map_option (append a) (visitOperationsList xs))"
| "visitOperationsFields [] = Some []"
| "visitOperationsFields ((k, x) # fs) =
     (case visitOperations x of None \<Rightarrow> None
      | Some a \<Rightarrow> map_option (append a) (visitOperationsFields fs))"

definition operationList :: "jsval \<Rightarrow> (string \<times> jsval) list list option" where
  "operationList value =
     (case value of Arr xs \<Rightarrow> visitOperations (Arr xs) | _ \<Rightarrow> None)"

lemma visitOperationsList_mem:
  "visitOperationsList xs = Some ops \<Longrightarrow> x \<in> set xs \<Longrightarrow>
     \<exists>a. visitOperations x = Some a \<and> set a \<subseteq> set ops"
  by (induction xs arbitrary: ops) (fastforce split: option.splits)+

lemma visitOperationsFields_mem:
  "visitOperationsFields fs = Some ops \<Longrightarrow> (k, x) \<in> set fs \<Longrightarrow>
     \<exists>a. visitOperations x = Some a \<and> set a \<subseteq> set ops"
  by (induction fs arbitrary: ops) (fastforce split: option.splits)+

text \<open>Completeness: an operation at any depth is in the list, and was checked.\<close>

lemma visitOperations_complete:
  assumes "subval u v" "visitOperations v = Some ops" "u = Obj fs" "hasOwn fs ''operation''"
  shows "fs \<in> set ops \<and> operationOk fs"
  using assms
proof (induction arbitrary: ops rule: subval.induct)
  case (subval_refl v)
  then show ?case by (auto split: if_splits)
next
  case (subval_arr u x xs)
  from subval_arr.prems(1) have "visitOperationsList xs = Some ops" by simp
  from visitOperationsList_mem [OF this subval_arr.hyps(2)]
  obtain a where "visitOperations x = Some a" "set a \<subseteq> set ops" by blast
  with subval_arr.IH subval_arr.prems(2,3) show ?case by blast
next
  case (subval_obj u x k gs)
  from subval_obj.prems(1) have "\<exists>rest. visitOperationsFields gs = Some rest \<and> set rest \<subseteq> set ops"
    by (cases "hasOwn gs ''operation''"; cases "operationOk gs") auto
  then obtain rest where rest: "visitOperationsFields gs = Some rest" "set rest \<subseteq> set ops" by blast
  from visitOperationsFields_mem [OF rest(1) subval_obj.hyps(2)]
  obtain a where "visitOperations x = Some a" "set a \<subseteq> set rest" by blast
  with subval_obj.IH subval_obj.prems(2,3) rest(2) show ?case by blast
qed

lemma visitOperations_sound:
  "visitOperations v = Some ops \<Longrightarrow> fs \<in> set ops \<Longrightarrow> operationOk fs \<and> subval (Obj fs) v"
  "visitOperationsList xs = Some ops \<Longrightarrow> fs \<in> set ops \<Longrightarrow>
     operationOk fs \<and> (\<exists>x \<in> set xs. subval (Obj fs) x)"
  "visitOperationsFields gs = Some ops \<Longrightarrow> fs \<in> set ops \<Longrightarrow>
     operationOk fs \<and> (\<exists>(k, x) \<in> set gs. subval (Obj fs) x)"
proof (induction v and xs and gs arbitrary: ops and ops and ops
    rule: visitOperations_visitOperationsList_visitOperationsFields.induct)
  case (2 gs)
  have rest: "visitOperationsFields gs = Some r \<Longrightarrow> fs \<in> set r \<Longrightarrow>
      hasOwn gs ''operation'' \<longrightarrow> operationOk gs \<Longrightarrow> operationOk fs \<and> subval (Obj fs) (Obj gs)" for r
    using "2.IH" by (cases "hasOwn gs ''operation''") (blast intro: subval_obj)+
  show ?case
  proof (cases "hasOwn gs ''operation''")
    case True
    with "2.prems" obtain r where ok: "operationOk gs" and r: "visitOperationsFields gs = Some r"
      and "fs = gs \<or> fs \<in> set r" by (auto split: if_splits)
    then show ?thesis using rest [of r] subval_refl by blast
  next
    case False
    with "2.prems" rest show ?thesis by simp
  qed
next
  case (1 xs)
  then show ?case by (auto intro: subval_arr)
qed (fastforce split: option.splits)+

subsection \<open>Resources\<close>

definition fieldKinds :: "(string \<times> string) list" where
  "fieldKinds = [
     (''accountId'', ''account''), (''sourceAccountId'', ''account''),
     (''destinationAccountId'', ''account''), (''fromAccountId'', ''account''),
     (''toAccountId'', ''account''), (''categoryId'', ''category''),
     (''sourceCategoryId'', ''category''), (''destinationCategoryId'', ''category''),
     (''transactionId'', ''transaction''), (''ruleId'', ''rule''), (''evidenceId'', ''evidence''),
     (''walletId'', ''wallet''), (''receiptId'', ''receipt''), (''commitmentId'', ''commitment''),
     (''scenarioId'', ''scenario''), (''reservationId'', ''reservation''),
     (''purchaseId'', ''purchase''), (''transferId'', ''transfer''),
     (''transferRecommendationId'', ''transfer''), (''sessionId'', ''session''),
     (''proposalId'', ''proposal''), (''ledgerEffectId'', ''ledger_effect'')]"

definition validKinds :: "string list" where
  "validKinds = [''space'', ''budget'', ''account'', ''category'', ''transaction'', ''rule'',
     ''evidence'', ''wallet'', ''receipt'', ''commitment'', ''scenario'', ''reservation'',
     ''purchase'', ''transfer'', ''ledger_effect'', ''session'', ''proposal'']"

definition effectKinds :: "(string \<times> string) list" where
  "effectKinds = [(''category'', ''category''), (''account_debit'', ''account''),
     (''destination_hold'', ''account'')]"

text \<open>The resource an object names by \<open>resourceKind\<close> and \<open>resourceId\<close>.\<close>

definition ownResource :: "(string \<times> jsval) list \<Rightarrow> resource_ref list option" where
  "ownResource object =
     (if hasOwn object ''resourceKind'' \<and> hasOwn object ''resourceId'' then
        (case (field object ''resourceKind'', field object ''resourceId'') of
           (Str k, Str i) \<Rightarrow>
             if k \<in> set validKinds \<and> \<not> blank i then Some [\<lparr>rr_kind = k, rr_id = i\<rparr>] else None
         | _ \<Rightarrow> None)
      else if hasOwn object ''resourceId'' then
        (case (field object ''kind'', field object ''resourceId'') of
           (Str k, Str i) \<Rightarrow>
             (case map_of effectKinds k of
                None \<Rightarrow> None
              | Some kind \<Rightarrow> if blank i then None else Some [\<lparr>rr_kind = kind, rr_id = i\<rparr>])
         | _ \<Rightarrow> None)
      else if hasOwn object ''resourceKind'' then None
      else Some [])"

text \<open>The resources an object names by its identifier fields.\<close>

fun fieldResources :: "(string \<times> jsval) list \<Rightarrow> (string \<times> string) list \<Rightarrow> resource_ref list option" where
  "fieldResources object [] = Some []"
| "fieldResources object ((name, kind) # rest) =
     (case field object name of
        Undefined \<Rightarrow> fieldResources object rest
      | Null \<Rightarrow> fieldResources object rest
      | Str i \<Rightarrow>
          if blank i then None
          else map_option (Cons \<lparr>rr_kind = kind, rr_id = i\<rparr>) (fieldResources object rest)
      | _ \<Rightarrow> None)"

fun joinRefs :: "'a list option \<Rightarrow> 'a list option \<Rightarrow> 'a list option" where
  "joinRefs (Some a) (Some b) = Some (a @ b)"
| "joinRefs _ _ = None"

fun visitResources :: "jsval \<Rightarrow> resource_ref list option"
  and visitResourcesList :: "jsval list \<Rightarrow> resource_ref list option"
  and visitResourcesFields :: "(string \<times> jsval) list \<Rightarrow> resource_ref list option" where
  "visitResources (Arr xs) = visitResourcesList xs"
| "visitResources (Obj fs) =
     joinRefs (ownResource fs) (joinRefs (fieldResources fs fieldKinds) (visitResourcesFields fs))"
| "visitResources _ = Some []"
| "visitResourcesList [] = Some []"
| "visitResourcesList (x # xs) = joinRefs (visitResources x) (visitResourcesList xs)"
| "visitResourcesFields [] = Some []"
| "visitResourcesFields ((k, x) # fs) = joinRefs (visitResources x) (visitResourcesFields fs)"

definition addRef :: "resource_ref list \<Rightarrow> resource_ref \<Rightarrow> resource_ref list" where
  "addRef refs r = (if list_ex (\<lambda>q. refKey q = refKey r) refs then refs else refs @ [r])"

definition payloadResources :: "jsval \<Rightarrow> resource_ref list option" where
  "payloadResources value = map_option (foldl addRef []) (visitResources value)"

lemma joinRefs_Some: "joinRefs a b = Some c \<longleftrightarrow> (\<exists>x y. a = Some x \<and> b = Some y \<and> c = x @ y)"
  by (cases a; cases b) auto

lemma visitResourcesList_mem:
  "visitResourcesList xs = Some rs \<Longrightarrow> x \<in> set xs \<Longrightarrow>
     \<exists>a. visitResources x = Some a \<and> set a \<subseteq> set rs"
  by (induction xs arbitrary: rs) (fastforce simp: joinRefs_Some)+

lemma visitResourcesFields_mem:
  "visitResourcesFields fs = Some rs \<Longrightarrow> (k, x) \<in> set fs \<Longrightarrow>
     \<exists>a. visitResources x = Some a \<and> set a \<subseteq> set rs"
  by (induction fs arbitrary: rs) (fastforce simp: joinRefs_Some)+

lemma visitResources_ObjE:
  assumes "visitResources (Obj fs) = Some rs"
  obtains x y z where "ownResource fs = Some x" "fieldResources fs fieldKinds = Some y"
    "visitResourcesFields fs = Some z" "rs = x @ y @ z"
  using assms by (auto simp: joinRefs_Some)

lemma visitResources_sub:
  assumes "subval u v" "visitResources v = Some rs"
  shows "\<exists>a. visitResources u = Some a \<and> set a \<subseteq> set rs"
  using assms
proof (induction arbitrary: rs rule: subval.induct)
  case (subval_arr u x xs)
  from subval_arr.prems have "visitResourcesList xs = Some rs" by simp
  from visitResourcesList_mem [OF this subval_arr.hyps(2)] subval_arr.IH show ?case by blast
next
  case (subval_obj u x k fs)
  from subval_obj.prems obtain x' y r where r: "visitResourcesFields fs = Some r" "rs = x' @ y @ r"
    by (rule visitResources_ObjE)
  then have "set r \<subseteq> set rs" by auto
  with visitResourcesFields_mem [OF r(1) subval_obj.hyps(2)] subval_obj.IH show ?case by blast
qed blast

lemma fieldResources_complete:
  "fieldResources object kinds = Some rs \<Longrightarrow> (name, kind) \<in> set kinds \<Longrightarrow>
     field object name \<notin> {Undefined, Null} \<Longrightarrow>
     \<exists>i. field object name = Str i \<and> \<not> blank i \<and> \<lparr>rr_kind = kind, rr_id = i\<rparr> \<in> set rs"
proof (induction kinds arbitrary: rs)
  case (Cons e kinds)
  obtain name' kind' where e: "e = (name', kind')" by (cases e)
  show ?case
  proof (cases "field object name' \<in> {Undefined, Null}")
    case True
    with Cons e show ?thesis by auto
  next
    case False
    with Cons.prems(1) e obtain i z where i: "field object name' = Str i" "\<not> blank i"
      "fieldResources object kinds = Some z" "rs = \<lparr>rr_kind = kind', rr_id = i\<rparr> # z"
      by (auto split: jsval.splits if_splits)
    with Cons e show ?thesis by (cases "e = (name, kind)") fastforce+
  qed
qed simp

lemma foldl_addRef_keys:
  "refKey ` set (foldl addRef refs rs) = refKey ` (set refs \<union> set rs)"
proof (induction rs arbitrary: refs)
  case (Cons r rs)
  have "refKey ` set (addRef refs r) = insert (refKey r) (refKey ` set refs)"
    by (auto simp: addRef_def list_ex_iff image_iff) metis
  then show ?case using Cons [of "addRef refs r"] by (simp add: image_Un)
qed simp

lemma foldl_addRef_subset: "set (foldl addRef refs rs) \<subseteq> set refs \<union> set rs"
proof (induction rs arbitrary: refs)
  case (Cons r rs)
  have "set (addRef refs r) \<subseteq> insert r (set refs)" by (auto simp: addRef_def)
  then show ?case using Cons [of "addRef refs r"] by auto
qed simp

text \<open>Completeness: an identifier field at any depth is represented by its key.\<close>

lemma payloadResources_complete:
  assumes "payloadResources v = Some rs" "subval (Obj fs) v" "(name, kind) \<in> set fieldKinds"
    and "field fs name \<notin> {Undefined, Null}"
  shows "\<exists>i. field fs name = Str i \<and> \<not> blank i \<and> resourceKey kind i \<in> refKey ` set rs"
proof -
  from assms(1) obtain all where all: "visitResources v = Some all" "rs = foldl addRef [] all"
    by (auto simp: payloadResources_def)
  from visitResources_sub [OF assms(2) all(1)]
  obtain a where a: "visitResources (Obj fs) = Some a" "set a \<subseteq> set all" by blast
  from a(1) obtain x fr z where fr: "fieldResources fs fieldKinds = Some fr" "a = x @ fr @ z"
    by (rule visitResources_ObjE)
  with a(2) have "set fr \<subseteq> set all" by auto
  with fieldResources_complete [OF fr(1) assms(3,4)]
  obtain i where i: "field fs name = Str i" "\<not> blank i" "\<lparr>rr_kind = kind, rr_id = i\<rparr> \<in> set all"
    by blast
  then have "refKey \<lparr>rr_kind = kind, rr_id = i\<rparr> \<in> refKey ` set rs"
    unfolding all(2) foldl_addRef_keys by blast
  with i(1,2) show ?thesis by simp
qed

subsection \<open>Gross outgoing totals\<close>

definition setTotal :: "string \<Rightarrow> int \<Rightarrow> (string \<times> int) list \<Rightarrow> (string \<times> int) list" where
  "setTotal c v totals =
     (if map_of totals c = None then totals @ [(c, v)]
      else map (\<lambda>(k, x). if k = c then (k, v) else (k, x)) totals)"

definition opText :: "(string \<times> jsval) list \<Rightarrow> string \<Rightarrow> string" where
  "opText object name = (case field object name of Str s \<Rightarrow> s | _ \<Rightarrow> [])"

text \<open>Currency and amount of an operation that has a readable amount.\<close>

definition opAmount :: "(string \<times> jsval) list \<Rightarrow> (string \<times> int) option" where
  "opAmount object =
     (case js_record (field object ''amount'') of
        None \<Rightarrow> None
      | Some amount \<Rightarrow>
          (case safeMinor (field amount ''minorUnits'') of
             Inl _ \<Rightarrow> None
           | Inr a \<Rightarrow> Some (opText amount ''currency'', a)))"

fun addTotals :: "(string \<times> int) list \<Rightarrow> (string \<times> jsval) list list \<Rightarrow> (string \<times> int) list option" where
  "addTotals totals [] = Some totals"
| "addTotals totals (operation # rest) =
     (if field operation ''direction'' \<noteq> Str ''outgoing'' then addTotals totals rest
      else case opAmount operation of
          None \<Rightarrow> None
        | Some (currency, amount) \<Rightarrow>
            (let total = totalOf totals currency + amount
             in if total > max_i64 then None else addTotals (setTotal currency total totals) rest))"

definition financialTotals :: "(string \<times> jsval) list list \<Rightarrow> (string \<times> int) list option" where
  "financialTotals operations = addTotals [] operations"

text \<open>The specification: the outgoing amount of one operation in one currency.\<close>

definition outgoing :: "string \<Rightarrow> (string \<times> jsval) list \<Rightarrow> int" where
  "outgoing c operation =
     (if field operation ''direction'' = Str ''outgoing'' then
        (case opAmount operation of Some (d, a) \<Rightarrow> if d = c then a else 0 | None \<Rightarrow> 0)
      else 0)"

lemma map_of_map_replace:
  "map_of (map (\<lambda>(k, x). if k = c then (k, v) else (k, x)) totals) d =
     (if d = c \<and> map_of totals c \<noteq> None then Some v else map_of totals d)"
  by (induction totals) auto

lemma totalOf_setTotal: "totalOf (setTotal c v totals) d = (if d = c then v else totalOf totals d)"
  by (auto simp: totalOf_def setTotal_def map_of_map_replace map_add_def split: option.splits)

lemma opAmount_bounds: "opAmount op = Some (c, a) \<Longrightarrow> 0 \<le> a \<and> a \<le> max_i64"
  by (auto simp: opAmount_def dest: safeMinor_bounds split: option.splits sum.splits)

lemma outgoing_nonneg: "0 \<le> outgoing c op"
  by (auto simp: outgoing_def dest: opAmount_bounds split: option.splits prod.splits)

lemma addTotals_sum:
  "addTotals totals ops = Some g \<Longrightarrow> totalOf g c = totalOf totals c + (\<Sum>op \<leftarrow> ops. outgoing c op)"
proof (induction totals ops arbitrary: g rule: addTotals.induct)
  case (2 totals op rest)
  show ?case
  proof (cases "field op ''direction'' = Str ''outgoing''")
    case False
    with 2 show ?thesis by (simp add: outgoing_def)
  next
    case True
    with "2.prems" obtain d a where a: "opAmount op = Some (d, a)"
      and b: "\<not> totalOf totals d + a > max_i64"
      and r: "addTotals (setTotal d (totalOf totals d + a) totals) rest = Some g"
      by (auto simp: Let_def split: option.splits prod.splits if_splits)
    with True "2.IH" show ?thesis by (auto simp: outgoing_def totalOf_setTotal Let_def)
  qed
qed simp

lemma addTotals_bound:
  "addTotals totals ops = Some g \<Longrightarrow> \<forall>d. totalOf totals d \<le> max_i64 \<Longrightarrow> totalOf g c \<le> max_i64"
  by (induction totals ops arbitrary: g rule: addTotals.induct)
    (auto simp: Let_def totalOf_setTotal split: option.splits prod.splits if_splits)

lemma sum_outgoing_nonneg: "0 \<le> (\<Sum>op \<leftarrow> ops. outgoing c op)"
  by (induction ops) (auto intro: add_nonneg_nonneg outgoing_nonneg)

lemma addTotals_complete:
  assumes "\<forall>op \<in> set ops. field op ''direction'' = Str ''outgoing'' \<longrightarrow> opAmount op \<noteq> None"
    and "\<forall>c. totalOf totals c + (\<Sum>op \<leftarrow> ops. outgoing c op) \<le> max_i64"
  shows "\<exists>g. addTotals totals ops = Some g"
  using assms
proof (induction totals ops rule: addTotals.induct)
  case (2 totals op rest)
  show ?case
  proof (cases "field op ''direction'' = Str ''outgoing''")
    case False
    with 2 show ?thesis by (simp add: outgoing_def)
  next
    case True
    with "2.prems"(1) obtain d a where a: "opAmount op = Some (d, a)" by auto
    have o: "outgoing c op = (if d = c then a else 0)" for c
      using True a by (simp add: outgoing_def)
    have le: "totalOf totals c + ((if d = c then a else 0) + (\<Sum>x \<leftarrow> rest. outgoing c x)) \<le> max_i64" for c
      using "2.prems"(2) by (simp add: o)
    have "totalOf totals d + a + (\<Sum>x \<leftarrow> rest. outgoing d x) \<le> max_i64"
      using le [of d] by simp
    then have b: "\<not> totalOf totals d + a > max_i64" using sum_outgoing_nonneg [of d rest] by linarith
    have "\<forall>c. totalOf (setTotal d (totalOf totals d + a) totals) c + (\<Sum>x \<leftarrow> rest. outgoing c x) \<le> max_i64"
    proof
      fix c
      show "totalOf (setTotal d (totalOf totals d + a) totals) c + (\<Sum>x \<leftarrow> rest. outgoing c x) \<le> max_i64"
        using le [of c] by (cases "c = d") (simp_all add: totalOf_setTotal)
    qed
    with "2.IH" "2.prems"(1) True a b show ?thesis by (auto simp: Let_def)
  qed
qed simp

subsection \<open>Prepared payload\<close>

record prepared_payload =
  pp_operationCount :: int
  pp_operationNames :: "string list"
  pp_accountIds :: "string list"
  pp_categoryIds :: "string list"
  pp_ruleOperationNames :: "string list"
  pp_ruleAccountIds :: "jsval list"
  pp_invalidRuleScope :: bool
  pp_gross :: "(string \<times> int) list"
  pp_subjectOperation :: "string option"

definition ruleOperation :: "string \<Rightarrow> bool" where
  "ruleOperation name \<longleftrightarrow> name = ''create_rule'' \<or> name = ''update_rule'' \<or> name = ''delete_rule''"

text \<open>
  The accounts an operation's \<open>accountScope\<close> lists: \<open>None\<close> when the scope is absent, global or empty,
  an error when reading it throws.
\<close>

definition scopeAccounts :: "jsval \<Rightarrow> jsval list option result" where
  "scopeAccounts scope =
     (case scope of
        Obj fs \<Rightarrow>
          if field fs ''kind'' = Str ''accounts'' then
            (case field fs ''accountIds'' of
               Undefined \<Rightarrow> Inl TypeError
             | Null \<Rightarrow> Inl TypeError
             | Obj gs \<Rightarrow> if field gs ''length'' = Num (NInt 0) then Inr None else Inl TypeError
             | v \<Rightarrow> andThen (js_iterate v) (\<lambda>xs. Inr (if xs = [] then None else Some xs)))
          else Inr None
      | _ \<Rightarrow> Inr None)"

fun prepareRules :: "string list \<Rightarrow> (string \<times> jsval) list list \<Rightarrow> prepared_payload \<Rightarrow> prepared_payload result" where
  "prepareRules accounts [] p = Inr p"
| "prepareRules accounts (operation # rest) p =
     (let name = opText operation ''operation'';
          p1 = p\<lparr>pp_operationNames := pp_operationNames p @ [name]\<rparr>
      in if \<not> ruleOperation name then prepareRules accounts rest p1
         else
           let p2 = p1\<lparr>pp_ruleOperationNames := pp_ruleOperationNames p1 @ [name]\<rparr>
           in andThen (scopeAccounts (field operation ''accountScope'')) (\<lambda>scope.
                case scope of
                  None \<Rightarrow> prepareRules accounts rest (p2\<lparr>pp_invalidRuleScope := True\<rparr>)
                | Some ids \<Rightarrow>
                    prepareRules accounts rest
                      (p2\<lparr>pp_ruleAccountIds := pp_ruleAccountIds p2 @ ids,
                          pp_invalidRuleScope := pp_invalidRuleScope p2 \<or>
                            \<not> list_all (\<lambda>v. v \<in> set (map Str accounts)) ids\<rparr>)))"

definition prepareAuthorizationPayload ::
  "string \<Rightarrow> (string \<times> jsval) list list \<Rightarrow> resource_ref list \<Rightarrow> (string \<times> int) list \<Rightarrow> prepared_payload result" where
  "prepareAuthorizationPayload operation operations resources gross =
     (let accounts = map rr_id (filter (\<lambda>r. rr_kind r = ''account'') resources);
          categories = map rr_id (filter (\<lambda>r. rr_kind r = ''category'') resources)
      in prepareRules accounts operations
           \<lparr>pp_operationCount = int (length operations), pp_operationNames = [operation],
            pp_accountIds = accounts, pp_categoryIds = categories, pp_ruleOperationNames = [],
            pp_ruleAccountIds = [], pp_invalidRuleScope = False, pp_gross = gross,
            pp_subjectOperation = None\<rparr>)"

lemma prepareRules_frame:
  "prepareRules accounts ops p = Inr q \<Longrightarrow>
     pp_operationCount q = pp_operationCount p \<and> pp_accountIds q = pp_accountIds p \<and>
     pp_categoryIds q = pp_categoryIds p \<and> pp_gross q = pp_gross p \<and>
     pp_subjectOperation q = pp_subjectOperation p \<and>
     pp_operationNames q = pp_operationNames p @ map (\<lambda>op. opText op ''operation'') ops"
  by (induction accounts ops p rule: prepareRules.induct)
    (auto simp: Let_def read_simps split: if_splits option.splits)

lemma prepareAuthorizationPayload_fields:
  assumes "prepareAuthorizationPayload operation ops resources gross = Inr q"
  shows "pp_operationCount q = int (length ops)"
    and "pp_operationNames q = operation # map (\<lambda>op. opText op ''operation'') ops"
    and "pp_accountIds q = map rr_id (filter (\<lambda>r. rr_kind r = ''account'') resources)"
    and "pp_categoryIds q = map rr_id (filter (\<lambda>r. rr_kind r = ''category'') resources)"
    and "pp_gross q = gross" and "pp_subjectOperation q = None"
  using prepareRules_frame [OF assms [unfolded prepareAuthorizationPayload_def Let_def]] by simp_all

end
