(* ===== verification/Governance_Store.thy ===== *)
theory Governance_Store
  imports Auth_Payload
begin

text \<open>
  The governance tables of the workflow store and the reads every governed operation starts from
  (class \<open>SpaceGovernance\<close> of \<^verbatim>\<open>governance.ts\<close>): identities, spaces, membership periods, versioned
  policies, resource grants, agents, delegations, credential bindings, invitations and the audit
  trail. \<open>gov_db\<close> is the database state; \<open>db_uuid\<close> and \<open>db_next\<close> stand for \<^verbatim>\<open>crypto.randomUUID\<close>: the
  identifiers it will return and how many it has returned.
\<close>

subsection \<open>Rows\<close>

datatype identity_status = Active | Inactive

record actor_row =
  ac_id :: string
  ac_status :: identity_status
  ac_capabilities :: "string list"
  ac_scope :: string

datatype space_kind = Personal | Shared

record space_row =
  sp_id :: string
  sp_name :: string
  sp_kind :: space_kind
  sp_budgetId :: "string option"
  sp_createdBy :: string
  sp_createdAt :: string
  sp_deletedAt :: "string option"

datatype membership_origin = Created | Managed | Migration

record membership =
  mb_id :: string
  mb_spaceId :: string
  mb_actorId :: string
  mb_grantedBy :: string
  mb_validFrom :: string
  mb_validUntil :: "string option"
  mb_revokedAt :: "string option"
  mb_createdAt :: string
  mb_origin :: membership_origin

record policy_row =
  po_spaceId :: string
  po_version :: string
  po_policy :: governance_policy
  po_actorId :: string
  po_createdAt :: string
  po_isCurrent :: bool

record grant_row =
  gr_id :: string
  gr_spaceId :: "string option"
  gr_membershipId :: "string option"
  gr_actorId :: string
  gr_budgetId :: "string option"
  gr_capability :: string
  gr_resourceKind :: string
  gr_resourceId :: string
  gr_granted :: bool
  gr_restrictions :: restrictions
  gr_createdAt :: string
  gr_updatedAt :: string
  gr_revokedAt :: "string option"

datatype agent_status = AgentActive | AgentDisconnected | AgentRevoked

record agent_row =
  ag_id :: string
  ag_registeredSpaceId :: string
  ag_status :: agent_status
  ag_createdBy :: string
  ag_createdAt :: string
  ag_disconnectedAt :: "string option"
  ag_revokedAt :: "string option"

record delegated_right =
  dr_capability :: string
  dr_resourceKind :: string
  dr_resourceId :: string
  dr_restrictions :: restrictions

record delegation_row =
  dl_id :: string
  dl_version :: string
  dl_spaceId :: string
  dl_agentId :: string
  dl_issuerActorId :: string
  dl_issuerMembershipId :: string
  dl_rights :: "delegated_right list"
  dl_validFrom :: string
  dl_validUntil :: "string option"
  dl_revokedAt :: "string option"
  dl_createdAt :: string

datatype principal_type = HumanPrincipal | AgentPrincipal

record credential_row =
  cb_id :: string
  cb_spaceId :: string
  cb_credentialId :: string
  cb_credentialOwnerId :: string
  cb_principalType :: principal_type
  cb_principalId :: string
  cb_delegationId :: "string option"
  cb_delegationVersion :: "string option"
  cb_issuerMembershipId :: string
  cb_createdAt :: string
  cb_revokedAt :: "string option"

record audit_row =
  au_id :: string
  au_spaceId :: string
  au_actorId :: string
  au_classification :: string
  au_subjectId :: "string option"
  au_timestamp :: string
  au_details :: jsval

datatype invitation_status = InvActive | InvClaimed | InvRedeemed | InvRevoked | InvExpired

record invitation_row =
  iv_id :: string
  iv_status :: invitation_status
  iv_createdByUserId :: string
  iv_expiresAt :: string
  iv_claimedEmail :: "string option"
  iv_claimId :: "string option"
  iv_spaceId :: "string option"
  iv_issuerMembershipId :: "string option"
  iv_policyVersion :: "string option"
  iv_tokenDigest :: string
  iv_redeemedUserId :: "string option"
  iv_createdAt :: string
  iv_claimedAt :: "string option"
  iv_redeemedAt :: "string option"

record legacy_policy_row =
  lp_budgetId :: string
  lp_version :: string
  lp_approvalPolicy :: jsval
  lp_actorId :: string
  lp_createdAt :: string

record gov_db =
  db_actors :: "actor_row list"
  db_connectionOwner :: "string option"
  db_spaces :: "space_row list"
  db_memberships :: "membership list"
  db_policies :: "policy_row list"
  db_grants :: "grant_row list"
  db_agents :: "agent_row list"
  db_delegations :: "delegation_row list"
  db_credentials :: "credential_row list"
  db_audit :: "audit_row list"
  db_invitations :: "invitation_row list"
  db_legacyCurrent :: "(string \<times> string) list"
  db_legacyPolicies :: "legacy_policy_row list"
  db_uuid :: "nat \<Rightarrow> string"
  db_next :: nat

definition empty_db :: "(nat \<Rightarrow> string) \<Rightarrow> gov_db" where
  "empty_db u = \<lparr>db_actors = [], db_connectionOwner = None, db_spaces = [], db_memberships = [],
     db_policies = [], db_grants = [], db_agents = [], db_delegations = [], db_credentials = [],
     db_audit = [], db_invitations = [], db_legacyCurrent = [], db_legacyPolicies = [],
     db_uuid = u, db_next = 0\<rparr>"

text \<open>\<^verbatim>\<open>db.transaction(...).immediate()\<close> and \<^verbatim>\<open>randomUUID()\<close>.\<close>

definition rollback :: "gov_db \<Rightarrow> gov_db \<Rightarrow> gov_db" where
  "rollback s t = s\<lparr>db_next := db_next t\<rparr>"

abbreviation immediate :: "(gov_db, 'a) op \<Rightarrow> (gov_db, 'a) op" where
  "immediate \<equiv> transaction rollback"

definition randomUUID :: "(gov_db, string) op" where
  "randomUUID s = (Inr (db_uuid s (db_next s)), s\<lparr>db_next := Suc (db_next s)\<rparr>)"

lemma randomUUID_Inr [store_simps]:
  "randomUUID s = (Inr x, t) \<longleftrightarrow> x = db_uuid s (db_next s) \<and> t = s\<lparr>db_next := Suc (db_next s)\<rparr>"
  by (auto simp: randomUUID_def)

lemma rollback_simps [simp]:
  "db_actors (rollback s t) = db_actors s" "db_connectionOwner (rollback s t) = db_connectionOwner s"
  "db_spaces (rollback s t) = db_spaces s" "db_memberships (rollback s t) = db_memberships s"
  "db_policies (rollback s t) = db_policies s" "db_grants (rollback s t) = db_grants s"
  "db_agents (rollback s t) = db_agents s" "db_delegations (rollback s t) = db_delegations s"
  "db_credentials (rollback s t) = db_credentials s" "db_audit (rollback s t) = db_audit s"
  "db_invitations (rollback s t) = db_invitations s" "db_legacyCurrent (rollback s t) = db_legacyCurrent s"
  "db_legacyPolicies (rollback s t) = db_legacyPolicies s" "db_uuid (rollback s t) = db_uuid s"
  by (simp_all add: rollback_def)

subsection \<open>Authentication\<close>

record credential_lifetime =
  cl_expiresAt :: "string option"
  cl_isCredentialValid :: "(string \<Rightarrow> bool) option"

record human_control =
  hc_method :: string
  hc_actorId :: string
  hc_sessionId :: string
  hc_reauthenticatedAt :: string
  hc_lifetime :: credential_lifetime

definition credentialLifetimeValid :: "credential_lifetime \<Rightarrow> string \<Rightarrow> bool" where
  "credentialLifetimeValid auth now =
     (case isoTime now of
        Inl _ \<Rightarrow> False
      | Inr current \<Rightarrow>
          (case cl_expiresAt auth of
             None \<Rightarrow> True
           | Some e \<Rightarrow> (case isoTime e of Inl _ \<Rightarrow> False | Inr t \<Rightarrow> \<not> t \<le> current)) \<and>
          (case cl_isCredentialValid auth of None \<Rightarrow> True | Some f \<Rightarrow> f now))"

definition reauth_window_ms :: int where
  "reauth_window_ms = 300000"

definition activeIdentity :: "gov_db \<Rightarrow> string \<Rightarrow> bool" where
  "activeIdentity db actorId =
     (case find (\<lambda>r. ac_id r = actorId) (db_actors db) of
        None \<Rightarrow> False
      | Some r \<Rightarrow> ac_status r = Active)"

definition controlAuth :: "gov_db \<Rightarrow> human_control \<Rightarrow> string \<Rightarrow> string \<Rightarrow> unit result" where
  "controlAuth db auth actorId now =
     andThen (isoTime now) (\<lambda>current.
     andThen (isoTime (hc_reauthenticatedAt auth)) (\<lambda>reauth.
       require (\<not> (hc_method auth \<noteq> ''human-session'' \<or> hc_actorId auth \<noteq> actorId \<or>
           blank (hc_sessionId auth) \<or> reauth > current \<or> current - reauth > reauth_window_ms \<or>
           \<not> activeIdentity db actorId \<or> \<not> credentialLifetimeValid (hc_lifetime auth) now))
         ''Recent reauthenticated human session required''))"

subsection \<open>Spaces and membership periods\<close>

definition liveSpace :: "gov_db \<Rightarrow> string \<Rightarrow> space_row option" where
  "liveSpace db spaceId = find (\<lambda>r. sp_id r = spaceId \<and> sp_deletedAt r = None) (db_spaces db)"

definition membershipById :: "gov_db \<Rightarrow> string \<Rightarrow> membership option" where
  "membershipById db membershipId = find (\<lambda>r. mb_id r = membershipId) (db_memberships db)"

definition openPeriods :: "gov_db \<Rightarrow> string \<Rightarrow> string \<Rightarrow> membership list" where
  "openPeriods db spaceId actorId =
     filter (\<lambda>r. mb_spaceId r = spaceId \<and> mb_actorId r = actorId \<and> mb_revokedAt r = None)
       (db_memberships db)"

definition currentMembership :: "gov_db \<Rightarrow> string \<Rightarrow> string \<Rightarrow> string \<Rightarrow> membership option result" where
  "currentMembership db spaceId actorId now =
     (if \<not> activeIdentity db actorId \<or> liveSpace db spaceId = None then Inr None
      else andThen (filterR (\<lambda>r. isCurrentAt (mb_validFrom r) (mb_validUntil r) now)
             (openPeriods db spaceId actorId)) (\<lambda>active.
           Inr (case active of [m] \<Rightarrow> Some m | _ \<Rightarrow> None)))"

definition getCurrentMembership :: "gov_db \<Rightarrow> string \<Rightarrow> string \<Rightarrow> string \<Rightarrow> membership option result" where
  "getCurrentMembership db spaceId actorId now =
     andThen (isoTime now) (\<lambda>_. currentMembership db spaceId actorId now)"

subsection \<open>Grants\<close>

text \<open>\<open>CURRENT_GRANT_SQL\<close>.\<close>

definition currentGrantRow :: "gov_db \<Rightarrow> string \<Rightarrow> string \<Rightarrow> string \<Rightarrow> string \<Rightarrow> string \<Rightarrow> string \<Rightarrow> grant_row option" where
  "currentGrantRow db actorId spaceId membershipId capability kind rid =
     find (\<lambda>g. gr_actorId g = actorId \<and> gr_spaceId g = Some spaceId \<and>
         gr_membershipId g = Some membershipId \<and> gr_capability g = capability \<and>
         gr_resourceKind g = kind \<and> gr_resourceId g = rid \<and> gr_granted g \<and> gr_revokedAt g = None)
       (db_grants db)"

definition currentGrant ::
  "gov_db \<Rightarrow> string \<Rightarrow> string \<Rightarrow> string \<Rightarrow> string option \<Rightarrow> string \<Rightarrow> string \<Rightarrow> string \<Rightarrow> grant_row option" where
  "currentGrant db actorId spaceId membershipId budgetId capability kind rid =
     (case currentGrantRow db actorId spaceId membershipId capability kind rid of
        None \<Rightarrow> None
      | Some row \<Rightarrow>
          if kind \<noteq> ''space'' \<and> budgetId \<noteq> None \<and> gr_budgetId row \<noteq> budgetId then None else Some row)"

definition manager :: "gov_db \<Rightarrow> membership \<Rightarrow> string \<Rightarrow> string \<Rightarrow> bool result" where
  "manager db m capability operation =
     (case currentGrantRow db (mb_actorId m) (mb_spaceId m) (mb_id m) capability ''space'' (mb_spaceId m) of
        None \<Rightarrow> Inr False
      | Some row \<Rightarrow>
          andThen (parseRestrictions (restrictions_json (gr_restrictions row))) (\<lambda>r.
            Inr ((case rs_operations r of None \<Rightarrow> True | Some ops \<Rightarrow> operation \<in> set ops) \<and>
                 rs_maxOperationCount r \<noteq> Some 0 \<and> rs_aggregateOnly r \<noteq> Some True \<and>
                 rs_proposalOnly r \<noteq> Some True)))"

definition requireManager :: "gov_db \<Rightarrow> string \<Rightarrow> string \<Rightarrow> string \<Rightarrow> string \<Rightarrow> string \<Rightarrow> membership result" where
  "requireManager db spaceId actorId capability now operation =
     andThen (currentMembership db spaceId actorId now) (\<lambda>mo.
       case mo of
         None \<Rightarrow> Inl (Error ''Space control authorization denied'')
       | Some m \<Rightarrow>
           andThen (manager db m capability operation) (\<lambda>ok.
             if ok then Inr m else Inl (Error ''Space control authorization denied'')))"

subsection \<open>Policies, agents, delegations, credentials\<close>

record versioned_policy =
  vp_policy :: governance_policy
  vp_assistanceMaximum :: assistance
  vp_spaceId :: string
  vp_version :: string
  vp_actorId :: string
  vp_createdAt :: string

definition versionedPolicy :: "policy_row \<Rightarrow> versioned_policy result" where
  "versionedPolicy row =
     andThen (parsePolicy (policy_json (po_policy row))) (\<lambda>policy.
       Inr \<lparr>vp_policy = policy,
         vp_assistanceMaximum = (case gp_assistanceMaximum policy of None \<Rightarrow> Analysis_only | Some a \<Rightarrow> a),
         vp_spaceId = po_spaceId row, vp_version = po_version row, vp_actorId = po_actorId row,
         vp_createdAt = po_createdAt row\<rparr>)"

definition getPolicy :: "gov_db \<Rightarrow> string \<Rightarrow> versioned_policy option result" where
  "getPolicy db spaceId =
     (case find (\<lambda>r. po_spaceId r = spaceId \<and> po_isCurrent r) (db_policies db) of
        None \<Rightarrow> Inr None
      | Some row \<Rightarrow> andThen (versionedPolicy row) (\<lambda>p. Inr (Some p)))"

definition getAgent :: "gov_db \<Rightarrow> string \<Rightarrow> agent_row option" where
  "getAgent db agentId = find (\<lambda>r. ag_id r = agentId) (db_agents db)"

definition getCredentialBinding :: "gov_db \<Rightarrow> string \<Rightarrow> credential_row option" where
  "getCredentialBinding db credentialId = find (\<lambda>r. cb_credentialId r = credentialId) (db_credentials db)"

definition currentDelegation :: "gov_db \<Rightarrow> string \<Rightarrow> string \<Rightarrow> string \<Rightarrow> delegation_row option result" where
  "currentDelegation db did version now =
     (case find (\<lambda>r. dl_id r = did \<and> dl_version r = version \<and> dl_revokedAt r = None) (db_delegations db) of
        None \<Rightarrow> Inr None
      | Some d \<Rightarrow>
          andThen (isCurrentAt (dl_validFrom d) (dl_validUntil d) now) (\<lambda>live.
            if \<not> live then Inr None
            else if (case getAgent db (dl_agentId d) of None \<Rightarrow> True | Some a \<Rightarrow> ag_status a \<noteq> AgentActive)
            then Inr None
            else andThen (currentMembership db (dl_spaceId d) (dl_issuerActorId d) now) (\<lambda>mo.
              Inr (if map_option mb_id mo \<noteq> Some (dl_issuerMembershipId d) then None else Some d))))"

datatype credential_principal =
    HumanKey string string string
  | AgentKey string string string string string

text \<open>
  \<open>HumanKey actor credential owner\<close>, and \<open>AgentKey actor credential owner delegation version\<close>.
\<close>

definition resolveCredentialPrincipal ::
  "gov_db \<Rightarrow> string \<Rightarrow> string \<Rightarrow> string option \<Rightarrow> string \<Rightarrow> credential_principal option result" where
  "resolveCredentialPrincipal db credentialId referenceId spaceId now =
     andThen (isoTime now) (\<lambda>_.
       case getCredentialBinding db credentialId of
         None \<Rightarrow>
           if \<not> activeIdentity db referenceId then Inr None
           else (case spaceId of
               None \<Rightarrow> Inr (Some (HumanKey referenceId credentialId referenceId))
             | Some sid \<Rightarrow>
                 andThen (currentMembership db sid referenceId now) (\<lambda>mo.
                   Inr (if mo = None then None else Some (HumanKey referenceId credentialId referenceId))))
       | Some b \<Rightarrow>
           if cb_revokedAt b \<noteq> None \<or> cb_credentialOwnerId b \<noteq> referenceId \<or>
              (case spaceId of None \<Rightarrow> False | Some sid \<Rightarrow> cb_spaceId b \<noteq> sid) \<or>
              \<not> activeIdentity db (cb_credentialOwnerId b) \<or>
              (case membershipById db (cb_issuerMembershipId b) of
                 None \<Rightarrow> True
               | Some im \<Rightarrow> mb_spaceId im \<noteq> cb_spaceId b \<or> mb_actorId im \<noteq> cb_credentialOwnerId b)
           then Inr None
           else andThen (currentMembership db (cb_spaceId b) (cb_credentialOwnerId b) now) (\<lambda>mo.
             if map_option mb_id mo \<noteq> Some (cb_issuerMembershipId b) then Inr None
             else (case cb_principalType b of
                 HumanPrincipal \<Rightarrow>
                   Inr (if cb_principalId b \<noteq> referenceId then None
                     else Some (HumanKey (cb_principalId b) (cb_credentialId b) (cb_credentialOwnerId b)))
               | AgentPrincipal \<Rightarrow>
                   (case (cb_delegationId b, cb_delegationVersion b) of
                      (Some did, Some dv) \<Rightarrow>
                        andThen (if did = [] \<or> dv = [] then Inr None
                            else currentDelegation db did dv now) (\<lambda>del.
                          Inr (case del of
                              None \<Rightarrow> None
                            | Some d \<Rightarrow>
                                if dl_spaceId d \<noteq> cb_spaceId b \<or> dl_agentId d \<noteq> cb_principalId b \<or>
                                   dl_issuerActorId d \<noteq> cb_credentialOwnerId b \<or>
                                   dl_issuerMembershipId d \<noteq> cb_issuerMembershipId b
                                then None
                                else Some (AgentKey (cb_principalId b) (cb_credentialId b)
                                  (cb_credentialOwnerId b) (dl_id d) (dl_version d))))
                    | _ \<Rightarrow> Inr None))))"

subsection \<open>Listings\<close>

text \<open>\<open>ORDER BY a, b\<close> over two text columns.\<close>

definition byTexts :: "('r \<Rightarrow> string) \<Rightarrow> ('r \<Rightarrow> string) \<Rightarrow> 'r \<Rightarrow> 'r \<Rightarrow> bool" where
  "byTexts a b x y \<longleftrightarrow> textLess (a x) (a y) \<or> a x = a y \<and> textLess (b x) (b y)"

definition listMembershipHistory :: "gov_db \<Rightarrow> string \<Rightarrow> string option \<Rightarrow> membership list" where
  "listMembershipHistory db spaceId actorId =
     sortBy (byTexts mb_validFrom mb_id)
       (filter (\<lambda>m. mb_spaceId m = spaceId \<and> (case actorId of None \<Rightarrow> True | Some a \<Rightarrow> mb_actorId m = a))
         (db_memberships db))"

definition getSpaceForBudget :: "gov_db \<Rightarrow> string \<Rightarrow> space_row option" where
  "getSpaceForBudget db budgetId =
     find (\<lambda>r. sp_budgetId r = Some budgetId \<and> sp_deletedAt r = None) (db_spaces db)"

text \<open>The spaces of an actor: exactly one current period in each.\<close>

definition listSpacesForActor :: "gov_db \<Rightarrow> string \<Rightarrow> string \<Rightarrow> space_row list result" where
  "listSpacesForActor db actorId now =
     andThen (isoTime now) (\<lambda>_.
       if \<not> activeIdentity db actorId then Inr []
       else andThen (filterR (\<lambda>(s, m). isCurrentAt (mb_validFrom m) (mb_validUntil m) now)
              [(s, m). s \<leftarrow> filter (\<lambda>s. sp_deletedAt s = None) (db_spaces db),
                 m \<leftarrow> openPeriods db (sp_id s) actorId]) (\<lambda>current.
            Inr (filter (\<lambda>s. length (filter (\<lambda>(s', m). sp_id s' = sp_id s) current) = 1)
              (sortBy (byTexts sp_createdAt sp_id)
                (filter (\<lambda>s. sp_deletedAt s = None) (db_spaces db))))))"

end
