(* ===== verification/Governance_Ops.thy ===== *)
theory Governance_Ops
  imports Governance_Store
begin

text \<open>
  The operations of \<open>SpaceGovernance\<close> (\<^verbatim>\<open>governance.ts\<close>) that change the governance tables: grants,
  spaces and budget bindings, membership periods, policies, agents, delegations and credential
  bindings. Each definition is the whole method: its checks in the source's order, its statements,
  its audit record, inside \<open>immediate\<close> where the source opens a transaction.
\<close>

subsection \<open>Inserts\<close>

text \<open>
  Each insert checks the table's uniqueness constraints: primary keys, one budget per space, one
  current policy per space, one current grant per membership, capability and resource, one open
  version per delegation, one binding per credential; the check that a period ends after it
  starts, on the stored text; and, for a membership, that its space exists. The other references
  between tables are to rows the operation has just read.
\<close>

definition spaceClash :: "space_row \<Rightarrow> space_row \<Rightarrow> bool" where
  "spaceClash r q \<longleftrightarrow> sp_id r = sp_id q \<or> (sp_budgetId r \<noteq> None \<and> sp_budgetId r = sp_budgetId q)"

definition policyClash :: "policy_row \<Rightarrow> policy_row \<Rightarrow> bool" where
  "policyClash r q \<longleftrightarrow> po_spaceId r = po_spaceId q \<and>
     (po_version r = po_version q \<or> po_isCurrent r \<and> po_isCurrent q)"

definition grantClash :: "grant_row \<Rightarrow> grant_row \<Rightarrow> bool" where
  "grantClash r q \<longleftrightarrow> gr_id r = gr_id q \<or>
     gr_membershipId r \<noteq> None \<and> gr_revokedAt r = None \<and> gr_revokedAt q = None \<and>
     gr_membershipId r = gr_membershipId q \<and> gr_capability r = gr_capability q \<and>
     gr_resourceKind r = gr_resourceKind q \<and> gr_resourceId r = gr_resourceId q"

definition delegationClash :: "delegation_row \<Rightarrow> delegation_row \<Rightarrow> bool" where
  "delegationClash r q \<longleftrightarrow> dl_id r = dl_id q \<and>
     (dl_version r = dl_version q \<or> dl_revokedAt r = None \<and> dl_revokedAt q = None)"

definition credentialClash :: "credential_row \<Rightarrow> credential_row \<Rightarrow> bool" where
  "credentialClash r q \<longleftrightarrow> cb_id r = cb_id q \<or> cb_credentialId r = cb_credentialId q"

definition periodCheck :: "string \<Rightarrow> string option \<Rightarrow> string \<Rightarrow> unit result" where
  "periodCheck from until table =
     (case until of
        None \<Rightarrow> Inr ()
      | Some u \<Rightarrow> if textLess from u then Inr () else Inl (SqliteConstraint table))"

definition insertInto ::
  "(gov_db \<Rightarrow> 'r list) \<Rightarrow> (('r list \<Rightarrow> 'r list) \<Rightarrow> gov_db \<Rightarrow> gov_db) \<Rightarrow> ('r \<Rightarrow> 'r \<Rightarrow> bool) \<Rightarrow> string \<Rightarrow> 'r \<Rightarrow>
     (gov_db, unit) op" where
  "insertInto rows upd clash table r =
     bindOp (reads (\<lambda>db. insertRow clash table r (rows db))) (\<lambda>new. writes (upd (\<lambda>_. new)))"

lemma insertInto_Inr [store_simps]:
  "insertInto rows upd clash table r s = (Inr u, t) \<longleftrightarrow>
     (\<forall>x \<in> set (rows s). \<not> clash r x) \<and> t = upd (\<lambda>_. rows s @ [r]) s"
  by (auto simp: insertInto_def store_simps read_simps)

definition audit :: "string \<Rightarrow> string \<Rightarrow> string \<Rightarrow> string option \<Rightarrow> string \<Rightarrow> jsval \<Rightarrow> (gov_db, unit) op" where
  "audit spaceId actorId classification subjectId now details =
     bindOp randomUUID (\<lambda>aid.
       insertInto db_audit db_audit_update (\<lambda>r q. au_id r = au_id q) ''space_governance_audit''
         \<lparr>au_id = aid, au_spaceId = spaceId, au_actorId = actorId, au_classification = classification,
          au_subjectId = subjectId, au_timestamp = now, au_details = details\<rparr>)"

definition insertGrant ::
  "string \<Rightarrow> membership \<Rightarrow> string option \<Rightarrow> string \<Rightarrow> string \<Rightarrow> string \<Rightarrow> restrictions \<Rightarrow> string \<Rightarrow>
     (gov_db, grant_row) op" where
  "insertGrant spaceId member budgetId capability kind rid r now =
     bindOp randomUUID (\<lambda>gid.
       let row = \<lparr>gr_id = gid, gr_spaceId = Some spaceId, gr_membershipId = Some (mb_id member),
             gr_actorId = mb_actorId member, gr_budgetId = budgetId, gr_capability = capability,
             gr_resourceKind = kind, gr_resourceId = rid, gr_granted = True, gr_restrictions = r,
             gr_createdAt = now, gr_updatedAt = now, gr_revokedAt = None\<rparr>
       in bindOp (insertInto db_grants db_grants_update grantClash ''resource_grants'' row)
            (\<lambda>_. returns row))"

definition createMembership ::
  "string \<Rightarrow> string \<Rightarrow> string \<Rightarrow> int \<Rightarrow> int option \<Rightarrow> string \<Rightarrow> membership_origin \<Rightarrow> (gov_db, membership) op" where
  "createMembership spaceId actorId grantedBy validFrom validUntil now origin =
     bindOp randomUUID (\<lambda>mid.
       let row = \<lparr>mb_id = mid, mb_spaceId = spaceId, mb_actorId = actorId, mb_grantedBy = grantedBy,
             mb_validFrom = toISOString validFrom, mb_validUntil = map_option toISOString validUntil,
             mb_revokedAt = None, mb_createdAt = now, mb_origin = origin\<rparr>
       in bindOp (reads (\<lambda>_. periodCheck (mb_validFrom row) (mb_validUntil row) ''space_memberships'')) (\<lambda>_.
          bindOp (reads (\<lambda>db. if list_ex (\<lambda>sp. sp_id sp = spaceId) (db_spaces db) then Inr ()
              else Inl (SqliteConstraint ''space_memberships''))) (\<lambda>_.
          bindOp (insertInto db_memberships db_memberships_update (\<lambda>r q. mb_id r = mb_id q)
              ''space_memberships'' row)
            (\<lambda>_. returns row))))"

definition insertPolicy :: "policy_row \<Rightarrow> (gov_db, unit) op" where
  "insertPolicy = insertInto db_policies db_policies_update policyClash ''governance_policies''"

subsection \<open>Grants\<close>

record grant_input =
  gi_spaceId :: string
  gi_actorId :: string
  gi_budgetId :: "string option"
  gi_membershipId :: string
  gi_capability :: string
  gi_resourceKind :: string
  gi_resourceId :: string
  gi_granted :: bool
  gi_restrictions :: jsval
  gi_now :: string

definition openGrant :: "gov_db \<Rightarrow> grant_input \<Rightarrow> membership \<Rightarrow> grant_row option" where
  "openGrant db i member =
     find (\<lambda>g. gr_spaceId g = Some (gi_spaceId i) \<and> gr_membershipId g = Some (mb_id member) \<and>
         gr_capability g = gi_capability i \<and> gr_resourceKind g = gi_resourceKind i \<and>
         gr_resourceId g = gi_resourceId i \<and> gr_revokedAt g = None)
       (db_grants db)"

definition updateGrants :: "string \<Rightarrow> (grant_row \<Rightarrow> grant_row) \<Rightarrow> (gov_db, unit) op" where
  "updateGrants gid f = writes (db_grants_update (updateWhere (\<lambda>g. gr_id g = gid) f))"

definition upsertCurrentGrant ::
  "grant_input \<Rightarrow> membership \<Rightarrow> string option \<Rightarrow> string \<Rightarrow> (gov_db, grant_row option) op" where
  "upsertCurrentGrant i member budgetId actorId =
     bindOp (reads (\<lambda>_. parseRestrictions (nullish (gi_restrictions i) (Obj [])))) (\<lambda>r.
     bindOp (reads (\<lambda>db. Inr (openGrant db i member))) (\<lambda>existing.
       if \<not> gi_granted i then
         (case existing of
            None \<Rightarrow> returns None
          | Some g \<Rightarrow>
              bindOp (updateGrants (gr_id g) (\<lambda>q. q\<lparr>gr_granted := False, gr_revokedAt := Some (gi_now i),
                  gr_updatedAt := gi_now i\<rparr>)) (\<lambda>_.
              bindOp (audit (gi_spaceId i) actorId ''resource_grant_revoked'' (Some (gr_id g)) (gi_now i) (Obj []))
                (\<lambda>_. returns None)))
       else
         (case existing of
            Some g \<Rightarrow>
              bindOp (updateGrants (gr_id g) (\<lambda>q. q\<lparr>gr_restrictions := r, gr_updatedAt := gi_now i\<rparr>)) (\<lambda>_.
              bindOp (reads (\<lambda>db. Inr (find (\<lambda>q. gr_id q = gr_id g) (db_grants db)))) (\<lambda>updated.
              bindOp (audit (gi_spaceId i) actorId ''resource_grant_changed'' (Some (gr_id g)) (gi_now i) (Obj []))
                (\<lambda>_. returns updated)))
          | None \<Rightarrow>
              bindOp (insertGrant (gi_spaceId i) member budgetId (gi_capability i) (gi_resourceKind i)
                  (gi_resourceId i) r (gi_now i)) (\<lambda>grant.
              bindOp (audit (gi_spaceId i) actorId ''resource_grant_created'' (Some (gr_id grant)) (gi_now i) (Obj []))
                (\<lambda>_. returns (Some grant))))))"

text \<open>The checks \<open>provisionResourceGrant\<close> and \<open>setResourceGrant\<close> share after locating the member.\<close>

definition grantTarget :: "gov_db \<Rightarrow> grant_input \<Rightarrow> (space_row \<times> membership) result" where
  "grantTarget db i =
     (case (liveSpace db (gi_spaceId i), membershipById db (gi_membershipId i)) of
        (Some sp, Some m) \<Rightarrow>
          if mb_spaceId m \<noteq> gi_spaceId i \<or> mb_actorId m \<noteq> gi_actorId i
          then Inl (Error ''Grant membership unavailable'') else Inr (sp, m)
      | _ \<Rightarrow> Inl (Error ''Grant membership unavailable''))"

definition grantBounds :: "gov_db \<Rightarrow> grant_input \<Rightarrow> space_row \<Rightarrow> membership \<Rightarrow> unit result" where
  "grantBounds db i sp m =
     andThen (if gi_granted i then
         andThen (currentMembership db (gi_spaceId i) (gi_actorId i) (gi_now i)) (\<lambda>mo.
           require (map_option mb_id mo = Some (mb_id m)) ''Grant requires the current membership period'')
       else Inr ()) (\<lambda>_.
     andThen (require (\<not> (sp_budgetId sp \<noteq> None \<and> gi_budgetId i \<noteq> None \<and> gi_budgetId i \<noteq> sp_budgetId sp))
       ''Grant budget does not match bound space'') (\<lambda>_.
     require (\<not> (gi_resourceKind i = ''budget'' \<and>
         (sp_budgetId sp = None \<or> Some (gi_resourceId i) \<noteq> sp_budgetId sp)))
       ''Budget resource must match the bound space''))"

definition provisionResourceGrant :: "grant_input \<Rightarrow> (gov_db, grant_row option) op" where
  "provisionResourceGrant i =
     bindOp (reads (\<lambda>_. isoTime (gi_now i))) (\<lambda>_.
     bindOp (reads (\<lambda>db. grantTarget db i)) (\<lambda>(sp, m).
     bindOp (reads (\<lambda>db. grantBounds db i sp m)) (\<lambda>_.
       immediate (upsertCurrentGrant i m (sp_budgetId sp) (sp_createdBy sp)))))"

definition setResourceGrant :: "human_control \<Rightarrow> grant_input \<Rightarrow> (gov_db, grant_row option) op" where
  "setResourceGrant auth i =
     bindOp (reads (\<lambda>db. controlAuth db auth (hc_actorId auth) (gi_now i))) (\<lambda>_.
     bindOp (reads (\<lambda>_. requireText (gi_capability i) ''capability'')) (\<lambda>_.
     bindOp (reads (\<lambda>_. requireText (gi_resourceId i) ''resource ID'')) (\<lambda>_.
     bindOp (reads (\<lambda>_. isoTime (gi_now i))) (\<lambda>_.
     bindOp (reads (\<lambda>db. grantTarget db i)) (\<lambda>(sp, m).
     bindOp (reads (\<lambda>db. requireManager db (gi_spaceId i) (hc_actorId auth) ''grant:manage'' (gi_now i) ''grant:set'')) (\<lambda>_.
     bindOp (reads (\<lambda>db. grantBounds db i sp m)) (\<lambda>_.
       immediate (upsertCurrentGrant i m (sp_budgetId sp) (hc_actorId auth)))))))))"

subsection \<open>Spaces\<close>

definition control_capabilities :: "string list" where
  "control_capabilities = [''space:manage'', ''identity:manage'', ''membership:manage'',
     ''connection:manage'', ''policy:manage'', ''grant:manage'', ''agent:manage'',
     ''delegation:manage'', ''credential:manage'', ''audit:read'']"

definition insertSpace :: "space_row \<Rightarrow> (gov_db, unit) op" where
  "insertSpace = insertInto db_spaces db_spaces_update spaceClash ''spaces''"

definition kindText :: "space_kind \<Rightarrow> string" where
  "kindText k = (case k of Personal \<Rightarrow> ''personal'' | Shared \<Rightarrow> ''shared'')"

definition createSpace :: "string \<Rightarrow> string \<Rightarrow> space_kind \<Rightarrow> string \<Rightarrow> human_control \<Rightarrow> (gov_db, space_row) op" where
  "createSpace actorId name kind now auth =
     bindOp (reads (\<lambda>db. controlAuth db auth actorId now)) (\<lambda>_.
     bindOp (reads (\<lambda>_. requireText name ''space name'')) (\<lambda>_.
     bindOp (reads (\<lambda>_. isoTime now)) (\<lambda>nowMillis.
       immediate (
         bindOp randomUUID (\<lambda>sid.
         let row = \<lparr>sp_id = sid, sp_name = trim name, sp_kind = kind, sp_budgetId = None,
               sp_createdBy = actorId, sp_createdAt = now, sp_deletedAt = None\<rparr>
         in bindOp (insertSpace row) (\<lambda>_.
            bindOp (createMembership sid actorId actorId nowMillis None now Created) (\<lambda>member.
            bindOp (forEach control_capabilities (\<lambda>capability.
                bindOp (insertGrant sid member None capability ''space'' sid no_restrictions now)
                  (\<lambda>_. returns ()))) (\<lambda>_.
            bindOp (reads (\<lambda>_. parsePolicy (Obj []))) (\<lambda>policy.
            bindOp (insertPolicy \<lparr>po_spaceId = sid, po_version = ''1'', po_policy = policy,
                po_actorId = actorId, po_createdAt = now, po_isCurrent = True\<rparr>) (\<lambda>_.
            bindOp (audit sid actorId ''space_created'' (Some sid) now (Obj [(''kind'', Str (kindText kind))])) (\<lambda>_.
              returns row))))))))))) "

text \<open>The registered connection owner of the bindings below.\<close>

definition requireOwner :: "gov_db \<Rightarrow> string \<Rightarrow> unit result" where
  "requireOwner db actorId =
     require (db_connectionOwner db = Some actorId) ''Registered connection owner required''"

definition numberText :: "string \<Rightarrow> int option" where
  "numberText s = (if s \<noteq> [] \<and> list_all is_digit s then Some (dec_val s) else None)"

text \<open>A legacy financial policy row as a governance policy.\<close>

definition legacyThreshold :: "jsval \<Rightarrow> jsval result" where
  "legacyThreshold v =
     (case js_record v of
        None \<Rightarrow> Inl (Error ''Invalid legacy approval threshold'')
      | Some t \<Rightarrow> Inr (Obj [(''currency'', field t ''currency''),
          (''amountMinorUnits'', field t ''minimumMinorUnits''),
          (''requiredApprovers'', field t ''minimumApprovers'')]))"

definition legacyPolicy :: "legacy_policy_row \<Rightarrow> governance_policy result" where
  "legacyPolicy row =
     (if lp_approvalPolicy row = Null \<or> lp_approvalPolicy row = Undefined then Inl TypeError
      else
        let legacy = (case lp_approvalPolicy row of Obj fs \<Rightarrow> fs | _ \<Rightarrow> []) in
        (case nullish (field legacy ''thresholds'') (Arr []) of
           Arr source \<Rightarrow>
             andThen (mapR legacyThreshold source) (\<lambda>ts.
               parsePolicy (Obj [(''minimumApprovers'', field legacy ''minimumApprovers''),
                 (''approvalThresholds'', Arr ts)]))
         | _ \<Rightarrow> Inl (Error ''Invalid legacy approval policy'')))"

definition retireCurrentPolicy :: "string \<Rightarrow> (gov_db, unit) op" where
  "retireCurrentPolicy spaceId =
     writes (db_policies_update (updateWhere (\<lambda>r. po_spaceId r = spaceId \<and> po_isCurrent r)
       (\<lambda>r. r\<lparr>po_isCurrent := False\<rparr>)))"

fun importRows :: "string \<Rightarrow> string \<Rightarrow> int \<Rightarrow> legacy_policy_row list \<Rightarrow> (gov_db, unit) op" where
  "importRows spaceId current index [] = returns ()"
| "importRows spaceId current index (row # rows) =
     bindOp (reads (\<lambda>_. legacyPolicy row)) (\<lambda>policy.
     let index' = index + 1 in
     bindOp (reads (\<lambda>_. require (isSafeInteger index') ''Governance policy version exhausted'')) (\<lambda>_.
     bindOp (if lp_version row = current then retireCurrentPolicy spaceId else returns ()) (\<lambda>_.
     bindOp (insertPolicy \<lparr>po_spaceId = spaceId, po_version = decimal (nat index'), po_policy = policy,
         po_actorId = lp_actorId row, po_createdAt = lp_createdAt row,
         po_isCurrent = (lp_version row = current)\<rparr>) (\<lambda>_.
       importRows spaceId current index' rows))))"

definition importLegacyApprovalPolicy :: "string \<Rightarrow> string \<Rightarrow> string \<Rightarrow> string \<Rightarrow> (gov_db, unit) op" where
  "importLegacyApprovalPolicy spaceId budgetId actorId now =
     (if budgetId = [] then returns ()
      else bindOp (reads (\<lambda>db. Inr (map_of (db_legacyCurrent db) budgetId))) (\<lambda>current.
       case current of
         None \<Rightarrow> returns ()
       | Some version \<Rightarrow>
           bindOp (reads (\<lambda>db. Inr (sortBy (\<lambda>x y. textLess (lp_createdAt x) (lp_createdAt y))
               (filter (\<lambda>r. lp_budgetId r = budgetId) (db_legacyPolicies db))))) (\<lambda>rows.
           bindOp (reads (\<lambda>_. require (list_ex (\<lambda>r. lp_version r = version) rows)
               ''Legacy financial policy unavailable'')) (\<lambda>_.
           bindOp (reads (\<lambda>db. getPolicy db spaceId)) (\<lambda>governance.
           bindOp (reads (\<lambda>_. case numberText (case governance of None \<Rightarrow> ''0'' | Some p \<Rightarrow> vp_version p) of
               None \<Rightarrow> Inl (Error ''Governance policy version exhausted'')
             | Some i \<Rightarrow> if isSafeInteger i then Inr i
                 else Inl (Error ''Governance policy version exhausted''))) (\<lambda>index.
           bindOp (importRows spaceId version index rows) (\<lambda>_.
             audit spaceId actorId ''legacy_approval_policy_imported'' (Some budgetId) now
               (Obj [(''versions'', Num (NInt (int (length rows))))])))))))) "

definition bindBudget :: "string \<Rightarrow> string \<Rightarrow> string \<Rightarrow> human_control \<Rightarrow> (gov_db, space_row) op" where
  "bindBudget spaceId budgetId now auth =
     (let actorId = hc_actorId auth in
     bindOp (reads (\<lambda>db. controlAuth db auth actorId now)) (\<lambda>_.
     bindOp (reads (\<lambda>_. requireText budgetId ''budget ID'')) (\<lambda>_.
     bindOp (reads (\<lambda>_. isoTime now)) (\<lambda>_.
     bindOp (reads (\<lambda>db. require (liveSpace db spaceId \<noteq> None) ''Space unavailable'')) (\<lambda>_.
     bindOp (reads (\<lambda>db. requireOwner db actorId)) (\<lambda>_.
     bindOp (reads (\<lambda>db. requireManager db spaceId actorId ''connection:manage'' now ''connection:budget.bind'')) (\<lambda>_.
       immediate (
         bindOp (reads (\<lambda>db. require (case liveSpace db spaceId of None \<Rightarrow> False | Some sp \<Rightarrow> sp_budgetId sp = None)
           ''Space budget binding cannot change'')) (\<lambda>_.
         bindOp (reads (\<lambda>db. requireOwner db actorId)) (\<lambda>_.
         bindOp (reads (\<lambda>db. requireManager db spaceId actorId ''connection:manage'' now ''connection:budget.bind'')) (\<lambda>_.
         bindOp (reads (\<lambda>db. require (\<not> list_ex (\<lambda>r. sp_budgetId r = Some budgetId) (db_spaces db))
           ''Budget is already bound to a space'')) (\<lambda>_.
         bindOp (reads (\<lambda>db. require (0 < changes (\<lambda>r. sp_id r = spaceId \<and> sp_budgetId r = None) (db_spaces db))
           ''Space budget binding cannot change'')) (\<lambda>_.
         bindOp (writes (db_spaces_update (updateWhere (\<lambda>r. sp_id r = spaceId \<and> sp_budgetId r = None)
           (\<lambda>r. r\<lparr>sp_budgetId := Some budgetId\<rparr>)))) (\<lambda>_.
         bindOp (importLegacyApprovalPolicy spaceId budgetId actorId now) (\<lambda>_.
         bindOp (audit spaceId actorId ''budget_bound'' (Some budgetId) now (Obj [])) (\<lambda>_.
           reads (\<lambda>db. case liveSpace db spaceId of None \<Rightarrow> Inl TypeError | Some sp \<Rightarrow> Inr sp)))))))))))))))))"

definition deleteSpace :: "string \<Rightarrow> human_control \<Rightarrow> string \<Rightarrow> (gov_db, unit) op" where
  "deleteSpace spaceId auth now =
     bindOp (reads (\<lambda>db. controlAuth db auth (hc_actorId auth) now)) (\<lambda>_.
     bindOp (reads (\<lambda>db. requireManager db spaceId (hc_actorId auth) ''space:manage'' now ''space:delete'')) (\<lambda>member.
       immediate (
         bindOp (writes (db_spaces_update (updateWhere (\<lambda>r. sp_id r = spaceId \<and> sp_deletedAt r = None)
           (\<lambda>r. r\<lparr>sp_deletedAt := Some now\<rparr>)))) (\<lambda>_.
         audit spaceId (mb_actorId member) ''space_deleted'' (Some spaceId) now (Obj [])))))"

subsection \<open>Legacy backfill\<close>

definition distinctKeys :: "string list \<Rightarrow> string list" where
  "distinctKeys ks = foldl (\<lambda>acc k. if k \<in> set acc then acc else acc @ [k]) [] ks"

definition importGrant :: "space_row \<Rightarrow> membership \<Rightarrow> string \<Rightarrow> string \<Rightarrow> grant_row \<Rightarrow> (gov_db, unit) op" where
  "importGrant sp m actorId now legacy =
     (if gr_actorId legacy \<noteq> actorId then returns ()
      else bindOp randomUUID (\<lambda>gid.
        insertInto db_grants db_grants_update grantClash ''resource_grants''
          \<lparr>gr_id = gid, gr_spaceId = Some (sp_id sp), gr_membershipId = Some (mb_id m),
           gr_actorId = actorId, gr_budgetId = sp_budgetId sp, gr_capability = gr_capability legacy,
           gr_resourceKind = gr_resourceKind legacy, gr_resourceId = gr_resourceId legacy,
           gr_granted = gr_granted legacy, gr_restrictions = no_restrictions, gr_createdAt = now,
           gr_updatedAt = now, gr_revokedAt = (if gr_granted legacy then None else Some now)\<rparr>))"

fun backfillActors ::
  "space_row \<Rightarrow> string \<Rightarrow> int \<Rightarrow> string \<Rightarrow> grant_row list \<Rightarrow> int \<Rightarrow> string list \<Rightarrow> (gov_db, int) op" where
  "backfillActors sp owner nowMillis now oldGrants count [] = returns count"
| "backfillActors sp owner nowMillis now oldGrants count (actorId # rest) =
     bindOp (reads (\<lambda>db. Inr (find (\<lambda>m. mb_spaceId m = sp_id sp \<and> mb_actorId m = actorId \<and>
         mb_revokedAt m = None) (db_memberships db)))) (\<lambda>found.
     bindOp (case found of
         Some m \<Rightarrow> returns (m, count)
       | None \<Rightarrow> bindOp (createMembership (sp_id sp) actorId owner nowMillis None now Migration)
           (\<lambda>m. returns (m, count + 1))) (\<lambda>(m, count').
     bindOp (forEach oldGrants (importGrant sp m actorId now)) (\<lambda>_.
       backfillActors sp owner nowMillis now oldGrants count' rest)))"

definition backfillKnownBudgetSpace ::
  "string \<Rightarrow> string \<Rightarrow> space_kind \<Rightarrow> string \<Rightarrow> human_control \<Rightarrow> string \<Rightarrow> (gov_db, space_row) op" where
  "backfillKnownBudgetSpace actorId name kind now auth budgetId =
     bindOp (reads (\<lambda>_. isoTime now)) (\<lambda>nowMillis.
     bindOp (reads (\<lambda>_. requireText budgetId ''budget ID'')) (\<lambda>_.
       immediate (
         bindOp (createSpace actorId name kind now auth) (\<lambda>created.
         bindOp (bindBudget (sp_id created) budgetId now auth) (\<lambda>sp.
         bindOp (reads (\<lambda>db. Inr (map ac_id (filter (\<lambda>r. ac_scope r = ''budget:'' @ budgetId) (db_actors db))))) (\<lambda>scoped.
         bindOp (reads (\<lambda>db. Inr (filter (\<lambda>g. gr_spaceId g = None \<and> gr_membershipId g = None \<and>
             gr_budgetId g = Some budgetId) (db_grants db)))) (\<lambda>oldGrants.
         bindOp (backfillActors sp actorId nowMillis now oldGrants 0
             (distinctKeys (scoped @ map gr_actorId oldGrants))) (\<lambda>memberships.
         bindOp (audit (sp_id sp) actorId ''legacy_budget_backfilled'' (Some budgetId) now
             (Obj [(''memberships'', Num (NInt memberships)),
               (''importedGrantCount'', Num (NInt (int (length oldGrants)))),
               (''explicitBudgetScope'', Str (''budget:'' @ budgetId))])) (\<lambda>_.
           returns sp)))))))))"

subsection \<open>Membership periods\<close>

text \<open>Two half-open periods meet; an open end is infinite.\<close>

definition overlaps :: "int \<Rightarrow> int option \<Rightarrow> membership \<Rightarrow> bool result" where
  "overlaps from until period =
     andThen (case mb_validUntil period of None \<Rightarrow> Inr True
        | Some u \<Rightarrow> andThen (isoTime u) (\<lambda>stop. Inr (from < stop))) (\<lambda>before.
       if \<not> before then Inr False
       else andThen (isoTime (mb_validFrom period)) (\<lambda>start.
         Inr (case until of None \<Rightarrow> True | Some u \<Rightarrow> start < u)))"

definition addMembership ::
  "string \<Rightarrow> string \<Rightarrow> string \<Rightarrow> string option \<Rightarrow> string \<Rightarrow> human_control \<Rightarrow> (gov_db, membership) op" where
  "addMembership spaceId actorId validFrom validUntil now auth = immediate (
     bindOp (reads (\<lambda>db. controlAuth db auth (hc_actorId auth) now)) (\<lambda>_.
     bindOp (reads (\<lambda>db. requireManager db spaceId (hc_actorId auth) ''identity:manage'' now ''membership:add'')) (\<lambda>mgr.
     bindOp (reads (\<lambda>db. require (\<not> (liveSpace db spaceId = None \<or> \<not> activeIdentity db actorId))
       ''Membership identity unavailable'')) (\<lambda>_.
     bindOp (reads (\<lambda>_. isoTime validFrom)) (\<lambda>from.
     bindOp (reads (\<lambda>_. case validUntil of None \<Rightarrow> Inr None
       | Some u \<Rightarrow> andThen (isoTime u) (\<lambda>t. Inr (Some t)))) (\<lambda>until.
     bindOp (reads (\<lambda>_. require (\<not> (case until of None \<Rightarrow> False | Some u \<Rightarrow> u \<le> from))
       ''Invalid membership interval'')) (\<lambda>_.
     bindOp (reads (\<lambda>db. existsR (overlaps from until) (openPeriods db spaceId actorId))) (\<lambda>clash.
     bindOp (reads (\<lambda>_. require (\<not> clash) ''Membership periods overlap'')) (\<lambda>_.
     bindOp (createMembership spaceId actorId (mb_actorId mgr) from until now Managed) (\<lambda>m.
     bindOp (audit spaceId (mb_actorId mgr) ''membership_added'' (Some (mb_id m)) now
       (Obj [(''actorId'', Str actorId)])) (\<lambda>_.
       returns m)))))))))))"

definition invitationDetails :: "invitation_row \<Rightarrow> membership \<Rightarrow> versioned_policy \<Rightarrow> bool \<Rightarrow> human_control \<Rightarrow> jsval" where
  "invitationDetails invn issuer policy existing auth =
     Obj [(''invitationId'', Str (iv_id invn)), (''issuerActorId'', Str (mb_actorId issuer)),
       (''issuerMembershipId'', Str (mb_id issuer)), (''governancePolicyVersion'', Str (vp_version policy)),
       (''existingMembership'', Bool existing), (''reauthenticatedSessionId'', Str (hc_sessionId auth)),
       (''reauthenticatedAt'', Str (hc_reauthenticatedAt auth))]"

text \<open>Any error of \<open>m\<close> as the one generic refusal.\<close>

definition orInvalid :: "'a result \<Rightarrow> 'a result" where
  "orInvalid m = (case m of Inl _ \<Rightarrow> Inl (Error ''Invitation invalid'') | Inr x \<Rightarrow> Inr x)"

text \<open>The claimed invitation with its captured scope, its current policy and its issuer.\<close>

definition claimedInvitation ::
  "gov_db \<Rightarrow> string \<Rightarrow> string \<Rightarrow> int \<Rightarrow> string \<Rightarrow> (invitation_row \<times> space_row \<times> versioned_policy \<times> membership) result" where
  "claimedInvitation db claimId email now nowText =
     (case find (\<lambda>r. iv_claimId r = Some claimId) (db_invitations db) of
        None \<Rightarrow> Inl (Error ''Invitation invalid'')
      | Some invn \<Rightarrow>
          (case (iv_spaceId invn, iv_issuerMembershipId invn, iv_policyVersion invn) of
             (Some spaceId, Some issuerId, Some version) \<Rightarrow>
               if iv_status invn \<noteq> InvClaimed \<or> iv_claimedEmail invn \<noteq> Some email
               then Inl (Error ''Invitation invalid'')
               else
                 andThen (orInvalid (isoTime (iv_expiresAt invn))) (\<lambda>expiresAt.
                 andThen (getPolicy db spaceId) (\<lambda>policy.
                   (case (liveSpace db spaceId, policy) of
                      (Some sp, Some p) \<Rightarrow>
                        if expiresAt \<le> now \<or> vp_version p \<noteq> version then Inl (Error ''Invitation invalid'')
                        else
                          (case membershipById db issuerId of
                             None \<Rightarrow> Inl (Error ''Invitation invalid'')
                           | Some period \<Rightarrow>
                               if mb_spaceId period \<noteq> sp_id sp then Inl (Error ''Invitation invalid'')
                               else
                                 andThen (orInvalid (requireManager db (sp_id sp) (mb_actorId period)
                                   ''membership:manage'' nowText ''invitation.create'')) (\<lambda>issuer.
                                   if mb_id issuer \<noteq> mb_id period then Inl (Error ''Invitation invalid'')
                                   else Inr (invn, sp, p, issuer)))
                    | _ \<Rightarrow> Inl (Error ''Invitation invalid''))))
           | _ \<Rightarrow> Inl (Error ''Invitation invalid'')))"

definition acceptInvitedMembership :: "string \<Rightarrow> string \<Rightarrow> string \<Rightarrow> human_control \<Rightarrow> (gov_db, membership) op" where
  "acceptInvitedMembership claimId email now auth = immediate (
     (let actorId = hc_actorId auth; mail = toLowerCase (trim email) in
     bindOp (reads (\<lambda>db. controlAuth db auth actorId now)) (\<lambda>_.
     bindOp (reads (\<lambda>_. isoTime now)) (\<lambda>t.
     bindOp (reads (\<lambda>_. require (\<not> (blank claimId \<or> mail = [])) ''Invitation invalid'')) (\<lambda>_.
     bindOp (reads (\<lambda>db. claimedInvitation db claimId mail t now)) (\<lambda>(invn, sp, policy, issuer).
     bindOp (reads (\<lambda>db. require (activeIdentity db actorId \<and> getAgent db actorId = None)
       ''Invitation invalid'')) (\<lambda>_.
     bindOp (reads (\<lambda>db. currentMembership db (sp_id sp) actorId now)) (\<lambda>current.
       case current of
         Some m \<Rightarrow>
           bindOp (audit (sp_id sp) actorId ''invitation_membership_accepted'' (Some (mb_id m)) now
             (invitationDetails invn issuer policy True auth)) (\<lambda>_. returns m)
       | None \<Rightarrow>
           bindOp (reads (\<lambda>db. existsR (\<lambda>p. case mb_validUntil p of None \<Rightarrow> Inr True
               | Some u \<Rightarrow> andThen (isoTime u) (\<lambda>stop. Inr (stop > t)))
             (openPeriods db (sp_id sp) actorId))) (\<lambda>later.
           bindOp (reads (\<lambda>_. require (\<not> later) ''Invitation invalid'')) (\<lambda>_.
           bindOp (createMembership (sp_id sp) actorId (mb_actorId issuer) t None now Managed) (\<lambda>m.
           bindOp (audit (sp_id sp) actorId ''invitation_membership_accepted'' (Some (mb_id m)) now
             (invitationDetails invn issuer policy False auth)) (\<lambda>_. returns m))))))))))))"

definition revokeMembership :: "string \<Rightarrow> string \<Rightarrow> string \<Rightarrow> human_control \<Rightarrow> (gov_db, unit) op" where
  "revokeMembership spaceId membershipId now auth =
     bindOp (reads (\<lambda>_. isoTime now)) (\<lambda>_.
     bindOp (reads (\<lambda>db. require (case membershipById db membershipId of None \<Rightarrow> False
       | Some m \<Rightarrow> mb_spaceId m = spaceId) ''Membership unavailable'')) (\<lambda>_.
     bindOp (reads (\<lambda>db. controlAuth db auth (hc_actorId auth) now)) (\<lambda>_.
     bindOp (reads (\<lambda>db. requireManager db spaceId (hc_actorId auth) ''identity:manage'' now ''membership:revoke'')) (\<lambda>mgr.
       immediate (
         bindOp (reads (\<lambda>db. require (0 < changes (\<lambda>m. mb_spaceId m = spaceId \<and> mb_id m = membershipId \<and>
             mb_revokedAt m = None) (db_memberships db)) ''Membership already revoked'')) (\<lambda>_.
         bindOp (writes (db_memberships_update (updateWhere (\<lambda>m. mb_spaceId m = spaceId \<and>
             mb_id m = membershipId \<and> mb_revokedAt m = None) (\<lambda>m. m\<lparr>mb_revokedAt := Some now\<rparr>)))) (\<lambda>_.
         audit spaceId (mb_actorId mgr) ''membership_revoked'' (Some membershipId) now (Obj []))))))))"

subsection \<open>Policy versions\<close>

definition nextVersion :: "string option \<Rightarrow> string result" where
  "nextVersion current =
     (case numberText (case current of None \<Rightarrow> ''0'' | Some v \<Rightarrow> v) of
        None \<Rightarrow> Inl (Error ''Governance policy version exhausted'')
      | Some n \<Rightarrow>
          if isSafeInteger (n + 1) then Inr (decimal (nat (n + 1)))
          else Inl (Error ''Governance policy version exhausted''))"

text \<open>The new policy; an input that does not set the assistance maximum keeps the current one.\<close>

definition policyInput :: "versioned_policy option \<Rightarrow> jsval \<Rightarrow> governance_policy result" where
  "policyInput current input =
     (case js_record input of
        None \<Rightarrow> Inl (Error ''Invalid governance policy'')
      | Some raw \<Rightarrow> parsePolicy (Obj (
          (if field raw ''assistanceMaximum'' = Undefined
           then (case current of None \<Rightarrow> []
             | Some c \<Rightarrow> [(''assistanceMaximum'', Str (assistance_text (vp_assistanceMaximum c)))])
           else []) @ raw)))"

lemma policyInput_valid: "policyInput current input = Inr p \<Longrightarrow> valid_policy p"
  by (auto simp: policyInput_def dest: parsePolicy_valid split: option.splits)

definition setPolicy ::
  "string \<Rightarrow> string option \<Rightarrow> jsval \<Rightarrow> string \<Rightarrow> human_control \<Rightarrow> (gov_db, versioned_policy) op" where
  "setPolicy spaceId expectedVersion input now auth =
     bindOp (reads (\<lambda>db. controlAuth db auth (hc_actorId auth) now)) (\<lambda>_.
     bindOp (reads (\<lambda>db. requireManager db spaceId (hc_actorId auth) ''policy:manage'' now ''policy:update'')) (\<lambda>mgr.
     bindOp (reads (\<lambda>_. isoTime now)) (\<lambda>_.
       immediate (
         bindOp (reads (\<lambda>db. getPolicy db spaceId)) (\<lambda>current.
         bindOp (reads (\<lambda>_. require (map_option vp_version current = expectedVersion)
           ''Governance policy version conflict'')) (\<lambda>_.
         bindOp (reads (\<lambda>_. policyInput current input)) (\<lambda>policy.
         bindOp (reads (\<lambda>_. nextVersion (map_option vp_version current))) (\<lambda>version.
         bindOp (retireCurrentPolicy spaceId) (\<lambda>_.
         bindOp (insertPolicy \<lparr>po_spaceId = spaceId, po_version = version, po_policy = policy,
             po_actorId = mb_actorId mgr, po_createdAt = now, po_isCurrent = True\<rparr>) (\<lambda>_.
         bindOp (audit spaceId (mb_actorId mgr) ''policy_changed'' (Some version) now (Obj [])) (\<lambda>_.
           returns \<lparr>vp_policy = policy,
             vp_assistanceMaximum = (case gp_assistanceMaximum policy of None \<Rightarrow> Analysis_only | Some a \<Rightarrow> a),
             vp_spaceId = spaceId, vp_version = version, vp_actorId = mb_actorId mgr,
             vp_createdAt = now\<rparr>)))))))))))"

definition listPolicyHistory :: "gov_db \<Rightarrow> string \<Rightarrow> versioned_policy list result" where
  "listPolicyHistory db spaceId =
     mapR versionedPolicy
       (sortBy (\<lambda>x y. dec_val (po_version x) < dec_val (po_version y))
         (filter (\<lambda>r. po_spaceId r = spaceId) (db_policies db)))"

end
