(* ===== verification/Agent_Ops.thy ===== *)
theory Agent_Ops
  imports Governance_Ops
begin

text \<open>
  Agents, versioned delegations and credential bindings of \<open>SpaceGovernance\<close> (\<^verbatim>\<open>governance.ts\<close>): an
  agent is registered in one space, acts through a delegation that a member issued from its own
  grants, and is reached by API keys bound to that exact delegation version.
\<close>

subsection \<open>Grant and agent listings\<close>

definition listResourceGrants :: "gov_db \<Rightarrow> string \<Rightarrow> string option \<Rightarrow> grant_row list" where
  "listResourceGrants db spaceId actorId =
     (case actorId of
        None \<Rightarrow> sortBy (\<lambda>x y. textLess (gr_actorId x) (gr_actorId y) \<or>
              gr_actorId x = gr_actorId y \<and> byTexts gr_createdAt gr_id x y)
            (filter (\<lambda>g. gr_spaceId g = Some spaceId) (db_grants db))
      | Some a \<Rightarrow> sortBy (byTexts gr_createdAt gr_id)
            (filter (\<lambda>g. gr_spaceId g = Some spaceId \<and> gr_actorId g = a) (db_grants db)))"

definition currentResourceGrant ::
  "gov_db \<Rightarrow> string \<Rightarrow> string \<Rightarrow> string \<Rightarrow> string \<Rightarrow> string \<Rightarrow> string \<Rightarrow> string \<Rightarrow> grant_row option" where
  "currentResourceGrant db actorId spaceId membershipId budgetId capability kind rid =
     currentGrant db actorId spaceId membershipId (Some budgetId) capability kind rid"

definition listAgents :: "gov_db \<Rightarrow> string \<Rightarrow> agent_row list" where
  "listAgents db spaceId =
     sortBy (byTexts ag_createdAt ag_id) (filter (\<lambda>a. ag_registeredSpaceId a = spaceId) (db_agents db))"

definition byVersion :: "delegation_row \<Rightarrow> delegation_row \<Rightarrow> bool" where
  "byVersion x y \<longleftrightarrow> textLess (dl_id x) (dl_id y) \<or>
     dl_id x = dl_id y \<and> dec_val (dl_version x) < dec_val (dl_version y)"

definition listDelegations :: "gov_db \<Rightarrow> string \<Rightarrow> string option \<Rightarrow> delegation_row list" where
  "listDelegations db spaceId agentId =
     sortBy byVersion (filter (\<lambda>d. dl_spaceId d = spaceId \<and>
       (case agentId of None \<Rightarrow> True | Some a \<Rightarrow> dl_agentId d = a)) (db_delegations db))"

definition listCredentialBindings :: "gov_db \<Rightarrow> string \<Rightarrow> credential_row list" where
  "listCredentialBindings db spaceId =
     sortBy (byTexts cb_createdAt cb_id) (filter (\<lambda>b. cb_spaceId b = spaceId) (db_credentials db))"

subsection \<open>Agents\<close>

definition registerAgent :: "string \<Rightarrow> string \<Rightarrow> string \<Rightarrow> human_control \<Rightarrow> (gov_db, agent_row) op" where
  "registerAgent spaceId agentId now auth =
     bindOp (reads (\<lambda>db. controlAuth db auth (hc_actorId auth) now)) (\<lambda>_.
     bindOp (reads (\<lambda>_. requireText agentId ''agent ID'')) (\<lambda>_.
       immediate (
         bindOp (reads (\<lambda>db. requireManager db spaceId (hc_actorId auth) ''agent:manage'' now ''agent:register'')) (\<lambda>mgr.
         bindOp (reads (\<lambda>db. require (\<not> list_ex (\<lambda>r. ac_id r = agentId) (db_actors db))
           ''Agent identity conflicts with a human identity'')) (\<lambda>_.
         bindOp (reads (\<lambda>db. require (getAgent db agentId = None)
           ''Agent identity is already registered'')) (\<lambda>_.
         bindOp (insertInto db_agents db_agents_update (\<lambda>r q. ag_id r = ag_id q) ''governance_agents''
           \<lparr>ag_id = agentId, ag_registeredSpaceId = spaceId, ag_status = AgentActive,
            ag_createdBy = hc_actorId auth, ag_createdAt = now, ag_disconnectedAt = None,
            ag_revokedAt = None\<rparr>) (\<lambda>_.
         bindOp (audit spaceId (mb_actorId mgr) ''agent_registered'' (Some agentId) now (Obj [])) (\<lambda>_.
           reads (\<lambda>db. case getAgent db agentId of
               None \<Rightarrow> Inl (Error ''Agent registration failed'')
             | Some a \<Rightarrow> Inr a))))))))) "

datatype agent_stop = StopDisconnected | StopRevoked

definition stopText :: "agent_stop \<Rightarrow> string" where
  "stopText s = (case s of StopDisconnected \<Rightarrow> ''disconnected'' | StopRevoked \<Rightarrow> ''revoked'')"

definition setAgentStatus :: "string \<Rightarrow> string \<Rightarrow> agent_stop \<Rightarrow> string \<Rightarrow> human_control \<Rightarrow> (gov_db, unit) op" where
  "setAgentStatus spaceId agentId status now auth =
     bindOp (reads (\<lambda>_. isoTime now)) (\<lambda>_.
     bindOp (reads (\<lambda>db. case getAgent db agentId of
         None \<Rightarrow> Inl (Error ''Agent unavailable'')
       | Some a \<Rightarrow> if ag_registeredSpaceId a \<noteq> spaceId then Inl (Error ''Agent unavailable'') else Inr a)) (\<lambda>agent.
     bindOp (reads (\<lambda>db. controlAuth db auth (hc_actorId auth) now)) (\<lambda>_.
     bindOp (reads (\<lambda>db. requireManager db spaceId (hc_actorId auth) ''agent:manage'' now ''agent:status'')) (\<lambda>_.
     bindOp (writes (db_agents_update (updateWhere (\<lambda>a. ag_id a = agentId) (\<lambda>a. a\<lparr>
         ag_status := (case status of StopDisconnected \<Rightarrow> AgentDisconnected | StopRevoked \<Rightarrow> AgentRevoked),
         ag_disconnectedAt := (if status = StopDisconnected then Some now else ag_disconnectedAt agent),
         ag_revokedAt := (if status = StopRevoked then Some now else ag_revokedAt agent)\<rparr>)))) (\<lambda>_.
     bindOp (if status = StopRevoked
       then writes (db_delegations_update (updateWhere (\<lambda>d. dl_agentId d = agentId \<and> dl_revokedAt d = None)
              (\<lambda>d. d\<lparr>dl_revokedAt := Some now\<rparr>)))
       else returns ()) (\<lambda>_.
       audit spaceId (hc_actorId auth) (''agent_'' @ stopText status) (Some agentId) now (Obj [])))))))"

subsection \<open>Delegations\<close>

text \<open>
  Capabilities no agent may hold: the control capabilities, everything whose name matches
  \<^verbatim>\<open>/manage|approv|settle|confirm|control/i\<close>, and the initiation report.
\<close>

definition human_only_words :: "string list" where
  "human_only_words = [''manage'', ''approv'', ''settle'', ''confirm'', ''control'']"

definition nonDelegableAgentCapability :: "string \<Rightarrow> bool" where
  "nonDelegableAgentCapability capability \<longleftrightarrow>
     capability \<in> set control_capabilities \<or>
     list_ex (\<lambda>w. containsText w (toLowerCase capability)) human_only_words \<or>
     capability = ''initiation-report''"

record right_input =
  ri_capability :: string
  ri_resourceKind :: string
  ri_resourceId :: string
  ri_restrictions :: jsval

record delegate_input =
  di_id :: "string option"
  di_spaceId :: string
  di_agentId :: string
  di_issuerMembershipId :: string
  di_expectedVersion :: "string option"
  di_rights :: "right_input list"
  di_validFrom :: string
  di_validUntil :: "string option"
  di_now :: string

text \<open>An object used as a map: a repeated key keeps its place and takes the new value.\<close>

fun putKey :: "string \<Rightarrow> 'v \<Rightarrow> (string \<times> 'v) list \<Rightarrow> (string \<times> 'v) list" where
  "putKey k v [] = [(k, v)]"
| "putKey k v ((k', v') # rest) = (if k' = k then (k, v) # rest else (k', v') # putKey k v rest)"

definition rightKey :: "right_input \<Rightarrow> string" where
  "rightKey r = ri_capability r @ '':'' @ ri_resourceKind r @ '':'' @ ri_resourceId r"

definition delegatedRight :: "gov_db \<Rightarrow> string \<Rightarrow> membership \<Rightarrow> right_input \<Rightarrow> delegated_right result" where
  "delegatedRight db spaceId member r =
     andThen (requireText (ri_capability r) ''delegated capability'') (\<lambda>_.
     andThen (requireText (ri_resourceId r) ''delegated resource'') (\<lambda>_.
     andThen (require (\<not> nonDelegableAgentCapability (ri_capability r))
       ''Control, approval, and settlement authority is human-only'') (\<lambda>_.
       case currentGrant db (mb_actorId member) spaceId (mb_id member)
           (case liveSpace db spaceId of None \<Rightarrow> None | Some sp \<Rightarrow> sp_budgetId sp)
           (ri_capability r) (ri_resourceKind r) (ri_resourceId r) of
         None \<Rightarrow> Inl (Error ''Delegation exceeds issuer grants'')
       | Some grant \<Rightarrow>
           andThen (delegatedRestrictions (ri_restrictions r) (restrictions_json (gr_restrictions grant))) (\<lambda>restr.
             Inr \<lparr>dr_capability = ri_capability r, dr_resourceKind = ri_resourceKind r,
               dr_resourceId = ri_resourceId r, dr_restrictions = restr\<rparr>))))"

fun rightsByKey ::
  "gov_db \<Rightarrow> string \<Rightarrow> membership \<Rightarrow> (string \<times> delegated_right) list \<Rightarrow> right_input list \<Rightarrow>
     (string \<times> delegated_right) list result" where
  "rightsByKey db spaceId member acc [] = Inr acc"
| "rightsByKey db spaceId member acc (r # rest) =
     andThen (delegatedRight db spaceId member r) (\<lambda>d.
       rightsByKey db spaceId member (putKey (rightKey r) d acc) rest)"

definition delegationVersion :: "delegation_row option \<Rightarrow> string" where
  "delegationVersion current =
     (case numberText (case current of None \<Rightarrow> ''0'' | Some d \<Rightarrow> dl_version d) of
        None \<Rightarrow> ''NaN''
      | Some n \<Rightarrow> decimal (nat (n + 1)))"

definition delegationIssuer :: "gov_db \<Rightarrow> delegate_input \<Rightarrow> human_control \<Rightarrow> membership result" where
  "delegationIssuer db i auth =
     (case membershipById db (di_issuerMembershipId i) of
        None \<Rightarrow> Inl (Error ''Delegation issuer or agent unavailable'')
      | Some member \<Rightarrow>
          if mb_actorId member \<noteq> hc_actorId auth \<or> mb_spaceId member \<noteq> di_spaceId i
          then Inl (Error ''Delegation issuer or agent unavailable'')
          else andThen (currentMembership db (di_spaceId i) (hc_actorId auth) (di_now i)) (\<lambda>mo.
            if map_option mb_id mo \<noteq> Some (mb_id member) \<or>
               (case getAgent db (di_agentId i) of None \<Rightarrow> True | Some a \<Rightarrow> ag_status a \<noteq> AgentActive)
            then Inl (Error ''Delegation issuer or agent unavailable'') else Inr member))"

definition openDelegation :: "gov_db \<Rightarrow> string \<Rightarrow> delegation_row option" where
  "openDelegation db did = find (\<lambda>d. dl_id d = did \<and> dl_revokedAt d = None) (db_delegations db)"

text \<open>The binding and version checks on the delegation that is being replaced.\<close>

definition replaceable :: "delegate_input \<Rightarrow> membership \<Rightarrow> delegation_row option \<Rightarrow> unit result" where
  "replaceable i member current =
     andThen (require (case current of None \<Rightarrow> True | Some d \<Rightarrow> dl_spaceId d = di_spaceId i)
       ''Delegation space cannot change'') (\<lambda>_.
     andThen (require (case current of None \<Rightarrow> True | Some d \<Rightarrow> dl_agentId d = di_agentId i \<and>
         dl_issuerActorId d = mb_actorId member \<and> dl_issuerMembershipId d = mb_id member)
       ''Delegation principal and issuer binding cannot change'') (\<lambda>_.
     require (map_option dl_version current = di_expectedVersion i) ''Delegation version conflict''))"

text \<open>The transaction of \<open>delegate\<close>: retire the version it replaces, insert the next one.\<close>

definition replaceDelegation ::
  "delegate_input \<Rightarrow> membership \<Rightarrow> string \<Rightarrow> delegation_row option \<Rightarrow> delegation_row \<Rightarrow> (gov_db, delegation_row) op" where
  "replaceDelegation i member mgrActor current row = immediate (
     (let old = (\<lambda>d. dl_id d = dl_id row \<and> Some (dl_version d) = di_expectedVersion i \<and>
             dl_spaceId d = di_spaceId i \<and> dl_agentId d = di_agentId i \<and>
             dl_issuerActorId d = mb_actorId member \<and> dl_issuerMembershipId d = mb_id member \<and>
             dl_revokedAt d = None)
      in bindOp (case current of
          None \<Rightarrow> returns ()
        | Some d \<Rightarrow>
            bindOp (reads (\<lambda>db. require (0 < changes old (db_delegations db)) ''Delegation version conflict'')) (\<lambda>_.
              writes (db_delegations_update (updateWhere old (\<lambda>d. d\<lparr>dl_revokedAt := Some (di_now i)\<rparr>))))) (\<lambda>_.
         bindOp (reads (\<lambda>_. periodCheck (dl_validFrom row) (dl_validUntil row) ''agent_delegations'')) (\<lambda>_.
         bindOp (insertInto db_delegations db_delegations_update delegationClash ''agent_delegations'' row) (\<lambda>_.
         bindOp (audit (di_spaceId i) mgrActor ''delegation_issued'' (Some (dl_id row)) (di_now i)
           (Obj [(''version'', Str (dl_version row)), (''agentId'', Str (di_agentId i))])) (\<lambda>_.
           reads (\<lambda>db. case find (\<lambda>d. dl_id d = dl_id row \<and> dl_version d = dl_version row) (db_delegations db) of
               None \<Rightarrow> Inl TypeError
             | Some d \<Rightarrow> Inr d)))))))"

definition delegate :: "delegate_input \<Rightarrow> human_control \<Rightarrow> (gov_db, delegation_row) op" where
  "delegate i auth =
     bindOp (reads (\<lambda>db. controlAuth db auth (hc_actorId auth) (di_now i))) (\<lambda>_.
     bindOp (reads (\<lambda>db. requireManager db (di_spaceId i) (hc_actorId auth) ''delegation:manage'' (di_now i)
       ''delegation:set'')) (\<lambda>mgr.
     bindOp (reads (\<lambda>db. delegationIssuer db i auth)) (\<lambda>member.
     bindOp (reads (\<lambda>_. isoTime (di_validFrom i))) (\<lambda>from.
     bindOp (reads (\<lambda>_. case di_validUntil i of None \<Rightarrow> Inr None
       | Some u \<Rightarrow> andThen (isoTime u) (\<lambda>t. Inr (Some t)))) (\<lambda>until.
     bindOp (reads (\<lambda>_. require (\<not> (case until of None \<Rightarrow> False | Some u \<Rightarrow> u \<le> from))
       ''Invalid delegation interval'')) (\<lambda>_.
     bindOp (reads (\<lambda>_. require (di_rights i \<noteq> []) ''Delegation rights are required'')) (\<lambda>_.
     bindOp (reads (\<lambda>db. rightsByKey db (di_spaceId i) member [] (di_rights i))) (\<lambda>rights.
     bindOp (case di_id i of Some d \<Rightarrow> returns d | None \<Rightarrow> randomUUID) (\<lambda>did.
     bindOp (reads (\<lambda>db. Inr (openDelegation db did))) (\<lambda>current.
     bindOp (reads (\<lambda>_. replaceable i member current)) (\<lambda>_.
       replaceDelegation i member (mb_actorId mgr) current
         \<lparr>dl_id = did, dl_version = delegationVersion current, dl_spaceId = di_spaceId i,
          dl_agentId = di_agentId i, dl_issuerActorId = mb_actorId member,
          dl_issuerMembershipId = mb_id member, dl_rights = map snd rights,
          dl_validFrom = toISOString from, dl_validUntil = map_option toISOString until,
          dl_revokedAt = None, dl_createdAt = di_now i\<rparr>)))))))))))"

definition revokeDelegation :: "string \<Rightarrow> string \<Rightarrow> string \<Rightarrow> string \<Rightarrow> human_control \<Rightarrow> (gov_db, unit) op" where
  "revokeDelegation spaceId delegationId expectedVersion now auth =
     bindOp (reads (\<lambda>_. isoTime now)) (\<lambda>_.
     bindOp (reads (\<lambda>db. require (case find (\<lambda>d. dl_id d = delegationId \<and> dl_version d = expectedVersion \<and>
         dl_revokedAt d = None) (db_delegations db) of None \<Rightarrow> False | Some d \<Rightarrow> dl_spaceId d = spaceId)
       ''Delegation version conflict'')) (\<lambda>_.
     bindOp (reads (\<lambda>db. controlAuth db auth (hc_actorId auth) now)) (\<lambda>_.
     bindOp (reads (\<lambda>db. requireManager db spaceId (hc_actorId auth) ''delegation:manage'' now ''delegation:revoke'')) (\<lambda>mgr.
     bindOp (reads (\<lambda>db. require (0 < changes (\<lambda>d. dl_id d = delegationId \<and> dl_version d = expectedVersion \<and>
         dl_spaceId d = spaceId \<and> dl_revokedAt d = None) (db_delegations db))
       ''Delegation version conflict'')) (\<lambda>_.
     bindOp (writes (db_delegations_update (updateWhere (\<lambda>d. dl_id d = delegationId \<and> dl_version d = expectedVersion \<and>
         dl_spaceId d = spaceId \<and> dl_revokedAt d = None) (\<lambda>d. d\<lparr>dl_revokedAt := Some now\<rparr>)))) (\<lambda>_.
       audit spaceId (mb_actorId mgr) ''delegation_revoked'' (Some delegationId) now (Obj [])))))))"

subsection \<open>Credential bindings\<close>

record credential_input =
  ci_spaceId :: string
  ci_credentialId :: string
  ci_credentialOwnerId :: string
  ci_principalType :: principal_type
  ci_principalId :: string
  ci_delegationId :: "string option"
  ci_expectedDelegationVersion :: "string option"
  ci_now :: string

definition truthy :: "string option \<Rightarrow> bool" where
  "truthy v \<longleftrightarrow> v \<noteq> None \<and> v \<noteq> Some []"

text \<open>The delegation an agent key is bound to; \<open>None\<close> for a human key.\<close>

definition credentialDelegation ::
  "gov_db \<Rightarrow> credential_input \<Rightarrow> human_control \<Rightarrow> membership \<Rightarrow> delegation_row option result" where
  "credentialDelegation db i auth ownerMembership =
     (case ci_principalType i of
        AgentPrincipal \<Rightarrow>
          if \<not> truthy (ci_delegationId i) \<or> \<not> truthy (ci_expectedDelegationVersion i)
          then Inl (Error ''Agent delegation version required'')
          else andThen (currentDelegation db (the (ci_delegationId i)) (the (ci_expectedDelegationVersion i)) (ci_now i)) (\<lambda>del.
            case del of
              None \<Rightarrow> Inl (Error ''Credential delegation unavailable'')
            | Some d \<Rightarrow>
                if dl_spaceId d \<noteq> ci_spaceId i \<or> dl_agentId d \<noteq> ci_principalId i \<or>
                   dl_issuerActorId d \<noteq> hc_actorId auth \<or> dl_issuerMembershipId d \<noteq> mb_id ownerMembership
                then Inl (Error ''Credential delegation unavailable'') else Inr (Some d))
      | HumanPrincipal \<Rightarrow>
          if ci_principalId i \<noteq> hc_actorId auth then Inl (Error ''Human credential principal unavailable'')
          else andThen (currentMembership db (ci_spaceId i) (ci_principalId i) (ci_now i)) (\<lambda>mo.
            if mo = None then Inl (Error ''Human credential principal unavailable'') else Inr None))"

definition principalText :: "principal_type \<Rightarrow> string" where
  "principalText p = (case p of HumanPrincipal \<Rightarrow> ''human'' | AgentPrincipal \<Rightarrow> ''agent'')"

definition registerCredentialBinding :: "credential_input \<Rightarrow> human_control \<Rightarrow> (gov_db, credential_row) op" where
  "registerCredentialBinding i auth =
     bindOp (reads (\<lambda>db. controlAuth db auth (hc_actorId auth) (ci_now i))) (\<lambda>_.
     bindOp (reads (\<lambda>_. require (ci_credentialOwnerId i = hc_actorId auth) ''Credential owner mismatch'')) (\<lambda>_.
     bindOp (reads (\<lambda>db. requireManager db (ci_spaceId i) (hc_actorId auth) ''credential:manage'' (ci_now i)
       ''credential:register'')) (\<lambda>mgr.
     bindOp (reads (\<lambda>db. andThen (currentMembership db (ci_spaceId i) (hc_actorId auth) (ci_now i)) (\<lambda>mo.
         case mo of None \<Rightarrow> Inl (Error ''Credential issuer membership unavailable'') | Some m \<Rightarrow> Inr m))) (\<lambda>owner.
     bindOp (reads (\<lambda>db. credentialDelegation db i auth owner)) (\<lambda>delegation.
     bindOp randomUUID (\<lambda>bid.
     bindOp (insertInto db_credentials db_credentials_update credentialClash ''credential_bindings''
       \<lparr>cb_id = bid, cb_spaceId = ci_spaceId i, cb_credentialId = ci_credentialId i,
        cb_credentialOwnerId = ci_credentialOwnerId i, cb_principalType = ci_principalType i,
        cb_principalId = ci_principalId i, cb_delegationId = map_option dl_id delegation,
        cb_delegationVersion = map_option dl_version delegation, cb_issuerMembershipId = mb_id owner,
        cb_createdAt = ci_now i, cb_revokedAt = None\<rparr>) (\<lambda>_.
     bindOp (audit (ci_spaceId i) (mb_actorId mgr) ''credential_bound'' (Some (ci_credentialId i)) (ci_now i)
       (Obj [(''principalType'', Str (principalText (ci_principalType i))),
         (''principalId'', Str (ci_principalId i))])) (\<lambda>_.
       reads (\<lambda>db. case getCredentialBinding db (ci_credentialId i) of
           None \<Rightarrow> Inl TypeError
         | Some b \<Rightarrow> Inr b)))))))))"

definition revokeCredentialBinding :: "string \<Rightarrow> string \<Rightarrow> string \<Rightarrow> human_control \<Rightarrow> (gov_db, unit) op" where
  "revokeCredentialBinding credentialId spaceId now auth =
     bindOp (reads (\<lambda>db. controlAuth db auth (hc_actorId auth) now)) (\<lambda>_.
     bindOp (reads (\<lambda>db. requireManager db spaceId (hc_actorId auth) ''credential:manage'' now ''credential:revoke'')) (\<lambda>mgr.
     bindOp (reads (\<lambda>db. require (list_ex (\<lambda>b. cb_credentialId b = credentialId \<and> cb_spaceId b = spaceId \<and>
         cb_revokedAt b = None) (db_credentials db)) ''Credential binding unavailable'')) (\<lambda>_.
     bindOp (writes (db_credentials_update (updateWhere (\<lambda>b. cb_credentialId b = credentialId \<and>
         cb_revokedAt b = None) (\<lambda>b. b\<lparr>cb_revokedAt := Some now\<rparr>)))) (\<lambda>_.
       audit spaceId (mb_actorId mgr) ''credential_revoked'' (Some credentialId) now (Obj [])))))"

end
