(* ===== verification/Authorization.thy ===== *)
theory Authorization
  imports Agent_Ops
begin

text \<open>
  The authorization evaluator of \<open>SpaceGovernance\<close> (\<open>authorizeForPurpose\<close> in \<^verbatim>\<open>governance.ts\<close> and the
  public methods over it). The method is one long sequence of checks that returns a denial at the
  first that fails; here it is the composition of its stages, in the source's order: admission
  (space, policy, credential), payload, coverage of the payload's resources, principal, grants and
  delegated rights, evidence subjects. A stage ends with a thrown error, with a denial, or with
  what the next one needs; an error anywhere becomes the denial of the outer \<open>catch\<close>.
\<close>

subsection \<open>Requests and results\<close>

datatype operational_auth =
    HumanSession human_control
  | Session string string credential_lifetime
  | ApiKeyHuman string string string credential_lifetime
  | ApiKeyAgent string string string string string credential_lifetime

text \<open>
  \<open>Session actor session lifetime\<close>, \<open>ApiKeyHuman actor credential owner lifetime\<close> and
  \<open>ApiKeyAgent actor credential owner delegation version lifetime\<close>.
\<close>

fun authActorId :: "operational_auth \<Rightarrow> string" where
  "authActorId (HumanSession c) = hc_actorId c"
| "authActorId (Session a _ _) = a"
| "authActorId (ApiKeyHuman a _ _ _) = a"
| "authActorId (ApiKeyAgent a _ _ _ _ _) = a"

fun authLifetime :: "operational_auth \<Rightarrow> credential_lifetime" where
  "authLifetime (HumanSession c) = hc_lifetime c"
| "authLifetime (Session _ _ l) = l"
| "authLifetime (ApiKeyHuman _ _ _ l) = l"
| "authLifetime (ApiKeyAgent _ _ _ _ _ l) = l"

datatype phase = PhaseRead | PhasePropose | PhaseApprove | PhaseExecute
datatype visibility = AggregateVisibility | ResourceVisibility
datatype purpose = ForOperation | ForRuleInspection

record required_right =
  rq_capability :: string
  rq_resourceKind :: string
  rq_resourceId :: string
  rq_visibility :: "visibility option"

record auth_input =
  in_actorId :: string
  in_spaceId :: string
  in_membershipId :: "string option"
  in_expectedPolicyVersion :: string
  in_phase :: phase
  in_operation :: string
  in_required :: "required_right list"
  in_payload :: "(string \<times> jsval) list"
  in_now :: string
  in_agentId :: "string option"
  in_delegationId :: "string option"
  in_delegationVersion :: "string option"
  in_auth :: "operational_auth option"
  in_verifiedHumanApproval :: bool

datatype disposition = AuthorizedWithoutApproval | ApprovalRequired | Denied string

record auth_result =
  ar_allowed :: bool
  ar_disposition :: disposition
  ar_actorId :: string
  ar_spaceId :: string
  ar_membershipId :: "string option"
  ar_policyVersion :: "string option"
  ar_requiredApprovers :: int
  ar_reason :: string

definition denied :: "auth_input \<Rightarrow> string \<Rightarrow> string option \<Rightarrow> string option \<Rightarrow> int \<Rightarrow> auth_result" where
  "denied i reason policyVersion membershipId requiredApprovers =
     \<lparr>ar_allowed = False, ar_disposition = Denied reason, ar_actorId = in_actorId i,
      ar_spaceId = in_spaceId i, ar_membershipId = membershipId, ar_policyVersion = policyVersion,
      ar_requiredApprovers = requiredApprovers, ar_reason = reason\<rparr>"

subsection \<open>Stages\<close>

datatype stop = Thrown js_error | Returned auth_result

type_synonym 'a stage = "stop + 'a"

definition stageThen :: "'a stage \<Rightarrow> ('a \<Rightarrow> 'b stage) \<Rightarrow> 'b stage" where
  "stageThen m f = (case m of Inl s \<Rightarrow> Inl s | Inr x \<Rightarrow> f x)"

definition ofResult :: "'a result \<Rightarrow> 'a stage" where
  "ofResult m = (case m of Inl e \<Rightarrow> Inl (Thrown e) | Inr x \<Rightarrow> Inr x)"

definition orDeny :: "bool \<Rightarrow> auth_result \<Rightarrow> unit stage" where
  "orDeny b d = (if b then Inr () else Inl (Returned d))"

lemma stageThen_simps [simp]:
  "stageThen (Inl s) f = Inl s"
  "stageThen (Inr x) f = f x"
  by (simp_all add: stageThen_def)

lemma stageThen_Inr [read_simps]:
  "stageThen m f = Inr y \<longleftrightarrow> (\<exists>x. m = Inr x \<and> f x = Inr y)"
  by (cases m) simp_all

lemma stageThen_Returned [read_simps]:
  "stageThen m f = Inl (Returned d) \<longleftrightarrow>
     m = Inl (Returned d) \<or> (\<exists>x. m = Inr x \<and> f x = Inl (Returned d))"
  by (cases m) auto

lemma ofResult_Inr [read_simps]: "ofResult m = Inr x \<longleftrightarrow> m = Inr x"
  by (cases m) (simp_all add: ofResult_def)

lemma ofResult_Returned [read_simps]: "ofResult m = Inl (Returned d) \<longleftrightarrow> False"
  by (cases m) (simp_all add: ofResult_def)

lemma orDeny_Inr [read_simps]: "orDeny b d = Inr u \<longleftrightarrow> b"
  by (simp add: orDeny_def)

lemma orDeny_Returned [read_simps]: "orDeny b d = Inl (Returned d') \<longleftrightarrow> \<not> b \<and> d' = d"
  by (auto simp: orDeny_def)

subsection \<open>Restrictions\<close>

definition restrictionsAllow ::
  "restrictions \<Rightarrow> auth_input \<Rightarrow> prepared_payload \<Rightarrow> visibility option \<Rightarrow> purpose \<Rightarrow> bool" where
  "restrictionsAllow r i payload visibility purpose =
     (if rs_aggregateOnly r = Some True \<and>
         (visibility \<noteq> Some AggregateVisibility \<or> in_phase i \<noteq> PhaseRead) then False
      else if rs_proposalOnly r = Some True \<and> in_phase i \<noteq> PhasePropose then False
      else if purpose = ForOperation \<and> in_phase i \<noteq> PhaseRead \<and>
          ''create_rule'' \<in> set (pp_ruleOperationNames payload) \<and>
          (rs_categoryIds r \<noteq> None \<or> rs_maxOperationCount r \<noteq> None \<or> rs_maxGrossOutgoing r \<noteq> None) then False
      else if (case rs_operations r of
          None \<Rightarrow> False
        | Some allowed \<Rightarrow> \<not> list_all (\<lambda>op. op \<in> set allowed) (pp_operationNames payload)) then False
      else if (case rs_accountIds r of
          None \<Rightarrow> False
        | Some allowed \<Rightarrow>
            purpose = ForOperation \<and>
              (ruleOperation (in_operation i) \<and> in_operation i \<notin> set (pp_ruleOperationNames payload) \<and>
                 pp_subjectOperation payload \<noteq> Some (in_operation i) \<or>
               pp_invalidRuleScope payload \<or>
               (case pp_subjectOperation payload of None \<Rightarrow> False | Some op \<Rightarrow> ruleOperation op)) \<or>
            purpose = ForOperation \<and> \<not> list_all (\<lambda>a. a \<in> Str ` set allowed) (pp_ruleAccountIds payload) \<or>
            \<not> list_all (\<lambda>a. a \<in> set allowed) (pp_accountIds payload)) then False
      else if (case rs_categoryIds r of
          None \<Rightarrow> False
        | Some allowed \<Rightarrow> \<not> list_all (\<lambda>c. c \<in> set allowed) (pp_categoryIds payload)) then False
      else financialRestrictionsAllow r (pp_operationCount payload) (pp_gross payload))"

subsection \<open>Admission: space, policy version, credential\<close>

definition agentAuth :: "auth_input \<Rightarrow> (string \<times> string \<times> string) option" where
  "agentAuth i = (case in_auth i of
      Some (ApiKeyAgent actor _ _ did dv _) \<Rightarrow> Some (actor, did, dv)
    | _ \<Rightarrow> None)"

definition admitSpace :: "gov_db \<Rightarrow> auth_input \<Rightarrow> purpose \<Rightarrow> (space_row \<times> versioned_policy) stage" where
  "admitSpace db i purpose =
     stageThen (ofResult (isoTime (in_now i))) (\<lambda>_.
     stageThen (ofResult (requireText (in_operation i) ''operation'')) (\<lambda>_.
       case liveSpace db (in_spaceId i) of
         None \<Rightarrow> Inl (Returned (denied i ''Space unavailable'' None None 0))
       | Some sp \<Rightarrow>
           stageThen (orDeny (\<not> (purpose = ForRuleInspection \<and>
               (\<not> truthy (sp_budgetId sp) \<or>
                \<not> list_ex (\<lambda>r. rq_resourceKind r = ''budget'' \<and> Some (rq_resourceId r) = sp_budgetId sp)
                  (in_required i))))
             (denied i ''Rule inspection budget does not match the selected space'' None None 0)) (\<lambda>_.
           stageThen (ofResult (getPolicy db (in_spaceId i))) (\<lambda>po.
             case po of
               None \<Rightarrow> Inl (Returned (denied i ''Current governance policy unavailable'' None None 0))
             | Some policy \<Rightarrow>
                 stageThen (orDeny (vp_version policy = in_expectedPolicyVersion i)
                   (denied i ''Governance policy version mismatch'' (Some (vp_version policy)) None 0)) (\<lambda>_.
                 Inr (sp, policy))))))"

definition admitKey :: "gov_db \<Rightarrow> auth_input \<Rightarrow> string \<Rightarrow> unit stage" where
  "admitKey db i version =
     (case in_auth i of
        Some (ApiKeyHuman _ credentialId ownerId _) \<Rightarrow>
          stageThen (ofResult (resolveCredentialPrincipal db credentialId ownerId (Some (in_spaceId i)) (in_now i))) (\<lambda>principal.
          orDeny (case principal of
              Some (HumanKey actor _ _) \<Rightarrow> actor = in_actorId i \<and> ownerId = in_actorId i
            | _ \<Rightarrow> False)
            (denied i ''Human credential binding unavailable'' (Some version) None 0))
      | Some (ApiKeyAgent _ credentialId ownerId did dv _) \<Rightarrow>
          stageThen (ofResult (resolveCredentialPrincipal db credentialId ownerId (Some (in_spaceId i)) (in_now i))) (\<lambda>principal.
          orDeny (case principal of
              Some (AgentKey actor _ owner did' dv') \<Rightarrow>
                actor = in_actorId i \<and> owner = ownerId \<and> did' = did \<and> dv' = dv
            | _ \<Rightarrow> False)
            (denied i ''Agent credential binding unavailable'' (Some version) None 0))
      | _ \<Rightarrow> Inr ())"

definition admitCredential :: "gov_db \<Rightarrow> auth_input \<Rightarrow> string \<Rightarrow> unit stage" where
  "admitCredential db i version =
     stageThen (orDeny (case in_auth i of None \<Rightarrow> True | Some a \<Rightarrow> authActorId a = in_actorId i)
       (denied i ''Verified operation identity does not match actor'' (Some version) None 0)) (\<lambda>_.
     stageThen (orDeny (case in_auth i of None \<Rightarrow> True | Some a \<Rightarrow> credentialLifetimeValid (authLifetime a) (in_now i))
       (denied i ''Verified operation credential is no longer current'' (Some version) None 0)) (\<lambda>_.
     stageThen (orDeny (in_agentId i = None \<or> in_agentId i = map_option fst (agentAuth i))
       (denied i ''Agent principal does not match verified credential'' (Some version) None 0)) (\<lambda>_.
     stageThen (admitKey db i version) (\<lambda>_.
       if in_phase i \<noteq> PhaseApprove then Inr ()
       else (case in_auth i of
           Some (HumanSession c) \<Rightarrow>
             if hc_method c \<noteq> ''human-session'' \<or> hc_actorId c \<noteq> in_actorId i
             then Inl (Returned (denied i ''Human approval requires a reauthenticated session'' (Some version) None 0))
             else orDeny (case controlAuth db c (in_actorId i) (in_now i) of Inl _ \<Rightarrow> False | Inr _ \<Rightarrow> True)
               (denied i ''Recent reauthenticated human session required'' (Some version) None 0)
         | _ \<Rightarrow> Inl (Returned (denied i ''Human approval requires a reauthenticated session'' (Some version) None 0)))))))"

subsection \<open>Payload and coverage\<close>

definition admitPayload :: "auth_input \<Rightarrow> string \<Rightarrow> (prepared_payload \<times> resource_ref list) stage" where
  "admitPayload i version =
     (case (operationList (field (in_payload i) ''operations''), payloadResources (Obj (in_payload i))) of
        (Some operations, Some resources) \<Rightarrow>
          if in_required i = []
          then Inl (Returned (denied i ''Malformed or incomplete authorization payload'' (Some version) None 0))
          else (case financialTotals operations of
              None \<Rightarrow> Inl (Returned (denied i ''Malformed or overflowing gross outgoing amount'' (Some version) None 0))
            | Some totals \<Rightarrow>
                stageThen (ofResult (prepareAuthorizationPayload (in_operation i) operations resources totals)) (\<lambda>payload.
                  Inr (payload, resources)))
      | _ \<Rightarrow> Inl (Returned (denied i ''Malformed or incomplete authorization payload'' (Some version) None 0)))"

definition admitRequired :: "auth_input \<Rightarrow> string \<Rightarrow> unit stage" where
  "admitRequired i version =
     stageThen (orDeny (list_all (\<lambda>r. \<not> blank (rq_capability r) \<and> \<not> blank (rq_resourceId r)) (in_required i))
       (denied i ''Malformed required resource'' (Some version) None 0)) (\<lambda>_.
     orDeny (\<not> (agentAuth i \<noteq> None \<and>
         list_ex (\<lambda>r. nonDelegableAgentCapability (rq_capability r)) (in_required i)))
       (denied i ''Control, approval, and settlement authority requires a human principal'' (Some version) None 0))"

text \<open>How a request may cover a payload resource it does not require by name.\<close>

definition aggregateGrant :: "auth_input \<Rightarrow> bool" where
  "aggregateGrant i = list_ex (\<lambda>r. rq_resourceKind r = ''budget'' \<and>
     rq_visibility r = Some AggregateVisibility) (in_required i)"

definition aggregateConclusionRead :: "auth_input \<Rightarrow> bool" where
  "aggregateConclusionRead i = (in_phase i = PhaseRead \<and> in_operation i = ''conclusion'' \<and>
     list_ex (\<lambda>r. rq_capability r = ''conclusion'' \<and> rq_resourceKind r = ''budget'' \<and>
       rq_visibility r = Some AggregateVisibility) (in_required i))"

definition budgetResourceRead :: "auth_input \<Rightarrow> bool" where
  "budgetResourceRead i = (in_phase i = PhaseRead \<and>
     list_ex (\<lambda>r. rq_capability r = ''full-read'' \<and> rq_resourceKind r = ''budget'' \<and>
       rq_visibility r = Some ResourceVisibility) (in_required i))"

definition requiredKeys :: "auth_input \<Rightarrow> string list" where
  "requiredKeys i = map (\<lambda>r. resourceKey (rq_resourceKind r) (rq_resourceId r)) (in_required i)"

definition covered :: "auth_input \<Rightarrow> resource_ref \<Rightarrow> bool" where
  "covered i r \<longleftrightarrow>
     refKey r \<in> set (requiredKeys i) \<or>
     budgetResourceRead i \<and> rr_kind r \<in> set [''account'', ''category'', ''transaction'', ''rule''] \<or>
     rr_kind r \<in> set [''account'', ''category''] \<and> aggregateGrant i \<or>
     aggregateConclusionRead i \<and>
       rr_kind r \<in> set [''transaction'', ''evidence'', ''reservation'', ''commitment'', ''rule'']"

fun coverResources :: "auth_input \<Rightarrow> string \<Rightarrow> bool \<Rightarrow> string list \<Rightarrow> resource_ref list \<Rightarrow> string list stage" where
  "coverResources i version batch uncovered [] = Inr uncovered"
| "coverResources i version batch uncovered (r # rest) =
     (if covered i r then coverResources i version batch uncovered rest
      else if batch \<and> rr_kind r = ''evidence''
      then coverResources i version batch (if rr_id r \<in> set uncovered then uncovered else uncovered @ [rr_id r]) rest
      else Inl (Returned (denied i (''Payload resource omitted from authorization: '' @ rr_kind r) (Some version) None 0)))"

subsection \<open>Principal\<close>

text \<open>The member whose grants are consulted, and the delegation an agent acts under.\<close>

definition agentPrincipal ::
  "gov_db \<Rightarrow> auth_input \<Rightarrow> string \<Rightarrow> string \<times> string \<times> string \<Rightarrow> (membership \<times> delegation_row) stage" where
  "agentPrincipal db i version agent =
     (case agent of (actor, did, dv) \<Rightarrow>
       stageThen (orDeny (\<not> (in_actorId i \<noteq> actor \<or> \<not> truthy (in_delegationId i) \<or>
           \<not> truthy (in_delegationVersion i) \<or> in_delegationId i \<noteq> Some did \<or>
           in_delegationVersion i \<noteq> Some dv \<or> in_phase i = PhaseApprove \<or>
           in_phase i = PhaseExecute \<and> \<not> in_verifiedHumanApproval i))
         (denied i ''Agent authority requires a current bounded delegation and exact human approval''
           (Some version) None 0)) (\<lambda>_.
       stageThen (ofResult (currentDelegation db did dv (in_now i))) (\<lambda>del.
         case del of
           None \<Rightarrow> Inl (Returned (denied i ''Current delegation unavailable'' (Some version) None 0))
         | Some d \<Rightarrow>
             stageThen (orDeny (dl_spaceId d = in_spaceId i \<and> dl_agentId d = actor)
               (denied i ''Current delegation unavailable'' (Some version) None 0)) (\<lambda>_.
             stageThen (ofResult (currentMembership db (in_spaceId i) (dl_issuerActorId d) (in_now i))) (\<lambda>mo.
               case mo of
                 None \<Rightarrow> Inl (Returned (denied i ''Delegation issuer or agent is inactive'' (Some version) None 0))
               | Some m \<Rightarrow>
                   stageThen (orDeny (\<not> ((case getAgent db actor of None \<Rightarrow> True | Some a \<Rightarrow> ag_status a \<noteq> AgentActive) \<or>
                       mb_id m \<noteq> dl_issuerMembershipId d \<or>
                       (in_membershipId i \<noteq> None \<and> in_membershipId i \<noteq> Some (mb_id m))))
                     (denied i ''Delegation issuer or agent is inactive'' (Some version) None 0)) (\<lambda>_.
                   stageThen (ofResult (isCurrentAt (dl_validFrom d) (dl_validUntil d) (in_now i))) (\<lambda>live.
                   stageThen (orDeny live (denied i ''Delegation expired'' (Some version) None 0)) (\<lambda>_.
                     Inr (m, d)))))))))"

definition admitPrincipal ::
  "gov_db \<Rightarrow> auth_input \<Rightarrow> string \<Rightarrow> (membership \<times> string \<times> string \<times> delegation_row option) stage" where
  "admitPrincipal db i version =
     stageThen (case agentAuth i of
         Some agent \<Rightarrow>
           stageThen (agentPrincipal db i version agent) (\<lambda>(m, d).
             Inr (m, dl_issuerActorId d, dl_issuerMembershipId d, Some d))
       | None \<Rightarrow>
           stageThen (ofResult (currentMembership db (in_spaceId i) (in_actorId i) (in_now i))) (\<lambda>mo.
             case mo of
               None \<Rightarrow> Inl (Returned (denied i ''Current membership unavailable'' (Some version) None 0))
             | Some m \<Rightarrow>
                 stageThen (orDeny (\<not> (in_membershipId i \<noteq> None \<and> in_membershipId i \<noteq> Some (mb_id m)))
                   (denied i ''Current membership unavailable'' (Some version) None 0)) (\<lambda>_.
                 Inr (m, in_actorId i, mb_id m, None)))) (\<lambda>(m, actor, membershipId, del).
     stageThen (orDeny (membershipId \<noteq> []) (denied i ''Membership unavailable'' (Some version) None 0)) (\<lambda>_.
       Inr (m, actor, membershipId, del)))"

subsection \<open>Grants and delegated rights\<close>

type_synonym disclosure = "int \<times> (string \<times> int) list"

record auth_env =
  ev_db :: gov_db
  ev_input :: auth_input
  ev_purpose :: purpose
  ev_batch :: bool
  ev_disclosure :: "(disclosure \<times> disclosure) option"
  ev_version :: string
  ev_budgetId :: "string option"
  ev_payload :: prepared_payload
  ev_requiredApprovers :: int
  ev_memberId :: string
  ev_actorId :: string
  ev_membershipId :: string
  ev_delegation :: "delegation_row option"

definition authEnv ::
  "gov_db \<Rightarrow> auth_input \<Rightarrow> purpose \<Rightarrow> string list option \<Rightarrow> (disclosure \<times> disclosure) option \<Rightarrow> string \<Rightarrow>
     string option \<Rightarrow> prepared_payload \<Rightarrow> int \<Rightarrow> membership \<Rightarrow> string \<Rightarrow> string \<Rightarrow> delegation_row option \<Rightarrow> auth_env" where
  "authEnv db i purpose batch disclosure version budgetId payload approvers member actorId membershipId delegation =
     \<lparr>ev_db = db, ev_input = i, ev_purpose = purpose, ev_batch = (batch \<noteq> None),
      ev_disclosure = disclosure, ev_version = version, ev_budgetId = budgetId,
      ev_payload = payload, ev_requiredApprovers = approvers, ev_memberId = mb_id member,
      ev_actorId = actorId, ev_membershipId = membershipId, ev_delegation = delegation\<rparr>"

definition rightOf :: "auth_env \<Rightarrow> string \<Rightarrow> string \<Rightarrow> string \<Rightarrow> delegated_right option" where
  "rightOf e kind rid capability =
     (case ev_delegation e of
        None \<Rightarrow> None
      | Some d \<Rightarrow> find (\<lambda>r. dr_resourceKind r = kind \<and> dr_resourceId r = rid \<and> dr_capability r = capability) (dl_rights d))"

definition grantOf :: "auth_env \<Rightarrow> string \<Rightarrow> string \<Rightarrow> string \<Rightarrow> grant_row option" where
  "grantOf e kind rid capability =
     currentGrant (ev_db e) (ev_actorId e) (in_spaceId (ev_input e)) (ev_membershipId e) (ev_budgetId e)
       capability kind rid"

definition deniedHere :: "auth_env \<Rightarrow> string \<Rightarrow> stop" where
  "deniedHere e reason =
     Returned (denied (ev_input e) reason (Some (ev_version e)) (Some (ev_memberId e)) (ev_requiredApprovers e))"

definition disclosureFor :: "auth_env \<Rightarrow> string \<Rightarrow> disclosure option" where
  "disclosureFor e kind =
     (case ev_disclosure e of
        None \<Rightarrow> None
      | Some (collection, subject) \<Rightarrow>
          if kind \<in> set [''budget'', ''account'', ''category'', ''transaction'', ''rule'']
          then Some collection else Some subject)"

definition effectiveVisibility :: "auth_input \<Rightarrow> required_right \<Rightarrow> visibility option" where
  "effectiveVisibility i r =
     (case rq_visibility r of
        Some v \<Rightarrow> Some v
      | None \<Rightarrow> if in_phase i = PhaseRead then None else Some ResourceVisibility)"

type_synonym common_restrictions = "(visibility option \<times> restrictions) list"

text \<open>
  The restrictions met so far are kept once per visibility; each new one is checked against the
  complete payload unless evidence subjects are admitted one by one afterwards.
\<close>

fun checkRestrictions ::
  "auth_env \<Rightarrow> string \<Rightarrow> visibility option \<Rightarrow> common_restrictions \<Rightarrow> restrictions list \<Rightarrow> common_restrictions stage" where
  "checkRestrictions e kind visibility common [] = Inr common"
| "checkRestrictions e kind visibility common (r # rest) =
     (if (case disclosureFor e kind of
            None \<Rightarrow> False
          | Some (count, gross) \<Rightarrow> \<not> financialRestrictionsAllow r count gross)
      then Inl (deniedHere e ''Grant restrictions deny disclosed output'')
      else if (visibility, r) \<in> set common then checkRestrictions e kind visibility common rest
      else if \<not> ev_batch e \<and> \<not> restrictionsAllow r (ev_input e) (ev_payload e) visibility (ev_purpose e)
      then Inl (deniedHere e ''Grant restrictions deny complete payload'')
      else checkRestrictions e kind visibility (common @ [(visibility, r)]) rest)"

definition restrictionsOf :: "grant_row \<Rightarrow> delegated_right option \<Rightarrow> restrictions list" where
  "restrictionsOf grant right =
     gr_restrictions grant # (case right of None \<Rightarrow> [] | Some r \<Rightarrow> [dr_restrictions r])"

fun checkRequired :: "auth_env \<Rightarrow> common_restrictions \<Rightarrow> required_right list \<Rightarrow> common_restrictions stage" where
  "checkRequired e common [] = Inr common"
| "checkRequired e common (r # rest) =
     (let right = rightOf e (rq_resourceKind r) (rq_resourceId r) (rq_capability r) in
      if ev_delegation e \<noteq> None \<and> right = None
      then Inl (deniedHere e ''Requested right exceeds delegation'')
      else (case grantOf e (rq_resourceKind r) (rq_resourceId r) (rq_capability r) of
          None \<Rightarrow> Inl (deniedHere e ''Current scoped grant unavailable'')
        | Some grant \<Rightarrow>
            stageThen (checkRestrictions e (rq_resourceKind r) (effectiveVisibility (ev_input e) r) common
                (restrictionsOf grant right)) (\<lambda>common'.
              checkRequired e common' rest)))"

subsection \<open>Evidence subjects\<close>

definition evidenceRight :: "auth_env \<Rightarrow> prepared_payload \<Rightarrow> string \<Rightarrow> string \<Rightarrow> bool" where
  "evidenceRight e payload evidenceId capability =
     (let right = rightOf e ''evidence'' evidenceId capability in
      case grantOf e ''evidence'' evidenceId capability of
        None \<Rightarrow> False
      | Some grant \<Rightarrow>
          \<not> (ev_delegation e \<noteq> None \<and> right = None) \<and>
          list_all (\<lambda>r. restrictionsAllow r (ev_input e) payload (Some ResourceVisibility) (ev_purpose e))
            (restrictionsOf grant right))"

definition evidenceAdmitted :: "auth_env \<Rightarrow> string list \<Rightarrow> common_restrictions \<Rightarrow> string \<Rightarrow> bool" where
  "evidenceAdmitted e uncovered common evidenceId =
     (if length uncovered > 1 \<or> length uncovered = 1 \<and> evidenceId \<notin> set uncovered then False
      else
        let payload = (ev_payload e)\<lparr>pp_operationCount := pp_operationCount (ev_payload e) + 1,
              pp_subjectOperation := Some (in_operation (ev_input e))\<rparr>
        in list_all (\<lambda>(visibility, r). restrictionsAllow r (ev_input e) payload visibility (ev_purpose e)) common \<and>
           list_all (evidenceRight e payload evidenceId) [''evidence'', ''normalized-evidence''])"

subsection \<open>The evaluator\<close>

definition authorizeStages ::
  "gov_db \<Rightarrow> auth_input \<Rightarrow> purpose \<Rightarrow> string list option \<Rightarrow> (disclosure \<times> disclosure) option \<Rightarrow>
     (auth_result \<times> string list) stage" where
  "authorizeStages db i purpose batch disclosure =
     stageThen (admitSpace db i purpose) (\<lambda>(sp, policy).
     let version = vp_version policy in
     stageThen (admitCredential db i version) (\<lambda>_.
     stageThen (admitPayload i version) (\<lambda>(payload, resources).
     let requiredApprovers = requiredApproversFor (vp_policy policy) (pp_gross payload) (pp_operationNames payload) in
     stageThen (admitRequired i version) (\<lambda>_.
     stageThen (coverResources i version (batch \<noteq> None) [] resources) (\<lambda>uncovered.
     stageThen (admitPrincipal db i version) (\<lambda>(member, actorId, membershipId, delegation).
     let e = authEnv db i purpose batch disclosure version (sp_budgetId sp) payload requiredApprovers
           member actorId membershipId delegation
     in stageThen (checkRequired e [] (in_required i)) (\<lambda>common.
        let admitted = (case batch of None \<Rightarrow> [] | Some keys \<Rightarrow> filter (evidenceAdmitted e uncovered common) keys);
            needsApproval = (in_phase i = PhasePropose \<or> in_phase i = PhaseExecute) \<and>
              requiredApprovers > 0 \<and> \<not> in_verifiedHumanApproval i
        in Inr (\<lparr>ar_allowed = True,
             ar_disposition = (if needsApproval then ApprovalRequired else AuthorizedWithoutApproval),
             ar_actorId = in_actorId i, ar_spaceId = in_spaceId i, ar_membershipId = Some (mb_id member),
             ar_policyVersion = Some version, ar_requiredApprovers = requiredApprovers,
             ar_reason = (if needsApproval then ''Human approval required'' else ''Authorized'')\<rparr>, admitted))))))))"

definition authorizeForPurpose ::
  "gov_db \<Rightarrow> auth_input \<Rightarrow> purpose \<Rightarrow> string list option \<Rightarrow> (disclosure \<times> disclosure) option \<Rightarrow>
     auth_result \<times> string list" where
  "authorizeForPurpose db i purpose batch disclosure =
     (case authorizeStages db i purpose batch disclosure of
        Inr result \<Rightarrow> result
      | Inl (Returned d) \<Rightarrow> (d, [])
      | Inl (Thrown _) \<Rightarrow> (denied i ''Malformed governance request'' None None 0, []))"

definition authorize :: "gov_db \<Rightarrow> auth_input \<Rightarrow> auth_result" where
  "authorize db i = fst (authorizeForPurpose db i ForOperation None None)"

subsection \<open>Rule inspection, disclosure, evidence\<close>

record inspection_input =
  ii_actorId :: string
  ii_auth :: "operational_auth option"
  ii_spaceId :: string
  ii_membershipId :: string
  ii_expectedPolicyVersion :: string
  ii_budgetId :: string
  ii_ruleId :: string
  ii_operation :: string
  ii_now :: string

record inspection_result =
  ir_inspectionAllowed :: bool
  ir_actorId :: string
  ir_spaceId :: string
  ir_membershipId :: "string option"
  ir_policyVersion :: "string option"
  ir_reason :: string

definition inspectionRequest :: "inspection_input \<Rightarrow> auth_input" where
  "inspectionRequest r =
     (let agent = (case ii_auth r of Some (ApiKeyAgent a _ _ did dv _) \<Rightarrow> Some (a, did, dv) | _ \<Rightarrow> None)
      in \<lparr>in_actorId = ii_actorId r, in_spaceId = ii_spaceId r, in_membershipId = Some (ii_membershipId r),
          in_expectedPolicyVersion = ii_expectedPolicyVersion r, in_phase = PhasePropose,
          in_operation = ii_operation r,
          in_required =
            [\<lparr>rq_capability = ''rule:propose'', rq_resourceKind = ''budget'', rq_resourceId = ii_budgetId r,
              rq_visibility = Some ResourceVisibility\<rparr>,
             \<lparr>rq_capability = ''rule:propose'', rq_resourceKind = ''rule'', rq_resourceId = ii_ruleId r,
              rq_visibility = Some ResourceVisibility\<rparr>],
          in_payload = [(''operations'', Arr [Obj [(''operation'', Str (ii_operation r)), (''ruleId'', Str (ii_ruleId r))]])],
          in_now = ii_now r, in_agentId = map_option fst agent,
          in_delegationId = map_option (fst \<circ> snd) agent, in_delegationVersion = map_option (snd \<circ> snd) agent,
          in_auth = ii_auth r, in_verifiedHumanApproval = False\<rparr>)"

definition authorizeRuleInspection :: "gov_db \<Rightarrow> inspection_input \<Rightarrow> inspection_result" where
  "authorizeRuleInspection db r =
     (let request = inspectionRequest r;
          result = (if ii_auth r \<noteq> None \<and> \<not> blank (ii_membershipId r) \<and>
              (ii_operation r = ''update_rule'' \<or> ii_operation r = ''delete_rule'')
            then fst (authorizeForPurpose db request ForRuleInspection None None)
            else denied request ''Rule inspection requires a verified selected-space context'' None None 0)
      in \<lparr>ir_inspectionAllowed = ar_allowed result, ir_actorId = ar_actorId result,
          ir_spaceId = ar_spaceId result, ir_membershipId = ar_membershipId result,
          ir_policyVersion = ar_policyVersion result,
          ir_reason = (if ar_allowed result then ''Private rule baseline inspection admitted'' else ar_reason result)\<rparr>)"

text \<open>The totals of a disclosure that passed \<open>validateFinancialDisclosure\<close>.\<close>

definition disclosureTotals :: "jsval \<Rightarrow> disclosure" where
  "disclosureTotals v =
     (case js_record v of
        None \<Rightarrow> (0, [])
      | Some fs \<Rightarrow>
          ((case field fs ''operationCount'' of Num (NInt n) \<Rightarrow> n | _ \<Rightarrow> 0),
           (case field fs ''grossOutgoing'' of
              Obj gs \<Rightarrow> map (\<lambda>(c, v). (c, case v of Big a \<Rightarrow> a | _ \<Rightarrow> 0)) gs
            | _ \<Rightarrow> [])))"

definition authorizeReadDisclosure :: "gov_db \<Rightarrow> auth_input \<Rightarrow> jsval \<Rightarrow> auth_result" where
  "authorizeReadDisclosure db i limits =
     (if in_phase i \<noteq> PhaseRead then denied i ''Read disclosure limits require read phase'' None None 0
      else (case js_record limits of
          None \<Rightarrow> denied i ''Malformed read disclosure limits'' None None 0
        | Some disclosure \<Rightarrow>
            (case andThen (validateFinancialDisclosure (field disclosure ''collection'')) (\<lambda>_.
                validateFinancialDisclosure (field disclosure ''subject'')) of
               Inl _ \<Rightarrow> denied i ''Malformed read disclosure limits'' None None 0
             | Inr _ \<Rightarrow>
                 fst (authorizeForPurpose db i ForOperation None
                   (Some (disclosureTotals (field disclosure ''collection''),
                     disclosureTotals (field disclosure ''subject'')))))))"

definition authorizeReadEvidenceSubjects :: "gov_db \<Rightarrow> auth_input \<Rightarrow> string list \<Rightarrow> string list" where
  "authorizeReadEvidenceSubjects db i evidenceKeys =
     (if in_phase i \<noteq> PhaseRead \<or> evidenceKeys = [] \<or> list_ex blank evidenceKeys \<or> \<not> distinct evidenceKeys then []
      else (case field (in_payload i) ''operations'' of
          Arr operations \<Rightarrow>
            if list_all (\<lambda>v. case js_record v of
                 None \<Rightarrow> False
               | Some op \<Rightarrow> (case field op ''operation'' of Str s \<Rightarrow> \<not> blank s | _ \<Rightarrow> False)) operations
            then (case authorizeForPurpose db i ForOperation (Some evidenceKeys) None of
                (result, admitted) \<Rightarrow> if ar_allowed result then admitted else [])
            else []
        | _ \<Rightarrow> []))"

end
