(* ===== verification/Authorization_Facts.thy ===== *)
theory Authorization_Facts
  imports Authorization
begin

text \<open>
  What an authorization means: the lemmas about the stages of \<open>authorizeForPurpose\<close> from which the
  properties of the evaluator follow.
\<close>

subsection \<open>Only denials stop a stage\<close>

lemma denied_not_allowed [simp]: "\<not> ar_allowed (denied i reason v m n)"
  by (simp add: denied_def)

lemma admitSpace_denies: "admitSpace db i p = Inl (Returned d) \<Longrightarrow> \<not> ar_allowed d"
  by (auto simp: admitSpace_def read_simps split: option.splits)

lemma admitKey_denies: "admitKey db i v = Inl (Returned d) \<Longrightarrow> \<not> ar_allowed d"
  by (auto simp: admitKey_def read_simps split: option.splits operational_auth.splits)

lemma admitCredential_denies: "admitCredential db i v = Inl (Returned d) \<Longrightarrow> \<not> ar_allowed d"
  by (auto simp: admitCredential_def read_simps dest: admitKey_denies
      split: option.splits operational_auth.splits if_splits)

lemma admitPayload_denies: "admitPayload i v = Inl (Returned d) \<Longrightarrow> \<not> ar_allowed d"
  by (auto simp: admitPayload_def read_simps split: option.splits if_splits)

lemma admitRequired_denies: "admitRequired i v = Inl (Returned d) \<Longrightarrow> \<not> ar_allowed d"
  by (auto simp: admitRequired_def read_simps)

lemma coverResources_denies: "coverResources i v b u rs = Inl (Returned d) \<Longrightarrow> \<not> ar_allowed d"
  by (induction i v b u rs rule: coverResources.induct) (auto split: if_splits)

lemma agentPrincipal_denies: "agentPrincipal db i v a = Inl (Returned d) \<Longrightarrow> \<not> ar_allowed d"
  by (auto simp: agentPrincipal_def read_simps split: option.splits prod.splits)

lemma admitPrincipal_denies: "admitPrincipal db i v = Inl (Returned d) \<Longrightarrow> \<not> ar_allowed d"
  by (auto simp: admitPrincipal_def read_simps dest: agentPrincipal_denies split: option.splits prod.splits)

lemma checkRestrictions_denies:
  "checkRestrictions e k v c rs = Inl (Returned d) \<Longrightarrow> \<not> ar_allowed d"
  by (induction e k v c rs rule: checkRestrictions.induct) (auto simp: deniedHere_def split: if_splits)

lemma checkRequired_denies: "checkRequired e c rs = Inl (Returned d) \<Longrightarrow> \<not> ar_allowed d"
  by (induction e c rs rule: checkRequired.induct)
    (auto simp: deniedHere_def Let_def read_simps dest: checkRestrictions_denies
      split: if_splits option.splits)

lemmas stages_deny = admitSpace_denies admitCredential_denies admitPayload_denies
  admitRequired_denies coverResources_denies admitPrincipal_denies checkRequired_denies

lemma authorizeStages_denies:
  "authorizeStages db i p b ds = Inl (Returned d) \<Longrightarrow> \<not> ar_allowed d"
  unfolding authorizeStages_def Let_def stageThen_Returned
  by (auto simp: read_simps dest: stages_deny)

lemma authorizeForPurpose_allowed:
  assumes "ar_allowed (fst (authorizeForPurpose db i p b ds))"
  shows "authorizeStages db i p b ds = Inr (authorizeForPurpose db i p b ds)"
  using assms
  by (auto simp: authorizeForPurpose_def dest: authorizeStages_denies split: sum.splits stop.splits)


subsection \<open>The stages of an authorization\<close>

lemma authorizeStages_Inr:
  assumes "authorizeStages db i p b ds = Inr (r, admitted)"
  obtains sp policy payload resources uncovered m actor mid del common where
    "admitSpace db i p = Inr (sp, policy)"
    "admitCredential db i (vp_version policy) = Inr ()"
    "admitPayload i (vp_version policy) = Inr (payload, resources)"
    "admitRequired i (vp_version policy) = Inr ()"
    "coverResources i (vp_version policy) (b \<noteq> None) [] resources = Inr uncovered"
    "admitPrincipal db i (vp_version policy) = Inr (m, actor, mid, del)"
    "checkRequired (authEnv db i p b ds (vp_version policy) (sp_budgetId sp) payload
       (ar_requiredApprovers r) m actor mid del) [] (in_required i) = Inr common"
    "ar_requiredApprovers r =
       requiredApproversFor (vp_policy policy) (pp_gross payload) (pp_operationNames payload)"
    "ar_allowed r" "ar_policyVersion r = Some (vp_version policy)" "ar_membershipId r = Some (mb_id m)"
    "ar_disposition r = (if (in_phase i = PhasePropose \<or> in_phase i = PhaseExecute) \<and>
         ar_requiredApprovers r > 0 \<and> \<not> in_verifiedHumanApproval i
       then ApprovalRequired else AuthorizedWithoutApproval)"
    "admitted = (case b of None \<Rightarrow> [] | Some keys \<Rightarrow> filter (evidenceAdmitted
       (authEnv db i p b ds (vp_version policy) (sp_budgetId sp) payload
         (ar_requiredApprovers r) m actor mid del) uncovered common) keys)"
proof -
  note not_None_eq [simp del]
  from assms obtain sp policy where s: "admitSpace db i p = Inr (sp, policy)"
    by (auto simp: authorizeStages_def stageThen_Inr simp del: stageThen_simps)
  from assms s obtain payload resources where
    c: "admitCredential db i (vp_version policy) = Inr ()"
    and l: "admitPayload i (vp_version policy) = Inr (payload, resources)"
    by (auto simp: authorizeStages_def Let_def stageThen_Inr)
  from assms s c l obtain uncovered m actor mid del where
    q: "admitRequired i (vp_version policy) = Inr ()"
    and u: "coverResources i (vp_version policy) (b \<noteq> None) [] resources = Inr uncovered"
    and m: "admitPrincipal db i (vp_version policy) = Inr (m, actor, mid, del)"
    by (auto simp: authorizeStages_def Let_def stageThen_Inr)
  note stages = s c l q u m
  let ?n = "requiredApproversFor (vp_policy policy) (pp_gross payload) (pp_operationNames payload)"
  let ?e = "authEnv db i p b ds (vp_version policy) (sp_budgetId sp) payload ?n m actor mid del"
  from assms obtain common where common: "checkRequired ?e [] (in_required i) = Inr common"
    by (cases "checkRequired ?e [] (in_required i)") (simp_all add: authorizeStages_def Let_def stages)
  have n: "ar_requiredApprovers r = ?n"
    using assms by (simp add: authorizeStages_def Let_def stages common) (auto)
  have adm: "admitted = (case b of None \<Rightarrow> [] | Some keys \<Rightarrow> filter (evidenceAdmitted ?e uncovered common) keys)"
    using assms by (simp add: authorizeStages_def Let_def stages common)
  have f: "ar_allowed r" "ar_policyVersion r = Some (vp_version policy)" "ar_membershipId r = Some (mb_id m)"
    "ar_disposition r = (if (in_phase i = PhasePropose \<or> in_phase i = PhaseExecute) \<and>
         ?n > 0 \<and> \<not> in_verifiedHumanApproval i
       then ApprovalRequired else AuthorizedWithoutApproval)"
    using assms by (auto simp: authorizeStages_def Let_def stages common)
  show ?thesis
    by (rule that [OF stages _ n f(1-3)]) (simp_all only: n common f(4) adm)
qed

lemma admitSpace_Inr:
  assumes "admitSpace db i p = Inr (sp, policy)"
  shows "liveSpace db (in_spaceId i) = Some sp" "getPolicy db (in_spaceId i) = Inr (Some policy)"
    "vp_version policy = in_expectedPolicyVersion i" "\<exists>t. isoTime (in_now i) = Inr t"
  using assms by (auto simp: admitSpace_def read_simps split: option.splits)

lemma coverResources_covered:
  "coverResources i v False u rs = Inr u' \<Longrightarrow> r \<in> set rs \<Longrightarrow> covered i r"
  by (induction i v False u rs rule: coverResources.induct) (auto split: if_splits)

lemma checkRestrictions_Inr:
  assumes "checkRestrictions e k v c rs = Inr c'" "\<not> ev_batch e"
    and "\<forall>(v, r) \<in> set c. restrictionsAllow r (ev_input e) (ev_payload e) v (ev_purpose e)"
  shows "(\<forall>r \<in> set rs. restrictionsAllow r (ev_input e) (ev_payload e) v (ev_purpose e)) \<and>
    (\<forall>(v, r) \<in> set c'. restrictionsAllow r (ev_input e) (ev_payload e) v (ev_purpose e))"
  using assms
proof (induction e k v c rs rule: checkRestrictions.induct)
  case (2 e k v c r rest)
  show ?case
  proof (cases "(v, r) \<in> set c")
    case True
    with 2 show ?thesis by (auto split: if_splits)
  next
    case False
    with "2.prems" have "restrictionsAllow r (ev_input e) (ev_payload e) v (ev_purpose e)"
      and "checkRestrictions e k v (c @ [(v, r)]) rest = Inr c'" by (auto split: if_splits)
    with False "2.prems" "2.IH"(2) show ?thesis by (auto split: if_splits)
  qed
qed auto

lemma checkRequired_Inr:
  assumes "checkRequired e c rs = Inr c'" "\<not> ev_batch e"
    and "\<forall>(v, r) \<in> set c. restrictionsAllow r (ev_input e) (ev_payload e) v (ev_purpose e)"
    and "q \<in> set rs"
  shows "\<exists>grant. grantOf e (rq_resourceKind q) (rq_resourceId q) (rq_capability q) = Some grant \<and>
    (ev_delegation e \<noteq> None \<longrightarrow> rightOf e (rq_resourceKind q) (rq_resourceId q) (rq_capability q) \<noteq> None) \<and>
    (\<forall>r \<in> set (restrictionsOf grant (rightOf e (rq_resourceKind q) (rq_resourceId q) (rq_capability q))).
       restrictionsAllow r (ev_input e) (ev_payload e) (effectiveVisibility (ev_input e) q) (ev_purpose e))"
  using assms
proof (induction e c rs rule: checkRequired.induct)
  case (2 e c r rest)
  from "2.prems"(1) obtain grant c1 where g: "grantOf e (rq_resourceKind r) (rq_resourceId r) (rq_capability r) = Some grant"
    and d: "ev_delegation e \<noteq> None \<longrightarrow> rightOf e (rq_resourceKind r) (rq_resourceId r) (rq_capability r) \<noteq> None"
    and c1: "checkRestrictions e (rq_resourceKind r) (effectiveVisibility (ev_input e) r) c
      (restrictionsOf grant (rightOf e (rq_resourceKind r) (rq_resourceId r) (rq_capability r))) = Inr c1"
    and rest: "checkRequired e c1 rest = Inr c'"
    by (auto simp: Let_def stageThen_Inr simp del: stageThen_simps split: if_splits option.splits)
  note ok = checkRestrictions_Inr [OF c1 "2.prems"(2,3)]
  show ?case
  proof (cases "q = r")
    case True
    with g d ok show ?thesis by auto
  next
    case False
    then have "q \<in> set rest" using "2.prems"(4) by simp
    moreover have "\<not> (ev_delegation e \<noteq> None \<and> rightOf e (rq_resourceKind r) (rq_resourceId r) (rq_capability r) = None)"
      using d by auto
    ultimately show ?thesis using "2.IH" [OF refl _ g rest "2.prems"(2)] ok by blast
  qed
qed simp

lemma authEnv_simps [simp]:
  "ev_db (authEnv db i p b ds v bid pl n m a mid del) = db"
  "ev_input (authEnv db i p b ds v bid pl n m a mid del) = i"
  "ev_purpose (authEnv db i p b ds v bid pl n m a mid del) = p"
  "ev_batch (authEnv db i p b ds v bid pl n m a mid del) = (b \<noteq> None)"
  "ev_disclosure (authEnv db i p b ds v bid pl n m a mid del) = ds"
  "ev_budgetId (authEnv db i p b ds v bid pl n m a mid del) = bid"
  "ev_payload (authEnv db i p b ds v bid pl n m a mid del) = pl"
  "ev_actorId (authEnv db i p b ds v bid pl n m a mid del) = a"
  "ev_membershipId (authEnv db i p b ds v bid pl n m a mid del) = mid"
  "ev_delegation (authEnv db i p b ds v bid pl n m a mid del) = del"
  by (simp_all add: authEnv_def)

lemma admitPrincipal_human:
  assumes "admitPrincipal db i v = Inr (m, actor, mid, del)" "agentAuth i = None"
  shows "currentMembership db (in_spaceId i) (in_actorId i) (in_now i) = Inr (Some m)"
    "actor = in_actorId i" "mid = mb_id m" "del = None"
    "in_membershipId i = None \<or> in_membershipId i = Some (mb_id m)"
  using assms by (auto simp: admitPrincipal_def read_simps split: option.splits)

lemma admitPrincipal_agent:
  assumes "admitPrincipal db i v = Inr (m, actor, mid, del)" "agentAuth i = Some (agent, did, dv)"
  obtains d where "currentDelegation db did dv (in_now i) = Inr (Some d)"
    "currentMembership db (in_spaceId i) (dl_issuerActorId d) (in_now i) = Inr (Some m)"
    "actor = dl_issuerActorId d" "mid = dl_issuerMembershipId d" "mid = mb_id m" "del = Some d"
    "dl_spaceId d = in_spaceId i" "dl_agentId d = agent" "in_actorId i = agent"
    "in_delegationId i = Some did" "in_delegationVersion i = Some dv" "in_phase i \<noteq> PhaseApprove"
    "in_phase i = PhaseExecute \<longrightarrow> in_verifiedHumanApproval i"
    "\<exists>a. getAgent db agent = Some a \<and> ag_status a = AgentActive"
  using assms
  by (auto simp: admitPrincipal_def agentPrincipal_def read_simps split: option.splits if_splits)


subsection \<open>Payload of an authorized request\<close>

lemma admitPayload_Inr:
  assumes "admitPayload i v = Inr (payload, resources)"
  obtains ops totals where "operationList (field (in_payload i) ''operations'') = Some ops"
    "payloadResources (Obj (in_payload i)) = Some resources" "financialTotals ops = Some totals"
    "prepareAuthorizationPayload (in_operation i) ops resources totals = Inr payload"
    "pp_gross payload = totals" "in_required i \<noteq> []"
proof -
  from assms obtain ops totals where h: "operationList (field (in_payload i) ''operations'') = Some ops"
    "payloadResources (Obj (in_payload i)) = Some resources" "financialTotals ops = Some totals"
    "prepareAuthorizationPayload (in_operation i) ops resources totals = Inr payload" "in_required i \<noteq> []"
    by (auto simp: admitPayload_def read_simps split: option.splits if_splits)
  then show ?thesis using that prepareAuthorizationPayload_fields(5) by blast
qed

text \<open>Resource kinds have no colon, so a resource key determines its resource.\<close>

lemma takeWhile_colon: "CHR '':'' \<notin> set k \<Longrightarrow> takeWhile (\<lambda>c. c \<noteq> CHR '':'') (k @ CHR '':'' # rest) = k"
  by (induction k) auto

lemma resourceKey_inj:
  assumes "resourceKey k i = resourceKey k' i'" "CHR '':'' \<notin> set k" "CHR '':'' \<notin> set k'"
  shows "k = k' \<and> i = i'"
proof -
  have "k = k'"
    using arg_cong [OF assms(1), of "takeWhile (\<lambda>c. c \<noteq> CHR '':'')"] assms(2,3)
    by (simp add: resourceKey_def takeWhile_colon)
  with assms(1) show ?thesis by (simp add: resourceKey_def)
qed

lemma validKinds_no_colon: "k \<in> set validKinds \<Longrightarrow> CHR '':'' \<notin> set k"
  by (auto simp: validKinds_def)

lemma fieldKinds_valid: "(n, k) \<in> set fieldKinds \<Longrightarrow> k \<in> set validKinds"
  by (auto simp: fieldKinds_def validKinds_def)

lemma effectKinds_valid: "map_of effectKinds k = Some kind \<Longrightarrow> kind \<in> set validKinds"
  by (auto simp: effectKinds_def validKinds_def split: if_splits)

lemma ownResource_kind: "ownResource fs = Some rs \<Longrightarrow> r \<in> set rs \<Longrightarrow> rr_kind r \<in> set validKinds"
  by (auto simp: ownResource_def dest: effectKinds_valid split: if_splits jsval.splits option.splits)

lemma fieldResources_kind:
  "fieldResources fs ks = Some rs \<Longrightarrow> set ks \<subseteq> set fieldKinds \<Longrightarrow> r \<in> set rs \<Longrightarrow> rr_kind r \<in> set validKinds"
proof (induction fs ks arbitrary: rs rule: fieldResources.induct)
  case (2 fs name kind rest)
  have "kind \<in> set validKinds" using "2.prems"(2) by (auto intro: fieldKinds_valid)
  with 2 show ?case by (auto split: jsval.splits if_splits)
qed simp

lemma visitResources_kind:
  "visitResources v = Some rs \<Longrightarrow> r \<in> set rs \<Longrightarrow> rr_kind r \<in> set validKinds"
  "visitResourcesList xs = Some rs \<Longrightarrow> r \<in> set rs \<Longrightarrow> rr_kind r \<in> set validKinds"
  "visitResourcesFields fs = Some rs \<Longrightarrow> r \<in> set rs \<Longrightarrow> rr_kind r \<in> set validKinds"
  by (induction v and xs and fs arbitrary: rs and rs and rs
      rule: visitResources_visitResourcesList_visitResourcesFields.induct)
    (auto simp: joinRefs_Some dest: ownResource_kind fieldResources_kind [OF _ subset_refl])

lemma payloadResources_member:
  assumes "payloadResources v = Some rs" "subval (Obj fs) v" "(name, kind) \<in> set fieldKinds"
    and "field fs name \<notin> {Undefined, Null}"
  shows "\<exists>i. field fs name = Str i \<and> \<not> blank i \<and> \<lparr>rr_kind = kind, rr_id = i\<rparr> \<in> set rs"
proof -
  from payloadResources_complete [OF assms] obtain i r where
    i: "field fs name = Str i" "\<not> blank i" and r: "r \<in> set rs" "resourceKey kind i = refKey r" by auto
  from assms(1) r(1) have "rr_kind r \<in> set validKinds"
    using foldl_addRef_subset visitResources_kind(1) by (fastforce simp: payloadResources_def)
  then have "kind = rr_kind r \<and> i = rr_id r"
    using resourceKey_inj [OF r(2)] validKinds_no_colon fieldKinds_valid [OF assms(3)] by blast
  then have "r = \<lparr>rr_kind = kind, rr_id = i\<rparr>" by simp
  with i r(1) show ?thesis by blast
qed

subsection \<open>Grants behind an authorization\<close>

text \<open>
  A required right is backed when the principal's current grant for it exists and its restrictions
  allow the complete payload; \<open>delegationBacks\<close> adds the agent's delegated right.
\<close>

definition grantBacks ::
  "gov_db \<Rightarrow> auth_input \<Rightarrow> string option \<Rightarrow> prepared_payload \<Rightarrow> string \<Rightarrow> string \<Rightarrow> required_right \<Rightarrow> bool" where
  "grantBacks db i budgetId payload actorId membershipId q \<longleftrightarrow>
     (\<exists>grant. currentGrant db actorId (in_spaceId i) membershipId budgetId
          (rq_capability q) (rq_resourceKind q) (rq_resourceId q) = Some grant \<and>
        restrictionsAllow (gr_restrictions grant) i payload
          (effectiveVisibility i q) ForOperation)"

definition delegationBacks :: "auth_input \<Rightarrow> prepared_payload \<Rightarrow> delegation_row \<Rightarrow> required_right \<Rightarrow> bool" where
  "delegationBacks i payload d q \<longleftrightarrow>
     (\<exists>r \<in> set (dl_rights d). dr_capability r = rq_capability q \<and> dr_resourceKind r = rq_resourceKind q \<and>
        dr_resourceId r = rq_resourceId q \<and>
        restrictionsAllow (dr_restrictions r) i payload
          (effectiveVisibility i q) ForOperation)"

lemma authorize_allowed:
  "ar_allowed (authorize db i) \<Longrightarrow> authorizeStages db i ForOperation None None =
     Inr (authorize db i, snd (authorizeForPurpose db i ForOperation None None))"
  unfolding authorize_def by (frule authorizeForPurpose_allowed) simp

lemma checkRequired_backs:
  assumes "checkRequired (authEnv db i ForOperation None None v bid payload n m actor mid del) [] rs = Inr common"
    and "q \<in> set rs"
  shows "grantBacks db i bid payload actor mid q \<and> (\<forall>d. del = Some d \<longrightarrow> delegationBacks i payload d q)"
proof -
  let ?e = "authEnv db i ForOperation None None v bid payload n m actor mid del"
  from checkRequired_Inr [OF assms(1) _ _ assms(2)] obtain grant where
    g: "grantOf ?e (rq_resourceKind q) (rq_resourceId q) (rq_capability q) = Some grant"
    and d: "del \<noteq> None \<longrightarrow> rightOf ?e (rq_resourceKind q) (rq_resourceId q) (rq_capability q) \<noteq> None"
    and r: "\<forall>r \<in> set (restrictionsOf grant (rightOf ?e (rq_resourceKind q) (rq_resourceId q) (rq_capability q))).
       restrictionsAllow r i payload (effectiveVisibility i q) ForOperation" by auto
  have "grantBacks db i bid payload actor mid q"
    using g r by (auto simp: grantBacks_def grantOf_def restrictionsOf_def)
  moreover have "delegationBacks i payload d' q" if "del = Some d'" for d'
  proof -
    from that d obtain right where
      right: "rightOf ?e (rq_resourceKind q) (rq_resourceId q) (rq_capability q) = Some right" by auto
    then have "find (\<lambda>r. dr_resourceKind r = rq_resourceKind q \<and> dr_resourceId r = rq_resourceId q \<and>
        dr_capability r = rq_capability q) (dl_rights d') = Some right" using that by (simp add: rightOf_def)
    from find_SomeD [OF this] right r show ?thesis
      by (auto simp: delegationBacks_def restrictionsOf_def)
  qed
  ultimately show ?thesis by blast
qed

end
