(* ===== verification/Sample_Space.thy ===== *)
theory Sample_Space
  imports Authorization
begin

text \<open>
  A small deployment on which the properties are exercised: one space with its owner, a current
  policy, the owner's control grants and two resource grants, an agent with a delegation and an API
  key bound to it.
\<close>

definition t0 :: string where "t0 = ''2024-01-01T00:00:00.000Z''"
definition t1 :: string where "t1 = ''2024-06-01T12:00:00.000Z''"

definition sample_policy :: governance_policy where
  "sample_policy = \<lparr>gp_minimumApprovers = 1, gp_approvalThresholds =
       [\<lparr>at_currency = ''EUR'', at_amountMinorUnits = ''50000'', at_requiredApprovers = 2\<rparr>],
     gp_operationApprovers = [(''delete_rule'', 3)], gp_assistanceMaximum = None\<rparr>"

definition sample_member :: membership where
  "sample_member = \<lparr>mb_id = ''m1'', mb_spaceId = ''s1'', mb_actorId = ''ana'', mb_grantedBy = ''ana'',
     mb_validFrom = t0, mb_validUntil = None, mb_revokedAt = None, mb_createdAt = t0, mb_origin = Created\<rparr>"

definition sample_space :: space_row where
  "sample_space = \<lparr>sp_id = ''s1'', sp_name = ''Home'', sp_kind = Personal, sp_budgetId = Some ''b1'',
     sp_createdBy = ''ana'', sp_createdAt = t0, sp_deletedAt = None\<rparr>"

definition sample_limits :: restrictions where
  "sample_limits = no_restrictions\<lparr>rs_maxGrossOutgoing := Some [\<lparr>ml_currency = ''EUR'', ml_minorUnits = ''90000''\<rparr>],
     rs_maxOperationCount := Some 5\<rparr>"

definition sample_grant :: "string \<Rightarrow> string \<Rightarrow> string \<Rightarrow> string \<Rightarrow> restrictions \<Rightarrow> grant_row" where
  "sample_grant gid capability kind rid r = \<lparr>gr_id = gid, gr_spaceId = Some ''s1'', gr_membershipId = Some ''m1'',
     gr_actorId = ''ana'', gr_budgetId = Some ''b1'', gr_capability = capability, gr_resourceKind = kind,
     gr_resourceId = rid, gr_granted = True, gr_restrictions = r, gr_createdAt = t0, gr_updatedAt = t0,
     gr_revokedAt = None\<rparr>"

definition sample_agent :: agent_row where
  "sample_agent = \<lparr>ag_id = ''bot'', ag_registeredSpaceId = ''s1'', ag_status = AgentActive, ag_createdBy = ''ana'',
     ag_createdAt = t0, ag_disconnectedAt = None, ag_revokedAt = None\<rparr>"

definition sample_delegation :: delegation_row where
  "sample_delegation = \<lparr>dl_id = ''d1'', dl_version = ''1'', dl_spaceId = ''s1'', dl_agentId = ''bot'',
     dl_issuerActorId = ''ana'', dl_issuerMembershipId = ''m1'',
     dl_rights = [\<lparr>dr_capability = ''ledger:write'', dr_resourceKind = ''transaction'', dr_resourceId = ''x1'',
       dr_restrictions = sample_limits\<rparr>],
     dl_validFrom = t0, dl_validUntil = None, dl_revokedAt = None, dl_createdAt = t0\<rparr>"

definition sample_key :: credential_row where
  "sample_key = \<lparr>cb_id = ''c1'', cb_spaceId = ''s1'', cb_credentialId = ''k1'', cb_credentialOwnerId = ''ana'',
     cb_principalType = AgentPrincipal, cb_principalId = ''bot'', cb_delegationId = Some ''d1'',
     cb_delegationVersion = Some ''1'', cb_issuerMembershipId = ''m1'', cb_createdAt = t0, cb_revokedAt = None\<rparr>"

definition sample_db :: gov_db where
  "sample_db = (empty_db (\<lambda>n. ''u'' @ decimal n))\<lparr>
     db_actors := [\<lparr>ac_id = ''ana'', ac_status = Active, ac_capabilities = [], ac_scope = ''owner''\<rparr>,
       \<lparr>ac_id = ''ben'', ac_status = Active, ac_capabilities = [], ac_scope = ''user''\<rparr>],
     db_connectionOwner := Some ''ana'', db_spaces := [sample_space], db_memberships := [sample_member],
     db_policies := [\<lparr>po_spaceId = ''s1'', po_version = ''1'', po_policy = sample_policy, po_actorId = ''ana'',
       po_createdAt = t0, po_isCurrent = True\<rparr>],
     db_grants := map (\<lambda>c. sample_grant (''g:'' @ c) c ''space'' ''s1'' no_restrictions) control_capabilities @
       [sample_grant ''g1'' ''ledger:write'' ''transaction'' ''x1'' sample_limits],
     db_agents := [sample_agent], db_delegations := [sample_delegation], db_credentials := [sample_key]\<rparr>"

definition sample_lifetime :: credential_lifetime where
  "sample_lifetime = \<lparr>cl_expiresAt = None, cl_isCredentialValid = None\<rparr>"

definition ana_control :: human_control where
  "ana_control = \<lparr>hc_method = ''human-session'', hc_actorId = ''ana'', hc_sessionId = ''sess'',
     hc_reauthenticatedAt = t1, hc_lifetime = sample_lifetime\<rparr>"

definition sample_payload :: "(string \<times> jsval) list" where
  "sample_payload = [(''operations'', Arr [Obj [(''operation'', Str ''pay''), (''transactionId'', Str ''x1''),
     (''direction'', Str ''outgoing''),
     (''amount'', Obj [(''currency'', Str ''EUR''), (''minorUnits'', Str ''70000'')])]])]"

definition human_request :: "phase \<Rightarrow> auth_input" where
  "human_request ph = \<lparr>in_actorId = ''ana'', in_spaceId = ''s1'', in_membershipId = None,
     in_expectedPolicyVersion = ''1'', in_phase = ph, in_operation = ''pay'',
     in_required = [\<lparr>rq_capability = ''ledger:write'', rq_resourceKind = ''transaction'', rq_resourceId = ''x1'',
       rq_visibility = None\<rparr>],
     in_payload = sample_payload, in_now = t1, in_agentId = None, in_delegationId = None,
     in_delegationVersion = None, in_auth = Some (HumanSession ana_control), in_verifiedHumanApproval = False\<rparr>"

definition agent_request :: "phase \<Rightarrow> auth_input" where
  "agent_request ph = (human_request ph)\<lparr>in_actorId := ''bot'', in_agentId := Some ''bot'',
     in_delegationId := Some ''d1'', in_delegationVersion := Some ''1'',
     in_auth := Some (ApiKeyAgent ''bot'' ''k1'' ''ana'' ''d1'' ''1'' sample_lifetime)\<rparr>"

lemmas sample_defs = t0_def t1_def sample_policy_def sample_member_def sample_space_def sample_limits_def
  sample_grant_def sample_agent_def sample_delegation_def sample_key_def sample_db_def sample_lifetime_def
  ana_control_def sample_payload_def human_request_def agent_request_def

lemma human_propose: "ar_allowed (authorize sample_db (human_request PhasePropose))"
  by code_simp
lemma agent_propose: "ar_allowed (authorize sample_db (agent_request PhasePropose))"
  by code_simp
lemma human_propose': "ar_requiredApprovers (authorize sample_db (human_request PhasePropose)) = 2"
  by code_simp

end
