(* ===== verification/Authorization_Props.thy ===== *)
theory Authorization_Props
  imports Authorization_Facts Sample_Space
begin

text \<open>
  The properties of the authorization evaluator: what a granted request rests on, for people and
  for agents, that nothing in its payload escapes the check, and that changes are never authorized
  without human approval.
\<close>

lemma getPolicy_valid: "getPolicy db sid = Inr (Some policy) \<Longrightarrow> valid_policy (vp_policy policy)"
  by (auto simp: getPolicy_def versionedPolicy_def read_simps dest!: parsePolicy_valid split: option.splits)

lemma authorizedE:
  assumes "ar_allowed (authorize db i)"
  obtains sp policy payload ops resources m actor mid del where
    "liveSpace db (in_spaceId i) = Some sp" "getPolicy db (in_spaceId i) = Inr (Some policy)"
    "vp_version policy = in_expectedPolicyVersion i"
    "operationList (field (in_payload i) ''operations'') = Some ops"
    "payloadResources (Obj (in_payload i)) = Some resources"
    "financialTotals ops = Some (pp_gross payload)"
    "prepareAuthorizationPayload (in_operation i) ops resources (pp_gross payload) = Inr payload"
    "\<forall>r \<in> set resources. covered i r"
    "admitCredential db i (vp_version policy) = Inr ()" "admitRequired i (vp_version policy) = Inr ()"
    "admitPrincipal db i (vp_version policy) = Inr (m, actor, mid, del)"
    "\<forall>q \<in> set (in_required i). grantBacks db i (sp_budgetId sp) payload actor mid q \<and>
       (\<forall>d. del = Some d \<longrightarrow> delegationBacks i payload d q)"
    "ar_requiredApprovers (authorize db i) =
       requiredApproversFor (vp_policy policy) (pp_gross payload) (pp_operationNames payload)"
    "ar_disposition (authorize db i) = (if (in_phase i = PhasePropose \<or> in_phase i = PhaseExecute) \<and>
         ar_requiredApprovers (authorize db i) > 0 \<and> \<not> in_verifiedHumanApproval i
       then ApprovalRequired else AuthorizedWithoutApproval)"
    "ar_membershipId (authorize db i) = Some (mb_id m)"
proof (rule authorizeStages_Inr [OF authorize_allowed [OF assms]])
  fix sp policy payload resources uncovered m actor mid del common
  assume h: "admitSpace db i ForOperation = Inr (sp, policy)"
    "admitCredential db i (vp_version policy) = Inr ()"
    "admitPayload i (vp_version policy) = Inr (payload, resources)"
    "admitRequired i (vp_version policy) = Inr ()"
    "coverResources i (vp_version policy) (None \<noteq> (None :: string list option)) [] resources = Inr uncovered"
    "admitPrincipal db i (vp_version policy) = Inr (m, actor, mid, del)"
    "checkRequired (authEnv db i ForOperation None None (vp_version policy) (sp_budgetId sp) payload
       (ar_requiredApprovers (authorize db i)) m actor mid del) [] (in_required i) = Inr common"
    and r: "ar_requiredApprovers (authorize db i) =
       requiredApproversFor (vp_policy policy) (pp_gross payload) (pp_operationNames payload)"
    "ar_membershipId (authorize db i) = Some (mb_id m)"
    "ar_disposition (authorize db i) = (if (in_phase i = PhasePropose \<or> in_phase i = PhaseExecute) \<and>
         ar_requiredApprovers (authorize db i) > 0 \<and> \<not> in_verifiedHumanApproval i
       then ApprovalRequired else AuthorizedWithoutApproval)"
  obtain ops totals where p: "operationList (field (in_payload i) ''operations'') = Some ops"
    "payloadResources (Obj (in_payload i)) = Some resources" "financialTotals ops = Some totals"
    "prepareAuthorizationPayload (in_operation i) ops resources totals = Inr payload"
    "pp_gross payload = totals" by (rule admitPayload_Inr [OF h(3)])
  have c: "\<forall>q \<in> set resources. covered i q" using coverResources_covered h(5) by simp
  have b: "\<forall>q \<in> set (in_required i). grantBacks db i (sp_budgetId sp) payload actor mid q \<and>
       (\<forall>d. del = Some d \<longrightarrow> delegationBacks i payload d q)"
    using checkRequired_backs [OF h(7)] by blast
  show thesis
    by (rule that [OF admitSpace_Inr(1-3) [OF h(1)] p(1,2) _ _ c h(2,4,6) b r(1,3,2)]) (use p in simp_all)
qed


lemma human_propose_allowed: "ar_allowed (authorize sample_db (human_request PhasePropose))"
  by code_simp

lemma agent_propose_allowed: "ar_allowed (authorize sample_db (agent_request PhasePropose))"
  by code_simp


text \<open>
  C2. A request of an agent that is authorized runs under a current delegation of the selected
  space to that agent, issued by a current member; the agent is active; every right it requires is
  a right of that delegation whose own restrictions allow the complete payload, and is backed by a
  current grant of the issuer; it never needs a human-only capability; it is never an approval, and
  an execution only with a verified human approval.
\<close>
theorem authorize_agent_sound:
  assumes "ar_allowed (authorize db i)" and "agentAuth i = Some (agent, did, dv)"
  shows "\<exists>d sp m payload.
    currentDelegation db did dv (in_now i) = Inr (Some d) \<and>
    dl_spaceId d = in_spaceId i \<and> dl_agentId d = in_actorId i \<and> in_actorId i = agent \<and>
    (\<exists>a. getAgent db agent = Some a \<and> ag_status a = AgentActive) \<and>
    liveSpace db (in_spaceId i) = Some sp \<and>
    currentMembership db (in_spaceId i) (dl_issuerActorId d) (in_now i) = Inr (Some m) \<and>
    dl_issuerMembershipId d = mb_id m \<and>
    (\<forall>q \<in> set (in_required i).
       grantBacks db i (sp_budgetId sp) payload (dl_issuerActorId d) (mb_id m) q \<and>
       delegationBacks i payload d q \<and> \<not> nonDelegableAgentCapability (rq_capability q)) \<and>
    in_phase i \<noteq> PhaseApprove \<and> (in_phase i = PhaseExecute \<longrightarrow> in_verifiedHumanApproval i)"
  using assms(1)
proof (rule authorizedE)
  fix sp and policy :: versioned_policy and payload :: prepared_payload and ops resources m actor mid del
  assume "admitPrincipal db i (vp_version policy) = Inr (m, actor, mid, del)"
    and backed: "\<forall>q \<in> set (in_required i). grantBacks db i (sp_budgetId sp) payload actor mid q \<and>
       (\<forall>d. del = Some d \<longrightarrow> delegationBacks i payload d q)"
    and sp: "liveSpace db (in_spaceId i) = Some sp" and "admitRequired i (vp_version policy) = Inr ()"
  then have safe: "\<forall>q \<in> set (in_required i). \<not> nonDelegableAgentCapability (rq_capability q)"
    using assms(2) by (auto simp: admitRequired_def read_simps list_ex_iff)
  from \<open>admitPrincipal db i (vp_version policy) = Inr (m, actor, mid, del)\<close> assms(2)
  obtain d where d: "currentDelegation db did dv (in_now i) = Inr (Some d)"
    "currentMembership db (in_spaceId i) (dl_issuerActorId d) (in_now i) = Inr (Some m)"
    "actor = dl_issuerActorId d" "mid = dl_issuerMembershipId d" "mid = mb_id m" "del = Some d"
    "dl_spaceId d = in_spaceId i" "dl_agentId d = agent" "in_actorId i = agent"
    "in_phase i \<noteq> PhaseApprove" "in_phase i = PhaseExecute \<longrightarrow> in_verifiedHumanApproval i"
    "\<exists>a. getAgent db agent = Some a \<and> ag_status a = AgentActive"
    by (rule admitPrincipal_agent)
  then have "\<forall>q \<in> set (in_required i).
       grantBacks db i (sp_budgetId sp) payload (dl_issuerActorId d) (mb_id m) q \<and>
       delegationBacks i payload d q \<and> \<not> nonDelegableAgentCapability (rq_capability q)"
    using backed safe by auto
  with d sp show ?thesis
    by (intro exI [of _ d] exI [of _ sp] exI [of _ m] exI [of _ payload]) simp
qed

theorem authorize_agent_sound_witness:
  "\<exists>d. currentDelegation sample_db ''d1'' ''1'' t1 = Inr (Some d) \<and> dl_agentId d = ''bot'' \<and>
     \<not> nonDelegableAgentCapability ''ledger:write''"
  using authorize_agent_sound [OF agent_propose_allowed, of "''bot''" "''d1''" "''1''"]
  by (auto simp: agent_request_def human_request_def agentAuth_def)

text \<open>
  C3. Nothing in an authorized payload escapes the check: an identifier field at any depth of the
  payload (an account, a category, a transaction, a rule, evidence, ...) holds the identifier of a
  resource that the request requires by name, or that one of the budget-wide reads covers.
\<close>
theorem authorize_covers_payload:
  assumes "ar_allowed (authorize db i)" and "subval (Obj fs) (Obj (in_payload i))"
    and "(name, kind) \<in> set fieldKinds" and "field fs name \<notin> {Undefined, Null}"
  shows "\<exists>rid. field fs name = Str rid \<and> covered i \<lparr>rr_kind = kind, rr_id = rid\<rparr>"
  using assms(1)
proof (rule authorizedE)
  fix sp and policy :: versioned_policy and payload :: prepared_payload and ops resources m actor mid del
  assume "payloadResources (Obj (in_payload i)) = Some resources" "\<forall>r \<in> set resources. covered i r"
  then show ?thesis using payloadResources_member [OF _ assms(2-4)] by blast
qed

lemma sample_payload_operation:
  "subval (Obj [(''operation'', Str ''pay''), (''transactionId'', Str ''x1''), (''direction'', Str ''outgoing''),
     (''amount'', Obj [(''currency'', Str ''EUR''), (''minorUnits'', Str ''70000'')])]) (Obj sample_payload)"
  unfolding sample_payload_def by (rule subval_obj [OF subval_arr [OF subval_refl]]) auto

theorem authorize_covers_payload_witness:
  "covered (human_request PhasePropose) \<lparr>rr_kind = ''transaction'', rr_id = ''x1''\<rparr>"
  using authorize_covers_payload [OF human_propose_allowed, of _ "''transactionId''" "''transaction''"]
    sample_payload_operation
  by (fastforce simp: human_request_def fieldKinds_def field_def)

text \<open>
  C31. No proposal and no execution is authorized without human approval: unless the approval
  service has verified one, the answer is that approval is required, from at least one person.
\<close>
theorem authorize_needs_approval:
  assumes "ar_allowed (authorize db i)" and "in_phase i = PhasePropose \<or> in_phase i = PhaseExecute"
    and "\<not> in_verifiedHumanApproval i"
  shows "ar_disposition (authorize db i) = ApprovalRequired \<and> 1 \<le> ar_requiredApprovers (authorize db i)"
  using assms(1)
proof (rule authorizedE)
  fix sp and policy :: versioned_policy and payload :: prepared_payload and ops resources m actor mid del
  assume "getPolicy db (in_spaceId i) = Inr (Some policy)"
    and n: "ar_requiredApprovers (authorize db i) =
       requiredApproversFor (vp_policy policy) (pp_gross payload) (pp_operationNames payload)"
    and d: "ar_disposition (authorize db i) = (if (in_phase i = PhasePropose \<or> in_phase i = PhaseExecute) \<and>
         ar_requiredApprovers (authorize db i) > 0 \<and> \<not> in_verifiedHumanApproval i
       then ApprovalRequired else AuthorizedWithoutApproval)"
  then have "valid_policy (vp_policy policy)" using getPolicy_valid by blast
  then have "1 \<le> ar_requiredApprovers (authorize db i)"
    using requiredApproversFor_minimum order_trans unfolding n valid_policy_def by blast
  with d assms(2,3) show ?thesis by simp
qed

theorem authorize_needs_approval_witness:
  "ar_disposition (authorize sample_db (human_request PhasePropose)) = ApprovalRequired"
  using authorize_needs_approval [OF human_propose_allowed] by (simp add: human_request_def)

end
