(* ===== verification/Governance_Invariant.thy ===== *)
theory Governance_Invariant
  imports Agent_Ops
begin

text \<open>
  Invariants of the governance store. The interface \<open>gov_invariant\<close> lists what a property of the
  store has to survive: each SQL statement the operations run, under what the operations have
  checked before they run it. Every operation, successful or not, then keeps the property, and so
  does every state the store can reach (\<open>gov_step\<close>, \<open>gov_reach\<close>). The consistency of the tables and
  the permanence of every revocation are interpretations of it.
\<close>

subsection \<open>Membership periods as sets of instants\<close>

definition inPeriod :: "membership \<Rightarrow> int \<Rightarrow> bool" where
  "inPeriod m t \<longleftrightarrow> (\<exists>f. isoTime (mb_validFrom m) = Inr f \<and> f \<le> t) \<and>
     (case mb_validUntil m of None \<Rightarrow> True | Some u \<Rightarrow> \<exists>e. isoTime u = Inr e \<and> t < e)"

definition inInterval :: "int \<Rightarrow> int option \<Rightarrow> int \<Rightarrow> bool" where
  "inInterval from until t \<longleftrightarrow> from \<le> t \<and> (case until of None \<Rightarrow> True | Some u \<Rightarrow> t < u)"

definition clearOf :: "gov_db \<Rightarrow> string \<Rightarrow> string \<Rightarrow> int \<Rightarrow> int option \<Rightarrow> bool" where
  "clearOf s sid aid from until \<longleftrightarrow>
     (\<forall>p \<in> set (openPeriods s sid aid). \<forall>t. inPeriod p t \<longrightarrow> \<not> inInterval from until t)"

lemma isCurrentAt_inPeriod:
  assumes "isCurrentAt (mb_validFrom m) (mb_validUntil m) now = Inr True" "isoTime now = Inr t"
  shows "inPeriod m t"
  using assms by (auto simp: isCurrentAt_def inPeriod_def read_simps split: option.splits if_splits)

lemma inPeriod_stored:
  assumes "inPeriod m t" "mb_validFrom m = toISOString from" "mb_validUntil m = map_option toISOString until"
  shows "inInterval from until t"
  using assms by (auto simp: inPeriod_def inInterval_def dest: isoTime_toISOString_eq split: option.splits)

lemma overlaps_clear:
  assumes "overlaps from until p = Inr False" "inPeriod p t"
  shows "\<not> inInterval from until t"
  using assms
  by (auto simp: overlaps_def inPeriod_def inInterval_def read_simps split: option.splits if_splits)

lemma openPeriods_frame [simp]:
  "openPeriods (s\<lparr>db_next := n\<rparr>) sid aid = openPeriods s sid aid"
  "openPeriods (db_audit_update f s) sid aid = openPeriods s sid aid"
  "openPeriods (db_spaces_update g s) sid aid = openPeriods s sid aid"
  by (simp_all add: openPeriods_def)

subsection \<open>The interface\<close>

locale gov_invariant =
  fixes P :: "gov_db \<Rightarrow> bool"
  assumes references: "P s \<Longrightarrow> m \<in> set (db_memberships s) \<Longrightarrow> \<exists>sp \<in> set (db_spaces s). sp_id sp = mb_spaceId m"
    and keep_next: "P s \<Longrightarrow> P (s\<lparr>db_next := n\<rparr>)"
    and keep_audit: "P s \<Longrightarrow> P (s\<lparr>db_audit := db_audit s @ [a]\<rparr>)"
    and keep_grant: "P s \<Longrightarrow> \<forall>x \<in> set (db_grants s). \<not> grantClash g x \<Longrightarrow> valid_restrictions (gr_restrictions g) \<Longrightarrow>
      P (s\<lparr>db_grants := db_grants s @ [g]\<rparr>)"
    and keep_grant_revoked: "P s \<Longrightarrow> P (db_grants_update (updateWhere (\<lambda>g. gr_id g = gid)
      (\<lambda>q. q\<lparr>gr_granted := False, gr_revokedAt := Some now, gr_updatedAt := now\<rparr>)) s)"
    and keep_grant_changed: "P s \<Longrightarrow> valid_restrictions r \<Longrightarrow> P (db_grants_update (updateWhere (\<lambda>g. gr_id g = gid)
      (\<lambda>q. q\<lparr>gr_restrictions := r, gr_updatedAt := now\<rparr>)) s)"
    and keep_space: "P s \<Longrightarrow> \<forall>x \<in> set (db_spaces s). \<not> spaceClash sp x \<Longrightarrow> P (s\<lparr>db_spaces := db_spaces s @ [sp]\<rparr>)"
    and keep_space_bound: "P s \<Longrightarrow> \<forall>x \<in> set (db_spaces s). sp_budgetId x \<noteq> Some b \<Longrightarrow>
      P (db_spaces_update (updateWhere (\<lambda>r. sp_id r = sid \<and> sp_budgetId r = None) (\<lambda>r. r\<lparr>sp_budgetId := Some b\<rparr>)) s)"
    and keep_space_deleted: "P s \<Longrightarrow> P (db_spaces_update (updateWhere (\<lambda>r. sp_id r = sid \<and> sp_deletedAt r = None)
      (\<lambda>r. r\<lparr>sp_deletedAt := Some now\<rparr>)) s)"
    and keep_membership: "P s \<Longrightarrow> \<forall>x \<in> set (db_memberships s). mb_id m \<noteq> mb_id x \<Longrightarrow>
      \<exists>sp \<in> set (db_spaces s). sp_id sp = mb_spaceId m \<Longrightarrow>
      \<forall>p \<in> set (openPeriods s (mb_spaceId m) (mb_actorId m)). \<forall>t. inPeriod p t \<longrightarrow> \<not> inPeriod m t \<Longrightarrow>
      P (s\<lparr>db_memberships := db_memberships s @ [m]\<rparr>)"
    and keep_membership_revoked: "P s \<Longrightarrow> P (db_memberships_update (updateWhere
      (\<lambda>m. mb_spaceId m = sid \<and> mb_id m = mid \<and> mb_revokedAt m = None) (\<lambda>m. m\<lparr>mb_revokedAt := Some now\<rparr>)) s)"
    and keep_policy_retired: "P s \<Longrightarrow> P (db_policies_update (updateWhere
      (\<lambda>r. po_spaceId r = sid \<and> po_isCurrent r) (\<lambda>r. r\<lparr>po_isCurrent := False\<rparr>)) s)"
    and keep_policy: "P s \<Longrightarrow> \<forall>x \<in> set (db_policies s). \<not> policyClash po x \<Longrightarrow> valid_policy (po_policy po) \<Longrightarrow>
      P (s\<lparr>db_policies := db_policies s @ [po]\<rparr>)"
    and keep_agent: "P s \<Longrightarrow> \<forall>x \<in> set (db_agents s). ag_id ag \<noteq> ag_id x \<Longrightarrow> P (s\<lparr>db_agents := db_agents s @ [ag]\<rparr>)"
    and keep_agent_stopped: "P s \<Longrightarrow> st \<noteq> AgentActive \<Longrightarrow> P (db_agents_update (updateWhere (\<lambda>a. ag_id a = aid)
      (\<lambda>a. a\<lparr>ag_status := st, ag_disconnectedAt := da, ag_revokedAt := ra\<rparr>)) s)"
    and keep_delegation: "P s \<Longrightarrow> \<forall>x \<in> set (db_delegations s). \<not> delegationClash d x \<Longrightarrow>
      P (s\<lparr>db_delegations := db_delegations s @ [d]\<rparr>)"
    and keep_delegation_revoked: "P s \<Longrightarrow> \<forall>d. p d \<longrightarrow> dl_revokedAt d = None \<Longrightarrow>
      P (db_delegations_update (updateWhere p (\<lambda>d. d\<lparr>dl_revokedAt := Some now\<rparr>)) s)"
    and keep_credential: "P s \<Longrightarrow> \<forall>x \<in> set (db_credentials s). \<not> credentialClash c x \<Longrightarrow>
      P (s\<lparr>db_credentials := db_credentials s @ [c]\<rparr>)"
    and keep_credential_revoked: "P s \<Longrightarrow> P (db_credentials_update (updateWhere
      (\<lambda>b. cb_credentialId b = cid \<and> cb_revokedAt b = None) (\<lambda>b. b\<lparr>cb_revokedAt := Some now\<rparr>)) s)"
    and keep_others: "P s \<Longrightarrow> P (s\<lparr>db_actors := actors, db_connectionOwner := owner, db_invitations := invs,
      db_legacyCurrent := lc, db_legacyPolicies := lps\<rparr>)"
begin

lemma rollback_keeps: "P s \<Longrightarrow> P (rollback s t)"
  unfolding rollback_def by (rule keep_next)

lemma immediate_keeps: "triple R m (\<lambda>_. P) (\<lambda>_. True) \<Longrightarrow> (\<And>s. R s \<Longrightarrow> P s) \<Longrightarrow> triple R (immediate m) (\<lambda>_. P) P"
  by (rule triple_transaction) (auto intro: rollback_keeps)

lemma randomUUID_keeps: "triple P randomUUID (\<lambda>_. P) E"
  by (simp add: triple_def randomUUID_def keep_next)

lemma insert_keeps:
  assumes "\<And>s. P s \<Longrightarrow> \<forall>x \<in> set (rows s). \<not> clash r x \<Longrightarrow> P (upd (\<lambda>_. rows s @ [r]) s)"
  shows "triple P (insertInto rows upd clash table r) (\<lambda>_. P) P"
  using assms
  by (auto simp: triple_def insertInto_def bindOp_def reads_def writes_def insertRow_def list_ex_iff split: if_splits)

lemma audit_keeps: "triple P (audit sid aid cls sub now details) (\<lambda>_. P) P"
  unfolding audit_def
  by (rule triple_call [OF randomUUID_keeps [where E = P]]) (auto intro!: insert_keeps keep_audit)

lemma insertGrant_keeps:
  "valid_restrictions r \<Longrightarrow> triple P (insertGrant sid m bid cap kind rid r now) (\<lambda>_. P) P"
  unfolding insertGrant_def Let_def
  apply (rule triple_call [OF randomUUID_keeps [where E = P]], assumption, assumption)
  apply (rule triple_call [OF insert_keeps])
  by (auto intro!: triple_rules intro: keep_grant)

lemma createMembership_keeps:
  "triple (\<lambda>s. P s \<and> clearOf s sid aid from until) (createMembership sid aid by' from until now orig) (\<lambda>_. P) P"
proof -
  let ?row = "\<lambda>mid. \<lparr>mb_id = mid, mb_spaceId = sid, mb_actorId = aid, mb_grantedBy = by',
    mb_validFrom = toISOString from, mb_validUntil = map_option toISOString until,
    mb_revokedAt = None, mb_createdAt = now, mb_origin = orig\<rparr>"
  have stored: "inPeriod (?row mid) t \<Longrightarrow> inInterval from until t" for mid t
    by (erule inPeriod_stored) simp_all
  have "P (s\<lparr>db_next := n, db_memberships := db_memberships s @ [?row mid]\<rparr>)"
    if "P s" "clearOf s sid aid from until" "\<forall>x \<in> set (db_memberships s). mid \<noteq> mb_id x"
      "\<exists>sp \<in> set (db_spaces s). sp_id sp = sid" for s n mid
  proof -
    have "\<forall>p \<in> set (openPeriods s sid aid). \<forall>t. inPeriod p t \<longrightarrow> \<not> inPeriod (?row mid) t"
      using that(2) stored unfolding clearOf_def by blast
    then show ?thesis
      using keep_membership [OF keep_next [OF that(1), of n], of "?row mid"] that(3,4) by simp
  qed
  then show ?thesis
    by (auto simp: triple_def createMembership_def Let_def bindOp_def randomUUID_def reads_def writes_def
        returns_def insertInto_def insertRow_def list_ex_iff keep_next split: sum.splits if_splits prod.splits)
qed

text \<open>Called operations, as the rules that step over them.\<close>

lemmas uuid_call = triple_call [OF randomUUID_keeps [where E = P]]
lemmas audit_call = triple_call [OF audit_keeps]
lemmas audit_end = triple_weaken [OF audit_keeps]

lemma updateGrants_revoke: "triple P (updateGrants gid (\<lambda>q. q\<lparr>gr_granted := False, gr_revokedAt := Some now,
    gr_updatedAt := now\<rparr>)) (\<lambda>_. P) P"
  unfolding updateGrants_def by (intro triple_rules keep_grant_revoked)

lemma updateGrants_change: "valid_restrictions r \<Longrightarrow> triple P (updateGrants gid (\<lambda>q. q\<lparr>gr_restrictions := r,
    gr_updatedAt := now\<rparr>)) (\<lambda>_. P) P"
  unfolding updateGrants_def by (intro triple_rules keep_grant_changed)

lemma upsertCurrentGrant_keeps: "triple P (upsertCurrentGrant i m bid aid) (\<lambda>_. P) P"
  unfolding upsertCurrentGrant_def
  apply (intro triple_rules)
  apply (auto intro!: triple_rules audit_call audit_end
      triple_call [OF updateGrants_revoke] triple_call [OF updateGrants_change] triple_call [OF insertGrant_keeps]
      dest: parseRestrictions_valid)
  done

lemma provisionResourceGrant_keeps: "triple P (provisionResourceGrant i) (\<lambda>_. P) P"
  unfolding provisionResourceGrant_def
  by (intro triple_rules immediate_keeps triple_weaken [OF upsertCurrentGrant_keeps]) auto

lemma setResourceGrant_keeps: "triple P (setResourceGrant auth i) (\<lambda>_. P) P"
  unfolding setResourceGrant_def
  by (intro triple_rules immediate_keeps triple_weaken [OF upsertCurrentGrant_keeps]) auto

subsubsection \<open>Spaces\<close>

lemma insertSpace_keeps:
  "triple P (insertSpace sp) (\<lambda>_ s. P s \<and> clearOf s (sp_id sp) aid from until) P"
proof -
  have "clearOf s (sp_id sp) aid from until" if "P s" "\<forall>x \<in> set (db_spaces s). \<not> spaceClash sp x" for s
    using references [OF that(1)] that(2)
    by (fastforce simp: clearOf_def openPeriods_def spaceClash_def)
  then show ?thesis
    by (auto simp: triple_def insertSpace_def insertInto_def bindOp_def reads_def writes_def insertRow_def
        list_ex_iff clearOf_def intro: keep_space split: if_splits)
qed

lemma insertPolicy_keeps: "valid_policy (po_policy po) \<Longrightarrow> triple P (insertPolicy po) (\<lambda>_. P) P"
  unfolding insertPolicy_def by (auto intro!: insert_keeps keep_policy)

lemma retireCurrentPolicy_keeps: "triple P (retireCurrentPolicy sid) (\<lambda>_. P) P"
  unfolding retireCurrentPolicy_def by (intro triple_rules keep_policy_retired)

lemma controlGrants_keeps:
  "triple P (forEach cs (\<lambda>c. bindOp (insertGrant sid m None c ''space'' sid no_restrictions now) (\<lambda>_. returns ())))
     (\<lambda>_. P) P"
  by (rule triple_forEach) (auto intro!: triple_call [OF insertGrant_keeps] triple_rules)

lemma createSpace_keeps: "triple P (createSpace aid name kind now auth) (\<lambda>_. P) P"
  unfolding createSpace_def Let_def
  by (intro triple_rules immediate_keeps uuid_call triple_call [OF insertSpace_keeps]
      triple_call [OF createMembership_keeps] triple_call [OF controlGrants_keeps]
      triple_call [OF insertPolicy_keeps] audit_call)
    (auto dest: parsePolicy_valid)

lemma legacyPolicy_valid: "legacyPolicy row = Inr p \<Longrightarrow> valid_policy p"
  by (auto simp: legacyPolicy_def Let_def read_simps dest: parsePolicy_valid split: if_splits jsval.splits)

lemma importRows_keeps: "triple P (importRows sid cur idx rows) (\<lambda>_. P) P"
proof (induction sid cur idx rows rule: importRows.induct)
  case (2 sid cur idx row rows)
  then show ?case
    by (auto simp: Let_def dest: legacyPolicy_valid
        intro!: triple_rules triple_call [OF retireCurrentPolicy_keeps] triple_call [OF insertPolicy_keeps]
          triple_weaken [OF "2.IH"])
qed (auto intro!: triple_rules)

lemma importLegacyApprovalPolicy_keeps: "triple P (importLegacyApprovalPolicy sid bid aid now) (\<lambda>_. P) P"
  unfolding importLegacyApprovalPolicy_def
  by (intro triple_rules triple_call [OF importRows_keeps] audit_end) auto

lemma bindBudget_keeps: "triple P (bindBudget sid bid now auth) (\<lambda>_. P) P"
  unfolding bindBudget_def Let_def
  by (intro triple_rules immediate_keeps triple_call [OF importLegacyApprovalPolicy_keeps] audit_call)
    (auto simp: read_simps list_ex_iff intro!: keep_space_bound)

lemma deleteSpace_keeps: "triple P (deleteSpace sid auth now) (\<lambda>_. P) P"
  unfolding deleteSpace_def
  by (intro triple_rules immediate_keeps audit_end) (auto intro: keep_space_deleted)

subsubsection \<open>Membership periods\<close>

lemma importGrant_keeps: "triple P (importGrant sp m aid now legacy) (\<lambda>_. P) P"
  unfolding importGrant_def
  by (intro triple_rules uuid_call insert_keeps) (auto intro: keep_grant)

lemma importGrants_keeps: "triple P (forEach gs (importGrant sp m aid now)) (\<lambda>_. P) P"
  by (rule triple_forEach) (auto intro: importGrant_keeps)

lemma no_open_period_clear:
  "find (\<lambda>m. mb_spaceId m = sid \<and> mb_actorId m = aid \<and> mb_revokedAt m = None) (db_memberships s) = None \<Longrightarrow>
     clearOf s sid aid from until"
  by (auto simp: clearOf_def openPeriods_def find_NoneD)

lemma backfillActors_keeps: "triple P (backfillActors sp owner t now gs n as) (\<lambda>_. P) P"
proof (induction sp owner t now gs n as rule: backfillActors.induct)
  case (2 sp owner t now gs n aid rest)
  show ?case
    by (simp, intro triple_rules; simp add: bindOp_assoc)
      (auto intro!: triple_rules triple_call [OF createMembership_keeps] triple_call [OF importGrants_keeps]
        triple_weaken [OF "2"] intro: no_open_period_clear)
qed (auto intro!: triple_rules)

lemma backfillKnownBudgetSpace_keeps: "triple P (backfillKnownBudgetSpace aid name kind now auth bid) (\<lambda>_. P) P"
  unfolding backfillKnownBudgetSpace_def
  by (intro triple_rules immediate_keeps triple_call [OF createSpace_keeps] triple_call [OF bindBudget_keeps]
      triple_call [OF backfillActors_keeps] audit_call) auto

lemma overlaps_all_clear:
  "existsR (overlaps from until) (openPeriods s sid aid) = Inr False \<Longrightarrow> clearOf s sid aid from until"
  unfolding existsR_False clearOf_def by (blast dest: overlaps_clear)

lemma addMembership_keeps: "triple P (addMembership sid aid vf vu now auth) (\<lambda>_. P) P"
  unfolding addMembership_def
  by (intro triple_rules immediate_keeps triple_call [OF createMembership_keeps] audit_call)
    (auto simp: read_simps intro: overlaps_all_clear)

lemma ended_before_clear:
  assumes "existsR (\<lambda>p. case mb_validUntil p of None \<Rightarrow> Inr True
      | Some u \<Rightarrow> andThen (isoTime u) (\<lambda>stop. Inr (stop > t))) (openPeriods s sid aid) = Inr False"
  shows "clearOf s sid aid t None"
  using assms
  by (fastforce simp: existsR_False clearOf_def inPeriod_def inInterval_def read_simps split: option.splits)

lemma acceptInvitedMembership_keeps: "triple P (acceptInvitedMembership cid email now auth) (\<lambda>_. P) P"
  unfolding acceptInvitedMembership_def Let_def
  by (intro triple_rules immediate_keeps triple_call [OF createMembership_keeps] audit_call)
    (auto simp: read_simps intro: ended_before_clear)

lemma revokeMembership_keeps: "triple P (revokeMembership sid mid now auth) (\<lambda>_. P) P"
  unfolding revokeMembership_def
  by (intro triple_rules immediate_keeps audit_end) (auto intro: keep_membership_revoked)

lemma setPolicy_keeps: "triple P (setPolicy sid ev input now auth) (\<lambda>_. P) P"
  unfolding setPolicy_def
  by (intro triple_rules immediate_keeps triple_call [OF retireCurrentPolicy_keeps]
      triple_call [OF insertPolicy_keeps] audit_call)
    (auto dest: policyInput_valid)

subsubsection \<open>Agents, delegations, credentials\<close>

lemma registerAgent_keeps: "triple P (registerAgent sid agent now auth) (\<lambda>_. P) P"
  unfolding registerAgent_def
  by (intro triple_rules immediate_keeps triple_call [OF insert_keeps] audit_call) (auto intro: keep_agent)

lemma setAgentStatus_keeps: "triple P (setAgentStatus sid agent st now auth) (\<lambda>_. P) P"
proof (cases st)
  case StopDisconnected
  then show ?thesis unfolding setAgentStatus_def
    by simp (intro triple_rules audit_end, auto intro: keep_agent_stopped)
next
  case StopRevoked
  then show ?thesis unfolding setAgentStatus_def
    by simp (intro triple_rules audit_end, auto intro: keep_agent_stopped keep_delegation_revoked)
qed

lemma replaceDelegation_keeps: "triple P (replaceDelegation i m aid cur row) (\<lambda>_. P) P"
proof (cases cur)
  case None
  then show ?thesis unfolding replaceDelegation_def Let_def
    by simp (intro triple_rules immediate_keeps triple_call [OF insert_keeps] audit_call,
        auto intro: keep_delegation)
next
  case (Some d)
  then show ?thesis unfolding replaceDelegation_def Let_def
    by (simp add: bindOp_assoc) (intro triple_rules immediate_keeps triple_call [OF insert_keeps] audit_call,
        auto intro: keep_delegation keep_delegation_revoked)
qed

lemma delegate_keeps: "triple P (delegate i auth) (\<lambda>_. P) P"
  unfolding delegate_def
  by (intro triple_rules; simp)
    (auto intro!: triple_rules uuid_call triple_weaken [OF replaceDelegation_keeps])

lemma revokeDelegation_keeps: "triple P (revokeDelegation sid did ev now auth) (\<lambda>_. P) P"
  unfolding revokeDelegation_def
  by (intro triple_rules audit_end) (auto intro: keep_delegation_revoked)

lemma registerCredentialBinding_keeps: "triple P (registerCredentialBinding i auth) (\<lambda>_. P) P"
  unfolding registerCredentialBinding_def
  by (intro triple_rules uuid_call triple_call [OF insert_keeps] audit_call) (auto intro: keep_credential)

lemma revokeCredentialBinding_keeps: "triple P (revokeCredentialBinding cid sid now auth) (\<lambda>_. P) P"
  unfolding revokeCredentialBinding_def
  by (intro triple_rules audit_end) (auto intro: keep_credential_revoked)

end

subsection \<open>Every operation as a step\<close>

text \<open>
  A step of the store: an operation of \<open>SpaceGovernance\<close>, whatever it is called with and whether it
  returns or throws, or a change by the rest of the workflow store to the tables governance only
  reads (identities, the connection owner, invitations, legacy policies).
\<close>

inductive gov_step :: "gov_db \<Rightarrow> gov_db \<Rightarrow> bool" where
  step_provision: "provisionResourceGrant i s = (r, t) \<Longrightarrow> gov_step s t"
| step_grant: "setResourceGrant auth i s = (r, t) \<Longrightarrow> gov_step s t"
| step_create: "createSpace aid name kind now auth s = (r', t) \<Longrightarrow> gov_step s t"
| step_bind: "bindBudget sid bid now auth s = (r', t) \<Longrightarrow> gov_step s t"
| step_delete: "deleteSpace sid auth now s = (u, t) \<Longrightarrow> gov_step s t"
| step_backfill: "backfillKnownBudgetSpace aid name kind now auth bid s = (r', t) \<Longrightarrow> gov_step s t"
| step_member: "addMembership sid aid vf vu now auth s = (m, t) \<Longrightarrow> gov_step s t"
| step_accept: "acceptInvitedMembership claim email now auth s = (m, t) \<Longrightarrow> gov_step s t"
| step_revoke_member: "revokeMembership sid mid now auth s = (u, t) \<Longrightarrow> gov_step s t"
| step_policy: "setPolicy sid ev input now auth s = (p, t) \<Longrightarrow> gov_step s t"
| step_agent: "registerAgent sid agent now auth s = (a, t) \<Longrightarrow> gov_step s t"
| step_stop_agent: "setAgentStatus sid agent st now auth s = (u, t) \<Longrightarrow> gov_step s t"
| step_delegate: "delegate di auth s = (d, t) \<Longrightarrow> gov_step s t"
| step_revoke_delegation: "revokeDelegation sid did version now auth s = (u, t) \<Longrightarrow> gov_step s t"
| step_credential: "registerCredentialBinding ci auth s = (c, t) \<Longrightarrow> gov_step s t"
| step_revoke_credential: "revokeCredentialBinding cid sid now auth s = (u, t) \<Longrightarrow> gov_step s t"
| step_others: "gov_step s (s\<lparr>db_actors := actors, db_connectionOwner := owner, db_invitations := invs,
      db_legacyCurrent := lc, db_legacyPolicies := lps\<rparr>)"

abbreviation gov_reach :: "gov_db \<Rightarrow> gov_db \<Rightarrow> bool" where
  "gov_reach \<equiv> gov_step\<^sup>*\<^sup>*"

context gov_invariant
begin

lemmas operations_keep = provisionResourceGrant_keeps setResourceGrant_keeps createSpace_keeps bindBudget_keeps
  deleteSpace_keeps backfillKnownBudgetSpace_keeps addMembership_keeps acceptInvitedMembership_keeps
  revokeMembership_keeps setPolicy_keeps registerAgent_keeps setAgentStatus_keeps delegate_keeps
  revokeDelegation_keeps registerCredentialBinding_keeps revokeCredentialBinding_keeps

lemma step_keeps: "gov_step s t \<Longrightarrow> P s \<Longrightarrow> P t"
  by (induction rule: gov_step.induct) (rule operations_keep [THEN tripleD] keep_others; assumption)+

lemma reach_keeps: "gov_reach s t \<Longrightarrow> P s \<Longrightarrow> P t"
  by (induction rule: rtranclp_induct) (auto intro: step_keeps)

end

subsection \<open>Consistent tables\<close>

text \<open>
  The tables are consistent when no two rows break a uniqueness constraint, memberships belong to
  spaces, what is stored parses again, and no two open periods of one person in one space meet.
\<close>

definition apart :: "('r \<Rightarrow> 'r \<Rightarrow> bool) \<Rightarrow> 'r list \<Rightarrow> bool" where
  "apart clash rows \<longleftrightarrow> sorted_wrt (\<lambda>x y. \<not> clash y x) rows"

definition periodsClash :: "membership \<Rightarrow> membership \<Rightarrow> bool" where
  "periodsClash r q \<longleftrightarrow> mb_id r = mb_id q \<or>
     mb_spaceId r = mb_spaceId q \<and> mb_actorId r = mb_actorId q \<and> mb_revokedAt r = None \<and> mb_revokedAt q = None \<and>
     (\<exists>t. inPeriod q t \<and> inPeriod r t)"

definition in_spaces :: "gov_db \<Rightarrow> bool" where
  "in_spaces s \<longleftrightarrow> (\<forall>m \<in> set (db_memberships s). \<exists>sp \<in> set (db_spaces s). sp_id sp = mb_spaceId m)"

definition gov_wf :: "gov_db \<Rightarrow> bool" where
  "gov_wf s \<longleftrightarrow> in_spaces s \<and> apart spaceClash (db_spaces s) \<and> apart periodsClash (db_memberships s) \<and>
     apart policyClash (db_policies s) \<and> apart grantClash (db_grants s) \<and>
     apart (\<lambda>r q. ag_id r = ag_id q) (db_agents s) \<and>
     apart delegationClash (db_delegations s) \<and> apart credentialClash (db_credentials s) \<and>
     list_all (\<lambda>g. valid_restrictions (gr_restrictions g)) (db_grants s) \<and>
     list_all (\<lambda>p. valid_policy (po_policy p)) (db_policies s)"

lemma apart_snoc: "apart c rows \<Longrightarrow> \<forall>x \<in> set rows. \<not> c r x \<Longrightarrow> apart c (rows @ [r])"
  by (simp add: apart_def sorted_wrt_append)

lemma apart_updateWhere:
  assumes "apart c rows"
    and "\<And>x y. \<not> c y x \<Longrightarrow> \<not> c (if p y then f y else y) (if p x then f x else x)"
  shows "apart c (updateWhere p f rows)"
  using assms(1) unfolding apart_def updateWhere_def sorted_wrt_map
  by (rule sorted_wrt_mono_rel [rotated]) (rule assms(2))

lemma list_all_updateWhere:
  "list_all Q rows \<Longrightarrow> (\<And>r. Q r \<Longrightarrow> Q (f r)) \<Longrightarrow> list_all Q (updateWhere p f rows)"
  by (induction rows) auto

lemma in_spaces_update:
  assumes "in_spaces s" "\<And>r. sp_id (f r) = sp_id r"
  shows "in_spaces (db_spaces_update (updateWhere p f) s)"
proof -
  have "(\<exists>sp \<in> set (updateWhere p f rows). sp_id sp = k) \<longleftrightarrow> (\<exists>sp \<in> set rows. sp_id sp = k)" for rows k
    by (rule updateWhere_has_key) (rule assms(2))
  then show ?thesis using assms(1) by (simp add: in_spaces_def)
qed

lemma spaces_bound_apart:
  assumes "apart spaceClash rows" "\<forall>x \<in> set rows. sp_budgetId x \<noteq> Some b"
  shows "apart spaceClash (updateWhere (\<lambda>r. sp_id r = sid \<and> sp_budgetId r = None) (\<lambda>r. r\<lparr>sp_budgetId := Some b\<rparr>) rows)"
  using assms
proof (induction rows)
  case (Cons r rows)
  then show ?case by (auto simp: apart_def updateWhere_def spaceClash_def)
qed (simp add: apart_def)

lemma gov_wf_updates:
  "apart grantClash gs \<Longrightarrow> apart grantClash (updateWhere (\<lambda>g. gr_id g = gid)
     (\<lambda>q. q\<lparr>gr_granted := False, gr_revokedAt := Some now, gr_updatedAt := now\<rparr>) gs)"
  "apart grantClash gs \<Longrightarrow> apart grantClash (updateWhere (\<lambda>g. gr_id g = gid)
     (\<lambda>q. q\<lparr>gr_restrictions := r, gr_updatedAt := now\<rparr>) gs)"
  "apart spaceClash sps \<Longrightarrow> apart spaceClash (updateWhere (\<lambda>r. sp_id r = sid \<and> sp_deletedAt r = None)
     (\<lambda>r. r\<lparr>sp_deletedAt := Some now\<rparr>) sps)"
  "apart policyClash ps \<Longrightarrow> apart policyClash (updateWhere (\<lambda>r. po_spaceId r = sid \<and> po_isCurrent r)
     (\<lambda>r. r\<lparr>po_isCurrent := False\<rparr>) ps)"
  "apart (\<lambda>r q. ag_id r = ag_id q) as \<Longrightarrow> apart (\<lambda>r q. ag_id r = ag_id q) (updateWhere (\<lambda>a. ag_id a = aid)
     (\<lambda>a. a\<lparr>ag_status := st, ag_disconnectedAt := da, ag_revokedAt := ra\<rparr>) as)"
  "apart delegationClash ds \<Longrightarrow> apart delegationClash (updateWhere p (\<lambda>d. d\<lparr>dl_revokedAt := Some now\<rparr>) ds)"
  "apart credentialClash cs \<Longrightarrow> apart credentialClash (updateWhere (\<lambda>b. cb_credentialId b = cid \<and> cb_revokedAt b = None)
     (\<lambda>b. b\<lparr>cb_revokedAt := Some now\<rparr>) cs)"
  by (rule apart_updateWhere; auto simp: grantClash_def spaceClash_def policyClash_def delegationClash_def credentialClash_def)+

lemma memberships_revoked_apart:
  "apart periodsClash ms \<Longrightarrow> apart periodsClash (updateWhere
     (\<lambda>m. mb_spaceId m = sid \<and> mb_id m = mid \<and> mb_revokedAt m = None) (\<lambda>m. m\<lparr>mb_revokedAt := Some now\<rparr>) ms)"
  by (rule apart_updateWhere) (auto simp: periodsClash_def inPeriod_def)

lemma in_spaces_revoked:
  "in_spaces s \<Longrightarrow> in_spaces (db_memberships_update (updateWhere p (\<lambda>m. m\<lparr>mb_revokedAt := Some now\<rparr>)) s)"
  by (auto simp: in_spaces_def updateWhere_def)

lemma in_spaces_frame [simp]:
  "in_spaces (s\<lparr>db_next := n\<rparr>) = in_spaces s"
  "in_spaces (s\<lparr>db_audit := a\<rparr>) = in_spaces s"
  "in_spaces (s\<lparr>db_grants := g\<rparr>) = in_spaces s"
  "in_spaces (db_grants_update gf s) = in_spaces s"
  "in_spaces (db_policies_update pf s) = in_spaces s"
  "in_spaces (db_agents_update af s) = in_spaces s"
  "in_spaces (db_delegations_update df s) = in_spaces s"
  "in_spaces (db_credentials_update cf s) = in_spaces s"
  "in_spaces (s\<lparr>db_actors := actors, db_connectionOwner := owner, db_invitations := invs,
      db_legacyCurrent := lc, db_legacyPolicies := lps\<rparr>) = in_spaces s"
  by (simp_all add: in_spaces_def)

lemma in_spaces_inserts:
  "in_spaces s \<Longrightarrow> in_spaces (s\<lparr>db_spaces := db_spaces s @ [sp]\<rparr>)"
  "in_spaces s \<Longrightarrow> \<exists>sp \<in> set (db_spaces s). sp_id sp = mb_spaceId m \<Longrightarrow>
     in_spaces (s\<lparr>db_memberships := db_memberships s @ [m]\<rparr>)"
  by (auto simp: in_spaces_def)

lemma membership_fresh:
  assumes "\<forall>x \<in> set (db_memberships s). mb_id m \<noteq> mb_id x"
    and "\<forall>p \<in> set (openPeriods s (mb_spaceId m) (mb_actorId m)). \<forall>t. inPeriod p t \<longrightarrow> \<not> inPeriod m t"
  shows "\<forall>x \<in> set (db_memberships s). \<not> periodsClash m x"
  using assms by (auto simp: periodsClash_def openPeriods_def)

interpretation wf: gov_invariant gov_wf
proof unfold_locales
  fix s m assume "gov_wf s" "m \<in> set (db_memberships s)"
  then show "\<exists>sp \<in> set (db_spaces s). sp_id sp = mb_spaceId m" by (simp add: gov_wf_def in_spaces_def)
qed (simp_all add: gov_wf_def apart_snoc gov_wf_updates spaces_bound_apart memberships_revoked_apart
    in_spaces_update in_spaces_revoked in_spaces_inserts membership_fresh list_all_updateWhere)

end
