(* ===== verification/Governance_Revocation.thy ===== *)
theory Governance_Revocation
  imports Governance_Invariant Authorization_Props
begin

text \<open>
  Revocation is final. Every table of the governance store keeps its closed rows: a deleted space, a
  revoked membership period, delegation version, grant or credential, a stopped agent and a
  superseded policy version are never open again, whatever operations follow. The interface
  \<open>gov_tombstone\<close> extends \<open>gov_invariant\<close> with what such a row means for authorization, and gives for
  each of them that no later request is authorized through it.
\<close>

subsection \<open>Closed rows\<close>

definition closedKey :: "('r \<Rightarrow> 'k) \<Rightarrow> ('r \<Rightarrow> bool) \<Rightarrow> 'k \<Rightarrow> 'r list \<Rightarrow> bool" where
  "closedKey key closed k rows \<longleftrightarrow> (\<exists>r \<in> set rows. key r = k) \<and> (\<forall>r \<in> set rows. key r = k \<longrightarrow> closed r)"

lemma closedKey_snoc:
  assumes "closedKey key closed k rows" "\<And>x. x \<in> set rows \<Longrightarrow> key r \<noteq> key x"
  shows "closedKey key closed k (rows @ [r])"
  using assms by (fastforce simp: closedKey_def)

lemma closedKey_updateWhere:
  assumes "closedKey key closed k rows" "\<And>r. key (f r) = key r" "\<And>r. closed r \<Longrightarrow> closed (f r)"
  shows "closedKey key closed k (updateWhere p f rows)"
proof -
  have "(\<exists>r \<in> set (updateWhere p f rows). key r = k) \<longleftrightarrow> (\<exists>r \<in> set rows. key r = k)"
    by (rule updateWhere_has_key) (rule assms(2))
  moreover have "closed r" if "r \<in> set (updateWhere p f rows)" "key r = k" for r
    using that assms by (auto simp: set_updateWhere closedKey_def)
  ultimately show ?thesis using assms(1) by (auto simp: closedKey_def)
qed

lemma single_case: "(case xs of [] \<Rightarrow> None | [m] \<Rightarrow> Some m | m # y # ys \<Rightarrow> None) = Some m \<longleftrightarrow> xs = [m]"
  by (auto split: list.splits)

subsection \<open>The interface\<close>

locale gov_tombstone = gov_invariant dead for dead :: "gov_db \<Rightarrow> bool" +
  fixes through :: "gov_db \<Rightarrow> auth_input \<Rightarrow> bool"
  assumes refuses: "dead s \<Longrightarrow> through s i \<Longrightarrow> \<not> ar_allowed (authorize s i)"
begin

lemma never_again: "dead s \<Longrightarrow> gov_reach s t \<Longrightarrow> through t i \<Longrightarrow> \<not> ar_allowed (authorize t i)"
  using reach_keeps refuses by blast

end

subsection \<open>Deleted spaces\<close>

definition deadSpace :: "string \<Rightarrow> gov_db \<Rightarrow> bool" where
  "deadSpace sid s \<longleftrightarrow> in_spaces s \<and> closedKey sp_id (\<lambda>r. sp_deletedAt r \<noteq> None) sid (db_spaces s)"

lemma deadSpace_refuses:
  assumes "deadSpace (in_spaceId i) s"
  shows "\<not> ar_allowed (authorize s i)"
proof
  assume "ar_allowed (authorize s i)"
  then obtain sp where "liveSpace s (in_spaceId i) = Some sp" by (rule authorizedE)
  from find_SomeD [OF this [unfolded liveSpace_def]] assms show False
    by (auto simp: deadSpace_def closedKey_def)
qed

interpretation deleted_space: gov_tombstone "deadSpace sid" "\<lambda>s i. in_spaceId i = sid" for sid
proof unfold_locales
  fix s m assume "deadSpace sid s" "m \<in> set (db_memberships s)"
  then show "\<exists>sp \<in> set (db_spaces s). sp_id sp = mb_spaceId m" by (simp add: deadSpace_def in_spaces_def)
qed (auto simp: deadSpace_def deadSpace_refuses in_spaces_update in_spaces_revoked in_spaces_inserts spaceClash_def
    intro: closedKey_snoc closedKey_updateWhere)

subsection \<open>Revoked membership periods\<close>

definition deadMembership :: "string \<Rightarrow> gov_db \<Rightarrow> bool" where
  "deadMembership mid s \<longleftrightarrow> in_spaces s \<and> closedKey mb_id (\<lambda>r. mb_revokedAt r \<noteq> None) mid (db_memberships s)"

lemma currentMembership_open:
  assumes "currentMembership s sid aid now = Inr (Some m)"
  shows "m \<in> set (db_memberships s)" "mb_revokedAt m = None" "mb_spaceId m = sid" "mb_actorId m = aid"
    "isCurrentAt (mb_validFrom m) (mb_validUntil m) now = Inr True"
proof -
  from assms obtain active where
    "filterR (\<lambda>r. isCurrentAt (mb_validFrom r) (mb_validUntil r) now) (openPeriods s sid aid) = Inr active"
    and "active = [m]"
    by (auto simp: currentMembership_def read_simps single_case split: if_splits)
  from filterR_Inr_filter [OF this(1)] this(2) have "m \<in> set (filter
      (\<lambda>r. isCurrentAt (mb_validFrom r) (mb_validUntil r) now = Inr True) (openPeriods s sid aid))"
    by (metis list.set_intros(1))
  then show "m \<in> set (db_memberships s)" "mb_revokedAt m = None" "mb_spaceId m = sid" "mb_actorId m = aid"
    "isCurrentAt (mb_validFrom m) (mb_validUntil m) now = Inr True"
    by (auto simp: openPeriods_def)
qed

lemma authorized_membership:
  assumes "ar_allowed (authorize s i)"
  obtains m where "ar_membershipId (authorize s i) = Some (mb_id m)" "m \<in> set (db_memberships s)"
    "mb_revokedAt m = None"
  using assms
proof (rule authorizedE)
  fix sp and policy :: versioned_policy and payload :: prepared_payload and ops resources m actor mid del
  assume "admitPrincipal s i (vp_version policy) = Inr (m, actor, mid, del)"
    and r: "ar_membershipId (authorize s i) = Some (mb_id m)"
  then obtain aid where "currentMembership s (in_spaceId i) aid (in_now i) = Inr (Some m)"
    using admitPrincipal_human(1) admitPrincipal_agent by (cases "agentAuth i") (blast, metis prod_cases3)
  with r currentMembership_open(1,2) that show thesis by blast
qed

lemma deadMembership_refuses:
  "deadMembership mid s \<Longrightarrow> ar_membershipId (authorize s i) = Some mid \<Longrightarrow> \<not> ar_allowed (authorize s i)"
  by (rule notI, erule authorized_membership) (auto simp: deadMembership_def closedKey_def)

interpretation revoked_membership: gov_tombstone "deadMembership mid"
  "\<lambda>s i. ar_membershipId (authorize s i) = Some mid" for mid
proof unfold_locales
  fix s m assume "deadMembership mid s" "m \<in> set (db_memberships s)"
  then show "\<exists>sp \<in> set (db_spaces s). sp_id sp = mb_spaceId m" by (simp add: deadMembership_def in_spaces_def)
qed (auto simp: deadMembership_def deadMembership_refuses in_spaces_update in_spaces_revoked in_spaces_inserts
    intro: closedKey_snoc closedKey_updateWhere)

subsection \<open>Stopped agents\<close>

definition deadAgent :: "string \<Rightarrow> gov_db \<Rightarrow> bool" where
  "deadAgent agent s \<longleftrightarrow> in_spaces s \<and> closedKey ag_id (\<lambda>r. ag_status r \<noteq> AgentActive) agent (db_agents s)"

lemma authorized_agent:
  assumes "ar_allowed (authorize s i)" "agentAuth i = Some (agent, did, dv)"
  obtains a d where "getAgent s agent = Some a" "ag_status a = AgentActive"
    "currentDelegation s did dv (in_now i) = Inr (Some d)"
  using assms(1)
proof (rule authorizedE)
  fix sp and policy :: versioned_policy and payload :: prepared_payload and ops resources m actor mid del
  assume "admitPrincipal s i (vp_version policy) = Inr (m, actor, mid, del)"
  from admitPrincipal_agent [OF this assms(2)] that show thesis by metis
qed

lemma deadAgent_refuses:
  assumes "deadAgent agent s" "agentAuth i = Some (agent, did, dv)"
  shows "\<not> ar_allowed (authorize s i)"
proof
  assume "ar_allowed (authorize s i)"
  from authorized_agent [OF this assms(2)] obtain a where
    "find (\<lambda>r. ag_id r = agent) (db_agents s) = Some a" "ag_status a = AgentActive"
    by (auto simp: getAgent_def)
  with find_SomeD assms(1) show False by (fastforce simp: deadAgent_def closedKey_def)
qed

interpretation stopped_agent: gov_tombstone "deadAgent agent" "\<lambda>s i. map_option fst (agentAuth i) = Some agent" for agent
proof unfold_locales
  fix s m assume "deadAgent agent s" "m \<in> set (db_memberships s)"
  then show "\<exists>sp \<in> set (db_spaces s). sp_id sp = mb_spaceId m" by (simp add: deadAgent_def in_spaces_def)
qed (auto simp: deadAgent_def in_spaces_update in_spaces_revoked in_spaces_inserts
    intro: closedKey_snoc closedKey_updateWhere
    dest: deadAgent_refuses [unfolded deadAgent_def, OF conjI])

subsection \<open>Revoked delegations and credentials\<close>

definition deadDelegation :: "string \<Rightarrow> string \<Rightarrow> gov_db \<Rightarrow> bool" where
  "deadDelegation did dv s \<longleftrightarrow> in_spaces s \<and>
     closedKey (\<lambda>d. (dl_id d, dl_version d)) (\<lambda>d. dl_revokedAt d \<noteq> None) (did, dv) (db_delegations s)"

lemma deadDelegation_refuses:
  assumes "deadDelegation did dv s" "agentAuth i = Some (agent, did, dv)"
  shows "\<not> ar_allowed (authorize s i)"
proof
  assume "ar_allowed (authorize s i)"
  from authorized_agent [OF this assms(2)] obtain d where
    "currentDelegation s did dv (in_now i) = Inr (Some d)" by blast
  then obtain d where "find (\<lambda>r. dl_id r = did \<and> dl_version r = dv \<and> dl_revokedAt r = None) (db_delegations s) = Some d"
    by (auto simp: currentDelegation_def split: option.splits)
  from find_SomeD [OF this] assms(1) show False by (auto simp: deadDelegation_def closedKey_def)
qed

interpretation revoked_delegation: gov_tombstone "deadDelegation did dv"
  "\<lambda>s i. map_option snd (agentAuth i) = Some (did, dv)" for did dv
proof unfold_locales
  fix s m assume "deadDelegation did dv s" "m \<in> set (db_memberships s)"
  then show "\<exists>sp \<in> set (db_spaces s). sp_id sp = mb_spaceId m" by (simp add: deadDelegation_def in_spaces_def)
qed (auto simp: deadDelegation_def in_spaces_update in_spaces_revoked in_spaces_inserts delegationClash_def
    intro: closedKey_snoc closedKey_updateWhere
    dest: deadDelegation_refuses [unfolded deadDelegation_def, OF conjI])

fun authCredentialId :: "operational_auth \<Rightarrow> string option" where
  "authCredentialId (ApiKeyHuman _ cid _ _) = Some cid"
| "authCredentialId (ApiKeyAgent _ cid _ _ _ _) = Some cid"
| "authCredentialId _ = None"

definition usesCredential :: "auth_input \<Rightarrow> string \<Rightarrow> bool" where
  "usesCredential i cid \<longleftrightarrow> (case in_auth i of None \<Rightarrow> False | Some a \<Rightarrow> authCredentialId a = Some cid)"

definition deadCredential :: "string \<Rightarrow> gov_db \<Rightarrow> bool" where
  "deadCredential cid s \<longleftrightarrow> in_spaces s \<and>
     closedKey cb_credentialId (\<lambda>b. cb_revokedAt b \<noteq> None) cid (db_credentials s)"

lemma closedKey_find:
  assumes "closedKey key closed k rows"
  obtains r where "find (\<lambda>r. key r = k) rows = Some r" "closed r"
proof (cases "find (\<lambda>r. key r = k) rows")
  case None
  then show ?thesis using assms by (auto simp: closedKey_def find_NoneD)
next
  case (Some r)
  then show ?thesis using find_SomeD [OF Some] assms that by (auto simp: closedKey_def)
qed

lemma revoked_binding_unresolved:
  assumes "deadCredential cid s"
  shows "resolveCredentialPrincipal s cid ref sid now \<noteq> Inr (Some p)"
proof -
  from assms have "closedKey cb_credentialId (\<lambda>b. cb_revokedAt b \<noteq> None) cid (db_credentials s)"
    by (simp add: deadCredential_def)
  then obtain b where "getCredentialBinding s cid = Some b" "cb_revokedAt b \<noteq> None"
    unfolding getCredentialBinding_def by (rule closedKey_find)
  then show ?thesis by (simp add: resolveCredentialPrincipal_def andThen_def split: sum.splits)
qed

lemma deadCredential_refuses:
  assumes "deadCredential cid s" "usesCredential i cid"
  shows "\<not> ar_allowed (authorize s i)"
proof
  assume "ar_allowed (authorize s i)"
  then show False
  proof (rule authorizedE)
    fix policy :: versioned_policy
    assume "admitCredential s i (vp_version policy) = Inr ()"
    then have "admitKey s i (vp_version policy) = Inr ()" by (auto simp: admitCredential_def read_simps)
    moreover have "admitKey s i (vp_version policy) \<noteq> Inr ()"
    proof (cases "in_auth i")
      case (Some a)
      with assms(2) revoked_binding_unresolved [OF assms(1)] show ?thesis
        by (cases a) (auto simp: admitKey_def usesCredential_def read_simps split: option.splits)
    qed (use assms(2) in \<open>simp add: usesCredential_def\<close>)
    ultimately show False by simp
  qed
qed

interpretation revoked_credential: gov_tombstone "deadCredential cid" "\<lambda>s i. usesCredential i cid" for cid
proof unfold_locales
  fix s m assume "deadCredential cid s" "m \<in> set (db_memberships s)"
  then show "\<exists>sp \<in> set (db_spaces s). sp_id sp = mb_spaceId m" by (simp add: deadCredential_def in_spaces_def)
qed (auto simp: deadCredential_def in_spaces_update in_spaces_revoked in_spaces_inserts credentialClash_def
    intro: closedKey_snoc closedKey_updateWhere
    dest: deadCredential_refuses [unfolded deadCredential_def, OF conjI])

subsection \<open>Superseded policies\<close>

definition deadPolicy :: "string \<Rightarrow> string \<Rightarrow> gov_db \<Rightarrow> bool" where
  "deadPolicy sid v s \<longleftrightarrow> in_spaces s \<and>
     closedKey (\<lambda>p. (po_spaceId p, po_version p)) (\<lambda>p. \<not> po_isCurrent p) (sid, v) (db_policies s)"

lemma getPolicy_row:
  assumes "getPolicy s sid = Inr (Some policy)"
  obtains row where "row \<in> set (db_policies s)" "po_spaceId row = sid" "po_isCurrent row"
    "vp_version policy = po_version row" "versionedPolicy row = Inr policy"
proof -
  from assms obtain row where row: "find (\<lambda>r. po_spaceId r = sid \<and> po_isCurrent r) (db_policies s) = Some row"
    and v: "versionedPolicy row = Inr policy" by (auto simp: getPolicy_def read_simps split: option.splits)
  from v have "vp_version policy = po_version row" by (auto simp: versionedPolicy_def read_simps)
  with find_SomeD [OF row] v that show ?thesis by blast
qed

lemma deadPolicy_refuses:
  assumes "deadPolicy (in_spaceId i) (in_expectedPolicyVersion i) s"
  shows "\<not> ar_allowed (authorize s i)"
proof
  assume "ar_allowed (authorize s i)"
  then show False
  proof (rule authorizedE)
    fix policy :: versioned_policy
    assume "getPolicy s (in_spaceId i) = Inr (Some policy)" "vp_version policy = in_expectedPolicyVersion i"
    then obtain row where "row \<in> set (db_policies s)" "po_spaceId row = in_spaceId i" "po_isCurrent row"
      "po_version row = in_expectedPolicyVersion i" by (metis getPolicy_row)
    with assms show False by (auto simp: deadPolicy_def closedKey_def)
  qed
qed

interpretation superseded_policy: gov_tombstone "deadPolicy sid v"
  "\<lambda>s i. in_spaceId i = sid \<and> in_expectedPolicyVersion i = v" for sid v
proof unfold_locales
  fix s m assume "deadPolicy sid v s" "m \<in> set (db_memberships s)"
  then show "\<exists>sp \<in> set (db_spaces s). sp_id sp = mb_spaceId m" by (simp add: deadPolicy_def in_spaces_def)
qed (auto simp: deadPolicy_def in_spaces_update in_spaces_revoked in_spaces_inserts policyClash_def
    intro: closedKey_snoc closedKey_updateWhere dest: deadPolicy_refuses [unfolded deadPolicy_def, OF conjI])

lemma apart_same:
  assumes "apart clash rows" "x \<in> set rows" "y \<in> set rows" "clash x y" "clash y x"
  shows "x = y"
  using assms by (induction rows) (auto simp: apart_def)

subsection \<open>What the revoking operations leave\<close>

lemma audit_Inr:
  "audit sid aid cls sub now details s = (Inr u, t) \<Longrightarrow>
     \<exists>a. t = s\<lparr>db_next := Suc (db_next s), db_audit := db_audit s @ [a]\<rparr>"
  by (auto simp: audit_def store_simps)

lemma requireManager_live:
  assumes "requireManager s sid aid cap now op = Inr m"
  shows "currentMembership s sid aid now = Inr (Some m)" "\<exists>sp \<in> set (db_spaces s). sp_id sp = sid"
proof -
  show "currentMembership s sid aid now = Inr (Some m)"
    using assms by (auto simp: requireManager_def read_simps split: option.splits if_splits)
  then obtain sp where "liveSpace s sid = Some sp" by (auto simp: currentMembership_def split: if_splits)
  from find_SomeD [OF this [unfolded liveSpace_def]] show "\<exists>sp \<in> set (db_spaces s). sp_id sp = sid" by auto
qed

lemma closedKey_updated:
  assumes "\<exists>r \<in> set rows. key r = k" "\<And>r. key (f r) = key r" "\<And>r. closed (f r)" "\<And>r. r \<in> set rows \<Longrightarrow> key r = k \<Longrightarrow> p r \<or> closed r"
  shows "closedKey key closed k (updateWhere p f rows)"
proof -
  have "(\<exists>r \<in> set (updateWhere p f rows). key r = k) \<longleftrightarrow> (\<exists>r \<in> set rows. key r = k)"
    by (rule updateWhere_has_key) (rule assms(2))
  moreover have "closed r" if "r \<in> set (updateWhere p f rows)" "key r = k" for r
    using that assms(2,3,4) by (auto simp: set_updateWhere)
  ultimately show ?thesis using assms(1) by (auto simp: closedKey_def)
qed

lemma deleteSpace_dead:
  assumes "deleteSpace sid auth now s = (Inr u, t)" "in_spaces s"
  shows "deadSpace sid t"
proof -
  from assms(1) obtain m a where "requireManager s sid (hc_actorId auth) ''space:manage'' now ''space:delete'' = Inr m"
    and t: "t = db_spaces_update (updateWhere (\<lambda>r. sp_id r = sid \<and> sp_deletedAt r = None)
      (\<lambda>r. r\<lparr>sp_deletedAt := Some now\<rparr>)) s\<lparr>db_next := Suc (db_next s), db_audit := db_audit s @ [a]\<rparr>"
    by (auto simp: deleteSpace_def store_simps dest!: audit_Inr)
  from requireManager_live(2) [OF this(1)] have "closedKey sp_id (\<lambda>r. sp_deletedAt r \<noteq> None) sid (db_spaces t)"
    unfolding t by (auto intro!: closedKey_updated)
  moreover have "in_spaces t"
    using in_spaces_update [OF assms(2), of "\<lambda>r. r\<lparr>sp_deletedAt := Some now\<rparr>"] by (simp add: t in_spaces_def)
  ultimately show ?thesis by (simp add: deadSpace_def)
qed

lemma revokeMembership_dead:
  assumes "revokeMembership sid mid now auth s = (Inr u, t)" "gov_wf s"
  shows "deadMembership mid t"
proof -
  let ?p = "\<lambda>m. mb_spaceId m = sid \<and> mb_id m = mid \<and> mb_revokedAt m = None"
  let ?f = "\<lambda>m. m\<lparr>mb_revokedAt := Some now\<rparr> :: membership"
  from assms(1) obtain a where c: "0 < changes ?p (db_memberships s)"
    and t: "t = db_memberships_update (updateWhere ?p ?f) s\<lparr>db_next := Suc (db_next s), db_audit := db_audit s @ [a]\<rparr>"
    by (auto simp: revokeMembership_def store_simps read_simps dest!: audit_Inr)
  from c obtain m where m: "m \<in> set (db_memberships s)" "?p m" by (auto simp: changes_pos_iff)
  have "r = m" if "r \<in> set (db_memberships s)" "mb_id r = mid" for r
    by (rule apart_same [where clash = periodsClash, OF _ that(1) m(1)])
      (use assms(2) m(2) that(2) in \<open>auto simp: gov_wf_def periodsClash_def\<close>)
  then have "closedKey mb_id (\<lambda>r. mb_revokedAt r \<noteq> None) mid (db_memberships t)"
    using m by (auto simp: t intro!: closedKey_updated)
  moreover have "in_spaces t" using assms(2) in_spaces_revoked [of s ?p] by (simp add: t gov_wf_def in_spaces_def)
  ultimately show ?thesis by (simp add: deadMembership_def)
qed

lemma setAgentStatus_dead:
  assumes "setAgentStatus sid agent st now auth s = (Inr u, t)" "gov_wf s"
  shows "deadAgent agent t"
proof -
  from assms(1) obtain g where g: "getAgent s agent = Some g"
    and t: "db_agents t = updateWhere (\<lambda>a. ag_id a = agent) (\<lambda>a. a\<lparr>
         ag_status := (case st of StopDisconnected \<Rightarrow> AgentDisconnected | StopRevoked \<Rightarrow> AgentRevoked),
         ag_disconnectedAt := (if st = StopDisconnected then Some now else ag_disconnectedAt g),
         ag_revokedAt := (if st = StopRevoked then Some now else ag_revokedAt g)\<rparr>) (db_agents s)"
    and "db_memberships t = db_memberships s" "db_spaces t = db_spaces s"
    by (cases st) (auto simp: setAgentStatus_def store_simps read_simps dest!: audit_Inr split: option.splits if_splits)
  moreover from find_SomeD [OF g [unfolded getAgent_def]] have "\<exists>a \<in> set (db_agents s). ag_id a = agent" by auto
  ultimately have "closedKey ag_id (\<lambda>r. ag_status r \<noteq> AgentActive) agent (db_agents t)"
    by (auto intro!: closedKey_updated split: agent_stop.splits)
  with assms(2) \<open>db_memberships t = _\<close> \<open>db_spaces t = _\<close> show ?thesis
    by (simp add: deadAgent_def gov_wf_def in_spaces_def)
qed

lemma revokeDelegation_dead:
  assumes "revokeDelegation sid did dv now auth s = (Inr u, t)" "gov_wf s"
  shows "deadDelegation did dv t"
proof -
  let ?p = "\<lambda>d. dl_id d = did \<and> dl_version d = dv \<and> dl_spaceId d = sid \<and> dl_revokedAt d = None"
  let ?f = "\<lambda>d. d\<lparr>dl_revokedAt := Some now\<rparr> :: delegation_row"
  from assms(1) obtain a where c: "0 < changes ?p (db_delegations s)"
    and t: "t = db_delegations_update (updateWhere ?p ?f) s\<lparr>db_next := Suc (db_next s), db_audit := db_audit s @ [a]\<rparr>"
    by (auto simp: revokeDelegation_def store_simps read_simps dest!: audit_Inr)
  from c obtain d where d: "d \<in> set (db_delegations s)" "?p d" by (auto simp: changes_pos_iff)
  have "r = d" if "r \<in> set (db_delegations s)" "dl_id r = did" "dl_version r = dv" for r
    by (rule apart_same [where clash = delegationClash, OF _ that(1) d(1)])
      (use assms(2) d(2) that(2,3) in \<open>auto simp: gov_wf_def delegationClash_def\<close>)
  then have "closedKey (\<lambda>d. (dl_id d, dl_version d)) (\<lambda>d. dl_revokedAt d \<noteq> None) (did, dv) (db_delegations t)"
    using d by (auto simp: t intro!: closedKey_updated)
  with assms(2) show ?thesis by (simp add: t deadDelegation_def gov_wf_def in_spaces_def)
qed

lemma revokeCredentialBinding_dead:
  assumes "revokeCredentialBinding cid sid now auth s = (Inr u, t)" "gov_wf s"
  shows "deadCredential cid t"
proof -
  let ?p = "\<lambda>b. cb_credentialId b = cid \<and> cb_revokedAt b = None"
  let ?f = "\<lambda>b. b\<lparr>cb_revokedAt := Some now\<rparr> :: credential_row"
  from assms(1) obtain a where c: "\<exists>b \<in> set (db_credentials s). cb_credentialId b = cid"
    and t: "t = db_credentials_update (updateWhere ?p ?f) s\<lparr>db_next := Suc (db_next s), db_audit := db_audit s @ [a]\<rparr>"
    by (fastforce simp: revokeCredentialBinding_def store_simps read_simps list_ex_iff dest!: audit_Inr)
  then have "closedKey cb_credentialId (\<lambda>b. cb_revokedAt b \<noteq> None) cid (db_credentials t)"
    by (auto simp: t intro!: closedKey_updated)
  with assms(2) show ?thesis by (simp add: t deadCredential_def gov_wf_def in_spaces_def)
qed

lemma setPolicy_Inr:
  assumes "setPolicy sid ev input now auth s = (Inr p, t)"
  obtains current row a mgr where "getPolicy s sid = Inr current" "map_option vp_version current = ev"
    "nextVersion (map_option vp_version current) = Inr (po_version row)" "po_spaceId row = sid" "po_isCurrent row"
    "vp_version p = po_version row" "valid_policy (po_policy row)" "vp_policy p = po_policy row"
    "controlAuth s auth (hc_actorId auth) now = Inr ()"
    "requireManager s sid (hc_actorId auth) ''policy:manage'' now ''policy:update'' = Inr mgr"
    "\<forall>x \<in> set (updateWhere (\<lambda>r. po_spaceId r = sid \<and> po_isCurrent r) (\<lambda>r. r\<lparr>po_isCurrent := False\<rparr>) (db_policies s)).
       \<not> policyClash row x"
    "t = s\<lparr>db_policies := updateWhere (\<lambda>r. po_spaceId r = sid \<and> po_isCurrent r)
      (\<lambda>r. r\<lparr>po_isCurrent := False\<rparr>) (db_policies s) @ [row], db_next := Suc (db_next s), db_audit := db_audit s @ [a]\<rparr>"
proof -
  let ?old = "updateWhere (\<lambda>r. po_spaceId r = sid \<and> po_isCurrent r) (\<lambda>r. r\<lparr>po_isCurrent := False\<rparr>) (db_policies s)"
  let ?row = "\<lambda>version policy actor. \<lparr>po_spaceId = sid, po_version = version, po_policy = policy,
    po_actorId = actor, po_createdAt = now, po_isCurrent = True\<rparr>"
  from assms obtain current mgr policy version where
    h: "getPolicy s sid = Inr current" "map_option vp_version current = ev"
      "controlAuth s auth (hc_actorId auth) now = Inr ()"
      "requireManager s sid (hc_actorId auth) ''policy:manage'' now ''policy:update'' = Inr mgr"
      "policyInput current input = Inr policy" "nextVersion (map_option vp_version current) = Inr version"
      "\<forall>x \<in> set ?old. \<not> policyClash (?row version policy (mb_actorId mgr)) x"
    and p: "vp_version p = version" "vp_policy p = policy"
    and a: "\<exists>u. audit sid (mb_actorId mgr) ''policy_changed'' (Some version) now (Obj [])
      (s\<lparr>db_policies := ?old @ [?row version policy (mb_actorId mgr)]\<rparr>) = (Inr u, t)"
    unfolding setPolicy_def retireCurrentPolicy_def insertPolicy_def
    by (auto simp add: store_simps read_simps simp del: updateWhere_Cons updateWhere_append)
  from a obtain a where "t = s\<lparr>db_policies := ?old @ [?row version policy (mb_actorId mgr)],
      db_next := Suc (db_next s), db_audit := db_audit s @ [a]\<rparr>" by (auto dest!: audit_Inr)
  with h p policyInput_valid [OF h(5)] show ?thesis
    by (intro that [of current "?row version policy (mb_actorId mgr)" mgr a]) simp_all
qed

lemma setPolicy_dead:
  assumes "setPolicy sid (Some v) input now auth s = (Inr p, t)" "gov_wf s"
  shows "deadPolicy sid v t"
  using assms(1)
proof (rule setPolicy_Inr)
  fix current row a
  let ?old = "updateWhere (\<lambda>r. po_spaceId r = sid \<and> po_isCurrent r) (\<lambda>r. r\<lparr>po_isCurrent := False\<rparr>) (db_policies s)"
  assume c: "getPolicy s sid = Inr current" "map_option vp_version current = Some v"
    and row: "po_spaceId row = sid" "po_isCurrent row" "\<forall>x \<in> set ?old. \<not> policyClash row x"
    and t: "t = s\<lparr>db_policies := ?old @ [row], db_next := Suc (db_next s), db_audit := db_audit s @ [a]\<rparr>"
  from c obtain policy where "getPolicy s sid = Inr (Some policy)" "vp_version policy = v" by auto
  then obtain q where q: "q \<in> set (db_policies s)" "po_spaceId q = sid" "po_version q = v"
    by (metis getPolicy_row)
  have "closedKey (\<lambda>p. (po_spaceId p, po_version p)) (\<lambda>p. \<not> po_isCurrent p) (sid, v) ?old"
    by (rule closedKey_updated) (use q in auto)
  then have "closedKey (\<lambda>p. (po_spaceId p, po_version p)) (\<lambda>p. \<not> po_isCurrent p) (sid, v) (db_policies t)"
    unfolding t by simp (erule closedKey_snoc, use row in \<open>auto simp: policyClash_def\<close>)
  with assms(2) show ?thesis by (simp add: deadPolicy_def t gov_wf_def in_spaces_def)
qed

subsection \<open>No way back\<close>

text \<open>
  Deleting a space is final: after \<open>deleteSpace\<close> has returned, and after any further operations
  of any kind, no request on that space is authorized.
\<close>
lemma deleted_space_closed:
  assumes "gov_wf s" and "deleteSpace sid auth now s = (Inr u, t)" and "gov_reach t v" and "in_spaceId i = sid"
  shows "\<not> ar_allowed (authorize v i)"
  using deleted_space.never_again [OF deleteSpace_dead [OF assms(2)] assms(3,4)] assms(1) by (simp add: gov_wf_def)

lemma sample_wf: "gov_wf sample_db"
proof -
  have "apart grantClash (db_grants sample_db)" unfolding apart_def by code_simp
  moreover have "list_all (\<lambda>g. valid_restrictions (gr_restrictions g)) (db_grants sample_db)" by code_simp
  moreover have "list_all (\<lambda>p. valid_policy (po_policy p)) (db_policies sample_db)" by code_simp
  ultimately show ?thesis
    by (simp add: gov_wf_def apart_def in_spaces_def) (simp add: sample_defs)
qed

lemma runs_to: "fst r = Inr x \<Longrightarrow> r = (Inr x, snd r)"
  by (metis prod.collapse)

lemma deleted_space_closed_example:
  "fst (deleteSpace ''s1'' ana_control t1 sample_db) = Inr () \<and>
   \<not> ar_allowed (authorize (snd (deleteSpace ''s1'' ana_control t1 sample_db)) (human_request PhaseRead))"
proof
  show ok: "fst (deleteSpace ''s1'' ana_control t1 sample_db) = Inr ()" by code_simp
  show "\<not> ar_allowed (authorize (snd (deleteSpace ''s1'' ana_control t1 sample_db)) (human_request PhaseRead))"
    by (rule deleted_space_closed [OF sample_wf runs_to [OF ok]]) (simp_all add: human_request_def)
qed

text \<open>
  C5. Revoking a membership period is final: after \<open>revokeMembership\<close> has returned, and after any
  further operations, no request of the member, and none of an agent the period delegated to, is
  authorized through that period.
\<close>
theorem revoked_membership_stays_closed:
  assumes "gov_wf s" and "revokeMembership sid mid now auth s = (Inr u, t)" and "gov_reach t v"
  shows "\<not> (ar_allowed (authorize v i) \<and> ar_membershipId (authorize v i) = Some mid)"
  using revoked_membership.never_again [OF revokeMembership_dead [OF assms(2,1)] assms(3)] by blast

theorem revoked_membership_stays_closed_witness:
  "ar_allowed (authorize sample_db (human_request PhaseRead)) \<and>
   ar_membershipId (authorize sample_db (human_request PhaseRead)) = Some ''m1'' \<and>
   \<not> (ar_allowed (authorize (snd (revokeMembership ''s1'' ''m1'' t1 ana_control sample_db)) (human_request PhaseRead)) \<and>
    ar_membershipId (authorize (snd (revokeMembership ''s1'' ''m1'' t1 ana_control sample_db))
      (human_request PhaseRead)) = Some ''m1'')"
proof (intro conjI)
  show "ar_allowed (authorize sample_db (human_request PhaseRead))" by code_simp
  show "ar_membershipId (authorize sample_db (human_request PhaseRead)) = Some ''m1''" by code_simp
  have ok: "fst (revokeMembership ''s1'' ''m1'' t1 ana_control sample_db) = Inr ()" by code_simp
  show "\<not> (ar_allowed (authorize (snd (revokeMembership ''s1'' ''m1'' t1 ana_control sample_db)) (human_request PhaseRead)) \<and>
    ar_membershipId (authorize (snd (revokeMembership ''s1'' ''m1'' t1 ana_control sample_db))
      (human_request PhaseRead)) = Some ''m1'')"
    by (rule revoked_membership_stays_closed [OF sample_wf runs_to [OF ok] rtranclp.rtrancl_refl])
qed

text \<open>
  Stopping an agent is final: after \<open>setAgentStatus\<close> has disconnected or revoked it, and after any
  further operations, no request made with a key of that agent is authorized.
\<close>
lemma stopped_agent_closed:
  assumes "gov_wf s" and "setAgentStatus sid agent st now auth s = (Inr u, t)" and "gov_reach t v"
    and "agentAuth i = Some (agent, did, dv)"
  shows "\<not> ar_allowed (authorize v i)"
  using stopped_agent.never_again [OF setAgentStatus_dead [OF assms(2,1)] assms(3)] assms(4) by simp

lemma stopped_agent_closed_example:
  "fst (setAgentStatus ''s1'' ''bot'' StopDisconnected t1 ana_control sample_db) = Inr () \<and>
   \<not> ar_allowed (authorize (snd (setAgentStatus ''s1'' ''bot'' StopDisconnected t1 ana_control sample_db))
     (agent_request PhaseRead))"
proof
  show ok: "fst (setAgentStatus ''s1'' ''bot'' StopDisconnected t1 ana_control sample_db) = Inr ()" by code_simp
  show "\<not> ar_allowed (authorize (snd (setAgentStatus ''s1'' ''bot'' StopDisconnected t1 ana_control sample_db))
     (agent_request PhaseRead))"
    by (rule stopped_agent_closed [OF sample_wf runs_to [OF ok]])
      (simp_all add: agent_request_def agentAuth_def)
qed

text \<open>
  Revoking a delegation version is final: after \<open>revokeDelegation\<close> has returned, and after any
  further operations, no request under that version is authorized.
\<close>
lemma revoked_delegation_closed:
  assumes "gov_wf s" and "revokeDelegation sid did dv now auth s = (Inr u, t)" and "gov_reach t v"
    and "agentAuth i = Some (agent, did, dv)"
  shows "\<not> ar_allowed (authorize v i)"
  using revoked_delegation.never_again [OF revokeDelegation_dead [OF assms(2,1)] assms(3)] assms(4) by simp

lemma revoked_delegation_closed_example:
  "fst (revokeDelegation ''s1'' ''d1'' ''1'' t1 ana_control sample_db) = Inr () \<and>
   \<not> ar_allowed (authorize (snd (revokeDelegation ''s1'' ''d1'' ''1'' t1 ana_control sample_db)) (agent_request PhaseRead))"
proof
  show ok: "fst (revokeDelegation ''s1'' ''d1'' ''1'' t1 ana_control sample_db) = Inr ()" by code_simp
  show "\<not> ar_allowed (authorize (snd (revokeDelegation ''s1'' ''d1'' ''1'' t1 ana_control sample_db)) (agent_request PhaseRead))"
    by (rule revoked_delegation_closed [OF sample_wf runs_to [OF ok]])
      (simp_all add: agent_request_def agentAuth_def)
qed

text \<open>
  Revoking a credential is final: after \<open>revokeCredentialBinding\<close> has returned, and after any
  further operations, including another registration of the same credential identifier, no request
  with that API key is authorized, neither as the agent it was bound to nor as its human owner.
\<close>
lemma revoked_credential_closed:
  assumes "gov_wf s" and "revokeCredentialBinding cid sid now auth s = (Inr u, t)" and "gov_reach t v"
    and "usesCredential i cid"
  shows "\<not> ar_allowed (authorize v i)"
  using revoked_credential.never_again [OF revokeCredentialBinding_dead [OF assms(2,1)] assms(3,4)] .

lemma revoked_credential_closed_example:
  "fst (revokeCredentialBinding ''k1'' ''s1'' t1 ana_control sample_db) = Inr () \<and>
   \<not> ar_allowed (authorize (snd (revokeCredentialBinding ''k1'' ''s1'' t1 ana_control sample_db)) (agent_request PhaseRead))"
proof
  show ok: "fst (revokeCredentialBinding ''k1'' ''s1'' t1 ana_control sample_db) = Inr ()" by code_simp
  show "\<not> ar_allowed (authorize (snd (revokeCredentialBinding ''k1'' ''s1'' t1 ana_control sample_db)) (agent_request PhaseRead))"
    by (rule revoked_credential_closed [OF sample_wf runs_to [OF ok]])
      (simp_all add: agent_request_def usesCredential_def)
qed

text \<open>
  A superseded policy version authorizes nothing: after \<open>setPolicy\<close> has replaced version \<open>v\<close>, and
  after any further operations, no request that was prepared under version \<open>v\<close> is authorized.
\<close>
lemma superseded_policy_closed:
  assumes "gov_wf s" and "setPolicy sid (Some v) input now auth s = (Inr p, t)" and "gov_reach t w"
    and "in_spaceId i = sid" and "in_expectedPolicyVersion i = v"
  shows "\<not> ar_allowed (authorize w i)"
  using superseded_policy.never_again [OF setPolicy_dead [OF assms(2,1)] assms(3)] assms(4,5) by simp

lemma superseded_policy_closed_example:
  "map_sum id vp_version (fst (setPolicy ''s1'' (Some ''1'') (Obj []) t1 ana_control sample_db)) = Inr ''2'' \<and>
   \<not> ar_allowed (authorize (snd (setPolicy ''s1'' (Some ''1'') (Obj []) t1 ana_control sample_db)) (human_request PhaseRead))"
proof
  show ok: "map_sum id vp_version (fst (setPolicy ''s1'' (Some ''1'') (Obj []) t1 ana_control sample_db)) = Inr ''2''"
    by code_simp
  then obtain p where "fst (setPolicy ''s1'' (Some ''1'') (Obj []) t1 ana_control sample_db) = Inr p"
    by (cases "fst (setPolicy ''s1'' (Some ''1'') (Obj []) t1 ana_control sample_db)") auto
  from superseded_policy_closed [OF sample_wf runs_to [OF this]]
  show "\<not> ar_allowed (authorize (snd (setPolicy ''s1'' (Some ''1'') (Obj []) t1 ana_control sample_db)) (human_request PhaseRead))"
    by (simp add: human_request_def)
qed

subsection \<open>Withdrawals together\<close>

text \<open>A control operation that takes away what a request rests on, by whoever it is made.\<close>

inductive withdraws :: "gov_db \<Rightarrow> gov_db \<Rightarrow> auth_input \<Rightarrow> bool" where
  space: "deleteSpace sid auth now s = (Inr u, t) \<Longrightarrow> in_spaceId i = sid \<Longrightarrow> withdraws s t i"
| agent: "setAgentStatus sid agent st now auth s = (Inr u, t) \<Longrightarrow> agentAuth i = Some (agent, did, dv) \<Longrightarrow> withdraws s t i"
| delegation: "revokeDelegation sid did dv now auth s = (Inr u, t) \<Longrightarrow> agentAuth i = Some (agent, did, dv) \<Longrightarrow> withdraws s t i"
| credential: "revokeCredentialBinding cid sid now auth s = (Inr u, t) \<Longrightarrow> usesCredential i cid \<Longrightarrow> withdraws s t i"
| policy: "setPolicy sid (Some old) input now auth s = (Inr p, t) \<Longrightarrow> in_spaceId i = sid \<Longrightarrow>
    in_expectedPolicyVersion i = old \<Longrightarrow> withdraws s t i"

text \<open>
  C4. A withdrawal is final: after the space of a request was deleted, its agent stopped, its delegation
  version or its API key revoked, or the policy version it was prepared under replaced, and after any
  further operations of any kind, the request is not authorized.
\<close>

theorem withdrawn_rights_stay_closed:
  assumes "gov_wf s" and "withdraws s t i" and "gov_reach t v"
  shows "\<not> ar_allowed (authorize v i)"
  using assms(2,1,3)
proof (cases rule: withdraws.cases)
  case space
  then show ?thesis using deleted_space_closed assms(1,3) by blast
next
  case agent
  then show ?thesis using stopped_agent_closed assms(1,3) by blast
next
  case delegation
  then show ?thesis using revoked_delegation_closed assms(1,3) by blast
next
  case credential
  then show ?thesis using revoked_credential_closed assms(1,3) by blast
next
  case policy
  then show ?thesis using superseded_policy_closed assms(1,3) by blast
qed

theorem withdrawn_rights_stay_closed_witness:
  "ar_allowed (authorize sample_db (human_request PhaseRead)) \<and> ar_allowed (authorize sample_db (agent_request PhaseRead)) \<and>
   \<not> ar_allowed (authorize (snd (deleteSpace ''s1'' ana_control t1 sample_db)) (human_request PhaseRead)) \<and>
   \<not> ar_allowed (authorize (snd (revokeCredentialBinding ''k1'' ''s1'' t1 ana_control sample_db)) (agent_request PhaseRead))"
proof (intro conjI)
  show "ar_allowed (authorize sample_db (human_request PhaseRead))" "ar_allowed (authorize sample_db (agent_request PhaseRead))"
    by code_simp+
  have ok: "fst (deleteSpace ''s1'' ana_control t1 sample_db) = Inr ()"
    "fst (revokeCredentialBinding ''k1'' ''s1'' t1 ana_control sample_db) = Inr ()" by code_simp+
  show "\<not> ar_allowed (authorize (snd (deleteSpace ''s1'' ana_control t1 sample_db)) (human_request PhaseRead))"
    by (rule withdrawn_rights_stay_closed [OF sample_wf withdraws.space [OF runs_to [OF ok(1)]] rtranclp.rtrancl_refl])
      (simp add: human_request_def)
  show "\<not> ar_allowed (authorize (snd (revokeCredentialBinding ''k1'' ''s1'' t1 ana_control sample_db)) (agent_request PhaseRead))"
    by (rule withdrawn_rights_stay_closed [OF sample_wf withdraws.credential [OF runs_to [OF ok(2)]] rtranclp.rtrancl_refl])
      (simp add: agent_request_def usesCredential_def)
qed

end
