(* ===== verification/Governance_Props.thy ===== *)
theory Governance_Props
  imports Governance_Revocation
begin

text \<open>
  The properties of the governance operations: consistency of every reachable store, the unique
  membership period, atomicity, control by a recently reauthenticated manager, policy versions,
  attenuation of delegations, the owner of a new space, the audit trail.
\<close>

subsection \<open>Reachable stores\<close>

lemma empty_wf: "gov_wf (empty_db u)"
  by (simp add: gov_wf_def empty_db_def in_spaces_def apart_def)

text \<open>
  C6. Every store that any sequence of governance operations produces from the empty one, with
  operations that throw included, is consistent: uniqueness constraints hold, memberships belong to
  spaces, stored grants and policies parse, and no two open membership periods of one person in one
  space have an instant in common.
\<close>
theorem reachable_stores_consistent:
  assumes "gov_reach (empty_db u) s"
  shows "gov_wf s"
  using wf.reach_keeps [OF assms empty_wf] .

theorem reachable_stores_consistent_witness:
  "gov_wf ((empty_db (\<lambda>n. ''u'' @ decimal n))\<lparr>db_actors := [], db_connectionOwner := Some ''ana'',
     db_invitations := [], db_legacyCurrent := [], db_legacyPolicies := []\<rparr>)"
  by (rule reachable_stores_consistent [OF r_into_rtranclp [of gov_step, OF step_others]])

lemma unique_period:
  assumes "gov_wf s" "isoTime now = Inr t"
  shows "length (filter (\<lambda>r. isCurrentAt (mb_validFrom r) (mb_validUntil r) now = Inr True) (openPeriods s sid aid)) \<le> 1"
proof -
  let ?current = "filter (\<lambda>r. isCurrentAt (mb_validFrom r) (mb_validUntil r) now = Inr True) (openPeriods s sid aid)"
  have "sorted_wrt (\<lambda>x y. \<not> periodsClash y x) ?current"
    using assms(1) by (simp add: gov_wf_def apart_def openPeriods_def sorted_wrt_filter)
  moreover have "\<forall>x \<in> set ?current. \<forall>y \<in> set ?current. periodsClash y x"
    using isCurrentAt_inPeriod [OF _ assms(2)] by (auto simp: periodsClash_def openPeriods_def)
  ultimately show ?thesis by (cases ?current rule: remdups_adj.cases) auto
qed

text \<open>
  In a reachable store a person has at most one current membership period in a space, so the
  evaluator's rule that exactly one must be current never turns a member away because of two.
\<close>
theorem unique_current_membership:
  assumes "gov_reach (empty_db u) s" and "activeIdentity s aid" and "liveSpace s sid \<noteq> None"
    and "filterR (\<lambda>r. isCurrentAt (mb_validFrom r) (mb_validUntil r) now) (openPeriods s sid aid) = Inr active"
    and "m \<in> set active"
  shows "currentMembership s sid aid now = Inr (Some m)"
proof -
  have a: "active = filter (\<lambda>r. isCurrentAt (mb_validFrom r) (mb_validUntil r) now = Inr True) (openPeriods s sid aid)"
    by (rule filterR_Inr_filter [OF assms(4)])
  with assms(5) obtain t where "isoTime now = Inr t" by (auto simp: isCurrentAt_def read_simps)
  with unique_period [OF wf.reach_keeps [OF assms(1) empty_wf]] a have "length active \<le> 1" by simp
  with assms(5) have "active = [m]" by (cases active) auto
  with assms show ?thesis by (simp add: currentMembership_def)
qed

definition one_member_db :: gov_db where
  "one_member_db = (empty_db (\<lambda>n. ''u'' @ decimal n))\<lparr>
     db_actors := [\<lparr>ac_id = ''ana'', ac_status = Active, ac_capabilities = [], ac_scope = ''owner''\<rparr>], db_connectionOwner := None,
     db_invitations := [], db_legacyCurrent := [], db_legacyPolicies := []\<rparr>"

lemma created_space_id:
  "map_sum id sp_id (fst (createSpace ''ana'' ''Home'' Personal t1 ana_control one_member_db)) = Inr ''u0''"
  by code_simp

subsection \<open>Atomicity\<close>

definition untouched :: "gov_db \<Rightarrow> gov_db \<Rightarrow> bool" where
  "untouched s t \<longleftrightarrow> (\<exists>n. t = s\<lparr>db_next := n\<rparr>)"


lemma untouched_rollback [simp]: "untouched s (rollback s t)"
  by (auto simp: untouched_def rollback_def)










subsection \<open>Control\<close>


lemma currentGrantRow_mem:
  "currentGrantRow s a sid mid cap kind rid = Some g \<Longrightarrow> g \<in> set (db_grants s)"
  unfolding currentGrantRow_def by (drule find_SomeD) simp




subsection \<open>Policy versions\<close>

lemma updateWhere_clears: "(\<And>r. \<not> p (f r)) \<Longrightarrow> r \<in> set (updateWhere p f rows) \<Longrightarrow> \<not> p r"
  by (induction rows) (auto split: if_splits)

text \<open>
  \<open>setPolicy\<close> is a compare-and-swap: it succeeds only when the caller names the version that is
  current, the new version is the successor number, and afterwards the space has exactly one current
  policy, the new one, which is what every later read returns.
\<close>
theorem setPolicy_compare_and_swap:
  assumes "gov_wf s" and "setPolicy sid ev input now auth s = (Inr p, t)"
  shows "\<exists>current. getPolicy s sid = Inr current \<and> map_option vp_version current = ev \<and>
    nextVersion ev = Inr (vp_version p) \<and>
    map po_version (filter (\<lambda>r. po_spaceId r = sid \<and> po_isCurrent r) (db_policies t)) = [vp_version p] \<and>
    map_sum id (map_option (\<lambda>q. (vp_version q, vp_policy q))) (getPolicy t sid) = Inr (Some (vp_version p, vp_policy p))"
  using assms(2)
proof (rule setPolicy_Inr)
  fix current row a
  let ?old = "updateWhere (\<lambda>r. po_spaceId r = sid \<and> po_isCurrent r) (\<lambda>r. r\<lparr>po_isCurrent := False\<rparr>) (db_policies s)"
  assume c: "getPolicy s sid = Inr current" "map_option vp_version current = ev"
      "nextVersion (map_option vp_version current) = Inr (po_version row)"
    and row: "po_spaceId row = sid" "po_isCurrent row" "vp_version p = po_version row"
      "valid_policy (po_policy row)" "vp_policy p = po_policy row"
    and t: "t = s\<lparr>db_policies := ?old @ [row], db_next := Suc (db_next s), db_audit := db_audit s @ [a]\<rparr>"
  have none: "\<not> (po_spaceId r = sid \<and> po_isCurrent r)" if "r \<in> set ?old" for r
    using that by (rule updateWhere_clears [rotated]) simp
  then have "filter (\<lambda>r. po_spaceId r = sid \<and> po_isCurrent r) ?old = []" by (auto simp: filter_empty_conv)
  moreover have "find (\<lambda>r. po_spaceId r = sid \<and> po_isCurrent r) ?old = None" using none by (auto simp: find_NoneD)
  moreover have "versionedPolicy row = Inr \<lparr>vp_policy = po_policy row,
      vp_assistanceMaximum = (case gp_assistanceMaximum (po_policy row) of None \<Rightarrow> Analysis_only | Some a \<Rightarrow> a),
      vp_spaceId = po_spaceId row, vp_version = po_version row, vp_actorId = po_actorId row,
      vp_createdAt = po_createdAt row\<rparr>"
    using parse_policy_json [OF row(4)] by (simp add: versionedPolicy_def)
  ultimately have "getPolicy t sid = Inr (Some \<lparr>vp_policy = po_policy row,
      vp_assistanceMaximum = (case gp_assistanceMaximum (po_policy row) of None \<Rightarrow> Analysis_only | Some a \<Rightarrow> a),
      vp_spaceId = po_spaceId row, vp_version = po_version row, vp_actorId = po_actorId row,
      vp_createdAt = po_createdAt row\<rparr>)"
    and "map po_version (filter (\<lambda>r. po_spaceId r = sid \<and> po_isCurrent r) (db_policies t)) = [po_version row]"
    using row(1,2) by (simp_all add: t getPolicy_def find_append)
  with c row(3,5) show ?thesis by simp
qed

theorem setPolicy_compare_and_swap_witness:
  "\<exists>p t. setPolicy ''s1'' (Some ''1'') (Obj []) t1 ana_control sample_db = (Inr p, t) \<and> vp_version p = ''2'' \<and>
     map po_version (filter (\<lambda>r. po_spaceId r = ''s1'' \<and> po_isCurrent r) (db_policies t)) = [''2'']"
proof -
  have "map_sum id vp_version (fst (setPolicy ''s1'' (Some ''1'') (Obj []) t1 ana_control sample_db)) = Inr ''2''"
    by code_simp
  then obtain p where "fst (setPolicy ''s1'' (Some ''1'') (Obj []) t1 ana_control sample_db) = Inr p" and v: "vp_version p = ''2''"
    by (cases "fst (setPolicy ''s1'' (Some ''1'') (Obj []) t1 ana_control sample_db)") auto
  note run = runs_to [OF this(1)]
  from setPolicy_compare_and_swap [OF sample_wf run] v
  have "map po_version (filter (\<lambda>r. po_spaceId r = ''s1'' \<and> po_isCurrent r)
      (db_policies (snd (setPolicy ''s1'' (Some ''1'') (Obj []) t1 ana_control sample_db)))) = [''2'']" by auto
  with run v show ?thesis by (intro exI conjI)
qed

subsection \<open>Delegation\<close>

lemma set_putKey: "set (putKey k v acc) \<subseteq> insert (k, v) (set acc)"
  by (induction k v acc rule: putKey.induct) auto

lemma rightsByKey_backed:
  assumes "rightsByKey s sid m acc rs = Inr out" "(k, d) \<in> set out"
  shows "(k, d) \<in> set acc \<or> (\<exists>r \<in> set rs. delegatedRight s sid m r = Inr d)"
  using assms
proof (induction s sid m acc rs rule: rightsByKey.induct)
  case (2 s sid m acc r rest)
  then obtain e where e: "delegatedRight s sid m r = Inr e"
    "rightsByKey s sid m (putKey (rightKey r) e acc) rest = Inr out" by (auto simp: read_simps)
  with "2.IH" [OF e(2) "2.prems"(2)] set_putKey [of "rightKey r" e acc] show ?case by auto
qed simp

lemma delegatedRight_attenuates:
  assumes "gov_wf s" "delegatedRight s sid m r = Inr d"
  shows "\<not> nonDelegableAgentCapability (dr_capability d) \<and>
    (\<exists>g. currentGrantRow s (mb_actorId m) sid (mb_id m) (dr_capability d) (dr_resourceKind d) (dr_resourceId d) = Some g \<and>
       tighter (dr_restrictions d) (gr_restrictions g))"
proof -
  from assms(2) obtain g restr where n: "\<not> nonDelegableAgentCapability (ri_capability r)"
    and g: "currentGrantRow s (mb_actorId m) sid (mb_id m) (ri_capability r) (ri_resourceKind r) (ri_resourceId r) = Some g"
    and restr: "delegatedRestrictions (ri_restrictions r) (restrictions_json (gr_restrictions g)) = Inr restr"
    and d: "d = \<lparr>dr_capability = ri_capability r, dr_resourceKind = ri_resourceKind r,
       dr_resourceId = ri_resourceId r, dr_restrictions = restr\<rparr>"
    by (auto simp: delegatedRight_def read_simps currentGrant_def split: option.splits if_splits)
  have "valid_restrictions (gr_restrictions g)"
    using assms(1) currentGrantRow_mem [OF g] by (auto simp: gov_wf_def list_all_iff)
  then have "tighter restr (gr_restrictions g)"
    by (intro delegatedRestrictions_tighter [OF restr]) (rule parse_restrictions_json)
  with n g d show ?thesis by simp
qed

lemma replaceDelegation_row:
  assumes "replaceDelegation i m aid cur row s = (Inr d, t)"
  shows "d \<in> set (db_delegations t) \<and> dl_id d = dl_id row \<and> dl_version d = dl_version row \<and> row \<in> set (db_delegations t) \<and>
    (\<forall>x \<in> set (db_delegations t). dl_id x = dl_id row \<longrightarrow> dl_version x = dl_version row \<longrightarrow> x = row)"
proof -
  from assms obtain old a where fresh: "\<forall>x \<in> set old. \<not> delegationClash row x"
    and t: "db_delegations t = old @ [row]"
    and f: "find (\<lambda>d. dl_id d = dl_id row \<and> dl_version d = dl_version row) (db_delegations t) = Some d"
    by (cases cur)
      (auto simp: replaceDelegation_def Let_def store_simps read_simps dest!: audit_Inr split: option.splits)
  from find_SomeD [OF f] fresh t show ?thesis by (auto simp: delegationClash_def)
qed

text \<open>
  C29. A delegation never exceeds its issuer: when \<open>delegate\<close> returns a delegation, each of its rights
  is outside the human-only capabilities and is covered by a current grant of the issuing
  membership on the same capability and resource, whose restrictions it respects in every field.
\<close>
theorem delegate_attenuates:
  assumes "gov_wf s" and "delegate i auth s = (Inr d, t)" and "r \<in> set (dl_rights d)"
  shows "\<not> nonDelegableAgentCapability (dr_capability r) \<and>
    (\<exists>g. currentGrantRow s (dl_issuerActorId d) (dl_spaceId d) (dl_issuerMembershipId d)
         (dr_capability r) (dr_resourceKind r) (dr_resourceId r) = Some g \<and>
       tighter (dr_restrictions r) (gr_restrictions g))"
proof -
  from assms(2) obtain member rights row mgr cur s' where
    rights: "rightsByKey s (di_spaceId i) member [] (di_rights i) = Inr rights"
    and row: "dl_rights row = map snd rights" "dl_issuerActorId row = mb_actorId member"
      "dl_spaceId row = di_spaceId i" "dl_issuerMembershipId row = mb_id member"
    and rep: "replaceDelegation i member mgr cur row s' = (Inr d, t)"
    unfolding delegate_def by (force simp: store_simps)
  from replaceDelegation_row [OF rep] have "d = row" by blast
  with assms(3) row obtain k where "(k, r) \<in> set rights" by auto
  from rightsByKey_backed [OF rights this] obtain q where "delegatedRight s (di_spaceId i) member q = Inr r" by auto
  from delegatedRight_attenuates [OF assms(1) this] \<open>d = row\<close> row show ?thesis by simp
qed

definition sample_delegate :: delegate_input where
  "sample_delegate = \<lparr>di_id = Some ''d2'', di_spaceId = ''s1'', di_agentId = ''bot'', di_issuerMembershipId = ''m1'',
     di_expectedVersion = None,
     di_rights = [\<lparr>ri_capability = ''ledger:write'', ri_resourceKind = ''transaction'', ri_resourceId = ''x1'',
       ri_restrictions = Obj [(''maxOperationCount'', Num (NInt 2))]\<rparr>],
     di_validFrom = t0, di_validUntil = None, di_now = t1\<rparr>"

definition sample_issued :: delegation_row where
  "sample_issued = sample_delegation\<lparr>dl_id := ''d2'', dl_createdAt := t1,
     dl_rights := [\<lparr>dr_capability = ''ledger:write'', dr_resourceKind = ''transaction'', dr_resourceId = ''x1'',
       dr_restrictions = sample_limits\<lparr>rs_maxOperationCount := Some 2\<rparr>\<rparr>]\<rparr>"

lemma reads_eval: "g s = Inr x \<Longrightarrow> bindOp (reads g) f s = f x s"
  by (simp add: bindOp_def reads_def)

lemma delegate_sample:
  "delegate sample_delegate ana_control sample_db =
     replaceDelegation sample_delegate sample_member ''ana'' None sample_issued sample_db"
proof -
  have auth: "controlAuth sample_db ana_control (hc_actorId ana_control) (di_now sample_delegate) = Inr ()" by code_simp
  have mgr: "requireManager sample_db (di_spaceId sample_delegate) (hc_actorId ana_control) ''delegation:manage''
    (di_now sample_delegate) ''delegation:set'' = Inr sample_member" by code_simp
  have iss: "delegationIssuer sample_db sample_delegate ana_control = Inr sample_member" by code_simp
  have start: "isoTime (di_validFrom sample_delegate) = Inr 1704067200000" by code_simp
  have rights: "rightsByKey sample_db (di_spaceId sample_delegate) sample_member [] (di_rights sample_delegate) =
    Inr [(''ledger:write:transaction:x1'', hd (dl_rights sample_issued))]" by code_simp
  have row: "\<lparr>dl_id = ''d2'', dl_version = delegationVersion None, dl_spaceId = di_spaceId sample_delegate,
          dl_agentId = di_agentId sample_delegate, dl_issuerActorId = ''ana'',
          dl_issuerMembershipId = mb_id sample_member, dl_rights = [hd (dl_rights sample_issued)],
          dl_validFrom = toISOString 1704067200000, dl_validUntil = None,
          dl_revokedAt = None, dl_createdAt = di_now sample_delegate\<rparr> = sample_issued" by code_simp
  have rep: "openDelegation sample_db ''d2'' = None" "replaceable sample_delegate sample_member None = Inr ()"
    "di_id sample_delegate = Some ''d2''" "di_validUntil sample_delegate = None" "di_rights sample_delegate \<noteq> []"
    by code_simp+
  have actor: "mb_actorId sample_member = ''ana''" by code_simp
  show ?thesis unfolding delegate_def
    by (simp add: reads_eval auth mgr iss start rights rep require_def actor row)
qed
theorem delegate_attenuates_witness:
  "\<exists>d t. delegate sample_delegate ana_control sample_db = (Inr d, t) \<and> dl_rights d \<noteq> [] \<and>
     (\<forall>r \<in> set (dl_rights d). \<not> nonDelegableAgentCapability (dr_capability r))"
proof -
  have "map_sum id (\<lambda>d. length (dl_rights d) = 1) (fst (delegate sample_delegate ana_control sample_db)) = Inr True"
    unfolding delegate_sample by code_simp
  then obtain d where "fst (delegate sample_delegate ana_control sample_db) = Inr d" and n: "length (dl_rights d) = 1"
    by (cases "fst (delegate sample_delegate ana_control sample_db)") auto
  note run = runs_to [OF this(1)]
  have "\<forall>r \<in> set (dl_rights d). \<not> nonDelegableAgentCapability (dr_capability r)"
    using delegate_attenuates [OF sample_wf run] by blast
  with run n show ?thesis by (intro exI [of _ d] exI conjI) auto
qed

subsection \<open>A new space\<close>

lemma insertGrants_rows:
  assumes "forEach cs (\<lambda>c. bindOp (insertGrant sid m None c ''space'' sid no_restrictions now) (\<lambda>_. returns ())) s = (Inr u, t)"
  shows "\<exists>gs n. t = s\<lparr>db_grants := db_grants s @ gs, db_next := n\<rparr> \<and> map gr_capability gs = cs \<and>
    (\<forall>g \<in> set gs. gr_spaceId g = Some sid \<and> gr_membershipId g = Some (mb_id m) \<and> gr_actorId g = mb_actorId m \<and>
       gr_resourceKind g = ''space'' \<and> gr_resourceId g = sid \<and> gr_granted g \<and> gr_revokedAt g = None \<and>
       gr_restrictions g = no_restrictions)"
  using assms
proof (induction cs arbitrary: s)
  case Nil
  then show ?case by (auto simp: store_simps intro!: exI [of _ "[]"] exI [of _ "db_next s"])
next
  case (Cons c cs)
  let ?g = "\<lparr>gr_id = db_uuid s (db_next s), gr_spaceId = Some sid, gr_membershipId = Some (mb_id m),
    gr_actorId = mb_actorId m, gr_budgetId = None, gr_capability = c, gr_resourceKind = ''space'',
    gr_resourceId = sid, gr_granted = True, gr_restrictions = no_restrictions, gr_createdAt = now,
    gr_updatedAt = now, gr_revokedAt = None\<rparr>"
  from Cons.prems have "forEach cs (\<lambda>c. bindOp (insertGrant sid m None c ''space'' sid no_restrictions now) (\<lambda>_. returns ()))
      (s\<lparr>db_next := Suc (db_next s), db_grants := db_grants s @ [?g]\<rparr>) = (Inr u, t)"
    by (auto simp: store_simps insertGrant_def Let_def)
  from Cons.IH [OF this] obtain gs n where "t = s\<lparr>db_grants := db_grants s @ ?g # gs, db_next := n\<rparr>"
    "map gr_capability gs = cs"
    "\<forall>g \<in> set gs. gr_spaceId g = Some sid \<and> gr_membershipId g = Some (mb_id m) \<and> gr_actorId g = mb_actorId m \<and>
       gr_resourceKind g = ''space'' \<and> gr_resourceId g = sid \<and> gr_granted g \<and> gr_revokedAt g = None \<and>
       gr_restrictions g = no_restrictions" by auto
  then show ?case by (intro exI [of _ "?g # gs"] exI [of _ n]) simp
qed

lemma createSpace_Inr:
  assumes "createSpace aid name kind now auth s = (Inr sp, t)"
  obtains m gs nowMillis where "isoTime now = Inr nowMillis" "activeIdentity s aid" "sp_id sp \<notin> sp_id ` set (db_spaces s)"
    "db_spaces t = db_spaces s @ [sp]" "sp_deletedAt sp = None" "db_actors t = db_actors s"
    "db_memberships t = db_memberships s @ [m]" "mb_spaceId m = sp_id sp" "mb_actorId m = aid" "mb_revokedAt m = None"
    "mb_validFrom m = toISOString nowMillis" "mb_validUntil m = None"
    "db_grants t = db_grants s @ gs" "map gr_capability gs = control_capabilities"
    "\<forall>g \<in> set gs. gr_spaceId g = Some (sp_id sp) \<and> gr_membershipId g = Some (mb_id m) \<and> gr_actorId g = aid \<and>
       gr_resourceKind g = ''space'' \<and> gr_resourceId g = sp_id sp \<and> gr_granted g \<and> gr_revokedAt g = None \<and>
       gr_restrictions g = no_restrictions"
proof -
  from assms obtain nowMillis where n: "isoTime now = Inr nowMillis" and act: "activeIdentity s aid"
    by (auto simp: createSpace_def store_simps controlAuth_def read_simps)
  let ?sid = "db_uuid s (db_next s)"
  let ?sp = "\<lparr>sp_id = ?sid, sp_name = trim name, sp_kind = kind, sp_budgetId = None, sp_createdBy = aid,
    sp_createdAt = now, sp_deletedAt = None\<rparr>"
  let ?m = "\<lparr>mb_id = db_uuid s (Suc (db_next s)), mb_spaceId = ?sid, mb_actorId = aid, mb_grantedBy = aid,
    mb_validFrom = toISOString nowMillis, mb_validUntil = None, mb_revokedAt = None, mb_createdAt = now,
    mb_origin = Created\<rparr>"
  let ?s = "s\<lparr>db_spaces := db_spaces s @ [?sp], db_next := Suc (Suc (db_next s)), db_memberships := db_memberships s @ [?m]\<rparr>"
  from assms n obtain u v where sp: "sp = ?sp" and fresh: "\<forall>x \<in> set (db_spaces s). \<not> spaceClash ?sp x"
    and f: "forEach control_capabilities (\<lambda>c. bindOp (insertGrant ?sid ?m None c ''space'' ?sid no_restrictions now)
        (\<lambda>_. returns ())) ?s = (Inr u, v)"
    and t: "db_spaces t = db_spaces v" "db_actors t = db_actors v" "db_memberships t = db_memberships v"
      "db_grants t = db_grants v"
    by (auto simp: createSpace_def store_simps Let_def insertSpace_def createMembership_def insertPolicy_def dest!: audit_Inr)
  from insertGrants_rows [OF f] obtain gs n' where v: "v = ?s\<lparr>db_grants := db_grants ?s @ gs, db_next := n'\<rparr>"
    and gs: "map gr_capability gs = control_capabilities"
    "\<forall>g \<in> set gs. gr_spaceId g = Some ?sid \<and> gr_membershipId g = Some (mb_id ?m) \<and> gr_actorId g = mb_actorId ?m \<and>
       gr_resourceKind g = ''space'' \<and> gr_resourceId g = ?sid \<and> gr_granted g \<and> gr_revokedAt g = None \<and>
       gr_restrictions g = no_restrictions" by auto
  show ?thesis
    by (rule that [OF n act, where m = ?m and gs = gs])
      (use fresh gs in \<open>auto simp: t v sp spaceClash_def\<close>)
qed

text \<open>
  A new space starts with its creator in control: in a consistent store, after \<open>createSpace\<close> at an
  instant that prints with a four-digit year, the creator is its current member and passes the
  manager check of every control capability for every operation.
\<close>
theorem createSpace_makes_manager:
  assumes "gov_wf s" and "createSpace aid name kind now auth s = (Inr sp, t)"
    and "isoTime now = Inr n" and "iso_range n" and "capability \<in> set control_capabilities"
  shows "\<exists>m. requireManager t (sp_id sp) aid capability now operation = Inr m \<and> mb_actorId m = aid"
  using assms(2)
proof (rule createSpace_Inr)
  fix m gs n'
  assume "isoTime now = Inr n'" and act: "activeIdentity s aid" and fresh: "sp_id sp \<notin> sp_id ` set (db_spaces s)"
    and t: "db_spaces t = db_spaces s @ [sp]" "db_actors t = db_actors s" "db_memberships t = db_memberships s @ [m]"
      "db_grants t = db_grants s @ gs"
    and sp: "sp_deletedAt sp = None"
    and m: "mb_spaceId m = sp_id sp" "mb_actorId m = aid" "mb_revokedAt m = None"
      "mb_validFrom m = toISOString n'" "mb_validUntil m = None"
    and gs: "map gr_capability gs = control_capabilities"
      "\<forall>g \<in> set gs. gr_spaceId g = Some (sp_id sp) \<and> gr_membershipId g = Some (mb_id m) \<and> gr_actorId g = aid \<and>
       gr_resourceKind g = ''space'' \<and> gr_resourceId g = sp_id sp \<and> gr_granted g \<and> gr_revokedAt g = None \<and>
       gr_restrictions g = no_restrictions"
  have wf_t: "gov_wf t" using wf.step_keeps [OF step_create [OF assms(2)] assms(1)] .
  have n: "n' = n" using \<open>isoTime now = Inr n'\<close> assms(3) by simp
  have "\<forall>x \<in> set (db_memberships s). mb_spaceId x \<noteq> sp_id sp"
    using assms(1) fresh unfolding gov_wf_def in_spaces_def by (metis image_eqI)
  then have "openPeriods t (sp_id sp) aid = [m]" using m by (auto simp: openPeriods_def t filter_empty_conv)
  moreover have "isCurrentAt (mb_validFrom m) (mb_validUntil m) now = Inr True"
    using m n assms(3,4) by (simp add: isCurrentAt_def)
  moreover have "liveSpace t (sp_id sp) \<noteq> None" using sp by (auto simp: liveSpace_def find_NoneD t)
  moreover have "activeIdentity t aid" using act by (simp add: activeIdentity_def t)
  ultimately have cur: "currentMembership t (sp_id sp) aid now = Inr (Some m)" by (simp add: currentMembership_def)
  from assms(5) gs(1) obtain g where g: "g \<in> set gs" "gr_capability g = capability" by (metis imageE list.set_map)
  let ?match = "\<lambda>q. gr_actorId q = aid \<and> gr_spaceId q = Some (sp_id sp) \<and> gr_membershipId q = Some (mb_id m) \<and>
    gr_capability q = capability \<and> gr_resourceKind q = ''space'' \<and> gr_resourceId q = sp_id sp \<and> gr_granted q \<and> gr_revokedAt q = None"
  have "q = g" if "q \<in> set (db_grants t)" "?match q" for q
    by (rule apart_same [where clash = grantClash, OF _ that(1)])
      (use wf_t g gs(2) that(2) in \<open>auto simp: gov_wf_def grantClash_def t\<close>)
  moreover have "g \<in> set (db_grants t)" "?match g" using g gs(2) by (auto simp: t)
  ultimately have "find ?match (db_grants t) = Some g"
    by (rule find_eq_SomeI)
  then have "manager t m capability operation = Inr True"
    using g gs(2) m parse_restrictions_json [OF valid_no_restrictions]
    by (simp add: manager_def currentGrantRow_def no_restrictions_def)
  then have "requireManager t (sp_id sp) aid capability now operation = Inr m" using cur by (simp add: requireManager_def)
  with m(2) show ?thesis by blast
qed

lemma one_member_reachable: "gov_reach (empty_db (\<lambda>n. ''u'' @ decimal n)) one_member_db"
  unfolding one_member_db_def by (rule r_into_rtranclp [of gov_step, OF step_others])

lemma created_space:
  obtains sp where "createSpace ''ana'' ''Home'' Personal t1 ana_control one_member_db =
      (Inr sp, snd (createSpace ''ana'' ''Home'' Personal t1 ana_control one_member_db))" "sp_id sp = ''u0''"
proof -
  obtain sp where "fst (createSpace ''ana'' ''Home'' Personal t1 ana_control one_member_db) = Inr sp" "sp_id sp = ''u0''"
    using created_space_id
    by (cases "fst (createSpace ''ana'' ''Home'' Personal t1 ana_control one_member_db)") auto
  from that [OF prod_eqI this(2)] this(1) show thesis by simp
qed

theorem createSpace_makes_manager_witness:
  "\<exists>m. requireManager (snd (createSpace ''ana'' ''Home'' Personal t1 ana_control one_member_db)) ''u0'' ''ana''
     ''policy:manage'' t1 ''policy:update'' = Inr m"
proof (rule created_space)
  fix sp
  assume run: "createSpace ''ana'' ''Home'' Personal t1 ana_control one_member_db =
      (Inr sp, snd (createSpace ''ana'' ''Home'' Personal t1 ana_control one_member_db))" and sp: "sp_id sp = ''u0''"
  have now: "isoTime t1 = Inr 1717243200000" by code_simp
  have cap: "''policy:manage'' \<in> set control_capabilities" by (simp add: control_capabilities_def)
  have "gov_wf one_member_db" using wf.reach_keeps [OF one_member_reachable empty_wf] .
  from createSpace_makes_manager [OF this run now _ cap, where operation = "''policy:update''"] sp
  show ?thesis by (auto simp: iso_range_def)
qed

theorem unique_current_membership_witness:
  "\<exists>m. currentMembership (snd (createSpace ''ana'' ''Home'' Personal t1 ana_control one_member_db)) ''u0'' ''ana'' t1 =
     Inr (Some m)"
proof -
  let ?t = "snd (createSpace ''ana'' ''Home'' Personal t1 ana_control one_member_db)"
  have "gov_reach (empty_db (\<lambda>n. ''u'' @ decimal n)) ?t"
    using one_member_reachable step_create [OF surjective_pairing] by (rule rtranclp.rtrancl_into_rtrancl)
  moreover have "activeIdentity ?t ''ana''" by code_simp
  moreover have "liveSpace ?t ''u0'' \<noteq> None" by code_simp
  moreover have "map_sum id (map mb_id) (filterR (\<lambda>r. isCurrentAt (mb_validFrom r) (mb_validUntil r) t1)
    (openPeriods ?t ''u0'' ''ana'')) = Inr [''u1'']" by code_simp
  then obtain m where "filterR (\<lambda>r. isCurrentAt (mb_validFrom r) (mb_validUntil r) t1)
    (openPeriods ?t ''u0'' ''ana'') = Inr [m]"
    by (cases "filterR (\<lambda>r. isCurrentAt (mb_validFrom r) (mb_validUntil r) t1) (openPeriods ?t ''u0'' ''ana'')") auto
  ultimately have "currentMembership ?t ''u0'' ''ana'' t1 = Inr (Some m)" by (rule unique_current_membership) simp
  then show ?thesis ..
qed

subsection \<open>Audit trail\<close>

interpretation audit_log: gov_invariant "\<lambda>s. in_spaces s \<and> (\<exists>xs. db_audit s = base @ xs)" for base
proof unfold_locales
  fix s m assume "in_spaces s \<and> (\<exists>xs. db_audit s = base @ xs)" "m \<in> set (db_memberships s)"
  then show "\<exists>sp \<in> set (db_spaces s). sp_id sp = mb_spaceId m" by (simp add: in_spaces_def)
qed (auto simp: in_spaces_update in_spaces_revoked in_spaces_inserts)

text \<open>
  The audit trail only grows: whatever operations follow, with or without errors, every record
  stays where it was, and new records come after it.
\<close>
theorem audit_append_only:
  assumes "gov_wf s" and "gov_reach s t"
  shows "\<exists>records. db_audit t = db_audit s @ records"
  using audit_log.reach_keeps [OF assms(2), of "db_audit s"] assms(1) by (simp add: gov_wf_def)

theorem audit_append_only_witness:
  "\<exists>records. db_audit (snd (deleteSpace ''s1'' ana_control t1 sample_db)) = db_audit sample_db @ records"
  by (rule audit_append_only [OF sample_wf r_into_rtranclp [of gov_step, OF step_delete [OF surjective_pairing]]])

end
