(* ===== verification/Value_Props.thy ===== *)
theory Value_Props
  imports Auth_Payload Sample_Space
begin

text \<open>
  Properties of the values the governance store works with: instants, stored restrictions and
  policies, approval counts and gross totals.
\<close>

text \<open>
  C40. An instant that the store prints is read back as the same instant, for every instant of the
  years 0 to 9999; an instant outside them prints as a text that every governed read rejects.
\<close>
theorem instants_roundtrip:
  "isoTime (toISOString t) = (if iso_range t then Inr t else Inl (Error ''Invalid governance timestamp''))"
  by (simp add: isoTime_def date_parse_toISOString toISOString_out_of_range)

text \<open>
  Comparing two printed instants as text, which is what every SQL statement on a lease, an expiry
  or an order does, is comparing the instants.
\<close>
theorem text_order_is_time_order:
  assumes "iso_range t" and "iso_range u"
  shows "textLess (toISOString t) (toISOString u) \<longleftrightarrow> t < u"
  using textLess_toISOString [OF assms] .

theorem text_order_is_time_order_witness: "textLess (toISOString 999) (toISOString 86400000)"
  using text_order_is_time_order [of 999 86400000] by (simp add: iso_range_def)

text \<open>
  What the store writes of a restriction or a policy it reads back unchanged: the parser of grant
  restrictions and the parser of policies undo the JSON that is stored, for all valid values.
\<close>
theorem stored_values_roundtrip:
  assumes "valid_restrictions r" and "valid_policy p"
  shows "parseRestrictions (restrictions_json r) = Inr r \<and> parsePolicy (policy_json p) = Inr p"
  using parse_restrictions_json [OF assms(1)] parse_policy_json [OF assms(2)] by simp

theorem stored_values_roundtrip_witness:
  "parseRestrictions (restrictions_json sample_limits) = Inr sample_limits \<and>
   parsePolicy (policy_json sample_policy) = Inr sample_policy"
  by (rule stored_values_roundtrip) code_simp+

text \<open>
  C32. The evaluator's running count of required approvers is the largest of: the policy's minimum, the
  counts of the thresholds that the payload's gross total reaches, and the counts of the operations
  it contains.
\<close>
theorem requiredApprovers_is_maximum:
  "requiredApproversFor p totals names =
     Max ({gp_minimumApprovers p} \<union>
       at_requiredApprovers ` {t \<in> set (gp_approvalThresholds p). dec_val (at_amountMinorUnits t) \<le> totalOf totals (at_currency t)} \<union>
       operationApproversFor p ` set names)" (is "?n = Max ?S")
proof (rule Max_eqI [symmetric])
  show "finite ?S" by simp
  show "m \<le> ?n" if "m \<in> ?S" for m
    using that requiredApproversFor_minimum requiredApproversFor_threshold requiredApproversFor_operation by auto
  show "?n \<in> ?S" using requiredApproversFor_attained [of p totals names] by blast
qed

text \<open>
  C33. The gross totals of a payload are exact: when \<open>financialTotals\<close> returns, every currency has the
  sum of its outgoing amounts, which fits a signed 64-bit integer; and it refuses only a payload with
  an outgoing operation whose amount does not parse, or with a currency whose sum does not fit.
\<close>
theorem financialTotals_exact:
  "case financialTotals ops of
     Some g \<Rightarrow> (\<forall>c. totalOf g c = (\<Sum>op \<leftarrow> ops. outgoing c op) \<and> 0 \<le> totalOf g c \<and> totalOf g c \<le> max_i64)
   | None \<Rightarrow> (\<exists>op \<in> set ops. field op ''direction'' = Str ''outgoing'' \<and> opAmount op = None) \<or>
       (\<exists>c. max_i64 < (\<Sum>op \<leftarrow> ops. outgoing c op))"
proof (cases "financialTotals ops")
  case (Some g)
  then have g: "addTotals [] ops = Some g" by (simp add: financialTotals_def)
  have "totalOf g c = (\<Sum>op \<leftarrow> ops. outgoing c op)" for c using addTotals_sum [OF g, of c] by (simp add: totalOf_def)
  moreover have "totalOf g c \<le> max_i64" for c
    by (rule addTotals_bound [OF g]) (simp add: totalOf_def max_i64_def)
  ultimately show ?thesis using Some sum_outgoing_nonneg by simp
next
  case None
  then have n: "\<not> (\<exists>g. addTotals [] ops = Some g)" by (simp add: financialTotals_def)
  have z: "totalOf [] c = 0" for c by (simp add: totalOf_def)
  have "(\<exists>op \<in> set ops. field op ''direction'' = Str ''outgoing'' \<and> opAmount op = None) \<or>
      (\<exists>c. max_i64 < (\<Sum>op \<leftarrow> ops. outgoing c op))"
  proof (rule ccontr)
    assume no: "\<not> ?thesis"
    have "\<exists>g. addTotals [] ops = Some g" by (rule addTotals_complete) (use no z in \<open>auto simp: not_less\<close>)
    with n show False ..
  qed
  then show ?thesis by (simp add: None)
qed

end
