(* ===== verification/Lease.thy ===== *)
theory Lease
  imports Iso_Time
begin

text \<open>
  Leases. The candidate jobs and the notification outbox of the workflow store hand work to workers
  under a lease: a claim succeeds on work that is free, or whose lease has expired, and only the
  holder may settle it. A \<open>lease\<close> is what a worker needs to know of one item of work, \<open>claimLease\<close> what
  a claim does to it. The locale \<open>lease_store\<close> is what a worker may rely on, whatever the table behind
  it; that nobody else gets or settles the work while the lease runs is proved there once.
\<close>

datatype lease =
    Absent
  | Free "string option"
  | Held string string
  | Settled

text \<open>
  \<open>Free (Some t)\<close> is work to be retried from the instant \<open>t\<close> on; \<open>Held token expiry\<close> is claimed. All
  instants are the texts that \<open>toISOString\<close> prints, compared as SQLite compares text.
\<close>

definition due :: "string option \<Rightarrow> string \<Rightarrow> bool" where
  "due t now \<longleftrightarrow> (case t of None \<Rightarrow> True | Some u \<Rightarrow> \<not> textLess now u)"

fun claimLease :: "string \<Rightarrow> string \<Rightarrow> string \<Rightarrow> lease \<Rightarrow> lease" where
  "claimLease token now expiry (Free t) = (if due t now then Held token expiry else Free t)"
| "claimLease token now expiry (Held token' e) = (if textLess e now then Held token expiry else Held token' e)"
| "claimLease token now expiry l = l"

text \<open>
  What happens to a store of leases: \<open>Claim item token now clock timeout\<close> (the source reads the clock
  twice, for the row's time and for the expiry), \<open>Settle item token outcome now\<close>, or any other
  operation.
\<close>

datatype ('x, 'o) lease_event =
    Claim string string int int int
  | Settle string string 'x int
  | Other 'o

fun leaseStep :: "(string \<Rightarrow> string \<Rightarrow> int \<Rightarrow> int \<Rightarrow> int \<Rightarrow> ('s, 'r option) op) \<Rightarrow>
    (string \<Rightarrow> string \<Rightarrow> 'x \<Rightarrow> int \<Rightarrow> 's \<Rightarrow> 's) \<Rightarrow> ('o \<Rightarrow> 's \<Rightarrow> 's) \<Rightarrow> ('x, 'o) lease_event \<Rightarrow> 's \<Rightarrow> 's" where
  "leaseStep claim settle other (Claim item token now clock timeout) s = snd (claim item token now clock timeout s)"
| "leaseStep claim settle other (Settle item token x now) s = settle item token x now s"
| "leaseStep claim settle other (Other ev) s = other ev s"

text \<open>
  An event of another worker, or on other work, while the lease on \<open>item\<close> runs; \<open>touches\<close> says which
  other operations may take work away from its holder.
\<close>

fun foreign :: "('o \<Rightarrow> string \<Rightarrow> bool) \<Rightarrow> string \<Rightarrow> string \<Rightarrow> string \<Rightarrow> ('x, 'o) lease_event \<Rightarrow> bool" where
  "foreign touches item token e (Claim item' token' now clock timeout) \<longleftrightarrow>
     item' \<noteq> item \<or> token' \<noteq> token \<and> \<not> textLess e (toISOString now)"
| "foreign touches item token e (Settle item' token' x now) \<longleftrightarrow> item' \<noteq> item \<or> token' \<noteq> token"
| "foreign touches item token e (Other ev) \<longleftrightarrow> \<not> touches ev item"

locale lease_store =
  fixes ok :: "'s \<Rightarrow> bool"
    and view :: "'s \<Rightarrow> string \<Rightarrow> lease"
    and claim :: "string \<Rightarrow> string \<Rightarrow> int \<Rightarrow> int \<Rightarrow> int \<Rightarrow> ('s, 'r option) op"
    and settle :: "string \<Rightarrow> string \<Rightarrow> 'x \<Rightarrow> int \<Rightarrow> 's \<Rightarrow> 's"
    and other :: "'o \<Rightarrow> 's \<Rightarrow> 's"
    and touches :: "'o \<Rightarrow> string \<Rightarrow> bool"
  assumes claim_ok: "ok s \<Longrightarrow> ok (snd (claim item token now clock timeout s))"
    and settle_ok: "ok s \<Longrightarrow> ok (settle item token x now s)"
    and other_ok: "ok s \<Longrightarrow> ok (other ev s)"
    and claim_view: "ok s \<Longrightarrow> date_range (clock + timeout) \<Longrightarrow>
      view (snd (claim item token now clock timeout s)) item =
        claimLease token (toISOString now) (toISOString (clock + timeout)) (view s item)"
    and claim_fails: "\<not> date_range (clock + timeout) \<Longrightarrow> claim item token now clock timeout s = (Inl RangeError, s)"
    and claim_elsewhere: "ok s \<Longrightarrow> item' \<noteq> item \<Longrightarrow> view (snd (claim item' token now clock timeout s)) item = view s item"
    and claim_blocked: "ok s \<Longrightarrow> view s item = Held token' e \<Longrightarrow> \<not> textLess e (toISOString now) \<Longrightarrow> token \<noteq> token' \<Longrightarrow>
      date_range (clock + timeout) \<Longrightarrow> claim item token now clock timeout s = (Inr None, s)"
    and settle_blocked: "ok s \<Longrightarrow> view s item = Held token' e \<Longrightarrow> token \<noteq> token' \<Longrightarrow>
      view (settle item token x now s) item = Held token' e"
    and settle_elsewhere: "ok s \<Longrightarrow> item' \<noteq> item \<Longrightarrow> view (settle item' token x now s) item = view s item"
    and other_keeps: "ok s \<Longrightarrow> \<not> touches ev item \<Longrightarrow> view s item = Held token e \<Longrightarrow> view (other ev s) item = Held token e"
begin

lemma step_ok: "ok s \<Longrightarrow> ok (leaseStep claim settle other ev s)"
  by (cases ev) (auto intro: claim_ok settle_ok other_ok)

lemma foreign_claim:
  assumes "ok s" "view s item = Held token e" "token' \<noteq> token" "\<not> textLess e (toISOString now)"
  shows "claim item token' now clock timeout s =
    (if date_range (clock + timeout) then Inr None else Inl RangeError, s)"
  using claim_blocked [OF assms(1,2,4,3)] claim_fails by simp

lemma foreign_keeps:
  assumes "ok s" "view s item = Held token e" "foreign touches item token e ev"
  shows "view (leaseStep claim settle other ev s) item = Held token e"
proof (cases ev)
  case (Claim item' token' now clock timeout)
  then show ?thesis
    using assms foreign_claim [OF assms(1,2)] claim_elsewhere [OF assms(1), of item' item]
    by (cases "item' = item") auto
next
  case (Settle item' token' x now)
  then show ?thesis
    using assms settle_blocked [OF assms(1,2)] settle_elsewhere [OF assms(1), of item' item]
    by (cases "item' = item") auto
next
  case (Other ev')
  then show ?thesis using assms other_keeps by auto
qed

lemma lease_kept:
  assumes "ok s" "view s item = Held token e" "\<forall>ev \<in> set evs. foreign touches item token e ev"
  shows "ok (fold (leaseStep claim settle other) evs s) \<and>
    view (fold (leaseStep claim settle other) evs s) item = Held token e"
  using assms
proof (induction evs arbitrary: s)
  case (Cons ev evs)
  then have "ok (leaseStep claim settle other ev s)" "view (leaseStep claim settle other ev s) item = Held token e"
    using step_ok foreign_keeps by auto
  with Cons show ?case by auto
qed simp

text \<open>Whatever the others do meanwhile, no other worker's claim succeeds before the lease expires.\<close>

lemma lease_exclusive:
  assumes "ok s" "view s item = Held token e" "\<forall>ev \<in> set evs. foreign touches item token e ev"
    and "token' \<noteq> token" "\<not> textLess e (toISOString now)"
  defines "t \<equiv> fold (leaseStep claim settle other) evs s"
  shows "view t item = Held token e \<and>
    claim item token' now clock timeout t = (if date_range (clock + timeout) then Inr None else Inl RangeError, t)"
  using lease_kept [OF assms(1-3)] foreign_claim assms(4,5) unfolding t_def by blast

text \<open>A lease whose holder has vanished can be taken over as soon as it has expired.\<close>

lemma lease_recovered:
  assumes "ok s" "view s item = Held token e" "textLess e (toISOString now)" "date_range (clock + timeout)"
  shows "view (snd (claim item token' now clock timeout s)) item = Held token' (toISOString (clock + timeout))"
  using claim_view [OF assms(1,4)] assms(2,3) by simp

end

end
