(* ===== verification/Job_Queue.thy ===== *)
theory Job_Queue
  imports Lease Governance_Store
begin

text \<open>
  The candidate jobs of the workflow store (\<^verbatim>\<open>store.ts\<close>: \<open>enqueueJob\<close>, \<open>claimJob\<close>, \<open>completeJob\<close>,
  \<open>failJob\<close>, \<open>cancelPendingJobs\<close> and the queries). The two tables are lists of rows; every statement of
  the source that an operation runs is a definition, the identifiers it draws and the instants it
  reads from the clock are arguments. \<open>job_wf\<close> is the consistency of the tables, \<open>job_step\<close> the
  operations as a step relation, and the queue is an instance of \<open>lease_store\<close>.
\<close>

subsection \<open>Data\<close>

datatype job_status = JobPending | JobProcessing | JobCompleted | JobFailed

record job_row =
  jb_id :: string
  jb_jobType :: string
  jb_candidateId :: string
  jb_status :: job_status
  jb_claimToken :: "string option"
  jb_claimedAt :: "string option"
  jb_claimExpiresAt :: "string option"
  jb_createdAt :: string
  jb_updatedAt :: string
  jb_spaceId :: "string option"
  jb_budgetId :: "string option"
  jb_actorId :: "string option"

record candidate_job =
  cj_id :: string
  cj_jobType :: string
  cj_candidateId :: string
  cj_status :: job_status
  cj_claimToken :: "string option"
  cj_claimedAt :: "string option"
  cj_claimExpiresAt :: "string option"
  cj_createdAt :: string
  cj_updatedAt :: string

record failure_record =
  fl_id :: string
  fl_jobId :: string
  fl_errorCode :: string
  fl_errorMessage :: string
  fl_createdAt :: string

record lifecycle_scope =
  ls_spaceId :: string
  ls_budgetId :: string
  ls_actorId :: string

record enqueue_input =
  eq_jobType :: string
  eq_candidateId :: string
  eq_spaceId :: "string option"
  eq_budgetId :: "string option"
  eq_actorId :: "string option"

record job_db =
  jq_jobs :: "job_row list"
  jq_failures :: "failure_record list"

definition rowToJob :: "job_row \<Rightarrow> candidate_job" where
  "rowToJob r = \<lparr>cj_id = jb_id r, cj_jobType = jb_jobType r, cj_candidateId = jb_candidateId r, cj_status = jb_status r,
     cj_claimToken = jb_claimToken r, cj_claimedAt = jb_claimedAt r, cj_claimExpiresAt = jb_claimExpiresAt r,
     cj_createdAt = jb_createdAt r, cj_updatedAt = jb_updatedAt r\<rparr>"

fun statusText :: "job_status \<Rightarrow> string" where
  "statusText JobPending = ''pending''"
| "statusText JobProcessing = ''processing''"
| "statusText JobCompleted = ''completed''"
| "statusText JobFailed = ''failed''"

subsection \<open>Statements\<close>

definition selectJobByCandidate :: "string \<Rightarrow> string \<Rightarrow> job_db \<Rightarrow> job_row option" where
  "selectJobByCandidate jobType candidateId s =
     find (\<lambda>r. jb_jobType r = jobType \<and> jb_candidateId r = candidateId) (jq_jobs s)"

definition selectJobById :: "string \<Rightarrow> job_db \<Rightarrow> job_row option" where
  "selectJobById jobId s = find (\<lambda>r. jb_id r = jobId) (jq_jobs s)"

definition selectClaimedJob :: "string \<Rightarrow> string \<Rightarrow> job_db \<Rightarrow> job_row option" where
  "selectClaimedJob jobId claimToken s =
     find (\<lambda>r. jb_id r = jobId \<and> jb_claimToken r = Some claimToken) (jq_jobs s)"

text \<open>\<open>INSERT ... ON CONFLICT(job_type, candidate_id) DO NOTHING RETURNING *\<close>; the key \<open>id\<close> is unique too.\<close>

definition upsertJob :: "job_row \<Rightarrow> (job_db, job_row option) op" where
  "upsertJob r s =
     (if selectJobByCandidate (jb_jobType r) (jb_candidateId r) s \<noteq> None then (Inr None, s)
      else case insertRow (\<lambda>x y. jb_id x = jb_id y) ''candidate_jobs'' r (jq_jobs s) of
        Inl e \<Rightarrow> (Inl e, s)
      | Inr rows \<Rightarrow> (Inr (Some r), s\<lparr>jq_jobs := rows\<rparr>))"

definition claimJobPending :: "string \<Rightarrow> job_row \<Rightarrow> bool" where
  "claimJobPending jobId r \<longleftrightarrow> jb_id r = jobId \<and> jb_status r = JobPending"

definition claimJobExpired :: "string \<Rightarrow> string \<Rightarrow> job_row \<Rightarrow> bool" where
  "claimJobExpired jobId now r \<longleftrightarrow> jb_id r = jobId \<and> jb_status r = JobProcessing \<and>
     (case jb_claimExpiresAt r of None \<Rightarrow> False | Some e \<Rightarrow> textLess e now)"

definition setClaimed :: "string \<Rightarrow> string \<Rightarrow> string \<Rightarrow> job_row \<Rightarrow> job_row" where
  "setClaimed claimToken now expiresAt r = r\<lparr>jb_status := JobProcessing, jb_claimToken := Some claimToken,
     jb_claimedAt := Some now, jb_claimExpiresAt := Some expiresAt, jb_updatedAt := now\<rparr>"

definition heldBy :: "string \<Rightarrow> string \<Rightarrow> job_row \<Rightarrow> bool" where
  "heldBy jobId claimToken r \<longleftrightarrow> jb_id r = jobId \<and> jb_status r = JobProcessing \<and> jb_claimToken r = Some claimToken"

definition setFinal :: "job_status \<Rightarrow> string \<Rightarrow> job_row \<Rightarrow> job_row" where
  "setFinal status now r = r\<lparr>jb_status := status, jb_updatedAt := now\<rparr>"

definition selectLatestFailure :: "string \<Rightarrow> job_db \<Rightarrow> failure_record option" where
  "selectLatestFailure jobId s =
     (case sortBy (\<lambda>x y. textLess (fl_createdAt y) (fl_createdAt x)) (filter (\<lambda>f. fl_jobId f = jobId) (jq_failures s)) of
        [] \<Rightarrow> None | f # _ \<Rightarrow> Some f)"

subsection \<open>Operations\<close>

definition assertLifecycleScope :: "gov_db \<Rightarrow> lifecycle_scope \<Rightarrow> unit result" where
  "assertLifecycleScope gov scope =
     (if blank (ls_spaceId scope) \<or> blank (ls_budgetId scope) \<or> blank (ls_actorId scope)
      then Inl (Error ''Lifecycle operations require an exact actor, space, and budget scope'')
      else case getSpaceForBudget gov (ls_budgetId scope) of
        None \<Rightarrow> Inl (Error ''Lifecycle scope does not match the current space/budget binding'')
      | Some space \<Rightarrow>
          require (sp_id space = ls_spaceId scope) ''Lifecycle scope does not match the current space/budget binding'')"

definition jobScope :: "gov_db \<Rightarrow> enqueue_input \<Rightarrow> lifecycle_scope option result" where
  "jobScope gov input =
     (case (eq_spaceId input, eq_budgetId input, eq_actorId input) of
        (None, None, None) \<Rightarrow> Inr None
      | (Some sp, Some b, Some a) \<Rightarrow>
          if blank sp \<or> blank b \<or> blank a then Inl (Error ''Scoped jobs require spaceId, budgetId, and actorId'')
          else (let scope = \<lparr>ls_spaceId = sp, ls_budgetId = b, ls_actorId = a\<rparr>
            in andThen (assertLifecycleScope gov scope) (\<lambda>_. Inr (Some scope)))
      | _ \<Rightarrow> Inl (Error ''Scoped jobs require spaceId, budgetId, and actorId''))"

definition jobRow :: "string \<Rightarrow> enqueue_input \<Rightarrow> lifecycle_scope option \<Rightarrow> string \<Rightarrow> job_row" where
  "jobRow uuid input scope now = \<lparr>jb_id = uuid, jb_jobType = eq_jobType input, jb_candidateId = eq_candidateId input,
     jb_status = JobPending, jb_claimToken = None, jb_claimedAt = None, jb_claimExpiresAt = None,
     jb_createdAt = now, jb_updatedAt = now, jb_spaceId = map_option ls_spaceId scope,
     jb_budgetId = map_option ls_budgetId scope, jb_actorId = map_option ls_actorId scope\<rparr>"

definition existingJob :: "enqueue_input \<Rightarrow> lifecycle_scope option \<Rightarrow> job_db \<Rightarrow> candidate_job result" where
  "existingJob input scope s =
     (case selectJobByCandidate (eq_jobType input) (eq_candidateId input) s of
        None \<Rightarrow> Inl (Error ''Failed to enqueue or retrieve job'')
      | Some existing \<Rightarrow>
          if jb_spaceId existing \<noteq> map_option ls_spaceId scope \<or> jb_budgetId existing \<noteq> map_option ls_budgetId scope \<or>
             jb_actorId existing \<noteq> map_option ls_actorId scope
          then Inl (Error ''Candidate job already exists in a different lifecycle scope'')
          else Inr (rowToJob existing))"

definition enqueueJob :: "gov_db \<Rightarrow> enqueue_input \<Rightarrow> string \<Rightarrow> int \<Rightarrow> (job_db, candidate_job) op" where
  "enqueueJob gov input uuid now =
     bindOp (reads (\<lambda>_. jobScope gov input)) (\<lambda>scope.
     bindOp (upsertJob (jobRow uuid input scope (toISOString now))) (\<lambda>row.
       case row of None \<Rightarrow> reads (existingJob input scope) | Some r \<Rightarrow> returns (rowToJob r)))"

definition claimJob :: "string \<Rightarrow> string \<Rightarrow> int \<Rightarrow> int \<Rightarrow> int \<Rightarrow> (job_db, candidate_job option) op" where
  "claimJob jobId claimToken now clock claimTimeoutMs s =
     (if \<not> date_range (clock + claimTimeoutMs) then (Inl RangeError, s)
      else let nowText = toISOString now; claimed = setClaimed claimToken nowText (toISOString (clock + claimTimeoutMs))
        in if 0 < changes (claimJobPending jobId) (jq_jobs s) then
          (let t = s\<lparr>jq_jobs := updateWhere (claimJobPending jobId) claimed (jq_jobs s)\<rparr>
           in (Inr (map_option rowToJob (selectJobById jobId t)), t))
        else if 0 < changes (claimJobExpired jobId nowText) (jq_jobs s) then
          (let t = s\<lparr>jq_jobs := updateWhere (claimJobExpired jobId nowText) claimed (jq_jobs s)\<rparr>
           in (Inr (map_option rowToJob (selectJobById jobId t)), t))
        else (Inr (map_option rowToJob (selectClaimedJob jobId claimToken s)), s))"

definition completeJob :: "string \<Rightarrow> string \<Rightarrow> int \<Rightarrow> (job_db, unit) op" where
  "completeJob jobId claimToken now =
     writes (\<lambda>s. s\<lparr>jq_jobs := updateWhere (heldBy jobId claimToken) (setFinal JobCompleted (toISOString now)) (jq_jobs s)\<rparr>)"

definition failJobTxn :: "string \<Rightarrow> string \<Rightarrow> failure_record \<Rightarrow> (job_db, unit) op" where
  "failJobTxn jobId claimToken record s =
     (let t = s\<lparr>jq_jobs := updateWhere (heldBy jobId claimToken) (setFinal JobFailed (fl_createdAt record)) (jq_jobs s)\<rparr>
      in if changes (heldBy jobId claimToken) (jq_jobs s) = 0 then (Inr (), t)
        else case insertRow (\<lambda>x y. fl_id x = fl_id y) ''failure_records'' record (jq_failures t) of
          Inl e \<Rightarrow> (Inl e, t)
        | Inr rows \<Rightarrow> (Inr (), t\<lparr>jq_failures := rows\<rparr>))"

definition failJobOutcome :: "string \<Rightarrow> string \<Rightarrow> job_db \<Rightarrow> failure_record result" where
  "failJobOutcome jobId claimToken s =
     (case selectJobById jobId s of
        None \<Rightarrow> Inl (Error (''Job '' @ jobId @ '' not found''))
      | Some job \<Rightarrow>
          (case (if jb_status job = JobFailed then selectLatestFailure jobId s else None) of
             Some f \<Rightarrow> Inr f
           | None \<Rightarrow>
               if jb_status job = JobProcessing \<and> jb_claimToken job \<noteq> Some claimToken
               then Inl (Error (''Cannot fail job '' @ jobId @ '': claim token mismatch (current token: '' @
                 (case jb_claimToken job of None \<Rightarrow> ''null'' | Some token \<Rightarrow> token) @ '')''))
               else Inl (Error (''Cannot fail job '' @ jobId @ '': status is '' @ quoted (statusText (jb_status job)) @
                 '', must be '' @ quoted ''processing'' @ '' with matching claim token''))))"

definition failJob :: "string \<Rightarrow> string \<Rightarrow> string \<Rightarrow> string \<Rightarrow> string \<Rightarrow> int \<Rightarrow> (job_db, failure_record) op" where
  "failJob jobId claimToken errorCode errorMessage failureId now =
     bindOp (transaction (\<lambda>s _. s) (failJobTxn jobId claimToken
       \<lparr>fl_id = failureId, fl_jobId = jobId, fl_errorCode = errorCode, fl_errorMessage = errorMessage,
        fl_createdAt = toISOString now\<rparr>)) (\<lambda>_. reads (failJobOutcome jobId claimToken))"

definition getPendingJobs :: "job_db \<Rightarrow> candidate_job list" where
  "getPendingJobs s = map rowToJob (sortBy (\<lambda>x y. textLess (jb_createdAt x) (jb_createdAt y))
     (filter (\<lambda>r. jb_status r = JobPending) (jq_jobs s)))"

definition getJobByCandidateId :: "string \<Rightarrow> string \<Rightarrow> job_db \<Rightarrow> candidate_job option" where
  "getJobByCandidateId jobType candidateId s = map_option rowToJob (selectJobByCandidate jobType candidateId s)"

definition cancelled :: "lifecycle_scope \<Rightarrow> bool \<Rightarrow> job_row \<Rightarrow> bool" where
  "cancelled scope actorOnly r \<longleftrightarrow> jb_status r = JobPending \<and> jb_spaceId r = Some (ls_spaceId scope) \<and>
     jb_budgetId r = Some (ls_budgetId scope) \<and> (\<not> actorOnly \<or> jb_actorId r = Some (ls_actorId scope))"

definition cancelPendingJobs :: "gov_db \<Rightarrow> lifecycle_scope \<Rightarrow> bool \<Rightarrow> (job_db, nat) op" where
  "cancelPendingJobs gov scope actorOnly =
     bindOp (reads (\<lambda>_. assertLifecycleScope gov scope)) (\<lambda>_.
     bindOp (reads (\<lambda>s. Inr (changes (cancelled scope actorOnly) (jq_jobs s)))) (\<lambda>n.
     bindOp (writes (\<lambda>s. s\<lparr>jq_jobs := filter (\<lambda>r. \<not> cancelled scope actorOnly r) (jq_jobs s)\<rparr>)) (\<lambda>_.
       returns n)))"

subsection \<open>Consistency of the tables\<close>

text \<open>
  Identifiers and candidates are unique; a job carries a claim exactly when it has been claimed; a
  failed job has exactly one failure record, and no other job has any.
\<close>

definition claim_ok :: "job_row \<Rightarrow> bool" where
  "claim_ok r \<longleftrightarrow> (if jb_status r = JobPending then jb_claimToken r = None \<and> jb_claimExpiresAt r = None
     else jb_claimToken r \<noteq> None \<and> jb_claimExpiresAt r \<noteq> None)"

definition failuresOf :: "string \<Rightarrow> job_db \<Rightarrow> failure_record list" where
  "failuresOf jobId s = filter (\<lambda>f. fl_jobId f = jobId) (jq_failures s)"

definition job_wf :: "job_db \<Rightarrow> bool" where
  "job_wf s \<longleftrightarrow> distinct (map jb_id (jq_jobs s)) \<and>
     distinct (map (\<lambda>r. (jb_jobType r, jb_candidateId r)) (jq_jobs s)) \<and>
     list_all claim_ok (jq_jobs s) \<and>
     list_all (\<lambda>r. length (failuresOf (jb_id r) s) = of_bool (jb_status r = JobFailed)) (jq_jobs s) \<and>
     list_all (\<lambda>f. fl_jobId f \<in> set (map jb_id (jq_jobs s))) (jq_failures s)"

definition empty_jobs :: job_db where
  "empty_jobs = \<lparr>jq_jobs = [], jq_failures = []\<rparr>"

inductive job_step :: "job_db \<Rightarrow> job_db \<Rightarrow> bool" where
  step_enqueue: "enqueueJob gov input uuid now s = (r, t) \<Longrightarrow> job_step s t"
| step_claim: "claimJob jobId token now clock timeout s = (r, t) \<Longrightarrow> job_step s t"
| step_complete: "completeJob jobId token now s = (r, t) \<Longrightarrow> job_step s t"
| step_fail: "failJob jobId token errorCode msg failureId now s = (r, t) \<Longrightarrow> job_step s t"
| step_cancel: "cancelPendingJobs gov scope actorOnly s = (r, t) \<Longrightarrow> job_step s t"

abbreviation job_reach :: "job_db \<Rightarrow> job_db \<Rightarrow> bool" where
  "job_reach \<equiv> job_step\<^sup>*\<^sup>*"

subsection \<open>Effect of the operations\<close>

text \<open>What an operation that returns or throws can have made of the tables.\<close>

lemma enqueueJob_effect:
  assumes "enqueueJob gov input uuid now s = (r, t)"
  shows "t = s \<or> (\<exists>scope. jobScope gov input = Inr scope \<and> r = Inr (rowToJob (jobRow uuid input scope (toISOString now))) \<and>
    selectJobByCandidate (eq_jobType input) (eq_candidateId input) s = None \<and> uuid \<notin> jb_id ` set (jq_jobs s) \<and>
    t = s\<lparr>jq_jobs := jq_jobs s @ [jobRow uuid input scope (toISOString now)]\<rparr>)"
proof (cases "jobScope gov input")
  case (Inl e)
  then show ?thesis using assms by (simp add: enqueueJob_def bindOp_def reads_def)
next
  case (Inr scope)
  then show ?thesis using assms
    by (auto simp: enqueueJob_def bindOp_def reads_def upsertJob_def returns_def insertRow_def jobRow_def list_ex_iff
        split: if_splits)
qed

lemma claimJob_effect:
  assumes "claimJob jobId token now clock timeout s = (r, t)"
  obtains "t = s"
  | p where "date_range (clock + timeout)" "\<And>j. p j \<Longrightarrow> jb_id j = jobId \<and> jb_status j \<in> {JobPending, JobProcessing}"
    "t = s\<lparr>jq_jobs := updateWhere p (setClaimed token (toISOString now) (toISOString (clock + timeout))) (jq_jobs s)\<rparr>"
proof (cases "date_range (clock + timeout) \<and> t \<noteq> s")
  case True
  have "\<And>j. claimJobPending jobId j \<Longrightarrow> jb_id j = jobId \<and> jb_status j \<in> {JobPending, JobProcessing}"
    "\<And>n j. claimJobExpired jobId n j \<Longrightarrow> jb_id j = jobId \<and> jb_status j \<in> {JobPending, JobProcessing}"
    by (auto simp: claimJobPending_def claimJobExpired_def)
  note rows = this
  let ?set = "\<lambda>p. s\<lparr>jq_jobs := updateWhere p (setClaimed token (toISOString now) (toISOString (clock + timeout))) (jq_jobs s)\<rparr>"
  from True assms have "t = ?set (claimJobPending jobId) \<or> t = ?set (claimJobExpired jobId (toISOString now))"
    by (auto simp: claimJob_def Let_def split: if_splits)
  then show thesis
  proof
    assume "t = ?set (claimJobPending jobId)"
    with True rows(1) show thesis by (intro that(2) [of "claimJobPending jobId"]) simp_all
  next
    assume "t = ?set (claimJobExpired jobId (toISOString now))"
    with True rows(2) show thesis by (intro that(2) [of "claimJobExpired jobId (toISOString now)"]) simp_all
  qed
next
  case False
  with assms that(1) show thesis by (auto simp: claimJob_def)
qed

lemma failJob_effect:
  assumes "failJob jobId token errorCode msg failureId now s = (r, t)"
  obtains "t = s"
  | f where "f = \<lparr>fl_id = failureId, fl_jobId = jobId, fl_errorCode = errorCode, fl_errorMessage = msg,
        fl_createdAt = toISOString now\<rparr>" "\<exists>j \<in> set (jq_jobs s). heldBy jobId token j"
    "t = s\<lparr>jq_jobs := updateWhere (heldBy jobId token) (setFinal JobFailed (toISOString now)) (jq_jobs s),
        jq_failures := jq_failures s @ [f]\<rparr>" "r = failJobOutcome jobId token t"
proof (cases "changes (heldBy jobId token) (jq_jobs s) = 0")
  case True
  then have "updateWhere (heldBy jobId token) h (jq_jobs s) = jq_jobs s" for h
    by (simp add: updateWhere_def changes_zero_iff map_idI)
  with True assms have "t = s"
    by (auto simp: failJob_def bindOp_def reads_def transaction_def failJobTxn_def Let_def)
  then show thesis by (rule that(1))
next
  case False
  then have "\<exists>j \<in> set (jq_jobs s). heldBy jobId token j" by (simp add: changes_zero_iff)
  with False assms show thesis
    by (auto simp: failJob_def bindOp_def reads_def transaction_def failJobTxn_def Let_def insertRow_def
        split: if_splits intro: that)
qed

lemma cancelPendingJobs_effect:
  assumes "cancelPendingJobs gov scope actorOnly s = (r, t)"
  shows "t = s \<or> t = s\<lparr>jq_jobs := filter (\<lambda>j. \<not> cancelled scope actorOnly j) (jq_jobs s)\<rparr>"
  using assms by (auto simp: cancelPendingJobs_def bindOp_def reads_def writes_def returns_def split: sum.splits)

subsection \<open>Every operation keeps the tables consistent\<close>

lemma setClaimed_simps [simp]:
  "jb_id (setClaimed token now e r) = jb_id r" "jb_jobType (setClaimed token now e r) = jb_jobType r"
  "jb_candidateId (setClaimed token now e r) = jb_candidateId r" "jb_status (setClaimed token now e r) = JobProcessing"
  "jb_claimToken (setClaimed token now e r) = Some token" "jb_claimExpiresAt (setClaimed token now e r) = Some e"
  by (simp_all add: setClaimed_def)

lemma setFinal_simps [simp]:
  "jb_id (setFinal st now r) = jb_id r" "jb_jobType (setFinal st now r) = jb_jobType r"
  "jb_candidateId (setFinal st now r) = jb_candidateId r" "jb_status (setFinal st now r) = st"
  "jb_claimToken (setFinal st now r) = jb_claimToken r" "jb_claimExpiresAt (setFinal st now r) = jb_claimExpiresAt r"
  by (simp_all add: setFinal_def)

lemma job_wf_update:
  assumes "job_wf s" and ids: "\<And>j. jb_id (f j) = jb_id j \<and> jb_jobType (f j) = jb_jobType j \<and> jb_candidateId (f j) = jb_candidateId j"
    and each: "\<And>j. j \<in> set (jq_jobs s) \<Longrightarrow> p j \<Longrightarrow> claim_ok (f j) \<and>
      length (failuresOf (jb_id j) t) = of_bool (jb_status (f j) = JobFailed)"
    and rest: "\<And>j. j \<in> set (jq_jobs s) \<Longrightarrow> \<not> p j \<Longrightarrow> failuresOf (jb_id j) t = failuresOf (jb_id j) s"
    and fails: "\<forall>x \<in> set (jq_failures t). x \<in> set (jq_failures s) \<or> fl_jobId x \<in> jb_id ` set (jq_jobs s)"
    and t: "jq_jobs t = updateWhere p f (jq_jobs s)"
  shows "job_wf t"
proof -
  have keys: "map jb_id (jq_jobs t) = map jb_id (jq_jobs s)"
    "map (\<lambda>r. (jb_jobType r, jb_candidateId r)) (jq_jobs t) = map (\<lambda>r. (jb_jobType r, jb_candidateId r)) (jq_jobs s)"
    unfolding t using ids by (simp_all add: map_key_updateWhere)
  then have "jb_id ` set (jq_jobs t) = jb_id ` set (jq_jobs s)" by (metis list.set_map)
  moreover have "claim_ok j \<and> length (failuresOf (jb_id j) t) = of_bool (jb_status j = JobFailed)"
    if "j \<in> set (jq_jobs t)" for j
    using that assms(1) each rest ids by (fastforce simp: t set_updateWhere job_wf_def list_all_iff)
  ultimately show ?thesis using assms(1) keys fails by (auto simp: job_wf_def list_all_iff)
qed

lemma no_failures: "job_wf s \<Longrightarrow> jobId \<notin> jb_id ` set (jq_jobs s) \<Longrightarrow> failuresOf jobId s = []"
  by (auto simp: job_wf_def list_all_iff failuresOf_def filter_empty_conv)

lemma failuresOf_jobs [simp]: "failuresOf jobId (s\<lparr>jq_jobs := js\<rparr>) = failuresOf jobId s"
  by (simp add: failuresOf_def)

lemma job_wf_failures:
  "job_wf s \<Longrightarrow> j \<in> set (jq_jobs s) \<Longrightarrow> length (failuresOf (jb_id j) s) = of_bool (jb_status j = JobFailed)"
  by (simp add: job_wf_def list_all_iff)

lemma no_failure_unless:
  "job_wf s \<Longrightarrow> j \<in> set (jq_jobs s) \<Longrightarrow> jb_status j \<noteq> JobFailed \<Longrightarrow> failuresOf (jb_id j) s = []"
  using job_wf_failures [of s j] by simp

lemma job_wf_claim: "job_wf s \<Longrightarrow> j \<in> set (jq_jobs s) \<Longrightarrow> claim_ok j"
  by (simp add: job_wf_def list_all_iff)

lemma job_wf_append:
  assumes "job_wf s" "jb_id r \<notin> jb_id ` set (jq_jobs s)"
    "\<forall>j \<in> set (jq_jobs s). jb_jobType j = jb_jobType r \<longrightarrow> jb_candidateId j \<noteq> jb_candidateId r"
    "claim_ok r" "jb_status r = JobPending"
  shows "job_wf (s\<lparr>jq_jobs := jq_jobs s @ [r]\<rparr>)"
  using assms no_failures [OF assms(1,2)] unfolding job_wf_def by (auto simp: list_all_iff)

lemma job_step_wf:
  assumes "job_step s t" and "job_wf s"
  shows "job_wf t"
  using assms(1)
proof cases
  case (step_enqueue gov input uuid now r)
  from enqueueJob_effect [OF this] show ?thesis
  proof
    assume "\<exists>scope. jobScope gov input = Inr scope \<and> r = Inr (rowToJob (jobRow uuid input scope (toISOString now))) \<and>
      selectJobByCandidate (eq_jobType input) (eq_candidateId input) s = None \<and> uuid \<notin> jb_id ` set (jq_jobs s) \<and>
      t = s\<lparr>jq_jobs := jq_jobs s @ [jobRow uuid input scope (toISOString now)]\<rparr>"
    then obtain scope where "selectJobByCandidate (eq_jobType input) (eq_candidateId input) s = None"
      "uuid \<notin> jb_id ` set (jq_jobs s)" "t = s\<lparr>jq_jobs := jq_jobs s @ [jobRow uuid input scope (toISOString now)]\<rparr>"
      by blast
    then show ?thesis using assms(2)
      by (auto simp: jobRow_def claim_ok_def selectJobByCandidate_def find_NoneD intro!: job_wf_append)
  qed (use assms(2) in simp)
next
  case (step_claim jobId token now clock timeout r)
  from this show ?thesis
  proof (rule claimJob_effect)
    fix p assume p: "\<And>j. p j \<Longrightarrow> jb_id j = jobId \<and> jb_status j \<in> {JobPending, JobProcessing}"
      and t: "t = s\<lparr>jq_jobs := updateWhere p (setClaimed token (toISOString now) (toISOString (clock + timeout))) (jq_jobs s)\<rparr>"
    have "failuresOf (jb_id j) s = []" if "j \<in> set (jq_jobs s)" "p j" for j
      using no_failure_unless [OF assms(2) that(1)] p [OF that(2)] by auto
    then show ?thesis
      by (intro job_wf_update [OF assms(2), where p = p]) (use p t in \<open>auto simp: claim_ok_def\<close>)
  qed (use assms(2) in simp)
next
  case (step_complete jobId token now r)
  then have t: "t = s\<lparr>jq_jobs := updateWhere (heldBy jobId token) (setFinal JobCompleted (toISOString now)) (jq_jobs s)\<rparr>"
    by (simp add: completeJob_def writes_def)
  show ?thesis
    by (rule job_wf_update [OF assms(2), where p = "heldBy jobId token" and f = "setFinal JobCompleted (toISOString now)"])
      (use t no_failure_unless [OF assms(2)] job_wf_claim [OF assms(2)] in \<open>auto simp: claim_ok_def heldBy_def\<close>)
next
  case (step_fail jobId token errorCode msg failureId now r)
  from this show ?thesis
  proof (rule failJob_effect)
    fix f assume "f = \<lparr>fl_id = failureId, fl_jobId = jobId, fl_errorCode = errorCode, fl_errorMessage = msg,
        fl_createdAt = toISOString now\<rparr>"
      and held: "\<exists>j \<in> set (jq_jobs s). heldBy jobId token j"
      and t: "t = s\<lparr>jq_jobs := updateWhere (heldBy jobId token) (setFinal JobFailed (toISOString now)) (jq_jobs s),
        jq_failures := jq_failures s @ [f]\<rparr>"
    then have f: "fl_jobId f = jobId" by simp
    from held obtain i where i: "i \<in> set (jq_jobs s)" "heldBy jobId token i" by blast
    have apart: "jb_id j \<noteq> jobId" if "j \<in> set (jq_jobs s)" "\<not> heldBy jobId token j" for j
      using that i assms(2) by (auto simp: heldBy_def job_wf_def distinct_map inj_on_def)
    have fails: "failuresOf k t = failuresOf k s @ (if k = jobId then [f] else [])" for k
      by (simp add: t f failuresOf_def)
    show ?thesis
    proof (rule job_wf_update [OF assms(2), where p = "heldBy jobId token" and f = "setFinal JobFailed (toISOString now)"])
      fix j assume "j \<in> set (jq_jobs s)" "heldBy jobId token j"
      then show "claim_ok (setFinal JobFailed (toISOString now) j) \<and>
          length (failuresOf (jb_id j) t) = of_bool (jb_status (setFinal JobFailed (toISOString now) j) = JobFailed)"
        using no_failure_unless [OF assms(2), of j] job_wf_claim [OF assms(2), of j] fails
        by (auto simp: claim_ok_def heldBy_def)
    next
      show "\<forall>x \<in> set (jq_failures t). x \<in> set (jq_failures s) \<or> fl_jobId x \<in> jb_id ` set (jq_jobs s)"
        using i f by (auto simp: t heldBy_def intro: rev_image_eqI)
    qed (use fails apart t in simp_all)
  qed (use assms(2) in simp)
next
  case (step_cancel gov scope actorOnly r)
  from cancelPendingJobs_effect [OF this] show ?thesis
  proof
    assume t: "t = s\<lparr>jq_jobs := filter (\<lambda>j. \<not> cancelled scope actorOnly j) (jq_jobs s)\<rparr>"
    have "fl_jobId f \<in> jb_id ` set (jq_jobs t)" if f: "f \<in> set (jq_failures s)" for f
    proof -
      from f assms(2) obtain j where j: "j \<in> set (jq_jobs s)" "fl_jobId f = jb_id j"
        by (auto simp: job_wf_def list_all_iff)
      moreover from j f have "failuresOf (jb_id j) s \<noteq> []" by (auto simp: failuresOf_def filter_empty_conv)
      ultimately show ?thesis using job_wf_failures [OF assms(2), of j] by (auto simp: t cancelled_def split: if_splits)
    qed
    then show ?thesis using assms(2) by (auto simp: job_wf_def list_all_iff t distinct_map_filter)
  qed (use assms(2) in simp)
qed

lemma job_reach_wf: "job_reach s t \<Longrightarrow> job_wf s \<Longrightarrow> job_wf t"
  by (induction rule: rtranclp_induct) (auto intro: job_step_wf)

subsection \<open>Leases on jobs\<close>

definition jobLease :: "job_db \<Rightarrow> string \<Rightarrow> lease" where
  "jobLease s jobId =
     (case selectJobById jobId s of
        None \<Rightarrow> Absent
      | Some r \<Rightarrow>
          (case jb_status r of
             JobPending \<Rightarrow> Free None
           | JobProcessing \<Rightarrow> Held (the (jb_claimToken r)) (the (jb_claimExpiresAt r))
           | _ \<Rightarrow> Settled))"

datatype job_outcome = Done | Broken string string string

fun settleJob :: "string \<Rightarrow> string \<Rightarrow> job_outcome \<Rightarrow> int \<Rightarrow> job_db \<Rightarrow> job_db" where
  "settleJob jobId token Done now s = snd (completeJob jobId token now s)"
| "settleJob jobId token (Broken errorCode msg failureId) now s = snd (failJob jobId token errorCode msg failureId now s)"

datatype job_other = Enqueue gov_db enqueue_input string int | Cancel gov_db lifecycle_scope bool

fun otherJob :: "job_other \<Rightarrow> job_db \<Rightarrow> job_db" where
  "otherJob (Enqueue gov input uuid now) s = snd (enqueueJob gov input uuid now s)"
| "otherJob (Cancel gov scope actorOnly) s = snd (cancelPendingJobs gov scope actorOnly s)"

lemma job_id_inj: "job_wf s \<Longrightarrow> x \<in> set (jq_jobs s) \<Longrightarrow> y \<in> set (jq_jobs s) \<Longrightarrow> jb_id x = jb_id y \<Longrightarrow> x = y"
  by (auto simp: job_wf_def distinct_map inj_on_def)

lemma selectJobById_row: "job_wf s \<Longrightarrow> r \<in> set (jq_jobs s) \<Longrightarrow> selectJobById (jb_id r) s = Some r"
  by (simp add: selectJobById_def job_wf_def find_unique)

lemma selectJobById_SomeD: "selectJobById jobId s = Some r \<Longrightarrow> r \<in> set (jq_jobs s) \<and> jb_id r = jobId"
  unfolding selectJobById_def by (drule find_SomeD) simp

lemma selectJobById_update:
  assumes "\<And>r. jb_id (f r) = jb_id r"
  shows "selectJobById jobId (s\<lparr>jq_jobs := updateWhere p f (jq_jobs s)\<rparr>) =
    map_option (\<lambda>r. if p r then f r else r) (selectJobById jobId s)"
  using find_key_updateWhere [of jb_id f, OF assms] by (simp add: selectJobById_def)

lemma selectJobById_other:
  assumes "\<And>r. jb_id (f r) = jb_id r" "\<And>r. p r \<Longrightarrow> jb_id r = jobId'" "jobId' \<noteq> jobId"
  shows "selectJobById jobId (s\<lparr>jq_jobs := updateWhere p f (jq_jobs s)\<rparr>) = selectJobById jobId s"
  unfolding selectJobById_update [OF assms(1)]
  using assms(2,3) selectJobById_SomeD by (cases "selectJobById jobId s") fastforce+

lemma changes_by_id:
  assumes "job_wf s" "\<And>j. p j \<Longrightarrow> jb_id j = jobId"
  shows "0 < changes p (jq_jobs s) \<longleftrightarrow> (\<exists>r. selectJobById jobId s = Some r \<and> p r)"
proof -
  have "p j \<Longrightarrow> j \<in> set (jq_jobs s) \<Longrightarrow> selectJobById jobId s = Some j" for j
    using selectJobById_row [OF assms(1), of j] assms(2) [of j] by simp
  then show ?thesis using selectJobById_SomeD unfolding changes_pos_iff by blast
qed

lemma update_by_id:
  assumes "job_wf s" "\<And>j. p j \<Longrightarrow> jb_id j = jobId" "selectJobById jobId s = Some r" "p r"
  shows "updateWhere p f (jq_jobs s) = updateWhere (\<lambda>j. jb_id j = jobId) f (jq_jobs s)"
proof -
  have "p j \<longleftrightarrow> jb_id j = jobId" if "j \<in> set (jq_jobs s)" for j
    using job_id_inj [OF assms(1) that, of r] selectJobById_SomeD [OF assms(3)] assms(2,4) by auto
  then show ?thesis by (simp add: updateWhere_def)
qed

text \<open>What a claim does, in terms of the one row it is about.\<close>

lemma claimJob_row:
  fixes token :: string and now clock timeout :: int
  assumes "job_wf s" "date_range (clock + timeout)"
  defines "claimed \<equiv> setClaimed token (toISOString now) (toISOString (clock + timeout))"
  shows "claimJob jobId token now clock timeout s =
    (case selectJobById jobId s of
       None \<Rightarrow> (Inr None, s)
     | Some r \<Rightarrow>
         if jb_status r = JobPending \<or> jb_status r = JobProcessing \<and> textLess (the (jb_claimExpiresAt r)) (toISOString now)
         then (Inr (Some (rowToJob (claimed r))), s\<lparr>jq_jobs := updateWhere (\<lambda>j. jb_id j = jobId) claimed (jq_jobs s)\<rparr>)
         else (Inr (if jb_claimToken r = Some token then Some (rowToJob r) else None), s))"
proof (cases "selectJobById jobId s")
  case None
  then have "\<forall>j \<in> set (jq_jobs s). jb_id j \<noteq> jobId" by (simp add: selectJobById_def find_NoneD)
  moreover from this have "selectClaimedJob jobId token s = None" by (auto simp: selectClaimedJob_def find_NoneD)
  ultimately show ?thesis using None assms(2)
    by (simp add: claimJob_def Let_def changes_pos_iff claimJobPending_def claimJobExpired_def)
next
  case (Some r)
  have p: "\<And>j. claimJobPending jobId j \<Longrightarrow> jb_id j = jobId" "\<And>j. claimJobExpired jobId (toISOString now) j \<Longrightarrow> jb_id j = jobId"
    by (auto simp: claimJobPending_def claimJobExpired_def)
  have r: "r \<in> set (jq_jobs s)" "jb_id r = jobId" using selectJobById_SomeD [OF Some] by auto
  have "selectClaimedJob jobId token s = (if jb_claimToken r = Some token then Some r else None)"
    unfolding selectClaimedJob_def using r by (intro find_conj_unique) (auto intro: job_id_inj [OF assms(1)])
  moreover have "selectJobById jobId (s\<lparr>jq_jobs := updateWhere (\<lambda>j. jb_id j = jobId) claimed (jq_jobs s)\<rparr>) = Some (claimed r)"
    using selectJobById_update [where f = claimed and p = "\<lambda>j. jb_id j = jobId"] Some r by (simp add: claimed_def)
  moreover have "0 < changes (claimJobPending jobId) (jq_jobs s) \<longleftrightarrow> jb_status r = JobPending"
    using changes_by_id [of s "claimJobPending jobId" jobId, OF assms(1) p(1)] Some r by (simp add: claimJobPending_def)
  moreover have "0 < changes (claimJobExpired jobId (toISOString now)) (jq_jobs s) \<longleftrightarrow>
      jb_status r = JobProcessing \<and> textLess (the (jb_claimExpiresAt r)) (toISOString now)"
    using changes_by_id [of s "claimJobExpired jobId (toISOString now)" jobId, OF assms(1) p(2)] Some r job_wf_claim [OF assms(1) r(1)]
    by (auto simp: claimJobExpired_def claim_ok_def)
  moreover have "updateWhere (claimJobPending jobId) claimed (jq_jobs s) =
      updateWhere (\<lambda>j. jb_id j = jobId) claimed (jq_jobs s)" if "jb_status r = JobPending"
    by (rule update_by_id [OF assms(1) p(1) Some]) (use r that in \<open>simp_all add: claimJobPending_def\<close>)
  moreover have "updateWhere (claimJobExpired jobId (toISOString now)) claimed (jq_jobs s) =
      updateWhere (\<lambda>j. jb_id j = jobId) claimed (jq_jobs s)"
    if "jb_status r = JobProcessing" "textLess (the (jb_claimExpiresAt r)) (toISOString now)"
    by (rule update_by_id [OF assms(1) p(2) Some])
      (use r that job_wf_claim [OF assms(1) r(1)] in \<open>auto simp: claimJobExpired_def claim_ok_def\<close>)
  ultimately show ?thesis
    using assms(2) Some by (simp add: claimJob_def Let_def claimed_def [symmetric])
qed

lemma lease_update:
  assumes "\<And>r. jb_id (f r) = jb_id r" "\<And>j. p j \<Longrightarrow> jb_id j = jobId'" "jobId' \<noteq> jobId"
  shows "jobLease (s\<lparr>jq_jobs := updateWhere p f (jq_jobs s)\<rparr>) jobId = jobLease s jobId"
  using selectJobById_other [OF assms] by (simp add: jobLease_def)

lemma claimJob_lease:
  assumes "job_wf s" "date_range (clock + timeout)"
  shows "jobLease (snd (claimJob jobId token now clock timeout s)) jobId =
    claimLease token (toISOString now) (toISOString (clock + timeout)) (jobLease s jobId)"
proof (cases "selectJobById jobId s")
  case None
  then show ?thesis using claimJob_row [OF assms] by (simp add: jobLease_def)
next
  case (Some r)
  let ?claimed = "setClaimed token (toISOString now) (toISOString (clock + timeout))"
  have "selectJobById jobId (s\<lparr>jq_jobs := updateWhere (\<lambda>j. jb_id j = jobId) ?claimed (jq_jobs s)\<rparr>) = Some (?claimed r)"
    using selectJobById_update [where f = ?claimed and p = "\<lambda>j. jb_id j = jobId"] Some selectJobById_SomeD [OF Some]
    by simp
  with Some claimJob_row [OF assms] show ?thesis
    by (cases "jb_status r") (auto simp: jobLease_def due_def)
qed

lemma settleJob_effect:
  obtains p st h where "\<And>j. p j \<Longrightarrow> heldBy jobId token j" "st \<in> {JobCompleted, JobFailed}"
    "jq_jobs (settleJob jobId token x now s) = updateWhere p (setFinal st (toISOString now)) (jq_jobs s)"
proof (cases x)
  case Done
  then show thesis by (intro that [of "heldBy jobId token" JobCompleted]) (simp_all add: completeJob_def writes_def)
next
  case (Broken errorCode msg failureId)
  then obtain r t where run: "failJob jobId token errorCode msg failureId now s = (r, t)"
    "settleJob jobId token x now s = t" by (metis prod.collapse settleJob.simps(2))
  from run(1) show thesis
  proof (rule failJob_effect)
    assume "t = s"
    with run(2) show thesis by (intro that [of "\<lambda>_. False" JobFailed]) (simp_all add: updateWhere_def)
  qed (use run(2) in \<open>auto intro!: that [of "heldBy jobId token" JobFailed]\<close>)
qed

lemma settleJob_select:
  assumes "\<And>r. selectJobById jobId s = Some r \<Longrightarrow> \<not> heldBy item token r"
  shows "selectJobById jobId (settleJob item token x now s) = selectJobById jobId s"
proof (rule settleJob_effect [of item token x now s])
  fix p st
  assume p: "\<And>j. p j \<Longrightarrow> heldBy item token j"
    and t: "jq_jobs (settleJob item token x now s) = updateWhere p (setFinal st (toISOString now)) (jq_jobs s)"
  have "selectJobById jobId (settleJob item token x now s) =
      map_option (\<lambda>r. if p r then setFinal st (toISOString now) r else r) (selectJobById jobId s)"
    using find_key_updateWhere [of jb_id "setFinal st (toISOString now)"] by (simp add: selectJobById_def t)
  then show ?thesis using assms p by (cases "selectJobById jobId s") auto
qed

lemma otherJob_keeps:
  assumes "selectJobById jobId s = Some r" "jb_status r \<noteq> JobPending" "job_wf s"
  shows "selectJobById jobId (otherJob ev s) = Some r"
proof (cases ev)
  case (Enqueue gov input uuid now)
  from enqueueJob_effect [OF surjective_pairing, of gov input uuid now s] show ?thesis
    using assms(1) Enqueue by (auto simp: selectJobById_def find_append)
next
  case (Cancel gov scope actorOnly)
  have r: "r \<in> set (jq_jobs s)" "jb_id r = jobId" using selectJobById_SomeD [OF assms(1)] by auto
  from cancelPendingJobs_effect [OF surjective_pairing] show ?thesis
  proof
    assume t: "snd (cancelPendingJobs gov scope actorOnly s) = s\<lparr>jq_jobs := filter (\<lambda>j. \<not> cancelled scope actorOnly j) (jq_jobs s)\<rparr>"
    show ?thesis unfolding Cancel otherJob.simps t selectJobById_def
      by (rule find_eq_SomeI) (use r assms(2) in \<open>auto simp: cancelled_def intro: job_id_inj [OF assms(3)]\<close>)
  qed (use assms(1) Cancel in simp)
qed

lemma jobLease_Held:
  assumes "jobLease s jobId = Held token e" "job_wf s"
  obtains r where "selectJobById jobId s = Some r" "jb_status r = JobProcessing" "jb_claimToken r = Some token"
    "jb_claimExpiresAt r = Some e"
proof -
  from assms(1) obtain r where r: "selectJobById jobId s = Some r" "jb_status r = JobProcessing"
    "the (jb_claimToken r) = token" "the (jb_claimExpiresAt r) = e"
    by (auto simp: jobLease_def split: option.splits job_status.splits)
  then have "claim_ok r" using selectJobById_SomeD job_wf_claim [OF assms(2)] by blast
  with r that show thesis by (auto simp: claim_ok_def)
qed

interpretation jobs: lease_store job_wf jobLease claimJob settleJob otherJob "\<lambda>_ _. False"
proof unfold_locales
  fix s :: job_db and item item' token token' e :: string and now clock timeout :: int and x ev
  show "\<not> date_range (clock + timeout) \<Longrightarrow> claimJob item token now clock timeout s = (Inl RangeError, s)"
    by (simp add: claimJob_def)
  assume wf: "job_wf s"
  show "job_wf (snd (claimJob item token now clock timeout s))"
    using job_step_wf [OF step_claim [OF surjective_pairing] wf] .
  show "job_wf (settleJob item token x now s)"
    by (cases x) (use job_step_wf [OF _ wf] step_complete [OF surjective_pairing] step_fail [OF surjective_pairing] in auto)
  show "job_wf (otherJob ev s)"
    by (cases ev) (use job_step_wf [OF _ wf] step_enqueue [OF surjective_pairing] step_cancel [OF surjective_pairing] in auto)
  show "date_range (clock + timeout) \<Longrightarrow> jobLease (snd (claimJob item token now clock timeout s)) item =
      claimLease token (toISOString now) (toISOString (clock + timeout)) (jobLease s item)"
    by (rule claimJob_lease [OF wf])
  show "item' \<noteq> item \<Longrightarrow> jobLease (snd (claimJob item' token now clock timeout s)) item = jobLease s item"
    by (rule claimJob_effect [OF surjective_pairing, of item' token now clock timeout s]) (auto simp: lease_update)
  show "item' \<noteq> item \<Longrightarrow> jobLease (settleJob item' token x now s) item = jobLease s item"
    using settleJob_select [of item s item' token x now] selectJobById_SomeD by (fastforce simp: jobLease_def heldBy_def)
  assume held: "jobLease s item = Held token' e"
  then obtain r where r: "selectJobById item s = Some r" "jb_status r = JobProcessing" "jb_claimToken r = Some token'"
    "jb_claimExpiresAt r = Some e" using wf by (rule jobLease_Held)
  show "\<not> textLess e (toISOString now) \<Longrightarrow> token \<noteq> token' \<Longrightarrow> date_range (clock + timeout) \<Longrightarrow>
      claimJob item token now clock timeout s = (Inr None, s)"
    using claimJob_row [OF wf] r by simp
  show "token \<noteq> token' \<Longrightarrow> jobLease (settleJob item token x now s) item = Held token' e"
    using settleJob_select [of item s item token x now] r by (simp add: jobLease_def heldBy_def)
  show "jobLease (otherJob ev s) item = Held token' e"
    using otherJob_keeps [OF r(1) _ wf, of ev] r by (simp add: jobLease_def)
qed

end
