(* ===== verification/Job_Props.thy ===== *)
theory Job_Props
  imports Job_Queue Sample_Space
begin

text \<open>
  What the candidate jobs guarantee to the workers and to the code that enqueues work.
\<close>

lemma empty_jobs_wf: "job_wf empty_jobs"
  by (simp add: job_wf_def empty_jobs_def)

subsection \<open>Samples\<close>

definition sample_job_input :: enqueue_input where
  "sample_job_input = \<lparr>eq_jobType = ''classify'', eq_candidateId = ''x1'', eq_spaceId = Some ''s1'',
     eq_budgetId = Some ''b1'', eq_actorId = Some ''ana''\<rparr>"

definition sample_jobs :: job_db where
  "sample_jobs = snd (claimJob ''j1'' ''w1'' 1000 1001 60000
     (snd (enqueueJob sample_db sample_job_input ''j1'' 0 empty_jobs)))"

lemma sample_jobs_reach: "job_reach empty_jobs sample_jobs"
proof -
  have "job_step empty_jobs (snd (enqueueJob sample_db sample_job_input ''j1'' 0 empty_jobs))"
    by (rule step_enqueue [OF surjective_pairing])
  moreover have "job_step (snd (enqueueJob sample_db sample_job_input ''j1'' 0 empty_jobs)) sample_jobs"
    unfolding sample_jobs_def by (rule step_claim [OF surjective_pairing])
  ultimately show ?thesis by (rule converse_rtranclp_into_rtranclp [OF _ r_into_rtranclp])
qed

lemma sample_jobs_wf: "job_wf sample_jobs"
  using job_reach_wf [OF sample_jobs_reach empty_jobs_wf] .

lemma sample_jobs_held: "jobLease sample_jobs ''j1'' = Held ''w1'' ''1970-01-01T00:01:01.001Z''"
  by code_simp

subsection \<open>Consistency\<close>

text \<open>
  Whatever operations run, with or without errors, on an empty queue: job identifiers and
  candidates stay unique, a job carries a claim exactly when it has been claimed, a failed job has
  exactly one failure record and no other job has any.
\<close>
theorem job_queue_consistent:
  assumes "job_reach empty_jobs s"
  shows "job_wf s"
  using job_reach_wf [OF assms empty_jobs_wf] .

theorem job_queue_consistent_witness: "job_wf sample_jobs \<and> map jb_status (jq_jobs sample_jobs) = [JobProcessing]"
proof
  show "job_wf sample_jobs" by (rule job_queue_consistent [OF sample_jobs_reach])
  show "map jb_status (jq_jobs sample_jobs) = [JobProcessing]" by code_simp
qed

subsection \<open>Leases\<close>

text \<open>
  C34. On a consistent queue, what \<open>claimJob\<close> does to a job is what a claim does to a lease: a free job
  and a job whose lease has expired pass to the caller until the new expiry, any other job stays as
  it is, and so do all other jobs.
\<close>
theorem claimJob_refines_lease:
  assumes "job_wf s" and "date_range (clock + timeout)"
  shows "jobLease (snd (claimJob jobId token now clock timeout s)) =
    (jobLease s)(jobId := claimLease token (toISOString now) (toISOString (clock + timeout)) (jobLease s jobId))"
proof
  fix other
  show "jobLease (snd (claimJob jobId token now clock timeout s)) other =
    ((jobLease s)(jobId := claimLease token (toISOString now) (toISOString (clock + timeout)) (jobLease s jobId))) other"
    using jobs.claim_view [OF assms] jobs.claim_elsewhere [OF assms(1), of jobId other] by (cases "other = jobId") simp_all
qed

theorem claimJob_refines_lease_witness:
  "jobLease (snd (claimJob ''j1'' ''w2'' 61002 61002 5000 sample_jobs)) ''j1'' = Held ''w2'' ''1970-01-01T00:01:06.002Z''"
proof -
  have "toISOString 61002 = ''1970-01-01T00:01:01.002Z''" "toISOString (61002 + 5000) = ''1970-01-01T00:01:06.002Z''"
    by code_simp+
  then show ?thesis
    using claimJob_refines_lease [OF sample_jobs_wf, of 61002 5000 "''j1''" "''w2''" 61002]
    by (simp add: sample_jobs_held date_range_def code_def)
qed

text \<open>
  C7. While a worker's lease on a job runs, the job is its own: whatever other workers, enqueuers and
  cancellations do in between, in any order, the lease stays, and a claim with another token gets
  nothing and changes nothing.
\<close>
theorem job_lease_exclusive:
  assumes "job_wf s" and "jobLease s jobId = Held token e"
    and "\<forall>ev \<in> set evs. foreign (\<lambda>_ _. False) jobId token e ev"
    and "token' \<noteq> token" and "\<not> textLess e (toISOString now)" and "date_range (clock + timeout)"
  shows "let t = fold (leaseStep claimJob settleJob otherJob) evs s
    in jobLease t jobId = Held token e \<and> claimJob jobId token' now clock timeout t = (Inr None, t)"
  using jobs.lease_exclusive [OF assms(1-5)] assms(6) by (simp add: Let_def)

theorem job_lease_exclusive_witness:
  "let t = fold (leaseStep claimJob settleJob otherJob)
       [Claim ''j1'' ''w2'' 2000 2000 60000, Settle ''j1'' ''w2'' Done 2500,
        Other (Cancel sample_db \<lparr>ls_spaceId = ''s1'', ls_budgetId = ''b1'', ls_actorId = ''ana''\<rparr> False)] sample_jobs
   in jobLease t ''j1'' = Held ''w1'' ''1970-01-01T00:01:01.001Z'' \<and> claimJob ''j1'' ''w2'' 3000 3000 60000 t = (Inr None, t)"
proof (rule job_lease_exclusive [OF sample_jobs_wf sample_jobs_held])
  have "\<not> textLess ''1970-01-01T00:01:01.001Z'' (toISOString 2000)" by code_simp
  then show "\<forall>ev \<in> set [Claim ''j1'' ''w2'' 2000 2000 60000, Settle ''j1'' ''w2'' Done 2500,
        Other (Cancel sample_db \<lparr>ls_spaceId = ''s1'', ls_budgetId = ''b1'', ls_actorId = ''ana''\<rparr> False)].
      foreign (\<lambda>_ _. False) ''j1'' ''w1'' ''1970-01-01T00:01:01.001Z'' ev" by simp
  show "\<not> textLess ''1970-01-01T00:01:01.001Z'' (toISOString 3000)" by code_simp
qed (simp_all add: date_range_def)

subsection \<open>Terminal states\<close>

lemma final_step:
  assumes "job_step s t" "job_wf s" "r \<in> set (jq_jobs s)" "jb_status r \<in> {JobCompleted, JobFailed}"
  shows "r \<in> set (jq_jobs t)"
  using assms(1)
proof cases
  case (step_enqueue gov input uuid now r')
  from enqueueJob_effect [OF this] assms(3) show ?thesis by auto
next
  case (step_claim jobId token now clock timeout r')
  from this show ?thesis
  proof (rule claimJob_effect)
    fix p assume p: "\<And>j. p j \<Longrightarrow> jb_id j = jobId \<and> jb_status j \<in> {JobPending, JobProcessing}"
      and t: "t = s\<lparr>jq_jobs := updateWhere p (setClaimed token (toISOString now) (toISOString (clock + timeout))) (jq_jobs s)\<rparr>"
    have "\<not> p r" using p [of r] assms(4) by auto
    then show ?thesis using assms(3) by (simp add: t set_updateWhere)
  qed (use assms(3) in simp)
next
  case (step_complete jobId token now r')
  then show ?thesis using assms(3,4) by (auto simp: completeJob_def writes_def set_updateWhere heldBy_def)
next
  case (step_fail jobId token errorCode msg failureId now r')
  from this show ?thesis by (rule failJob_effect) (use assms(3,4) in \<open>auto simp: set_updateWhere heldBy_def\<close>)
next
  case (step_cancel gov scope actorOnly r')
  from cancelPendingJobs_effect [OF this] assms(3,4) show ?thesis by (auto simp: cancelled_def)
qed

lemma failures_step: "job_step s t \<Longrightarrow> set (jq_failures s) \<subseteq> set (jq_failures t)"
proof (induction rule: job_step.induct)
  case (step_enqueue gov input uuid now s r t)
  from enqueueJob_effect [OF this] show ?case by auto
next
  case (step_claim jobId token now clock timeout s r t)
  from this show ?case by (rule claimJob_effect) auto
next
  case (step_complete jobId token now s r t)
  then show ?case by (auto simp: completeJob_def writes_def)
next
  case (step_fail jobId token errorCode msg failureId now s r t)
  from this show ?case by (rule failJob_effect) auto
next
  case (step_cancel gov scope actorOnly s r t)
  from cancelPendingJobs_effect [OF this] show ?case by auto
qed

text \<open>
  A job that has completed or failed stays exactly as it is, through any sequence of operations,
  and no failure record is ever lost or rewritten.
\<close>
theorem finished_jobs_stay:
  assumes "job_reach s t" and "job_wf s" and "r \<in> set (jq_jobs s)" and "jb_status r \<in> {JobCompleted, JobFailed}"
  shows "r \<in> set (jq_jobs t) \<and> set (jq_failures s) \<subseteq> set (jq_failures t)"
  using assms(1)
proof (induction rule: rtranclp_induct)
  case (step u v)
  then show ?case
    using final_step [OF step.hyps(2) job_reach_wf [OF step.hyps(1) assms(2)] _ assms(4)] failures_step [OF step.hyps(2)]
    by auto
qed (use assms(3) in simp)

theorem finished_jobs_stay_witness:
  "\<exists>r \<in> set (jq_jobs (snd (claimJob ''j1'' ''w2'' 99000 99000 60000 (snd (completeJob ''j1'' ''w1'' 5000 sample_jobs))))).
     jb_status r = JobCompleted \<and> jb_id r = ''j1''"
proof -
  let ?s = "snd (completeJob ''j1'' ''w1'' 5000 sample_jobs)"
  have wf: "job_wf ?s" by (rule job_step_wf [OF step_complete [OF surjective_pairing] sample_jobs_wf])
  have "map (\<lambda>r. (jb_id r, jb_status r)) (jq_jobs ?s) = [(''j1'', JobCompleted)]" by code_simp
  then obtain r where r: "r \<in> set (jq_jobs ?s)" "jb_id r = ''j1''" "jb_status r = JobCompleted" by auto
  then show ?thesis
    using finished_jobs_stay [OF r_into_rtranclp [of job_step, OF step_claim [OF surjective_pairing]] wf r(1)] by auto
qed

subsection \<open>Failures\<close>

lemma selectLatestFailure_single: "failuresOf jobId s = [f] \<Longrightarrow> selectLatestFailure jobId s = Some f"
  by (simp add: selectLatestFailure_def failuresOf_def sortBy_def)

lemma failed_outcome:
  assumes "job_wf s" "selectJobById jobId s = Some j" "jb_status j = JobFailed"
  shows "\<exists>f. failuresOf jobId s = [f] \<and> failJobOutcome jobId token s = Inr f"
proof -
  have "length (failuresOf jobId s) = 1"
    using job_wf_failures [OF assms(1), of j] selectJobById_SomeD [OF assms(2)] assms(3) by simp
  then obtain f where "failuresOf jobId s = [f]" by (auto simp: length_Suc_conv)
  then show ?thesis using assms(2,3) by (simp add: failJobOutcome_def selectLatestFailure_single)
qed

lemma outcome_failed:
  assumes "failJobOutcome jobId token s = Inr f"
  shows "\<exists>j. selectJobById jobId s = Some j \<and> jb_status j = JobFailed"
  using assms by (auto simp: failJobOutcome_def split: option.splits if_splits)

text \<open>
  Failing a job: when \<open>failJob\<close> returns, the job is failed and what it returns is the job's only
  failure record; when it throws, nothing has changed. A later \<open>failJob\<close> on the job, by any worker
  and with any error, returns that same record and changes nothing.
\<close>
theorem failJob_records_once:
  assumes "job_wf s" and "failJob jobId token errorCode msg failureId now s = (r, t)"
  shows "case r of
      Inl e \<Rightarrow> t = s
    | Inr f \<Rightarrow> jobLease t jobId = Settled \<and> failuresOf jobId t = [f] \<and>
        failJob jobId token' errorCode' msg' failureId' now' t = (Inr f, t)"
proof -
  have wf: "job_wf t" by (rule job_step_wf [OF step_fail [OF assms(2)] assms(1)])
  show ?thesis
  proof (cases r)
    case (Inl e)
    from assms(2) have "t = s"
    proof (rule failJob_effect)
      fix f assume held: "\<exists>j \<in> set (jq_jobs s). heldBy jobId token j" and r: "r = failJobOutcome jobId token t"
        and t: "t = s\<lparr>jq_jobs := updateWhere (heldBy jobId token) (setFinal JobFailed (toISOString now)) (jq_jobs s),
          jq_failures := jq_failures s @ [f]\<rparr>"
      from held obtain i where i: "i \<in> set (jq_jobs s)" "heldBy jobId token i" by blast
      then have "setFinal JobFailed (toISOString now) i \<in> set (jq_jobs t)" by (auto simp: t set_updateWhere)
      from selectJobById_row [OF wf this] i(2)
      have "selectJobById jobId t = Some (setFinal JobFailed (toISOString now) i)" by (simp add: heldBy_def)
      from failed_outcome [OF wf this, of token] r Inl show ?thesis by auto
    qed simp_all
    with Inl show ?thesis by simp
  next
    case (Inr f)
    have out: "failJobOutcome jobId token t = Inr f"
      using assms(2) Inr by (auto simp: failJob_def bindOp_def reads_def split: prod.splits sum.splits)
    then obtain j where j: "selectJobById jobId t = Some j" "jb_status j = JobFailed"
      using outcome_failed by blast
    have fails: "failuresOf jobId t = [f]" and again: "failJobOutcome jobId token' t = Inr f"
      using failed_outcome [OF wf j, of token] failed_outcome [OF wf j, of token'] out by auto
    have "\<not> heldBy jobId token' k" if "k \<in> set (jq_jobs t)" for k
      using job_id_inj [OF wf that, of j] selectJobById_SomeD [OF j(1)] j(2) by (auto simp: heldBy_def)
    then have "changes (heldBy jobId token') (jq_jobs t) = 0"
      "updateWhere (heldBy jobId token') h (jq_jobs t) = jq_jobs t" for h
      by (simp_all add: changes_zero_iff updateWhere_def map_idI)
    with again have "failJob jobId token' errorCode' msg' failureId' now' t = (Inr f, t)"
      by (simp add: failJob_def bindOp_def reads_def transaction_def failJobTxn_def Let_def)
    with Inr j fails show ?thesis by (simp add: jobLease_def)
  qed
qed

theorem failJob_records_once_witness:
  "\<exists>f t. failJob ''j1'' ''w1'' ''E1'' ''boom'' ''f1'' 9000 sample_jobs = (Inr f, t) \<and> fl_id f = ''f1'' \<and>
     failJob ''j1'' ''w2'' ''E2'' ''again'' ''f2'' 9500 t = (Inr f, t)"
proof -
  let ?run = "failJob ''j1'' ''w1'' ''E1'' ''boom'' ''f1'' 9000 sample_jobs"
  have "map_sum id fl_id (fst ?run) = Inr ''f1''" by code_simp
  then obtain f where f: "fst ?run = Inr f" "fl_id f = ''f1''" by (cases "fst ?run") auto
  then show ?thesis
    using failJob_records_once [OF sample_jobs_wf surjective_pairing, of "''j1''" "''w1''" "''E1''" "''boom''" "''f1''" 9000
        "''w2''" "''E2''" "''again''" "''f2''" 9500]
    by (intro exI [of _ f] exI [of _ "snd ?run"]) (simp add: prod_eq_iff)
qed

subsection \<open>Enqueueing\<close>

lemma enqueue_row:
  assumes "enqueueJob gov input uuid now s = (Inr job, t)"
  obtains scope row where "jobScope gov input = Inr scope" "job = rowToJob row"
    "selectJobByCandidate (eq_jobType input) (eq_candidateId input) t = Some row" 
    "jb_spaceId row = map_option ls_spaceId scope" "jb_budgetId row = map_option ls_budgetId scope"
    "jb_actorId row = map_option ls_actorId scope"
proof -
  from assms obtain scope row u where scope: "jobScope gov input = Inr scope"
    and up: "upsertJob (jobRow uuid input scope (toISOString now)) s = (Inr row, u)"
    and rest: "(case row of None \<Rightarrow> reads (existingJob input scope) | Some r \<Rightarrow> returns (rowToJob r)) u = (Inr job, t)"
    by (auto simp: enqueueJob_def store_simps)
  show thesis
  proof (cases row)
    case None
    then show thesis using rest that [OF scope]
      by (auto simp: store_simps existingJob_def split: option.splits if_splits)
  next
    case (Some r)
    then have "r = jobRow uuid input scope (toISOString now)" "job = rowToJob r"
      "selectJobByCandidate (eq_jobType input) (eq_candidateId input) s = None" "t = s\<lparr>jq_jobs := jq_jobs s @ [r]\<rparr>"
      using up rest by (auto simp: upsertJob_def returns_def insertRow_def jobRow_def split: if_splits)
    then show thesis using that [OF scope, of r] by (auto simp: selectJobByCandidate_def find_append jobRow_def)
  qed
qed

text \<open>
  Enqueueing is idempotent: once a candidate has been enqueued, enqueueing it again in the same
  scope returns the same job and leaves the queue as it is, whatever identifier the second call drew.
\<close>
theorem enqueueJob_idempotent:
  assumes "enqueueJob gov input uuid now s = (Inr job, t)"
  shows "enqueueJob gov input uuid' now' t = (Inr job, t)"
  using assms
proof (rule enqueue_row)
  fix scope row
  assume "jobScope gov input = Inr scope" "job = rowToJob row"
    "selectJobByCandidate (eq_jobType input) (eq_candidateId input) t = Some row"
    "jb_spaceId row = map_option ls_spaceId scope" "jb_budgetId row = map_option ls_budgetId scope"
    "jb_actorId row = map_option ls_actorId scope"
  then show ?thesis
    by (simp add: enqueueJob_def bindOp_def reads_def upsertJob_def jobRow_def existingJob_def)
qed

theorem enqueueJob_idempotent_witness:
  "\<exists>job t. enqueueJob sample_db sample_job_input ''j1'' 0 empty_jobs = (Inr job, t) \<and> cj_id job = ''j1'' \<and>
     enqueueJob sample_db sample_job_input ''j2'' 500 t = (Inr job, t)"
proof -
  let ?run = "enqueueJob sample_db sample_job_input ''j1'' 0 empty_jobs"
  have "map_sum id cj_id (fst ?run) = Inr ''j1''" by code_simp
  then obtain job where job: "fst ?run = Inr job" "cj_id job = ''j1''" by (cases "fst ?run") auto
  then have "?run = (Inr job, snd ?run)" by (simp add: prod_eq_iff)
  from enqueueJob_idempotent [OF this, of "''j2''" 500] this job(2) show ?thesis by blast
qed

end
