(* ===== verification/Notification_Outbox.thy ===== *)
theory Notification_Outbox
  imports Lease Governance_Store
begin

text \<open>
  Notifications of the workflow store (\<^verbatim>\<open>store.ts\<close>): immutable events, the outbox that delivers them
  channel by channel under leases with retries, and the record of every delivery attempt. As in the
  source no operation runs in a transaction, so an insert that fails after an update leaves the
  update behind. The text that \<open>JSON.stringify\<close> makes of an event's payload is part of the input.
\<close>

subsection \<open>Data\<close>

record notification_event =
  ne_id :: string
  ne_eventVersion :: int
  ne_budgetId :: string
  ne_classification :: string
  ne_recipientId :: "string option"
  ne_spaceId :: "string option"
  ne_recipientMembershipId :: "string option"
  ne_scope :: "string option"
  ne_redactionClass :: "string option"
  ne_channelConfigVersion :: "string option"
  ne_policyVersion :: string
  ne_correlationId :: "string option"
  ne_payload :: string
  ne_createdAt :: string

record event_row = notification_event +
  ne_dedupKey :: "string option"

definition rowToNotificationEvent :: "event_row \<Rightarrow> notification_event" where
  "rowToNotificationEvent row = notification_event.truncate row"

record event_input =
  ei_budgetId :: string
  ei_classification :: string
  ei_payload :: string
  ei_policyVersion :: string
  ei_recipientId :: "string option"
  ei_scope :: "string option"
  ei_redactionClass :: "string option"
  ei_channelConfigVersion :: "string option"
  ei_correlationId :: "string option"
  ei_now :: "string option"

datatype outbox_status = OutboxPending | Delivering | Delivered | OutboxFailed | Suppressed

record outbox_row =
  ob_id :: string
  ob_eventId :: string
  ob_deliveryKey :: string
  ob_channelType :: string
  ob_channelConfigVersion :: "string option"
  ob_status :: outbox_status
  ob_attemptCount :: nat
  ob_maxAttempts :: int
  ob_claimToken :: "string option"
  ob_claimExpiresAt :: "string option"
  ob_lastAttemptedAt :: "string option"
  ob_nextAttemptAt :: "string option"
  ob_acknowledgedAt :: "string option"
  ob_failedAt :: "string option"
  ob_failureReason :: "string option"
  ob_suppressedAt :: "string option"
  ob_suppressedReason :: "string option"
  ob_correlationId :: "string option"
  ob_createdAt :: string
  ob_updatedAt :: string

record outbox_input =
  oi_eventId :: string
  oi_deliveryKey :: string
  oi_channelType :: string
  oi_channelConfigVersion :: "string option"
  oi_maxAttempts :: "int option"
  oi_correlationId :: "string option"

datatype attempt_status = AttemptSuccess | AttemptFailed

record delivery_attempt =
  da_id :: string
  da_outboxId :: string
  da_attemptNumber :: nat
  da_status :: attempt_status
  da_responseCode :: "string option"
  da_responseBody :: "string option"
  da_errorMessage :: "string option"
  da_attemptedAt :: string

record outbox_db =
  nt_events :: "event_row list"
  nt_outbox :: "outbox_row list"
  nt_attempts :: "delivery_attempt list"

subsection \<open>Statements\<close>

text \<open>The identity that the unique index on deduplicated events ranges over.\<close>

definition dedupIdentity :: "event_row \<Rightarrow>
    string \<times> string option \<times> string option \<times> string option \<times> string option \<times> string option" where
  "dedupIdentity e = (ne_budgetId e, ne_dedupKey e, ne_recipientId e, ne_scope e, ne_spaceId e, ne_recipientMembershipId e)"

definition eventClash :: "event_row \<Rightarrow> event_row \<Rightarrow> bool" where
  "eventClash x y \<longleftrightarrow> ne_id x = ne_id y \<or> ne_dedupKey x \<noteq> None \<and> dedupIdentity x = dedupIdentity y"

definition insertNotificationEvent :: "event_row \<Rightarrow> (outbox_db, unit) op" where
  "insertNotificationEvent e s =
     (case insertRow eventClash ''notification_events'' e (nt_events s) of
        Inl err \<Rightarrow> (Inl err, s) | Inr rows \<Rightarrow> (Inr (), s\<lparr>nt_events := rows\<rparr>))"

definition insertOrIgnoreNotificationEvent :: "event_row \<Rightarrow> (outbox_db, unit) op" where
  "insertOrIgnoreNotificationEvent e s =
     (Inr (), if list_ex (eventClash e) (nt_events s) then s else s\<lparr>nt_events := nt_events s @ [e]\<rparr>)"

definition selectNotificationEvent :: "string \<Rightarrow> outbox_db \<Rightarrow> event_row option" where
  "selectNotificationEvent eid s = find (\<lambda>e. ne_id e = eid) (nt_events s)"

definition selectNotificationEventByDedupIdentity :: "event_row \<Rightarrow> outbox_db \<Rightarrow> event_row option" where
  "selectNotificationEventByDedupIdentity e s =
     find (\<lambda>x. ne_dedupKey e \<noteq> None \<and> dedupIdentity x = dedupIdentity e) (nt_events s)"

definition selectOutbox :: "string \<Rightarrow> outbox_db \<Rightarrow> outbox_row option" where
  "selectOutbox oid s = find (\<lambda>r. ob_id r = oid) (nt_outbox s)"

definition selectOutboxByEventChannel :: "outbox_input \<Rightarrow> outbox_db \<Rightarrow> outbox_row option" where
  "selectOutboxByEventChannel input s = find (\<lambda>r. ob_eventId r = oi_eventId input \<and>
     ob_channelType r = oi_channelType input \<and> ob_deliveryKey r = oi_deliveryKey input) (nt_outbox s)"

definition outboxClash :: "outbox_row \<Rightarrow> outbox_row \<Rightarrow> bool" where
  "outboxClash x y \<longleftrightarrow> ob_id x = ob_id y \<or>
     ob_eventId x = ob_eventId y \<and> ob_channelType x = ob_channelType y \<and> ob_deliveryKey x = ob_deliveryKey y"

definition insertOutbox :: "string \<Rightarrow> outbox_input \<Rightarrow> string \<Rightarrow> outbox_row" where
  "insertOutbox oid input now = \<lparr>ob_id = oid, ob_eventId = oi_eventId input, ob_deliveryKey = oi_deliveryKey input,
     ob_channelType = oi_channelType input, ob_channelConfigVersion = oi_channelConfigVersion input,
     ob_status = OutboxPending, ob_attemptCount = 0,
     ob_maxAttempts = (case oi_maxAttempts input of None \<Rightarrow> 3 | Some n \<Rightarrow> n),
     ob_claimToken = None, ob_claimExpiresAt = None, ob_lastAttemptedAt = None, ob_nextAttemptAt = None,
     ob_acknowledgedAt = None, ob_failedAt = None, ob_failureReason = None, ob_suppressedAt = None,
     ob_suppressedReason = None, ob_correlationId = oi_correlationId input, ob_createdAt = now, ob_updatedAt = now\<rparr>"

definition claimOutboxPending :: "string \<Rightarrow> outbox_row \<Rightarrow> bool" where
  "claimOutboxPending oid r \<longleftrightarrow> ob_id r = oid \<and> ob_status r = OutboxPending"

definition claimOutboxExpired :: "string \<Rightarrow> string \<Rightarrow> outbox_row \<Rightarrow> bool" where
  "claimOutboxExpired oid now r \<longleftrightarrow> ob_id r = oid \<and> ob_status r = Delivering \<and>
     (case ob_claimExpiresAt r of None \<Rightarrow> False | Some e \<Rightarrow> textLess e now)"

definition claimOutboxRetryable :: "string \<Rightarrow> string \<Rightarrow> outbox_row \<Rightarrow> bool" where
  "claimOutboxRetryable oid now r \<longleftrightarrow> ob_id r = oid \<and> ob_status r = OutboxFailed \<and>
     (case ob_nextAttemptAt r of None \<Rightarrow> False | Some t \<Rightarrow> \<not> textLess now t)"

definition setDelivering :: "string \<Rightarrow> string \<Rightarrow> string \<Rightarrow> outbox_row \<Rightarrow> outbox_row" where
  "setDelivering claimToken now expiresAt r = r\<lparr>ob_status := Delivering, ob_claimToken := Some claimToken,
     ob_claimExpiresAt := Some expiresAt, ob_lastAttemptedAt := Some now,
     ob_attemptCount := ob_attemptCount r + 1, ob_updatedAt := now\<rparr>"

definition setRetrying :: "string \<Rightarrow> string \<Rightarrow> string \<Rightarrow> outbox_row \<Rightarrow> outbox_row" where
  "setRetrying claimToken now expiresAt r = (setDelivering claimToken now expiresAt r)\<lparr>ob_nextAttemptAt := None\<rparr>"

definition selectClaimedOutbox :: "string \<Rightarrow> string \<Rightarrow> outbox_db \<Rightarrow> outbox_row option" where
  "selectClaimedOutbox oid claimToken s = find (\<lambda>r. ob_id r = oid \<and> ob_claimToken r = Some claimToken) (nt_outbox s)"

definition deliveringBy :: "string \<Rightarrow> string \<Rightarrow> outbox_row \<Rightarrow> bool" where
  "deliveringBy oid claimToken r \<longleftrightarrow> ob_id r = oid \<and> ob_status r = Delivering \<and> ob_claimToken r = Some claimToken"

definition completeOutbox :: "string \<Rightarrow> outbox_row \<Rightarrow> outbox_row" where
  "completeOutbox now r = r\<lparr>ob_status := Delivered, ob_claimToken := None, ob_claimExpiresAt := None, ob_updatedAt := now\<rparr>"

definition failOutbox :: "string \<Rightarrow> string \<Rightarrow> outbox_row \<Rightarrow> outbox_row" where
  "failOutbox errorMessage now r = r\<lparr>ob_status := OutboxFailed, ob_claimToken := None, ob_claimExpiresAt := None,
     ob_failedAt := Some now, ob_failureReason := Some errorMessage, ob_updatedAt := now\<rparr>"

definition scheduleRetryOutbox :: "string \<Rightarrow> string \<Rightarrow> outbox_row \<Rightarrow> outbox_row" where
  "scheduleRetryOutbox nextAttemptAt now r = r\<lparr>ob_nextAttemptAt := Some nextAttemptAt, ob_updatedAt := now\<rparr>"

definition acknowledgeOutbox :: "string \<Rightarrow> outbox_row \<Rightarrow> outbox_row" where
  "acknowledgeOutbox now r = r\<lparr>ob_acknowledgedAt := Some now, ob_updatedAt := now\<rparr>"

definition suppressOutbox :: "string \<Rightarrow> string \<Rightarrow> outbox_row \<Rightarrow> outbox_row" where
  "suppressOutbox reason now r = r\<lparr>ob_status := Suppressed, ob_suppressedAt := Some now,
     ob_suppressedReason := Some reason, ob_updatedAt := now\<rparr>"

definition updateOutbox :: "(outbox_row \<Rightarrow> bool) \<Rightarrow> (outbox_row \<Rightarrow> outbox_row) \<Rightarrow> outbox_db \<Rightarrow> outbox_db" where
  "updateOutbox p f s = s\<lparr>nt_outbox := updateWhere p f (nt_outbox s)\<rparr>"

definition insertDeliveryAttempt :: "delivery_attempt \<Rightarrow> (outbox_db, unit) op" where
  "insertDeliveryAttempt a s =
     (case insertRow (\<lambda>x y. da_id x = da_id y) ''delivery_attempts'' a (nt_attempts s) of
        Inl err \<Rightarrow> (Inl err, s) | Inr rows \<Rightarrow> (Inr (), s\<lparr>nt_attempts := rows\<rparr>))"

subsection \<open>Events\<close>

definition notificationProvenance :: "gov_db \<Rightarrow> event_input \<Rightarrow> string \<Rightarrow> (string option \<times> string option) result" where
  "notificationProvenance gov input now =
     (case getSpaceForBudget gov (ei_budgetId input) of
        None \<Rightarrow> Inr (None, None)
      | Some space \<Rightarrow>
          (case ei_recipientId input of
             None \<Rightarrow> Inr (Some (sp_id space), None)
           | Some recipient \<Rightarrow>
               if recipient = [] then Inr (Some (sp_id space), None)
               else andThen (getCurrentMembership gov (sp_id space) recipient now) (\<lambda>m.
                 Inr (Some (sp_id space), map_option mb_id m))))"

definition eventRow :: "string \<Rightarrow> event_input \<Rightarrow> string option \<times> string option \<Rightarrow> string \<Rightarrow> string option \<Rightarrow> event_row" where
  "eventRow eid input provenance now dedupKey = \<lparr>ne_id = eid, ne_eventVersion = 1, ne_budgetId = ei_budgetId input,
     ne_classification = ei_classification input, ne_recipientId = ei_recipientId input,
     ne_spaceId = fst provenance, ne_recipientMembershipId = snd provenance, ne_scope = ei_scope input,
     ne_redactionClass = ei_redactionClass input, ne_channelConfigVersion = ei_channelConfigVersion input,
     ne_policyVersion = ei_policyVersion input, ne_correlationId = ei_correlationId input,
     ne_payload = ei_payload input, ne_createdAt = now, ne_dedupKey = dedupKey\<rparr>"

definition eventTime :: "event_input \<Rightarrow> int \<Rightarrow> string" where
  "eventTime input clock = (case ei_now input of None \<Rightarrow> toISOString clock | Some t \<Rightarrow> t)"

definition createNotificationEvent :: "gov_db \<Rightarrow> event_input \<Rightarrow> string \<Rightarrow> int \<Rightarrow> (outbox_db, notification_event) op" where
  "createNotificationEvent gov input uuid clock =
     (let now = eventTime input clock in
     bindOp (reads (\<lambda>_. notificationProvenance gov input now)) (\<lambda>provenance.
     bindOp (insertNotificationEvent (eventRow uuid input provenance now None)) (\<lambda>_.
     reads (\<lambda>s. case selectNotificationEvent uuid s of
         None \<Rightarrow> Inl (Error ''Failed to read back notification event'') | Some e \<Rightarrow> Inr (rowToNotificationEvent e)))))"

definition createOrGetNotificationEvent :: "gov_db \<Rightarrow> event_input \<Rightarrow> string \<Rightarrow> string \<Rightarrow> int \<Rightarrow>
    (outbox_db, notification_event) op" where
  "createOrGetNotificationEvent gov input dedupKey uuid clock =
     (let now = eventTime input clock in
     bindOp (reads (\<lambda>_. notificationProvenance gov input now)) (\<lambda>provenance.
     (let row = eventRow uuid input provenance now (Some dedupKey) in
     bindOp (insertOrIgnoreNotificationEvent row) (\<lambda>_.
     reads (\<lambda>s. case selectNotificationEventByDedupIdentity row s of
         None \<Rightarrow> Inl (Error ''Failed to read back deduplicated notification event'') | Some e \<Rightarrow> Inr (rowToNotificationEvent e))))))"

subsection \<open>Outbox\<close>

definition enqueueNotification :: "outbox_input \<Rightarrow> string \<Rightarrow> int \<Rightarrow> (outbox_db, outbox_row) op" where
  "enqueueNotification input uuid now s =
     (case selectNotificationEvent (oi_eventId input) s of
        None \<Rightarrow> (Inl (Error (''event does not exist: '' @ oi_eventId input)), s)
      | Some event \<Rightarrow>
          (case selectOutboxByEventChannel input s of
             Some existing \<Rightarrow>
               if ne_dedupKey event \<noteq> None then (Inr existing, s)
               else (Inl (Error (''deliveryKey already exists for this eventId+channelType: '' @ oi_deliveryKey input)), s)
           | None \<Rightarrow>
               (case insertRow outboxClash ''notification_outbox'' (insertOutbox uuid input (toISOString now)) (nt_outbox s) of
                  Inl err \<Rightarrow>
                    (case (if ne_dedupKey event \<noteq> None then selectOutboxByEventChannel input s else None) of
                       Some concurrentlyCreated \<Rightarrow> (Inr concurrentlyCreated, s)
                     | None \<Rightarrow> (Inl err, s))
                | Inr rows \<Rightarrow>
                    (let t = s\<lparr>nt_outbox := rows\<rparr>
                     in case selectOutbox uuid t of
                       None \<Rightarrow> (Inl (Error ''Failed to read back outbox record''), t)
                     | Some row \<Rightarrow> (Inr row, t)))))"

definition claimNotificationDelivery :: "string \<Rightarrow> string \<Rightarrow> int \<Rightarrow> int \<Rightarrow> int \<Rightarrow> (outbox_db, outbox_row option) op" where
  "claimNotificationDelivery oid claimToken now clock claimTimeoutMs s =
     (if \<not> date_range (clock + claimTimeoutMs) then (Inl RangeError, s)
      else let nowText = toISOString now; expiresAt = toISOString (clock + claimTimeoutMs)
        in if 0 < changes (claimOutboxPending oid) (nt_outbox s) then
          (let t = updateOutbox (claimOutboxPending oid) (setDelivering claimToken nowText expiresAt) s
           in (Inr (selectOutbox oid t), t))
        else if 0 < changes (claimOutboxExpired oid nowText) (nt_outbox s) then
          (let t = updateOutbox (claimOutboxExpired oid nowText) (setDelivering claimToken nowText expiresAt) s
           in (Inr (selectOutbox oid t), t))
        else if 0 < changes (claimOutboxRetryable oid nowText) (nt_outbox s) then
          (let t = updateOutbox (claimOutboxRetryable oid nowText) (setRetrying claimToken nowText expiresAt) s
           in (Inr (selectOutbox oid t), t))
        else (Inr (selectClaimedOutbox oid claimToken s), s))"

text \<open>The rest of the source reads the row it has just updated; \<open>currentRow\<close> is that read.\<close>

definition currentRow :: "string \<Rightarrow> outbox_db \<Rightarrow> outbox_row result" where
  "currentRow oid s = (case selectOutbox oid s of None \<Rightarrow> Inl TypeError | Some r \<Rightarrow> Inr r)"

definition completeNotificationDelivery :: "string \<Rightarrow> string \<Rightarrow> string option \<times> string option \<Rightarrow> string \<Rightarrow> int \<Rightarrow>
    (outbox_db, outbox_row) op" where
  "completeNotificationDelivery oid claimToken response attemptId now =
     bindOp (requireOp (\<lambda>s. 0 < changes (deliveringBy oid claimToken) (nt_outbox s))
       (''Cannot complete delivery: claim token mismatch or invalid state for outbox '' @ oid)) (\<lambda>_.
     bindOp (writes (updateOutbox (deliveringBy oid claimToken) (completeOutbox (toISOString now)))) (\<lambda>_.
     bindOp (reads (currentRow oid)) (\<lambda>current.
     bindOp (insertDeliveryAttempt \<lparr>da_id = attemptId, da_outboxId = oid, da_attemptNumber = ob_attemptCount current,
       da_status = AttemptSuccess, da_responseCode = fst response, da_responseBody = snd response,
       da_errorMessage = None, da_attemptedAt = toISOString now\<rparr>) (\<lambda>_.
     returns current))))"

definition failNotificationDelivery :: "string \<Rightarrow> string \<Rightarrow> string \<Rightarrow> bool \<Rightarrow> string \<Rightarrow> int \<Rightarrow> (outbox_db, outbox_row) op" where
  "failNotificationDelivery oid claimToken errorMessage retryable attemptId now =
     bindOp (requireOp (\<lambda>s. 0 < changes (deliveringBy oid claimToken) (nt_outbox s))
       (''Cannot fail delivery: claim token mismatch or invalid state for outbox '' @ oid)) (\<lambda>_.
     bindOp (writes (updateOutbox (deliveringBy oid claimToken) (failOutbox errorMessage (toISOString now)))) (\<lambda>_.
     bindOp (reads (currentRow oid)) (\<lambda>current.
     bindOp (insertDeliveryAttempt \<lparr>da_id = attemptId, da_outboxId = oid, da_attemptNumber = ob_attemptCount current,
       da_status = AttemptFailed, da_responseCode = None, da_responseBody = None,
       da_errorMessage = Some errorMessage, da_attemptedAt = toISOString now\<rparr>) (\<lambda>_.
     bindOp (if retryable \<and> int (ob_attemptCount current) < ob_maxAttempts current
       then writes (updateOutbox (\<lambda>r. ob_id r = oid) (scheduleRetryOutbox (toISOString now) (toISOString now)))
       else returns ()) (\<lambda>_.
     reads (currentRow oid))))))"

definition acknowledgeNotification :: "string \<Rightarrow> int \<Rightarrow> (outbox_db, outbox_row) op" where
  "acknowledgeNotification oid now =
     bindOp (requireOp (\<lambda>s. 0 < changes (\<lambda>r. ob_id r = oid \<and> ob_status r = Delivered) (nt_outbox s))
       (''Cannot acknowledge: outbox '' @ oid @ '' is not in delivered status'')) (\<lambda>_.
     bindOp (writes (updateOutbox (\<lambda>r. ob_id r = oid \<and> ob_status r = Delivered) (acknowledgeOutbox (toISOString now)))) (\<lambda>_.
     reads (currentRow oid)))"

definition suppressible :: "string \<Rightarrow> outbox_row \<Rightarrow> bool" where
  "suppressible oid r \<longleftrightarrow> ob_id r = oid \<and> ob_status r \<in> {OutboxPending, Delivering, OutboxFailed}"

definition suppressNotification :: "string \<Rightarrow> string \<Rightarrow> int \<Rightarrow> (outbox_db, outbox_row) op" where
  "suppressNotification oid reason now =
     bindOp (requireOp (\<lambda>s. 0 < changes (suppressible oid) (nt_outbox s))
       (''Cannot suppress: outbox '' @ oid @ '' is not in a suppressible state'')) (\<lambda>_.
     bindOp (writes (updateOutbox (suppressible oid) (suppressOutbox reason (toISOString now)))) (\<lambda>_.
     reads (currentRow oid)))"

subsection \<open>Queries\<close>

definition getNotificationEvent :: "string \<Rightarrow> outbox_db \<Rightarrow> notification_event option" where
  "getNotificationEvent eid s = map_option rowToNotificationEvent (selectNotificationEvent eid s)"

text \<open>A negative offset is zero.\<close>

definition onChannel :: "string option \<Rightarrow> outbox_row \<Rightarrow> bool" where
  "onChannel channelType r \<longleftrightarrow> (case channelType of None \<Rightarrow> True | Some c \<Rightarrow> c = [] \<or> ob_channelType r = c)"

definition getPendingNotifications :: "int \<Rightarrow> string option \<Rightarrow> outbox_db \<Rightarrow> outbox_row list" where
  "getPendingNotifications limit channelType s = limitRows limit
     (sortBy (\<lambda>x y. textLess (ob_createdAt x) (ob_createdAt y))
       (filter (\<lambda>r. ob_status r = OutboxPending \<and> onChannel channelType r) (nt_outbox s)))"

definition getRetryableNotifications :: "int \<Rightarrow> string option \<Rightarrow> int \<Rightarrow> outbox_db \<Rightarrow> outbox_row list" where
  "getRetryableNotifications limit channelType now s = limitRows limit
     (sortBy (\<lambda>x y. textLess (the (ob_nextAttemptAt x)) (the (ob_nextAttemptAt y)))
       (filter (\<lambda>r. claimOutboxRetryable (ob_id r) (toISOString now) r \<and> onChannel channelType r) (nt_outbox s)))"

definition getDeliveryAttempts :: "string \<Rightarrow> outbox_db \<Rightarrow> delivery_attempt list" where
  "getDeliveryAttempts oid s = sortBy (\<lambda>x y. da_attemptNumber x < da_attemptNumber y)
     (filter (\<lambda>a. da_outboxId a = oid) (nt_attempts s))"

definition listOutboxRecords :: "int \<Rightarrow> int \<Rightarrow> outbox_status option \<Rightarrow> string option \<Rightarrow> outbox_db \<Rightarrow> outbox_row list" where
  "listOutboxRecords limit offset status channelType s = limitRows limit (drop (nat offset)
     (sortBy (\<lambda>x y. textLess (ob_createdAt y) (ob_createdAt x))
       (filter (\<lambda>r. (case status of None \<Rightarrow> True | Some st \<Rightarrow> ob_status r = st) \<and> onChannel channelType r) (nt_outbox s))))"

subsection \<open>Consistency of the tables\<close>

definition attemptsOf :: "string \<Rightarrow> outbox_db \<Rightarrow> delivery_attempt list" where
  "attemptsOf oid s = filter (\<lambda>a. da_outboxId a = oid) (nt_attempts s)"

text \<open>
  A record is claimed exactly while it is being delivered (a suppressed record keeps what it had); its
  attempts carry increasing numbers up to its attempt count, the attempt under way not among them;
  a successful attempt belongs to a delivered record; a retry is scheduled only below the maximum.
\<close>

definition row_ok :: "delivery_attempt list \<Rightarrow> outbox_row \<Rightarrow> bool" where
  "row_ok as r \<longleftrightarrow>
     (ob_status r = OutboxPending \<longrightarrow> ob_attemptCount r = 0 \<and> as = []) \<and>
     (ob_status r = Delivering \<longrightarrow> ob_claimToken r \<noteq> None \<and> ob_claimExpiresAt r \<noteq> None) \<and>
     (ob_status r \<in> {OutboxPending, Delivered, OutboxFailed} \<longrightarrow> ob_claimToken r = None \<and> ob_claimExpiresAt r = None) \<and>
     (ob_status r \<in> {OutboxPending, Delivering, Delivered} \<longrightarrow> ob_nextAttemptAt r = None) \<and>
     sorted_wrt (<) (map da_attemptNumber as) \<and>
     (\<forall>a \<in> set as. 1 \<le> da_attemptNumber a \<and> da_attemptNumber a \<le> ob_attemptCount r \<and>
        (ob_status r = Delivering \<longrightarrow> da_attemptNumber a < ob_attemptCount r) \<and>
        (da_status a = AttemptSuccess \<longrightarrow> ob_status r = Delivered)) \<and>
     (ob_status r = Delivering \<longrightarrow> 1 \<le> ob_attemptCount r) \<and>
     (ob_nextAttemptAt r \<noteq> None \<longrightarrow> int (ob_attemptCount r) < ob_maxAttempts r)"

definition outboxKey :: "outbox_row \<Rightarrow> string \<times> string \<times> string" where
  "outboxKey r = (ob_eventId r, ob_channelType r, ob_deliveryKey r)"

definition outbox_wf :: "outbox_db \<Rightarrow> bool" where
  "outbox_wf s \<longleftrightarrow>
     distinct (map ne_id (nt_events s)) \<and>
     distinct (map dedupIdentity (filter (\<lambda>e. ne_dedupKey e \<noteq> None) (nt_events s))) \<and>
     distinct (map ob_id (nt_outbox s)) \<and> distinct (map outboxKey (nt_outbox s)) \<and> distinct (map da_id (nt_attempts s)) \<and>
     (\<forall>r \<in> set (nt_outbox s). row_ok (attemptsOf (ob_id r) s) r \<and> ob_eventId r \<in> ne_id ` set (nt_events s)) \<and>
     (\<forall>a \<in> set (nt_attempts s). da_outboxId a \<in> ob_id ` set (nt_outbox s))"

definition empty_outbox :: outbox_db where
  "empty_outbox = \<lparr>nt_events = [], nt_outbox = [], nt_attempts = []\<rparr>"

inductive outbox_step :: "outbox_db \<Rightarrow> outbox_db \<Rightarrow> bool" where
  step_create: "createNotificationEvent gov input uuid clock s = (r, t) \<Longrightarrow> outbox_step s t"
| step_createOrGet: "createOrGetNotificationEvent gov input dedupKey uuid clock s = (r, t) \<Longrightarrow> outbox_step s t"
| step_enqueue: "enqueueNotification oinput uuid now s = (q, t) \<Longrightarrow> outbox_step s t"
| step_claim: "claimNotificationDelivery oid token now clock timeout s = (v, t) \<Longrightarrow> outbox_step s t"
| step_complete: "completeNotificationDelivery oid token response attemptId now s = (q, t) \<Longrightarrow> outbox_step s t"
| step_fail: "failNotificationDelivery oid token msg retryable attemptId now s = (q, t) \<Longrightarrow> outbox_step s t"
| step_acknowledge: "acknowledgeNotification oid now s = (q, t) \<Longrightarrow> outbox_step s t"
| step_suppress: "suppressNotification oid reason now s = (q, t) \<Longrightarrow> outbox_step s t"

abbreviation outbox_reach :: "outbox_db \<Rightarrow> outbox_db \<Rightarrow> bool" where
  "outbox_reach \<equiv> outbox_step\<^sup>*\<^sup>*"

subsection \<open>Every operation in terms of one row\<close>

text \<open>Every operation on the outbox replaces one record and may add one delivery attempt.\<close>

definition putRow :: "outbox_row \<Rightarrow> delivery_attempt list \<Rightarrow> outbox_db \<Rightarrow> outbox_db" where
  "putRow r as s = s\<lparr>nt_outbox := updateWhere (\<lambda>j. ob_id j = ob_id r) (\<lambda>_. r) (nt_outbox s),
     nt_attempts := nt_attempts s @ as\<rparr>"

lemma outbox_ids: "outbox_wf s \<Longrightarrow> distinct (map ob_id (nt_outbox s))"
  by (simp add: outbox_wf_def)

lemma selectOutbox_mem:
  assumes "selectOutbox oid s = Some r"
  shows "r \<in> set (nt_outbox s)" "ob_id r = oid"
  using find_key_mem [where key = ob_id] assms by (auto simp: selectOutbox_def)

lemma selectOutbox_row: "outbox_wf s \<Longrightarrow> r \<in> set (nt_outbox s) \<Longrightarrow> selectOutbox (ob_id r) s = Some r"
  using find_unique [OF outbox_ids] by (simp add: selectOutbox_def)

lemma selectOutbox_put:
  "selectOutbox oid (putRow r as s) = (if oid = ob_id r \<and> selectOutbox oid s \<noteq> None then Some r else selectOutbox oid s)"
  using find_put [of ob_id r "ob_id r" oid] by (simp add: selectOutbox_def putRow_def)

lemma attemptsOf_put: "attemptsOf oid (putRow r as s) = attemptsOf oid s @ filter (\<lambda>a. da_outboxId a = oid) as"
  by (simp add: attemptsOf_def putRow_def)

lemma update_one:
  assumes "outbox_wf s" "\<And>j. p j \<Longrightarrow> ob_id j = oid" "selectOutbox oid s = Some r" "p r" "\<And>j. ob_id (f j) = ob_id j"
  shows "updateOutbox p f s = putRow (f r) [] s"
proof -
  have "updateWhere p f (nt_outbox s) = updateWhere (\<lambda>j. ob_id j = oid) (\<lambda>_. f r) (nt_outbox s)"
    by (rule update_by_key [OF outbox_ids [OF assms(1)] assms(2)]) (use assms(3,4) in \<open>simp_all add: selectOutbox_def\<close>)
  then show ?thesis using assms(5) selectOutbox_mem(2) [OF assms(3)] by (simp add: updateOutbox_def putRow_def)
qed

lemma changes_one:
  assumes "outbox_wf s" "\<And>j. p j \<Longrightarrow> ob_id j = oid"
  shows "0 < changes p (nt_outbox s) \<longleftrightarrow> (\<exists>r. selectOutbox oid s = Some r \<and> p r)"
  unfolding selectOutbox_def by (rule changes_by_key [OF outbox_ids [OF assms(1)] assms(2)])

lemma row_okD: "outbox_wf s \<Longrightarrow> selectOutbox oid s = Some r \<Longrightarrow> row_ok (attemptsOf oid s) r"
  using selectOutbox_mem [of oid s r] unfolding outbox_wf_def by blast

text \<open>A claim, a settlement, an acknowledgement or a suppression keeps the tables consistent.\<close>

lemma outbox_wf_put:
  assumes "outbox_wf s" "selectOutbox oid s = Some r" "ob_id r' = oid" "outboxKey r' = outboxKey r"
    and "row_ok (attemptsOf oid s @ as) r'" "\<forall>a \<in> set as. da_outboxId a = oid"
    and "distinct (map da_id (nt_attempts s @ as))"
  shows "outbox_wf (putRow r' as s)"
proof -
  let ?t = "putRow r' as s"
  have r: "r \<in> set (nt_outbox s)" "ob_id r = oid" using selectOutbox_mem [OF assms(2)] by auto
  have keys: "map g (nt_outbox ?t) = map g (nt_outbox s)" if "g r' = g r" for g :: "outbox_row \<Rightarrow> 'k"
    using map_put [of ob_id oid "nt_outbox s" r g r'] assms(1-3) that
    by (simp add: putRow_def outbox_ids selectOutbox_def)
  have ids: "map ob_id (nt_outbox ?t) = map ob_id (nt_outbox s)" using keys [of ob_id] assms(3) r(2) by simp
  then have idset: "ob_id ` set (nt_outbox ?t) = ob_id ` set (nt_outbox s)" by (metis list.set_map)
  have ev: "ob_eventId r' = ob_eventId r" using assms(4) by (simp add: outboxKey_def)
  have other: "attemptsOf (ob_id j) ?t = attemptsOf (ob_id j) s" if "ob_id j \<noteq> oid" for j
    using that assms(6) by (auto simp: attemptsOf_put filter_empty_conv)
  have mine: "attemptsOf oid ?t = attemptsOf oid s @ as" using assms(6) by (simp add: attemptsOf_put)
  have "row_ok (attemptsOf (ob_id j) ?t) j \<and> ob_eventId j \<in> ne_id ` set (nt_events s)" if "j \<in> set (nt_outbox ?t)" for j
  proof -
    from that have "j = r' \<or> j \<in> set (nt_outbox s) \<and> ob_id j \<noteq> oid"
      using assms(3) by (auto simp: putRow_def updateWhere_def)
    then show ?thesis
    proof
      assume "j = r'"
      then show ?thesis using assms(1,3,5) mine ev r(1) unfolding outbox_wf_def by simp
    next
      assume "j \<in> set (nt_outbox s) \<and> ob_id j \<noteq> oid"
      then show ?thesis using assms(1) other [of j] unfolding outbox_wf_def by simp
    qed
  qed
  moreover have "\<forall>a \<in> set (nt_attempts ?t). da_outboxId a \<in> ob_id ` set (nt_outbox ?t)"
    using assms(1,6) r idset by (auto simp: outbox_wf_def putRow_def)
  moreover have "distinct (map da_id (nt_attempts ?t))" using assms(7) by (simp add: putRow_def)
  moreover have "nt_events ?t = nt_events s" by (simp add: putRow_def)
  ultimately show ?thesis
    using assms(1) ids keys [of outboxKey, OF assms(4)] unfolding outbox_wf_def by simp
qed

definition claimable :: "string \<Rightarrow> outbox_row \<Rightarrow> bool" where
  "claimable now r \<longleftrightarrow> (case ob_status r of
     OutboxPending \<Rightarrow> True
   | Delivering \<Rightarrow> textLess (the (ob_claimExpiresAt r)) now
   | OutboxFailed \<Rightarrow> (case ob_nextAttemptAt r of None \<Rightarrow> False | Some t \<Rightarrow> \<not> textLess now t)
   | _ \<Rightarrow> False)"

lemma set_simps [simp]:
  "ob_id (setDelivering token now e r) = ob_id r" "ob_id (setRetrying token now e r) = ob_id r"
  "ob_id (completeOutbox now r) = ob_id r" "ob_id (failOutbox msg now r) = ob_id r"
  "ob_id (scheduleRetryOutbox nxt now r) = ob_id r" "ob_id (acknowledgeOutbox now r) = ob_id r"
  "ob_id (suppressOutbox reason now r) = ob_id r"
  by (simp_all add: setDelivering_def setRetrying_def completeOutbox_def failOutbox_def scheduleRetryOutbox_def
      acknowledgeOutbox_def suppressOutbox_def)

lemma setDelivering_fresh:
  "ob_nextAttemptAt r = None \<Longrightarrow> setDelivering token now e r = setRetrying token now e r"
  by (simp add: setRetrying_def setDelivering_def)

lemma claimDelivery_row:
  fixes token :: string and now clock timeout :: int
  assumes "outbox_wf s" "date_range (clock + timeout)"
  defines "claimed \<equiv> setRetrying token (toISOString now) (toISOString (clock + timeout))"
  shows "claimNotificationDelivery oid token now clock timeout s =
    (case selectOutbox oid s of
       None \<Rightarrow> (Inr None, s)
     | Some r \<Rightarrow>
         if claimable (toISOString now) r then (Inr (Some (claimed r)), putRow (claimed r) [] s)
         else (Inr (if ob_claimToken r = Some token then Some r else None), s))"
proof (cases "selectOutbox oid s")
  case None
  then have "\<forall>j \<in> set (nt_outbox s). ob_id j \<noteq> oid" by (simp add: selectOutbox_def find_NoneD)
  moreover from this have "selectClaimedOutbox oid token s = None" by (auto simp: selectClaimedOutbox_def find_NoneD)
  ultimately show ?thesis using None assms(2)
    by (simp add: claimNotificationDelivery_def Let_def changes_pos_iff claimOutboxPending_def claimOutboxExpired_def
        claimOutboxRetryable_def)
next
  case (Some r)
  let ?now = "toISOString now"
  have p: "\<And>j. claimOutboxPending oid j \<Longrightarrow> ob_id j = oid" "\<And>j. claimOutboxExpired oid ?now j \<Longrightarrow> ob_id j = oid"
    "\<And>j. claimOutboxRetryable oid ?now j \<Longrightarrow> ob_id j = oid"
    by (auto simp: claimOutboxPending_def claimOutboxExpired_def claimOutboxRetryable_def)
  have r: "r \<in> set (nt_outbox s)" "ob_id r = oid" using selectOutbox_mem [OF Some] by auto
  note ok = row_okD [OF assms(1) Some]
  have "find (\<lambda>j. ob_id j = oid \<and> ob_claimToken j = Some token) (nt_outbox s) =
      (if ob_claimToken r = Some token then Some r else None)"
    by (rule find_conj_unique) (use r in \<open>auto intro: key_inj [OF outbox_ids [OF assms(1)]]\<close>)
  then have same: "selectClaimedOutbox oid token s = (if ob_claimToken r = Some token then Some r else None)"
    by (simp add: selectClaimedOutbox_def)
  have n: "0 < changes (claimOutboxPending oid) (nt_outbox s) \<longleftrightarrow> claimOutboxPending oid r"
    "0 < changes (claimOutboxExpired oid ?now) (nt_outbox s) \<longleftrightarrow> claimOutboxExpired oid ?now r"
    "0 < changes (claimOutboxRetryable oid ?now) (nt_outbox s) \<longleftrightarrow> claimOutboxRetryable oid ?now r"
    using changes_one [OF assms(1), of "claimOutboxPending oid" oid, OF p(1)]
      changes_one [OF assms(1), of "claimOutboxExpired oid ?now" oid, OF p(2)]
      changes_one [OF assms(1), of "claimOutboxRetryable oid ?now" oid, OF p(3)] Some by simp_all
  have u: "claimOutboxPending oid r \<Longrightarrow> updateOutbox (claimOutboxPending oid) f s = putRow (f r) [] s"
    "claimOutboxExpired oid ?now r \<Longrightarrow> updateOutbox (claimOutboxExpired oid ?now) f s = putRow (f r) [] s"
    "claimOutboxRetryable oid ?now r \<Longrightarrow> updateOutbox (claimOutboxRetryable oid ?now) f s = putRow (f r) [] s"
    if "\<And>j. ob_id (f j) = ob_id j" for f
    using update_one [OF assms(1) p(1) Some] update_one [OF assms(1) p(2) Some] update_one [OF assms(1) p(3) Some] that
    by auto
  have sel: "selectOutbox oid (putRow (claimed r) [] s) = Some (claimed r)"
    using Some r by (simp add: selectOutbox_put claimed_def)
  have fresh: "setDelivering token ?now (toISOString (clock + timeout)) r = claimed r"
    if "ob_status r \<in> {OutboxPending, Delivering}"
    using ok that unfolding claimed_def by (intro setDelivering_fresh) (auto simp: row_ok_def)
  have e: "ob_status r = Delivering \<Longrightarrow> ob_claimExpiresAt r \<noteq> None" using ok unfolding row_ok_def by blast
  have c: "claimOutboxPending oid r \<longleftrightarrow> ob_status r = OutboxPending"
    "claimOutboxExpired oid ?now r \<longleftrightarrow> ob_status r = Delivering \<and> claimable ?now r"
    "claimOutboxRetryable oid ?now r \<longleftrightarrow> ob_status r = OutboxFailed \<and> claimable ?now r"
    using r(2) e by (auto simp: claimOutboxPending_def claimOutboxExpired_def claimOutboxRetryable_def claimable_def)
  show ?thesis
  proof (cases "ob_status r")
    case OutboxPending
    then have "claimable ?now r" by (simp add: claimable_def)
    with OutboxPending Some assms(2) n c u(1) [of "setDelivering token ?now (toISOString (clock + timeout))"] fresh sel
    show ?thesis by (simp add: claimNotificationDelivery_def Let_def)
  next
    case Delivering
    with Some assms(2) n c u(2) [of "setDelivering token ?now (toISOString (clock + timeout))"] fresh sel same
    show ?thesis by (simp add: claimNotificationDelivery_def Let_def)
  next
    case OutboxFailed
    with Some assms(2) n c u(3) [of claimed] sel same
    show ?thesis by (simp add: claimNotificationDelivery_def Let_def claimed_def)
  qed (use Some assms(2) n c same in \<open>simp_all add: claimNotificationDelivery_def Let_def claimable_def\<close>)
qed

definition newAttempt :: "string \<Rightarrow> string \<Rightarrow> attempt_status \<Rightarrow> string option \<Rightarrow> string option \<Rightarrow> string option \<Rightarrow>
    string \<Rightarrow> outbox_row \<Rightarrow> delivery_attempt" where
  "newAttempt attemptId oid status resp body msg now r = \<lparr>da_id = attemptId, da_outboxId = oid,
     da_attemptNumber = ob_attemptCount r, da_status = status, da_responseCode = resp, da_responseBody = body,
     da_errorMessage = msg, da_attemptedAt = now\<rparr>"

lemma not_delivering:
  assumes "outbox_wf s" "\<And>r. selectOutbox oid s = Some r \<Longrightarrow> \<not> deliveringBy oid token r"
  shows "\<not> 0 < changes (deliveringBy oid token) (nt_outbox s)"
  using changes_one [OF assms(1), of "deliveringBy oid token" oid] assms(2) by (auto simp: deliveringBy_def)

lemma insertAttempt_put:
  "insertDeliveryAttempt a (putRow r [] s) =
    (if da_id a \<in> da_id ` set (nt_attempts s) then (Inl (SqliteConstraint ''delivery_attempts''), putRow r [] s)
     else (Inr (), putRow r [a] s))"
  by (auto simp: insertDeliveryAttempt_def insertRow_def putRow_def list_ex_iff image_iff)

lemma completeDelivery_row:
  assumes "outbox_wf s"
  shows "completeNotificationDelivery oid token response attemptId now s =
    (case selectOutbox oid s of
       None \<Rightarrow> (Inl (Error (''Cannot complete delivery: claim token mismatch or invalid state for outbox '' @ oid)), s)
     | Some r \<Rightarrow>
         if \<not> deliveringBy oid token r
         then (Inl (Error (''Cannot complete delivery: claim token mismatch or invalid state for outbox '' @ oid)), s)
         else let r' = completeOutbox (toISOString now) r in
           if attemptId \<in> da_id ` set (nt_attempts s)
           then (Inl (SqliteConstraint ''delivery_attempts''), putRow r' [] s)
           else (Inr r', putRow r' [newAttempt attemptId oid AttemptSuccess (fst response) (snd response) None (toISOString now) r] s))"
proof (cases "\<exists>r. selectOutbox oid s = Some r \<and> deliveringBy oid token r")
  case False
  then show ?thesis using not_delivering [OF assms, of oid token]
    by (auto simp: completeNotificationDelivery_def bindOp_def requireOp_def split: option.splits)
next
  case True
  then obtain r where r: "selectOutbox oid s = Some r" "deliveringBy oid token r" by blast
  have "0 < changes (deliveringBy oid token) (nt_outbox s)"
    using changes_one [OF assms, of "deliveringBy oid token" oid] r by (auto simp: deliveringBy_def)
  moreover have "updateOutbox (deliveringBy oid token) (completeOutbox (toISOString now)) s =
      putRow (completeOutbox (toISOString now) r) [] s"
    by (rule update_one [OF assms]) (use r in \<open>auto simp: deliveringBy_def\<close>)
  moreover have "currentRow oid (putRow (completeOutbox (toISOString now) r) [] s) = Inr (completeOutbox (toISOString now) r)"
    using r selectOutbox_mem [OF r(1)] by (simp add: currentRow_def selectOutbox_put)
  ultimately show ?thesis using r
    by (simp add: completeNotificationDelivery_def bindOp_def requireOp_def writes_def reads_def insertAttempt_put
        returns_def newAttempt_def completeOutbox_def Let_def)
qed

definition retryRow :: "bool \<Rightarrow> string \<Rightarrow> outbox_row \<Rightarrow> outbox_row" where
  "retryRow retryable now r =
     (if retryable \<and> int (ob_attemptCount r) < ob_maxAttempts r then scheduleRetryOutbox now now r else r)"

lemma retryRow_id [simp]: "ob_id (retryRow retryable now r) = ob_id r"
  by (simp add: retryRow_def)

lemma update_put:
  "ob_id r = oid \<Longrightarrow> ob_id (f r) = oid \<Longrightarrow> (\<And>j. ob_id (f j) = ob_id j) \<Longrightarrow>
    updateOutbox (\<lambda>j. ob_id j = oid) f (putRow r as s) = putRow (f r) as s"
  by (auto simp: updateOutbox_def putRow_def updateWhere_def)

lemma failDelivery_row:
  assumes "outbox_wf s"
  shows "failNotificationDelivery oid token msg retryable attemptId now s =
    (case selectOutbox oid s of
       None \<Rightarrow> (Inl (Error (''Cannot fail delivery: claim token mismatch or invalid state for outbox '' @ oid)), s)
     | Some r \<Rightarrow>
         if \<not> deliveringBy oid token r
         then (Inl (Error (''Cannot fail delivery: claim token mismatch or invalid state for outbox '' @ oid)), s)
         else let r' = failOutbox msg (toISOString now) r; r'' = retryRow retryable (toISOString now) r' in
           if attemptId \<in> da_id ` set (nt_attempts s)
           then (Inl (SqliteConstraint ''delivery_attempts''), putRow r' [] s)
           else (Inr r'', putRow r'' [newAttempt attemptId oid AttemptFailed None None (Some msg) (toISOString now) r] s))"
proof (cases "\<exists>r. selectOutbox oid s = Some r \<and> deliveringBy oid token r")
  case False
  then show ?thesis using not_delivering [OF assms, of oid token]
    by (auto simp: failNotificationDelivery_def bindOp_def requireOp_def split: option.splits)
next
  case True
  then obtain r where r: "selectOutbox oid s = Some r" "deliveringBy oid token r" by blast
  have oid: "ob_id r = oid" using selectOutbox_mem [OF r(1)] by simp
  have "0 < changes (deliveringBy oid token) (nt_outbox s)"
    using changes_one [OF assms, of "deliveringBy oid token" oid] r by (auto simp: deliveringBy_def)
  moreover have "updateOutbox (deliveringBy oid token) (failOutbox msg (toISOString now)) s =
      putRow (failOutbox msg (toISOString now) r) [] s"
    by (rule update_one [OF assms]) (use r in \<open>auto simp: deliveringBy_def\<close>)
  moreover have "currentRow oid (putRow r' as s) = Inr r'" if "ob_id r' = oid" for r' as
    using r that by (simp add: currentRow_def selectOutbox_put)
  moreover have "updateOutbox (\<lambda>j. ob_id j = oid) (scheduleRetryOutbox (toISOString now) (toISOString now))
      (putRow (failOutbox msg (toISOString now) r) as s) =
      putRow (scheduleRetryOutbox (toISOString now) (toISOString now) (failOutbox msg (toISOString now) r)) as s" for as
    by (rule update_put) (simp_all add: oid)
  ultimately show ?thesis using r oid
    by (auto simp: failNotificationDelivery_def bindOp_def requireOp_def writes_def reads_def insertAttempt_put
        returns_def newAttempt_def retryRow_def failOutbox_def Let_def)
qed

lemma guarded_row:
  assumes "outbox_wf s" "\<And>j. p j \<Longrightarrow> ob_id j = oid" "\<And>j. ob_id (f j) = ob_id j"
  shows "bindOp (requireOp (\<lambda>s. 0 < changes p (nt_outbox s)) msg) (\<lambda>_.
     bindOp (writes (updateOutbox p f)) (\<lambda>_. reads (currentRow oid))) s =
    (case selectOutbox oid s of
       None \<Rightarrow> (Inl (Error msg), s)
     | Some r \<Rightarrow> if p r then (Inr (f r), putRow (f r) [] s) else (Inl (Error msg), s))"
proof (cases "\<exists>r. selectOutbox oid s = Some r \<and> p r")
  case False
  then show ?thesis using changes_one [OF assms(1,2)] by (auto simp: bindOp_def requireOp_def split: option.splits)
next
  case True
  then obtain r where r: "selectOutbox oid s = Some r" "p r" by blast
  then have "0 < changes p (nt_outbox s)" using changes_one [OF assms(1,2)] by auto
  moreover have "updateOutbox p f s = putRow (f r) [] s"
    by (rule update_one [OF assms(1,2) r(1)]) (use r assms(3) in simp_all)
  ultimately show ?thesis using r selectOutbox_mem [OF r(1)] assms(3) [of r]
    by (simp add: bindOp_def requireOp_def writes_def reads_def currentRow_def selectOutbox_put)
qed

lemma acknowledge_row:
  assumes "outbox_wf s"
  shows "acknowledgeNotification oid now s =
    (case selectOutbox oid s of
       None \<Rightarrow> (Inl (Error (''Cannot acknowledge: outbox '' @ oid @ '' is not in delivered status'')), s)
     | Some r \<Rightarrow> if ob_status r = Delivered
         then (Inr (acknowledgeOutbox (toISOString now) r), putRow (acknowledgeOutbox (toISOString now) r) [] s)
         else (Inl (Error (''Cannot acknowledge: outbox '' @ oid @ '' is not in delivered status'')), s))"
  using guarded_row [OF assms, of "\<lambda>r. ob_id r = oid \<and> ob_status r = Delivered" oid "acknowledgeOutbox (toISOString now)"]
  by (auto simp: acknowledgeNotification_def dest: selectOutbox_mem(2) split: option.splits)

lemma suppress_row:
  assumes "outbox_wf s"
  shows "suppressNotification oid reason now s =
    (case selectOutbox oid s of
       None \<Rightarrow> (Inl (Error (''Cannot suppress: outbox '' @ oid @ '' is not in a suppressible state'')), s)
     | Some r \<Rightarrow> if ob_status r \<in> {OutboxPending, Delivering, OutboxFailed}
         then (Inr (suppressOutbox reason (toISOString now) r), putRow (suppressOutbox reason (toISOString now) r) [] s)
         else (Inl (Error (''Cannot suppress: outbox '' @ oid @ '' is not in a suppressible state'')), s))"
  using guarded_row [OF assms, of "suppressible oid" oid "suppressOutbox reason (toISOString now)"]
  by (auto simp: suppressNotification_def suppressible_def dest: selectOutbox_mem(2) split: option.splits)

subsection \<open>Every operation keeps the tables consistent\<close>

lemma insertEvent_wf:
  assumes "outbox_wf s" "\<forall>x \<in> set (nt_events s). \<not> eventClash e x"
  shows "outbox_wf (s\<lparr>nt_events := nt_events s @ [e]\<rparr>)"
  using assms unfolding outbox_wf_def attemptsOf_def eventClash_def by auto

lemma createEvent_effect:
  assumes "createNotificationEvent gov input uuid clock s = (r, t)"
  shows "t = s \<or> (\<exists>e. (\<forall>x \<in> set (nt_events s). \<not> eventClash e x) \<and> t = s\<lparr>nt_events := nt_events s @ [e]\<rparr>)"
proof (cases "notificationProvenance gov input (eventTime input clock)")
  case (Inl err)
  then show ?thesis using assms by (simp add: createNotificationEvent_def Let_def bindOp_def reads_def)
next
  case (Inr provenance)
  then show ?thesis using assms
    by (auto simp: createNotificationEvent_def Let_def bindOp_def reads_def insertNotificationEvent_def insertRow_def
        list_ex_iff split: if_splits)
qed

lemma createOrGetEvent_effect:
  assumes "createOrGetNotificationEvent gov input dedupKey uuid clock s = (r, t)"
  shows "t = s \<or> (\<exists>e. (\<forall>x \<in> set (nt_events s). \<not> eventClash e x) \<and> t = s\<lparr>nt_events := nt_events s @ [e]\<rparr>)"
proof (cases "notificationProvenance gov input (eventTime input clock)")
  case (Inl err)
  then show ?thesis using assms by (simp add: createOrGetNotificationEvent_def Let_def bindOp_def reads_def)
next
  case (Inr provenance)
  then show ?thesis using assms
    by (auto simp: createOrGetNotificationEvent_def Let_def bindOp_def reads_def insertOrIgnoreNotificationEvent_def
        list_ex_iff split: if_splits)
qed

lemma enqueueNotification_effect:
  assumes "enqueueNotification input uuid now s = (q, t)"
  shows "t = s \<or> (\<forall>x \<in> set (nt_outbox s). \<not> outboxClash (insertOutbox uuid input (toISOString now)) x) \<and>
    oi_eventId input \<in> ne_id ` set (nt_events s) \<and>
    t = s\<lparr>nt_outbox := nt_outbox s @ [insertOutbox uuid input (toISOString now)]\<rparr>"
proof (cases "selectNotificationEvent (oi_eventId input) s")
  case None
  then show ?thesis using assms by (simp add: enqueueNotification_def)
next
  case (Some event)
  then have "event \<in> set (nt_events s)" "ne_id event = oi_eventId input"
    unfolding selectNotificationEvent_def by (auto dest: find_key_mem [where key = ne_id])
  then have "oi_eventId input \<in> ne_id ` set (nt_events s)" by force
  with Some assms show ?thesis
    by (auto simp: enqueueNotification_def insertRow_def Let_def list_ex_iff split: option.splits if_splits)
qed

lemma row_ok_claim:
  assumes "row_ok as r" "claimable now r"
  shows "row_ok as (setRetrying token now e r)"
proof (cases "ob_status r")
  case OutboxPending
  then show ?thesis using assms by (simp add: row_ok_def setRetrying_def setDelivering_def)
next
  case Delivering
  then show ?thesis using assms by (fastforce simp: row_ok_def setRetrying_def setDelivering_def)
next
  case OutboxFailed
  then show ?thesis using assms by (fastforce simp: row_ok_def setRetrying_def setDelivering_def)
qed (use assms(2) in \<open>simp_all add: claimable_def\<close>)

lemma row_ok_complete:
  assumes "row_ok as r" "ob_status r = Delivering"
  shows "row_ok as (completeOutbox now r)"
    and "row_ok (as @ [newAttempt attemptId oid AttemptSuccess c b m now r]) (completeOutbox now r)"
  using assms by (auto simp: row_ok_def completeOutbox_def newAttempt_def sorted_wrt_append)

lemma row_ok_fail:
  assumes "row_ok as r" "ob_status r = Delivering"
  shows "row_ok as (failOutbox msg now r)"
    and "row_ok (as @ [newAttempt attemptId oid AttemptFailed c b m now r]) (retryRow retryable now (failOutbox msg now r))"
  using assms
  by (auto simp: row_ok_def failOutbox_def newAttempt_def sorted_wrt_append retryRow_def scheduleRetryOutbox_def)

lemma row_ok_acknowledge: "row_ok as r \<Longrightarrow> row_ok as (acknowledgeOutbox now r)"
  by (simp add: row_ok_def acknowledgeOutbox_def)

lemma row_ok_suppress:
  "row_ok as r \<Longrightarrow> ob_status r \<in> {OutboxPending, Delivering, OutboxFailed} \<Longrightarrow> row_ok as (suppressOutbox reason now r)"
  by (auto simp: row_ok_def suppressOutbox_def)

lemma outboxKey_simps [simp]:
  "outboxKey (setRetrying token now e r) = outboxKey r" "outboxKey (completeOutbox now r) = outboxKey r"
  "outboxKey (failOutbox msg now r) = outboxKey r" "outboxKey (retryRow retryable now r) = outboxKey r"
  "outboxKey (acknowledgeOutbox now r) = outboxKey r" "outboxKey (suppressOutbox reason now r) = outboxKey r"
  by (simp_all add: outboxKey_def setRetrying_def setDelivering_def completeOutbox_def failOutbox_def retryRow_def
      scheduleRetryOutbox_def acknowledgeOutbox_def suppressOutbox_def)

lemma outbox_wf_put_row:
  assumes "outbox_wf s" "selectOutbox oid s = Some r" "ob_id r' = ob_id r" "outboxKey r' = outboxKey r"
    and "row_ok (attemptsOf oid s) r'"
  shows "outbox_wf (putRow r' [] s)"
  using assms selectOutbox_mem(2) [OF assms(2)] by (intro outbox_wf_put [OF assms(1,2)]) (auto simp: outbox_wf_def)

lemma outbox_wf_put_attempt:
  assumes "outbox_wf s" "selectOutbox oid s = Some r" "ob_id r' = ob_id r" "outboxKey r' = outboxKey r"
    and "row_ok (attemptsOf oid s @ [a]) r'" "da_outboxId a = oid" "da_id a \<notin> da_id ` set (nt_attempts s)"
  shows "outbox_wf (putRow r' [a] s)"
  using assms selectOutbox_mem(2) [OF assms(2)] by (intro outbox_wf_put [OF assms(1,2)]) (auto simp: outbox_wf_def)

lemma newAttempt_simps [simp]:
  "da_outboxId (newAttempt attemptId oid st c b m now r) = oid" "da_id (newAttempt attemptId oid st c b m now r) = attemptId"
  "da_attemptNumber (newAttempt attemptId oid st c b m now r) = ob_attemptCount r"
  "da_status (newAttempt attemptId oid st c b m now r) = st"
  by (simp_all add: newAttempt_def)

lemma outbox_step_wf:
  assumes "outbox_step s t" and wf: "outbox_wf s"
  shows "outbox_wf t"
  using assms(1)
proof cases
  case (step_create gov input uuid clock r)
  from createEvent_effect [OF this] wf insertEvent_wf show ?thesis by auto
next
  case (step_createOrGet gov input dedupKey uuid clock r)
  from createOrGetEvent_effect [OF this] wf insertEvent_wf show ?thesis by auto
next
  case (step_enqueue input uuid now q)
  let ?r = "insertOutbox uuid input (toISOString now)"
  from enqueueNotification_effect [OF step_enqueue] show ?thesis
  proof
    assume new: "(\<forall>x \<in> set (nt_outbox s). \<not> outboxClash ?r x) \<and> oi_eventId input \<in> ne_id ` set (nt_events s) \<and>
      t = s\<lparr>nt_outbox := nt_outbox s @ [?r]\<rparr>"
    then have "ob_id ?r \<notin> ob_id ` set (nt_outbox s)" "outboxKey ?r \<notin> outboxKey ` set (nt_outbox s)"
      by (auto simp: outboxClash_def outboxKey_def)
    moreover have "da_outboxId a \<noteq> ob_id ?r" if "a \<in> set (nt_attempts s)" for a
      using wf that calculation(1) unfolding outbox_wf_def by metis
    then have "attemptsOf (ob_id ?r) s = []" by (simp add: attemptsOf_def filter_empty_conv)
    moreover have "row_ok [] ?r" by (simp add: row_ok_def insertOutbox_def)
    moreover have "attemptsOf oid t = attemptsOf oid s" for oid using new by (simp add: attemptsOf_def)
    moreover have "ob_eventId ?r = oi_eventId input" by (simp add: insertOutbox_def)
    ultimately show ?thesis using wf new unfolding outbox_wf_def by auto
  qed (use wf in simp)
next
  case (step_claim oid token now clock timeout v)
  show ?thesis
  proof (cases "date_range (clock + timeout) \<and> t \<noteq> s")
    case True
    with step_claim obtain r where r: "selectOutbox oid s = Some r" "claimable (toISOString now) r"
      and t: "t = putRow (setRetrying token (toISOString now) (toISOString (clock + timeout)) r) [] s"
      by (auto simp: claimDelivery_row [OF wf] split: option.splits if_splits)
    show ?thesis unfolding t
      by (rule outbox_wf_put_row [OF wf r(1)]) (simp_all add: row_ok_claim [OF row_okD [OF wf r(1)] r(2)])
  next
    case False
    then show ?thesis using step_claim wf by (auto simp: claimNotificationDelivery_def)
  qed
next
  case (step_complete oid token response attemptId now q)
  show ?thesis
  proof (cases "\<exists>r. selectOutbox oid s = Some r \<and> deliveringBy oid token r")
    case True
    then obtain r where r: "selectOutbox oid s = Some r" "deliveringBy oid token r" by blast
    then have st: "ob_status r = Delivering" by (simp add: deliveringBy_def)
    from step_complete r show ?thesis
      using outbox_wf_put_row [OF wf r(1), of "completeOutbox (toISOString now) r"]
        outbox_wf_put_attempt [OF wf r(1), of "completeOutbox (toISOString now) r"]
        row_ok_complete [OF row_okD [OF wf r(1)] st]
      by (auto simp: completeDelivery_row [OF wf] Let_def split: if_splits)
  next
    case False
    then show ?thesis using step_complete wf by (auto simp: completeDelivery_row [OF wf] split: option.splits if_splits)
  qed
next
  case (step_fail oid token msg retryable attemptId now q)
  show ?thesis
  proof (cases "\<exists>r. selectOutbox oid s = Some r \<and> deliveringBy oid token r")
    case True
    then obtain r where r: "selectOutbox oid s = Some r" "deliveringBy oid token r" by blast
    then have st: "ob_status r = Delivering" by (simp add: deliveringBy_def)
    from step_fail r show ?thesis
      using outbox_wf_put_row [OF wf r(1), of "failOutbox msg (toISOString now) r"]
        outbox_wf_put_attempt [OF wf r(1), of "retryRow retryable (toISOString now) (failOutbox msg (toISOString now) r)"]
        row_ok_fail [OF row_okD [OF wf r(1)] st]
      by (auto simp: failDelivery_row [OF wf] Let_def split: if_splits)
  next
    case False
    then show ?thesis using step_fail wf by (auto simp: failDelivery_row [OF wf] split: option.splits if_splits)
  qed
next
  case (step_acknowledge oid now q)
  then show ?thesis
    using wf outbox_wf_put_row [OF wf] row_ok_acknowledge row_okD [OF wf]
    by (auto simp: acknowledge_row [OF wf] split: option.splits if_splits)
next
  case (step_suppress oid reason now q)
  then show ?thesis
    using wf outbox_wf_put_row [OF wf] row_ok_suppress row_okD [OF wf]
    by (auto simp: suppress_row [OF wf] split: option.splits if_splits)
qed

lemma outbox_reach_wf: "outbox_reach s t \<Longrightarrow> outbox_wf s \<Longrightarrow> outbox_wf t"
  by (induction rule: rtranclp_induct) (auto intro: outbox_step_wf)

subsection \<open>Leases on deliveries\<close>

definition rowLease :: "outbox_row \<Rightarrow> lease" where
  "rowLease r = (case ob_status r of
     OutboxPending \<Rightarrow> Free None
   | Delivering \<Rightarrow> Held (the (ob_claimToken r)) (the (ob_claimExpiresAt r))
   | OutboxFailed \<Rightarrow> (case ob_nextAttemptAt r of None \<Rightarrow> Settled | Some t \<Rightarrow> Free (Some t))
   | _ \<Rightarrow> Settled)"

definition outboxLease :: "outbox_db \<Rightarrow> string \<Rightarrow> lease" where
  "outboxLease s oid = (case selectOutbox oid s of None \<Rightarrow> Absent | Some r \<Rightarrow> rowLease r)"

datatype delivery_outcome =
    Sent "string option \<times> string option" string
  | Undelivered string bool string

fun settleDelivery :: "string \<Rightarrow> string \<Rightarrow> delivery_outcome \<Rightarrow> int \<Rightarrow> outbox_db \<Rightarrow> outbox_db" where
  "settleDelivery oid token (Sent response attemptId) now s =
     snd (completeNotificationDelivery oid token response attemptId now s)"
| "settleDelivery oid token (Undelivered msg retryable attemptId) now s =
     snd (failNotificationDelivery oid token msg retryable attemptId now s)"

datatype outbox_other =
    CreateEvent gov_db event_input string int
  | CreateOrGetEvent gov_db event_input string string int
  | EnqueueDelivery outbox_input string int
  | Acknowledge string int
  | Suppress string string int

fun otherDelivery :: "outbox_other \<Rightarrow> outbox_db \<Rightarrow> outbox_db" where
  "otherDelivery (CreateEvent gov input uuid clock) s = snd (createNotificationEvent gov input uuid clock s)"
| "otherDelivery (CreateOrGetEvent gov input key uuid clock) s = snd (createOrGetNotificationEvent gov input key uuid clock s)"
| "otherDelivery (EnqueueDelivery input uuid now) s = snd (enqueueNotification input uuid now s)"
| "otherDelivery (Acknowledge oid now) s = snd (acknowledgeNotification oid now s)"
| "otherDelivery (Suppress oid reason now) s = snd (suppressNotification oid reason now s)"

text \<open>Suppressing a notification takes it away from its holder; nothing else does.\<close>

fun withdraws :: "outbox_other \<Rightarrow> string \<Rightarrow> bool" where
  "withdraws (Suppress oid reason now) item \<longleftrightarrow> oid = item"
| "withdraws _ item \<longleftrightarrow> False"

lemma outboxLease_put: "outboxLease (putRow r as s) oid =
    (if oid = ob_id r \<and> selectOutbox oid s \<noteq> None then rowLease r else outboxLease s oid)"
  by (auto simp: outboxLease_def selectOutbox_put)

lemma outboxLease_Held:
  assumes "outbox_wf s" "outboxLease s oid = Held token e"
  obtains r where "selectOutbox oid s = Some r" "ob_id r = oid" "ob_status r = Delivering" "ob_claimToken r = Some token"
    "ob_claimExpiresAt r = Some e"
proof -
  from assms(2) obtain r where r: "selectOutbox oid s = Some r" "ob_status r = Delivering"
    "the (ob_claimToken r) = token" "the (ob_claimExpiresAt r) = e"
    by (auto simp: outboxLease_def rowLease_def split: option.splits outbox_status.splits)
  moreover have "ob_claimToken r \<noteq> None" "ob_claimExpiresAt r \<noteq> None"
    using row_okD [OF assms(1) r(1)] r(2) unfolding row_ok_def by blast+
  ultimately show thesis using that [of r] selectOutbox_mem(2) [OF r(1)] by auto
qed

lemma claim_rowLease:
  assumes "row_ok as r"
  shows "rowLease (if claimable now r then setRetrying token now e r else r) = claimLease token now e (rowLease r)"
  by (cases "ob_status r"; cases "ob_nextAttemptAt r")
    (simp_all add: rowLease_def claimable_def setRetrying_def setDelivering_def due_def)

lemma claimDelivery_lease:
  assumes "outbox_wf s" "date_range (clock + timeout)"
  shows "outboxLease (snd (claimNotificationDelivery oid token now clock timeout s)) oid =
    claimLease token (toISOString now) (toISOString (clock + timeout)) (outboxLease s oid)"
proof (cases "selectOutbox oid s")
  case None
  then show ?thesis by (simp add: claimDelivery_row [OF assms] outboxLease_def)
next
  case (Some r)
  then show ?thesis
    using claim_rowLease [OF row_okD [OF assms(1) Some], of "toISOString now" token "toISOString (clock + timeout)"]
      selectOutbox_mem(2) [OF Some]
    by (simp add: claimDelivery_row [OF assms] outboxLease_put outboxLease_def selectOutbox_put split: if_splits)
qed

lemma settleDelivery_lease:
  assumes "outbox_wf s" "\<And>r. selectOutbox item s = Some r \<Longrightarrow> \<not> deliveringBy oid token r"
  shows "outboxLease (settleDelivery oid token x now s) item = outboxLease s item"
proof (cases "item = oid")
  case True
  then show ?thesis using assms(2)
    by (cases x) (auto simp: completeDelivery_row [OF assms(1)] failDelivery_row [OF assms(1)] split: option.splits)
next
  case False
  then have "outboxLease (putRow r as s) item = outboxLease s item" if "ob_id r = oid" for r as
    using that by (simp add: outboxLease_put)
  then show ?thesis
    by (cases x) (auto simp: completeDelivery_row [OF assms(1)] failDelivery_row [OF assms(1)] Let_def
        dest!: selectOutbox_mem(2) split: option.splits)
qed

lemma otherDelivery_lease:
  assumes "outbox_wf s" "selectOutbox item s = Some r" "ob_status r = Delivering" "\<not> withdraws ev item"
  shows "outboxLease (otherDelivery ev s) item = outboxLease s item"
proof (cases ev)
  case (CreateEvent gov input uuid clock)
  then show ?thesis using createEvent_effect [OF surjective_pairing, of gov input uuid clock s]
    by (auto simp: outboxLease_def selectOutbox_def)
next
  case (CreateOrGetEvent gov input key uuid clock)
  then show ?thesis using createOrGetEvent_effect [OF surjective_pairing, of gov input key uuid clock s]
    by (auto simp: outboxLease_def selectOutbox_def)
next
  case (EnqueueDelivery input uuid now)
  then show ?thesis using enqueueNotification_effect [OF surjective_pairing, of input uuid now s] assms(2)
    by (auto simp: outboxLease_def selectOutbox_def find_append)
next
  case (Acknowledge oid now)
  show ?thesis
  proof (cases "item = oid")
    case True
    then show ?thesis using Acknowledge assms(2,3) by (simp add: acknowledge_row [OF assms(1)])
  next
    case False
    then show ?thesis using Acknowledge
      by (auto simp: acknowledge_row [OF assms(1)] outboxLease_put dest: selectOutbox_mem(2) split: option.splits)
  qed
next
  case (Suppress oid reason now)
  then show ?thesis using assms(4)
    by (auto simp: suppress_row [OF assms(1)] outboxLease_put dest: selectOutbox_mem(2) split: option.splits)
qed

interpretation outbox: lease_store outbox_wf outboxLease claimNotificationDelivery settleDelivery otherDelivery withdraws
proof unfold_locales
  fix s :: outbox_db and item item' token token' e :: string and now clock timeout :: int and x ev
  show "\<not> date_range (clock + timeout) \<Longrightarrow> claimNotificationDelivery item token now clock timeout s = (Inl RangeError, s)"
    by (simp add: claimNotificationDelivery_def)
  assume wf: "outbox_wf s"
  show "outbox_wf (snd (claimNotificationDelivery item token now clock timeout s))"
    using outbox_step_wf [OF step_claim [OF surjective_pairing] wf] .
  show "outbox_wf (settleDelivery item token x now s)"
    by (cases x) (use outbox_step_wf [OF _ wf] step_complete [OF surjective_pairing] step_fail [OF surjective_pairing] in auto)
  show "outbox_wf (otherDelivery ev s)"
    by (cases ev) (use outbox_step_wf [OF _ wf] step_create [OF surjective_pairing] step_createOrGet [OF surjective_pairing]
      step_enqueue [OF surjective_pairing] step_acknowledge [OF surjective_pairing] step_suppress [OF surjective_pairing] in auto)
  show "date_range (clock + timeout) \<Longrightarrow> outboxLease (snd (claimNotificationDelivery item token now clock timeout s)) item =
      claimLease token (toISOString now) (toISOString (clock + timeout)) (outboxLease s item)"
    by (rule claimDelivery_lease [OF wf])
  show "item' \<noteq> item \<Longrightarrow> outboxLease (snd (claimNotificationDelivery item' token now clock timeout s)) item = outboxLease s item"
  proof (cases "date_range (clock + timeout)")
    case True
    assume "item' \<noteq> item"
    then show ?thesis
      by (auto simp: claimDelivery_row [OF wf True] outboxLease_put dest: selectOutbox_mem(2) split: option.splits)
  qed (simp add: claimNotificationDelivery_def)
  show "item' \<noteq> item \<Longrightarrow> outboxLease (settleDelivery item' token x now s) item = outboxLease s item"
    by (rule settleDelivery_lease [OF wf]) (auto simp: deliveringBy_def dest: selectOutbox_mem(2))
  assume held: "outboxLease s item = Held token' e"
  with wf obtain r where r: "selectOutbox item s = Some r" "ob_id r = item" "ob_status r = Delivering"
    "ob_claimToken r = Some token'" "ob_claimExpiresAt r = Some e" by (rule outboxLease_Held)
  show "\<not> textLess e (toISOString now) \<Longrightarrow> token \<noteq> token' \<Longrightarrow> date_range (clock + timeout) \<Longrightarrow>
      claimNotificationDelivery item token now clock timeout s = (Inr None, s)"
    using claimDelivery_row [OF wf] r by (simp add: claimable_def)
  show "token \<noteq> token' \<Longrightarrow> outboxLease (settleDelivery item token x now s) item = Held token' e"
    using settleDelivery_lease [OF wf, of item item token x now] r held by (simp add: deliveringBy_def)
  show "\<not> withdraws ev item \<Longrightarrow> outboxLease (otherDelivery ev s) item = Held token' e"
    using otherDelivery_lease [OF wf r(1,3)] held by simp
qed

end
