(* ===== verification/Outbox_Props.thy ===== *)
theory Outbox_Props
  imports Notification_Outbox Sample_Space
begin

text \<open>
  What the notification outbox guarantees: consistent tables, exclusive deliveries, accounting of the
  attempts, one success at most, and retries that remain possible.
\<close>

lemma empty_outbox_wf: "outbox_wf empty_outbox"
  by (simp add: outbox_wf_def empty_outbox_def)

subsection \<open>Samples\<close>

definition sample_event :: event_input where
  "sample_event = \<lparr>ei_budgetId = ''b1'', ei_classification = ''budget_alert'', ei_payload = ''{}'', ei_policyVersion = ''p1'',
     ei_recipientId = Some ''ana'', ei_scope = None, ei_redactionClass = None, ei_channelConfigVersion = None,
     ei_correlationId = None, ei_now = Some ''2024-06-01T12:00:00.000Z''\<rparr>"

definition sample_delivery :: outbox_input where
  "sample_delivery = \<lparr>oi_eventId = ''e1'', oi_deliveryKey = ''k1'', oi_channelType = ''email'',
     oi_channelConfigVersion = None, oi_maxAttempts = Some 1, oi_correlationId = None\<rparr>"

definition sample_enqueued :: outbox_db where
  "sample_enqueued = snd (enqueueNotification sample_delivery ''o1'' 0
     (snd (createOrGetNotificationEvent sample_db sample_event ''alert'' ''e1'' 0 empty_outbox)))"

definition sample_outbox :: outbox_db where
  "sample_outbox = snd (claimNotificationDelivery ''o1'' ''w1'' 1000 1001 60000 sample_enqueued)"

lemma sample_outbox_reach: "outbox_reach empty_outbox sample_outbox"
proof -
  have "outbox_step empty_outbox (snd (createOrGetNotificationEvent sample_db sample_event ''alert'' ''e1'' 0 empty_outbox))"
    by (rule step_createOrGet [OF surjective_pairing])
  moreover have "outbox_step (snd (createOrGetNotificationEvent sample_db sample_event ''alert'' ''e1'' 0 empty_outbox)) sample_enqueued"
    unfolding sample_enqueued_def by (rule step_enqueue [OF surjective_pairing])
  moreover have "outbox_step sample_enqueued sample_outbox"
    unfolding sample_outbox_def by (rule step_claim [OF surjective_pairing])
  ultimately show ?thesis by (meson rtranclp.rtrancl_into_rtrancl rtranclp.rtrancl_refl)
qed

lemma sample_outbox_wf: "outbox_wf sample_outbox"
  using outbox_reach_wf [OF sample_outbox_reach empty_outbox_wf] .

lemma sample_outbox_held: "outboxLease sample_outbox ''o1'' = Held ''w1'' ''1970-01-01T00:01:01.001Z''"
  by code_simp

subsection \<open>Consistency\<close>

text \<open>
  C35. Whatever operations run, with or without errors, on empty notification tables: identifiers,
  delivery keys and deduplication identities stay unique, every record refers to its event, a record
  is claimed while it is being delivered, the attempts of a record have increasing numbers up to its
  attempt count, a successful attempt belongs to a delivered record, and a retry is scheduled only
  below the maximum number of attempts.
\<close>
theorem outbox_consistent:
  assumes "outbox_reach empty_outbox s"
  shows "outbox_wf s"
  using outbox_reach_wf [OF assms empty_outbox_wf] .

theorem outbox_consistent_witness: "outbox_wf sample_outbox \<and> map ob_status (nt_outbox sample_outbox) = [Delivering]"
proof
  show "outbox_wf sample_outbox" by (rule outbox_consistent [OF sample_outbox_reach])
  show "map ob_status (nt_outbox sample_outbox) = [Delivering]" by code_simp
qed

subsection \<open>Leases\<close>

text \<open>
  C8. While a worker's lease on a delivery runs, the delivery is its own: whatever other workers and
  producers do in between, in any order, short of suppressing that very notification, the lease
  stays, and a claim with another token gets nothing and changes nothing.
\<close>
theorem delivery_lease_exclusive:
  assumes "outbox_wf s" and "outboxLease s oid = Held token e"
    and "\<forall>ev \<in> set evs. foreign withdraws oid token e ev"
    and "token' \<noteq> token" and "\<not> textLess e (toISOString now)" and "date_range (clock + timeout)"
  shows "let t = fold (leaseStep claimNotificationDelivery settleDelivery otherDelivery) evs s
    in outboxLease t oid = Held token e \<and> claimNotificationDelivery oid token' now clock timeout t = (Inr None, t)"
  using outbox.lease_exclusive [OF assms(1-5)] assms(6) by (simp add: Let_def)

theorem delivery_lease_exclusive_witness:
  "let t = fold (leaseStep claimNotificationDelivery settleDelivery otherDelivery)
       [Claim ''o1'' ''w2'' 2000 2000 60000, Settle ''o1'' ''w2'' (Undelivered ''gone'' True ''a9'') 2500,
        Other (Acknowledge ''o1'' 2600)] sample_outbox
   in outboxLease t ''o1'' = Held ''w1'' ''1970-01-01T00:01:01.001Z'' \<and>
     claimNotificationDelivery ''o1'' ''w2'' 3000 3000 60000 t = (Inr None, t)"
proof (rule delivery_lease_exclusive [OF sample_outbox_wf sample_outbox_held])
  have "\<not> textLess ''1970-01-01T00:01:01.001Z'' (toISOString 2000)" by code_simp
  then show "\<forall>ev \<in> set [Claim ''o1'' ''w2'' 2000 2000 60000, Settle ''o1'' ''w2'' (Undelivered ''gone'' True ''a9'') 2500,
        Other (Acknowledge ''o1'' 2600)]. foreign withdraws ''o1'' ''w1'' ''1970-01-01T00:01:01.001Z'' ev" by simp
  show "\<not> textLess ''1970-01-01T00:01:01.001Z'' (toISOString 3000)" by code_simp
qed (simp_all add: date_range_def)

subsection \<open>Settlement\<close>

text \<open>
  C36. A failed delivery can be retried exactly when it should be: \<open>failNotificationDelivery\<close> by the
  holder, with a fresh attempt identifier, records the attempt under its number and leaves the
  delivery free from that instant on when it is retryable with attempts left, and settled otherwise.
\<close>
theorem failed_delivery_retry:
  assumes "outbox_wf s" and "selectOutbox oid s = Some r" and "deliveringBy oid token r"
    and "attemptId \<notin> da_id ` set (nt_attempts s)"
  shows "\<exists>q t a. failNotificationDelivery oid token msg retryable attemptId now s = (Inr q, t) \<and>
    attemptsOf oid t = attemptsOf oid s @ [a] \<and> da_attemptNumber a = ob_attemptCount r \<and> da_status a = AttemptFailed \<and>
    outboxLease t oid = (if retryable \<and> int (ob_attemptCount r) < ob_maxAttempts r
      then Free (Some (toISOString now)) else Settled)"
proof -
  let ?a = "newAttempt attemptId oid AttemptFailed None None (Some msg) (toISOString now) r"
  let ?r = "retryRow retryable (toISOString now) (failOutbox msg (toISOString now) r)"
  have id: "ob_id r = oid" using selectOutbox_mem(2) [OF assms(2)] .
  have next_none: "ob_nextAttemptAt r = None"
    using row_okD [OF assms(1,2)] assms(3) unfolding row_ok_def deliveringBy_def by blast
  have "failNotificationDelivery oid token msg retryable attemptId now s = (Inr ?r, putRow ?r [?a] s)"
    using assms(2-4) by (simp add: failDelivery_row [OF assms(1)] Let_def)
  moreover have "attemptsOf oid (putRow ?r [?a] s) = attemptsOf oid s @ [?a]" by (simp add: attemptsOf_put)
  moreover have "outboxLease (putRow ?r [?a] s) oid = rowLease ?r" using assms(2) id by (simp add: outboxLease_put)
  moreover have "rowLease ?r = (if retryable \<and> int (ob_attemptCount r) < ob_maxAttempts r
      then Free (Some (toISOString now)) else Settled)"
    using next_none by (simp add: retryRow_def rowLease_def scheduleRetryOutbox_def failOutbox_def)
  ultimately show ?thesis by (intro exI [of _ ?r] exI [of _ "putRow ?r [?a] s"] exI [of _ ?a]) simp
qed

lemma sample_delivering:
  "\<exists>r. selectOutbox ''o1'' sample_outbox = Some r \<and> deliveringBy ''o1'' ''w1'' r \<and> ob_attemptCount r = 1 \<and> ob_maxAttempts r = 1"
proof -
  have "map_option (\<lambda>r. deliveringBy ''o1'' ''w1'' r \<and> ob_attemptCount r = 1 \<and> ob_maxAttempts r = 1)
    (selectOutbox ''o1'' sample_outbox) = Some True" by code_simp
  then show ?thesis by (cases "selectOutbox ''o1'' sample_outbox") auto
qed

lemma sample_no_attempts: "nt_attempts sample_outbox = []"
  by code_simp

theorem failed_delivery_retry_witness:
  "\<exists>q t. failNotificationDelivery ''o1'' ''w1'' ''bounced'' True ''a1'' 5000 sample_outbox = (Inr q, t) \<and>
     length (attemptsOf ''o1'' t) = 1 \<and> outboxLease t ''o1'' = Settled"
proof -
  obtain r where r: "selectOutbox ''o1'' sample_outbox = Some r" "deliveringBy ''o1'' ''w1'' r"
    "ob_attemptCount r = 1" "ob_maxAttempts r = 1" using sample_delivering by blast
  from failed_delivery_retry [OF sample_outbox_wf r(1,2), of "''a1''" "''bounced''" True 5000] r(3,4)
  show ?thesis by (auto simp: sample_no_attempts attemptsOf_def)
qed

lemma settled_row_step:
  assumes "outbox_step s t" "outbox_wf s" "selectOutbox oid s = Some r" "ob_status r \<in> {Delivered, Suppressed}"
  shows "\<exists>r'. selectOutbox oid t = Some r' \<and> ob_status r' = ob_status r \<and> ob_attemptCount r' = ob_attemptCount r \<and>
    attemptsOf oid t = attemptsOf oid s"
  using assms(1)
proof cases
  case (step_create gov input uuid clock q)
  from createEvent_effect [OF this] assms(3) show ?thesis by (auto simp: selectOutbox_def attemptsOf_def)
next
  case (step_createOrGet gov input dedupKey uuid clock q)
  from createOrGetEvent_effect [OF this] assms(3) show ?thesis by (auto simp: selectOutbox_def attemptsOf_def)
next
  case (step_enqueue input uuid now q)
  from enqueueNotification_effect [OF this] assms(3) show ?thesis by (auto simp: selectOutbox_def attemptsOf_def find_append)
next
  case (step_claim item token now clock timeout v)
  show ?thesis
  proof (cases "date_range (clock + timeout)")
    case True
    have "\<not> claimable (toISOString now) r" using assms(4) by (auto simp: claimable_def)
    with step_claim assms(3) show ?thesis
      by (cases "item = oid") (auto simp: claimDelivery_row [OF assms(2) True] selectOutbox_put attemptsOf_put
          dest: selectOutbox_mem(2) split: option.splits if_splits)
  next
    case False
    then show ?thesis using step_claim assms(3) by (simp add: claimNotificationDelivery_def)
  qed
next
  case (step_complete item token response attemptId now q)
  have "\<not> deliveringBy oid token r" using assms(4) by (auto simp: deliveringBy_def)
  with step_complete assms(3) show ?thesis
    by (cases "item = oid") (auto simp: completeDelivery_row [OF assms(2)] selectOutbox_put attemptsOf_put Let_def
        dest: selectOutbox_mem(2) split: option.splits if_splits)
next
  case (step_fail item token msg retryable attemptId now q)
  have "\<not> deliveringBy oid token r" using assms(4) by (auto simp: deliveringBy_def)
  with step_fail assms(3) show ?thesis
    by (cases "item = oid") (auto simp: failDelivery_row [OF assms(2)] selectOutbox_put attemptsOf_put Let_def
        dest: selectOutbox_mem(2) split: option.splits if_splits)
next
  case (step_acknowledge item now q)
  with assms(3) show ?thesis
    by (cases "item = oid") (auto simp: acknowledge_row [OF assms(2)] selectOutbox_put attemptsOf_put acknowledgeOutbox_def
        dest: selectOutbox_mem(2) split: option.splits if_splits)
next
  case (step_suppress item reason now q)
  with assms(3,4) show ?thesis
    by (cases "item = oid") (auto simp: suppress_row [OF assms(2)] selectOutbox_put attemptsOf_put
        dest: selectOutbox_mem(2) split: option.splits if_splits)
qed

text \<open>
  C9. A notification is delivered once: once a delivery is delivered or suppressed it stays so, through
  any sequence of operations, with the same attempt count and the same attempts; no worker gets to
  send it again and no further attempt is recorded.
\<close>
theorem delivered_once:
  assumes "outbox_reach s t" and "outbox_wf s" and "selectOutbox oid s = Some r" and "ob_status r \<in> {Delivered, Suppressed}"
  shows "\<exists>r'. selectOutbox oid t = Some r' \<and> ob_status r' = ob_status r \<and> ob_attemptCount r' = ob_attemptCount r \<and>
    attemptsOf oid t = attemptsOf oid s"
  using assms(1)
proof (induction rule: rtranclp_induct)
  case (step u v)
  then obtain r' where r': "selectOutbox oid u = Some r'" "ob_status r' = ob_status r" "ob_attemptCount r' = ob_attemptCount r"
    "attemptsOf oid u = attemptsOf oid s" by blast
  from settled_row_step [OF step.hyps(2) outbox_reach_wf [OF step.hyps(1) assms(2)] r'(1)] r'(2-) assms(4)
  show ?case by auto
qed (use assms(3) in simp)

theorem delivered_once_witness:
  "\<exists>r. selectOutbox ''o1'' (snd (claimNotificationDelivery ''o1'' ''w2'' 99000 99000 60000
       (snd (completeNotificationDelivery ''o1'' ''w1'' (None, None) ''a1'' 5000 sample_outbox)))) = Some r \<and>
     ob_status r = Delivered \<and> ob_attemptCount r = 1"
proof -
  let ?s = "snd (completeNotificationDelivery ''o1'' ''w1'' (None, None) ''a1'' 5000 sample_outbox)"
  have wf: "outbox_wf ?s" by (rule outbox_step_wf [OF step_complete [OF surjective_pairing] sample_outbox_wf])
  have "map_option (\<lambda>r. (ob_status r, ob_attemptCount r)) (selectOutbox ''o1'' ?s) = Some (Delivered, 1)" by code_simp
  then obtain r where r: "selectOutbox ''o1'' ?s = Some r" "ob_status r = Delivered" "ob_attemptCount r = 1" by auto
  have "outbox_step ?s (snd (claimNotificationDelivery ''o1'' ''w2'' 99000 99000 60000 ?s))"
    by (rule step_claim [OF surjective_pairing])
  from delivered_once [OF r_into_rtranclp [of outbox_step, OF this] wf r(1)] r(2,3) show ?thesis by auto
qed

subsection \<open>Deduplication\<close>

text \<open>
  Producing a deduplicated notification twice: on consistent tables, a second
  \<open>createOrGetNotificationEvent\<close> with the same key by a producer that sees the same provenance
  (recipient, scope, budget, space, membership period) returns the event of the first and adds none.
\<close>
theorem notification_deduplicated:
  assumes "outbox_wf s" and "createOrGetNotificationEvent gov input key uuid clock s = (Inr e, t)"
    and "notificationProvenance gov input (eventTime input clock) = notificationProvenance gov' input' (eventTime input' clock')"
    and "ei_budgetId input' = ei_budgetId input" and "ei_recipientId input' = ei_recipientId input"
    and "ei_scope input' = ei_scope input"
  shows "createOrGetNotificationEvent gov' input' key uuid' clock' t = (Inr e, t)"
proof -
  from assms(2) obtain p where p: "notificationProvenance gov input (eventTime input clock) = Inr p"
    by (auto simp: createOrGetNotificationEvent_def Let_def bindOp_def reads_def split: sum.splits)
  let ?row = "eventRow uuid input p (eventTime input clock) (Some key)"
  let ?row' = "eventRow uuid' input' p (eventTime input' clock') (Some key)"
  have same: "dedupIdentity ?row' = dedupIdentity ?row" "ne_dedupKey ?row' = ne_dedupKey ?row" "ne_dedupKey ?row \<noteq> None"
    using assms(4-6) by (simp_all add: dedupIdentity_def eventRow_def)
  from assms(2) p obtain x where x: "selectNotificationEventByDedupIdentity ?row t = Some x" "e = rowToNotificationEvent x"
    by (auto simp: createOrGetNotificationEvent_def Let_def bindOp_def reads_def insertOrIgnoreNotificationEvent_def
        split: option.splits)
  then have "x \<in> set (nt_events t)" "dedupIdentity x = dedupIdentity ?row"
    unfolding selectNotificationEventByDedupIdentity_def by (auto dest: find_SomeD)
  then have "eventClash ?row' x" using same by (simp add: eventClash_def)
  with \<open>x \<in> set (nt_events t)\<close> have "list_ex (eventClash ?row') (nt_events t)" by (auto simp: list_ex_iff)
  moreover have "selectNotificationEventByDedupIdentity ?row' t = Some x"
    using x(1) same by (simp add: selectNotificationEventByDedupIdentity_def)
  ultimately show ?thesis using p x(2) assms(3)
    by (simp add: createOrGetNotificationEvent_def Let_def bindOp_def reads_def insertOrIgnoreNotificationEvent_def)
qed

theorem notification_deduplicated_witness:
  "\<exists>e t. createOrGetNotificationEvent sample_db sample_event ''alert'' ''e1'' 0 empty_outbox = (Inr e, t) \<and> ne_id e = ''e1'' \<and>
     createOrGetNotificationEvent sample_db (sample_event\<lparr>ei_payload := ''[1]''\<rparr>) ''alert'' ''e2'' 7 t = (Inr e, t)"
proof -
  let ?run = "createOrGetNotificationEvent sample_db sample_event ''alert'' ''e1'' 0 empty_outbox"
  have "map_sum id ne_id (fst ?run) = Inr ''e1''" by code_simp
  then obtain e where e: "fst ?run = Inr e" "ne_id e = ''e1''" by (cases "fst ?run") auto
  then have run: "?run = (Inr e, snd ?run)" by (simp add: prod_eq_iff)
  have "notificationProvenance sample_db sample_event (eventTime sample_event 0) =
      notificationProvenance sample_db (sample_event\<lparr>ei_payload := ''[1]''\<rparr>) (eventTime (sample_event\<lparr>ei_payload := ''[1]''\<rparr>) 7)"
    by (simp add: notificationProvenance_def eventTime_def sample_event_def split: option.split)
  from notification_deduplicated [OF empty_outbox_wf run this, of "''e2''"] run e(2) show ?thesis by fastforce
qed

subsection \<open>Attempts beyond the maximum\<close>

text \<open>
  A lease that expires is taken over without regard to the maximum: here the only attempt allowed has
  been made, and a second one starts.
\<close>

lemma attempts_exceed_maximum:
  "map (\<lambda>r. (ob_status r, ob_attemptCount r, ob_maxAttempts r))
     (nt_outbox (snd (claimNotificationDelivery ''o1'' ''w2'' 62000 62000 60000 sample_outbox))) = [(Delivering, 2, 1)]"
  by code_simp

text \<open>A suppressed record keeps its claim token, so its former holder is still handed the record.\<close>

lemma suppressed_still_claimed:
  "map_sum id (map_option ob_status) (fst (claimNotificationDelivery ''o1'' ''w1'' 4000 4000 60000
     (snd (suppressNotification ''o1'' ''muted'' 3000 sample_outbox)))) = Inr (Some Suppressed)"
  by code_simp

end
