(* ===== verification/Idempotency.thy ===== *)
theory Idempotency
  imports Iso_Time
begin

text \<open>
  Idempotency records of the workflow store (\<^verbatim>\<open>store.ts\<close>): the claim of an idempotency key by the
  execution of a proposal, its completion, and the reconciliation of executions that were stranded
  by a crash. A reconciliation leaves alone what a consequential action has in flight, which it reads
  from the proposals; \<open>ip_proposals\<close> holds the columns of that table the statements look at.
\<close>

subsection \<open>Data\<close>

datatype idempotency_status = InProgress | Succeeded | RetryableFailed | TerminalFailed

record idempotency_record =
  ir_key :: string
  ir_proposalId :: string
  ir_operation :: string
  ir_executedAt :: string
  ir_completed :: bool
  ir_status :: idempotency_status
  ir_leaseExpiresAt :: "string option"
  ir_serialisedEffect :: string
  ir_serialisedResult :: "string option"
  ir_errorMessage :: "string option"
  ir_updatedAt :: string

record idempotency_input =
  ii_key :: string
  ii_proposalId :: string
  ii_operation :: string
  ii_serialisedEffect :: string
  ii_leaseDurationMs :: "int option"

record idempotency_claim =
  ic_record :: idempotency_record
  ic_isOwner :: bool

record proposal_phase =
  pp_id :: string
  pp_operation :: string
  pp_phase :: "string option"

record idempotency_db =
  ip_records :: "idempotency_record list"
  ip_proposals :: "proposal_phase list"

subsection \<open>Statements\<close>

definition selectIdempotency :: "string \<Rightarrow> idempotency_db \<Rightarrow> idempotency_record option" where
  "selectIdempotency key s = find (\<lambda>r. ir_key r = key) (ip_records s)"

definition insertIdempotency :: "idempotency_input \<Rightarrow> string \<Rightarrow> string \<Rightarrow> idempotency_record" where
  "insertIdempotency input now leaseExpiresAt = \<lparr>ir_key = ii_key input, ir_proposalId = ii_proposalId input,
     ir_operation = ii_operation input, ir_executedAt = now, ir_completed = False, ir_status = InProgress,
     ir_leaseExpiresAt = Some leaseExpiresAt, ir_serialisedEffect = ii_serialisedEffect input,
     ir_serialisedResult = None, ir_errorMessage = None, ir_updatedAt = now\<rparr>"

definition completable :: "string \<Rightarrow> idempotency_record \<Rightarrow> bool" where
  "completable key r \<longleftrightarrow> ir_key r = key \<and> ir_status r \<in> {InProgress, RetryableFailed}"

definition completeIdempotencyStmt :: "idempotency_status \<Rightarrow> string option \<Rightarrow> string option \<Rightarrow> string \<Rightarrow>
    idempotency_record \<Rightarrow> idempotency_record" where
  "completeIdempotencyStmt status errorMessage serialisedResult now r = r\<lparr>ir_completed := True, ir_status := status,
     ir_errorMessage := errorMessage,
     ir_serialisedResult := (if status = Succeeded then serialisedResult else None), ir_updatedAt := now\<rparr>"

definition inFlight :: "idempotency_db \<Rightarrow> idempotency_record \<Rightarrow> bool" where
  "inFlight s r \<longleftrightarrow> list_ex (\<lambda>p. pp_id p = ir_proposalId r \<and> pp_operation p = ''consequential_action'' \<and>
     pp_phase p \<in> {Some ''write_intent'', Some ''review_required''}) (ip_proposals s)"

definition stranded :: "idempotency_db \<Rightarrow> string \<Rightarrow> idempotency_record \<Rightarrow> bool" where
  "stranded s now r \<longleftrightarrow> ir_status r = InProgress \<and>
     (case ir_leaseExpiresAt r of None \<Rightarrow> False | Some e \<Rightarrow> \<not> textLess now e) \<and> \<not> inFlight s r"

text \<open>The source writes a long dash in the message; the model has a hyphen for it.\<close>

definition updateStrandedIdempotencyStmt :: "string \<Rightarrow> idempotency_record \<Rightarrow> idempotency_record" where
  "updateStrandedIdempotencyStmt now r = r\<lparr>ir_status := RetryableFailed,
     ir_errorMessage := Some ''Lease expired - stranded in_progress record reconciled'', ir_updatedAt := now\<rparr>"

subsection \<open>Operations\<close>

definition replayMismatch :: "idempotency_input \<Rightarrow> idempotency_record \<Rightarrow> string" where
  "replayMismatch input existing = ''Idempotency key '' @ ii_key input @ '' replay mismatch: already recorded for proposal '' @
     ir_proposalId existing @ '' (op: '' @ ir_operation existing @ ''), cannot reuse with proposal '' @
     ii_proposalId input @ '' (op: '' @ ii_operation input @ '')''"

definition createIdempotencyRecord :: "idempotency_input \<Rightarrow> int \<Rightarrow> int \<Rightarrow> (idempotency_db, idempotency_claim) op" where
  "createIdempotencyRecord input now clock s =
     (let lease = clock + (case ii_leaseDurationMs input of None \<Rightarrow> 60000 | Some ms \<Rightarrow> ms) in
      if \<not> date_range lease then (Inl RangeError, s)
      else case selectIdempotency (ii_key input) s of
        None \<Rightarrow>
          (let row = insertIdempotency input (toISOString now) (toISOString lease)
           in (Inr \<lparr>ic_record = row, ic_isOwner = True\<rparr>, s\<lparr>ip_records := ip_records s @ [row]\<rparr>))
      | Some existing \<Rightarrow>
          if ir_proposalId existing \<noteq> ii_proposalId input \<or> ir_operation existing \<noteq> ii_operation input
          then (Inl (Error (replayMismatch input existing)), s)
          else if ir_serialisedEffect existing \<noteq> ii_serialisedEffect input
          then (Inl (Error (''Idempotency key '' @ ii_key input @
            '' replay mismatch: serialised effect differs from original'')), s)
          else (Inr \<lparr>ic_record = existing, ic_isOwner = False\<rparr>, s))"

text \<open>An empty error message is no error: JavaScript takes the empty text for false.\<close>

definition completionStatus :: "string option \<Rightarrow> bool \<Rightarrow> idempotency_status" where
  "completionStatus errorMessage isRetryable =
     (if errorMessage = None \<or> errorMessage = Some [] then Succeeded
      else if isRetryable then RetryableFailed else TerminalFailed)"

definition completeIdempotencyRecord :: "string \<Rightarrow> string option \<Rightarrow> bool \<Rightarrow> string option \<Rightarrow> int \<Rightarrow>
    (idempotency_db, idempotency_record) op" where
  "completeIdempotencyRecord key errorMessage isRetryable serialisedResult now s =
     (let t = s\<lparr>ip_records := updateWhere (completable key)
          (completeIdempotencyStmt (completionStatus errorMessage isRetryable) errorMessage serialisedResult (toISOString now))
          (ip_records s)\<rparr>
      in case selectIdempotency key t of None \<Rightarrow> (Inl TypeError, t) | Some r \<Rightarrow> (Inr r, t))"

definition findStrandedIdempotencyRecords :: "int \<Rightarrow> idempotency_db \<Rightarrow> idempotency_record list" where
  "findStrandedIdempotencyRecords now s = filter (stranded s (toISOString now)) (ip_records s)"

definition reconcileStrandedIdempotencyRecords :: "int \<Rightarrow> (idempotency_db, nat) op" where
  "reconcileStrandedIdempotencyRecords now s =
     (Inr (changes (stranded s (toISOString now)) (ip_records s)),
      s\<lparr>ip_records := updateWhere (stranded s (toISOString now)) (updateStrandedIdempotencyStmt (toISOString now)) (ip_records s)\<rparr>)"

text \<open>How the settlement of a consequential action completes its record.\<close>

definition settleAction :: "string \<Rightarrow> string \<Rightarrow> idempotency_status \<Rightarrow> string option \<Rightarrow> string \<Rightarrow> string \<Rightarrow>
    (idempotency_db, unit) op" where
  "settleAction key proposalId status errorMessage stateJson now s =
     (let p = (\<lambda>r. ir_key r = key \<and> ir_proposalId r = proposalId \<and> ir_operation r = ''consequential_action'' \<and>
          \<not> ir_completed r \<and> ir_status r = InProgress)
      in if changes p (ip_records s) \<noteq> 1 then (Inl (Error ''Consequential-action idempotency claim changed''), s)
        else (Inr (), s\<lparr>ip_records := updateWhere p (\<lambda>r. r\<lparr>ir_completed := True, ir_status := status,
          ir_errorMessage := errorMessage, ir_serialisedResult := (if status = Succeeded then Some stateJson else None),
          ir_leaseExpiresAt := None, ir_updatedAt := now\<rparr>) (ip_records s)\<rparr>))"

inductive idempotency_step :: "idempotency_db \<Rightarrow> idempotency_db \<Rightarrow> bool" where
  step_create: "createIdempotencyRecord input now clock s = (c, t) \<Longrightarrow> idempotency_step s t"
| step_complete: "completeIdempotencyRecord key err retryable res now s = (r, t) \<Longrightarrow> idempotency_step s t"
| step_reconcile: "reconcileStrandedIdempotencyRecords now s = (n, t) \<Longrightarrow> idempotency_step s t"
| step_settle: "settleAction key proposalId status err state nowText s = (u, t) \<Longrightarrow> idempotency_step s t"
| step_proposals: "t = s\<lparr>ip_proposals := ps\<rparr> \<Longrightarrow> idempotency_step s t"

abbreviation idempotency_reach :: "idempotency_db \<Rightarrow> idempotency_db \<Rightarrow> bool" where
  "idempotency_reach \<equiv> idempotency_step\<^sup>*\<^sup>*"

subsection \<open>What a record keeps\<close>

text \<open>The execution a key is bound to never changes, and a final record does not change at all.\<close>

definition kept :: "idempotency_record \<Rightarrow> idempotency_record \<Rightarrow> bool" where
  "kept r r' \<longleftrightarrow> ir_key r' = ir_key r \<and> ir_proposalId r' = ir_proposalId r \<and> ir_operation r' = ir_operation r \<and>
     ir_serialisedEffect r' = ir_serialisedEffect r \<and> ir_executedAt r' = ir_executedAt r \<and>
     (ir_status r \<in> {Succeeded, TerminalFailed} \<longrightarrow> r' = r)"

lemma kept_refl: "kept r r"
  by (simp add: kept_def)

lemma kept_trans: "kept r r' \<Longrightarrow> kept r' r'' \<Longrightarrow> kept r r''"
  by (auto simp: kept_def)

lemma select_update:
  assumes "selectIdempotency key s = Some r" "\<And>x. ir_key (f x) = ir_key x" "\<And>x. p x \<Longrightarrow> kept x (f x)"
  shows "\<exists>r'. selectIdempotency key (s\<lparr>ip_records := updateWhere p f (ip_records s)\<rparr>) = Some r' \<and> kept r r'"
  using assms(1) find_key_updateWhere [of ir_key f, OF assms(2)] assms(3) kept_refl
  by (simp add: selectIdempotency_def)

lemma step_kept:
  assumes "idempotency_step s t" "selectIdempotency key s = Some r"
  shows "\<exists>r'. selectIdempotency key t = Some r' \<and> kept r r'"
  using assms(1)
proof cases
  case (step_create input now clock c)
  then have "t = s \<or> (\<exists>row. t = s\<lparr>ip_records := ip_records s @ [row]\<rparr>)"
    by (auto simp: createIdempotencyRecord_def Let_def split: if_splits option.splits)
  then show ?thesis using assms(2) kept_refl by (auto simp: selectIdempotency_def find_append)
next
  case (step_complete key' err retryable res now q)
  let ?f = "completeIdempotencyStmt (completionStatus err retryable) err res (toISOString now)"
  have "t = s\<lparr>ip_records := updateWhere (completable key') ?f (ip_records s)\<rparr>"
    using step_complete by (auto simp: completeIdempotencyRecord_def Let_def split: option.splits)
  moreover have "\<And>x. completable key' x \<Longrightarrow> kept x (?f x)" "\<And>x. ir_key (?f x) = ir_key x"
    by (auto simp: completable_def kept_def completeIdempotencyStmt_def)
  ultimately show ?thesis using select_update [OF assms(2)] by simp
next
  case (step_reconcile now n)
  let ?f = "updateStrandedIdempotencyStmt (toISOString now)"
  have "t = s\<lparr>ip_records := updateWhere (stranded s (toISOString now)) ?f (ip_records s)\<rparr>"
    using step_reconcile by (simp add: reconcileStrandedIdempotencyRecords_def)
  moreover have "\<And>x. stranded s (toISOString now) x \<Longrightarrow> kept x (?f x)" "\<And>x. ir_key (?f x) = ir_key x"
    by (auto simp: stranded_def kept_def updateStrandedIdempotencyStmt_def)
  ultimately show ?thesis using select_update [OF assms(2)] by simp
next
  case (step_settle key' proposalId status err state nowText u)
  let ?p = "\<lambda>r. ir_key r = key' \<and> ir_proposalId r = proposalId \<and> ir_operation r = ''consequential_action'' \<and>
    \<not> ir_completed r \<and> ir_status r = InProgress"
  let ?f = "\<lambda>r. r\<lparr>ir_completed := True, ir_status := status, ir_errorMessage := err,
    ir_serialisedResult := (if status = Succeeded then Some state else None), ir_leaseExpiresAt := None, ir_updatedAt := nowText\<rparr>"
  have "t = s \<or> t = s\<lparr>ip_records := updateWhere ?p ?f (ip_records s)\<rparr>"
    using step_settle by (simp add: settleAction_def Let_def split: if_splits)
  moreover have "\<exists>r'. selectIdempotency key (s\<lparr>ip_records := updateWhere ?p ?f (ip_records s)\<rparr>) = Some r' \<and> kept r r'"
    by (rule select_update [OF assms(2)]) (auto simp: kept_def)
  ultimately show ?thesis using assms(2) kept_refl by auto
next
  case (step_proposals ps)
  then show ?thesis using assms(2) kept_refl by (auto simp: selectIdempotency_def)
qed

lemma reach_kept:
  assumes "idempotency_reach s t" "selectIdempotency key s = Some r"
  shows "\<exists>r'. selectIdempotency key t = Some r' \<and> kept r r'"
  using assms(1)
proof (induction rule: rtranclp_induct)
  case base
  then show ?case using assms(2) kept_refl by blast
next
  case (step u v)
  then obtain r' where "selectIdempotency key u = Some r'" "kept r r'" by blast
  with step_kept [OF step.hyps(2)] kept_trans show ?case by blast
qed

lemma create_selects:
  assumes "createIdempotencyRecord input now clock s = (Inr c, t)"
  shows "selectIdempotency (ii_key input) t = Some (ic_record c)"
proof -
  have "selectIdempotency (ii_key input) s = Some (ic_record c) \<and> t = s \<or>
    selectIdempotency (ii_key input) s = None \<and> t = s\<lparr>ip_records := ip_records s @ [ic_record c]\<rparr> \<and>
      ir_key (ic_record c) = ii_key input"
    using assms by (auto simp: createIdempotencyRecord_def Let_def insertIdempotency_def split: if_splits option.splits)
  then show ?thesis by (auto simp: selectIdempotency_def find_append)
qed

lemma create_binding:
  assumes "createIdempotencyRecord input now clock s = (Inr c, t)"
  shows "ir_proposalId (ic_record c) = ii_proposalId input \<and> ir_operation (ic_record c) = ii_operation input \<and>
    ir_serialisedEffect (ic_record c) = ii_serialisedEffect input"
  using assms by (auto simp: createIdempotencyRecord_def Let_def insertIdempotency_def split: if_splits option.splits)

subsection \<open>At most one execution\<close>

definition sample_claim :: idempotency_input where
  "sample_claim = \<lparr>ii_key = ''k1'', ii_proposalId = ''p1'', ii_operation = ''set_category'', ii_serialisedEffect = ''{}'',
     ii_leaseDurationMs = None\<rparr>"

definition sample_records :: idempotency_db where
  "sample_records = snd (createIdempotencyRecord sample_claim 0 5 \<lparr>ip_records = [], ip_proposals = []\<rparr>)"

lemma sample_claimed:
  "\<exists>c. createIdempotencyRecord sample_claim 0 5 \<lparr>ip_records = [], ip_proposals = []\<rparr> = (Inr c, sample_records)"
proof -
  have "map_sum id ic_isOwner (fst (createIdempotencyRecord sample_claim 0 5 \<lparr>ip_records = [], ip_proposals = []\<rparr>)) = Inr True"
    by code_simp
  then show ?thesis unfolding sample_records_def
    by (cases "fst (createIdempotencyRecord sample_claim 0 5 \<lparr>ip_records = [], ip_proposals = []\<rparr>)") (auto simp: prod_eq_iff)
qed

text \<open>
  C10. At most one caller owns an idempotency key: once a claim of the key has been answered, whatever
  completions, reconciliations and settlements follow, no later claim of it is told that it owns the
  execution.
\<close>
theorem idempotency_single_owner:
  assumes "createIdempotencyRecord input now clock s = (Inr c, t)" and "idempotency_reach t u"
    and "ii_key input' = ii_key input"
  shows "fst (createIdempotencyRecord input' now' clock' u) \<noteq> Inr \<lparr>ic_record = r, ic_isOwner = True\<rparr>"
proof -
  from reach_kept [OF assms(2) create_selects [OF assms(1)]] obtain r' where
    "selectIdempotency (ii_key input') u = Some r'" unfolding assms(3) by blast
  then show ?thesis by (simp add: createIdempotencyRecord_def Let_def)
qed

theorem idempotency_single_owner_witness:
  "fst (createIdempotencyRecord sample_claim 90000 90000 (snd (reconcileStrandedIdempotencyRecords 80000 sample_records))) \<noteq>
     Inr \<lparr>ic_record = insertIdempotency sample_claim ''a'' ''b'', ic_isOwner = True\<rparr>"
proof -
  obtain c where c: "createIdempotencyRecord sample_claim 0 5 \<lparr>ip_records = [], ip_proposals = []\<rparr> = (Inr c, sample_records)"
    using sample_claimed by blast
  have "idempotency_step sample_records (snd (reconcileStrandedIdempotencyRecords 80000 sample_records))"
    by (rule step_reconcile [OF surjective_pairing])
  from idempotency_single_owner [OF c r_into_rtranclp [of idempotency_step, OF this] refl] show ?thesis .
qed

text \<open>
  C37. A key stays bound to what it was claimed for: after a claim, and after any further operations, the
  record of the key has the same proposal, operation and effect; if it was final then it is still the
  same record; and a claim of the key for another proposal, operation or effect is answered with an
  error and changes nothing.
\<close>
theorem idempotency_binding:
  assumes "createIdempotencyRecord input now clock s = (Inr c, t)" and "idempotency_reach t u"
    and "ii_key input' = ii_key input"
    and "(ii_proposalId input', ii_operation input', ii_serialisedEffect input') \<noteq>
      (ii_proposalId input, ii_operation input, ii_serialisedEffect input)"
  shows "(\<exists>r. selectIdempotency (ii_key input) u = Some r \<and> kept (ic_record c) r) \<and>
    (\<exists>e. createIdempotencyRecord input' now' clock' u = (Inl e, u))"
proof -
  from reach_kept [OF assms(2) create_selects [OF assms(1)]] obtain r where
    r: "selectIdempotency (ii_key input) u = Some r" "kept (ic_record c) r" by blast
  then have "\<exists>e. createIdempotencyRecord input' now' clock' u = (Inl e, u)"
    using assms(3,4) create_binding [OF assms(1)] by (auto simp: createIdempotencyRecord_def Let_def kept_def)
  with r show ?thesis by blast
qed

theorem idempotency_binding_witness:
  "\<exists>e. createIdempotencyRecord (sample_claim\<lparr>ii_serialisedEffect := ''{1}''\<rparr>) 90000 90000 sample_records = (Inl e, sample_records)"
proof -
  obtain c where c: "createIdempotencyRecord sample_claim 0 5 \<lparr>ip_records = [], ip_proposals = []\<rparr> = (Inr c, sample_records)"
    using sample_claimed by blast
  from idempotency_binding [OF c rtranclp.rtrancl_refl, of "sample_claim\<lparr>ii_serialisedEffect := ''{1}''\<rparr>" 90000 90000]
  show ?thesis by (simp add: sample_claim_def)
qed

end
