(* ===== verification/Audit_Trail.thy ===== *)
theory Audit_Trail
  imports Authorization
begin

text \<open>
  The audit records of the workflow store (\<^verbatim>\<open>store.ts\<close>: \<open>insertAudit\<close>, \<open>appendAuditRecord\<close>,
  \<open>rowToAudit\<close> and the queries). The column of the authorization disposition holds text; a reader parses
  it as JSON. The model keeps apart the two kinds of text the writers of this column produce: what
  \<open>JSON.stringify\<close> makes of a disposition, and plain text that is not JSON.
\<close>

datatype disposition_column = DispositionJson disposition | PlainText string

record 'd audit_entry =
  ad_id :: string
  ad_classification :: string
  ad_timestamp :: string
  ad_actorId :: string
  ad_operation :: "string option"
  ad_proposalId :: "string option"
  ad_payloadHash :: "string option"
  ad_budgetId :: "string option"
  ad_backendIds :: string
  ad_policyVersion :: "string option"
  ad_authorizationDisposition :: "'d option"
  ad_idempotencyKey :: "string option"
  ad_expectedPriorState :: "string option"
  ad_observedResultState :: "string option"
  ad_providerModel :: "string option"
  ad_correlationId :: "string option"
  ad_requestId :: "string option"
  ad_result :: string
  ad_isError :: bool

type_synonym trail_row = "disposition_column audit_entry"
type_synonym audit_record = "disposition audit_entry"

record audit_input =
  ai_classification :: string
  ai_actorId :: string
  ai_operation :: "string option"
  ai_proposalId :: "string option"
  ai_payloadHash :: "string option"
  ai_budgetId :: "string option"
  ai_backendIds :: "string option"
  ai_policyVersion :: "string option"
  ai_authorizationDisposition :: "disposition option"
  ai_idempotencyKey :: "string option"
  ai_expectedPriorState :: "string option"
  ai_observedResultState :: "string option"
  ai_providerModel :: "string option"
  ai_correlationId :: "string option"
  ai_requestId :: "string option"
  ai_result :: string
  ai_isError :: "bool option"

definition auditOf :: "string \<Rightarrow> audit_input \<Rightarrow> string \<Rightarrow> 'd option \<Rightarrow> 'd audit_entry" where
  "auditOf aid input now d = \<lparr>ad_id = aid, ad_classification = ai_classification input, ad_timestamp = now,
     ad_actorId = ai_actorId input, ad_operation = ai_operation input, ad_proposalId = ai_proposalId input,
     ad_payloadHash = ai_payloadHash input, ad_budgetId = ai_budgetId input,
     ad_backendIds = (case ai_backendIds input of None \<Rightarrow> ''[]'' | Some b \<Rightarrow> b),
     ad_policyVersion = ai_policyVersion input, ad_authorizationDisposition = d,
     ad_idempotencyKey = ai_idempotencyKey input, ad_expectedPriorState = ai_expectedPriorState input,
     ad_observedResultState = ai_observedResultState input, ad_providerModel = ai_providerModel input,
     ad_correlationId = ai_correlationId input, ad_requestId = ai_requestId input, ad_result = ai_result input,
     ad_isError = (case ai_isError input of None \<Rightarrow> False | Some b \<Rightarrow> b)\<rparr>"

definition insertAudit :: "trail_row \<Rightarrow> trail_row list \<Rightarrow> trail_row list result" where
  "insertAudit row rows = insertRow (\<lambda>x y. ad_id x = ad_id y) ''audit_records'' row rows"

definition appendAuditRecord :: "audit_input \<Rightarrow> string \<Rightarrow> int \<Rightarrow> (trail_row list, audit_record) op" where
  "appendAuditRecord input uuid now rows =
     (let d = ai_authorizationDisposition input; nowText = toISOString now in
      case insertAudit (auditOf uuid input nowText (map_option DispositionJson d)) rows of
        Inl e \<Rightarrow> (Inl e, rows)
      | Inr rows' \<Rightarrow> (Inr (auditOf uuid input nowText d), rows'))"

definition dispositionOf :: "disposition_column option \<Rightarrow> disposition option result" where
  "dispositionOf c = (case c of None \<Rightarrow> Inr None | Some (DispositionJson d) \<Rightarrow> Inr (Some d)
     | Some (PlainText t) \<Rightarrow> if t = [] then Inr None else Inl SyntaxError)"

definition rowToAudit :: "trail_row \<Rightarrow> audit_record result" where
  "rowToAudit r = andThen (dispositionOf (ad_authorizationDisposition r)) (\<lambda>d.
     Inr \<lparr>ad_id = ad_id r, ad_classification = ad_classification r, ad_timestamp = ad_timestamp r,
       ad_actorId = ad_actorId r, ad_operation = ad_operation r, ad_proposalId = ad_proposalId r,
       ad_payloadHash = ad_payloadHash r, ad_budgetId = ad_budgetId r, ad_backendIds = ad_backendIds r,
       ad_policyVersion = ad_policyVersion r, ad_authorizationDisposition = d, ad_idempotencyKey = ad_idempotencyKey r,
       ad_expectedPriorState = ad_expectedPriorState r, ad_observedResultState = ad_observedResultState r,
       ad_providerModel = ad_providerModel r, ad_correlationId = ad_correlationId r, ad_requestId = ad_requestId r,
       ad_result = ad_result r, ad_isError = ad_isError r\<rparr>)"

definition queryAuditRecords :: "string option \<Rightarrow> int option \<Rightarrow> int option \<Rightarrow> trail_row list \<Rightarrow> audit_record list result" where
  "queryAuditRecords classification limit offset rows =
     mapR rowToAudit (limitRows (case limit of None \<Rightarrow> 50 | Some n \<Rightarrow> n)
       (drop (case offset of None \<Rightarrow> 0 | Some n \<Rightarrow> nat n)
         (sortBy (\<lambda>x y. textLess (ad_timestamp y) (ad_timestamp x))
           (filter (\<lambda>r. case classification of None \<Rightarrow> True | Some c \<Rightarrow> ad_classification r = c) rows))))"

definition queryAuditRecordsByProposal :: "string \<Rightarrow> int option \<Rightarrow> trail_row list \<Rightarrow> audit_record list result" where
  "queryAuditRecordsByProposal proposalId limit rows =
     mapR rowToAudit (limitRows (case limit of None \<Rightarrow> 50 | Some n \<Rightarrow> n)
       (sortBy (\<lambda>x y. textLess (ad_timestamp y) (ad_timestamp x)) (filter (\<lambda>r. ad_proposalId r = Some proposalId) rows)))"

subsection \<open>Reading what was written\<close>

lemma rowToAudit_auditOf [simp]: "rowToAudit (auditOf aid input now (map_option DispositionJson d)) = Inr (auditOf aid input now d)"
  by (cases d) (simp_all add: rowToAudit_def dispositionOf_def auditOf_def)

lemma mapR_Inl: "x \<in> set xs \<Longrightarrow> f x = Inl e \<Longrightarrow> \<exists>e'. mapR f xs = Inl e'"
proof (induction xs)
  case (Cons y ys)
  then show ?case by (cases "f y") (auto simp: andThen_def)
qed simp

text \<open>One row that does not parse makes every query whose page holds it fail.\<close>

lemma unreadable_row:
  assumes "r \<in> set rows" "ad_authorizationDisposition r = Some (PlainText t)" "t \<noteq> []"
  shows "\<exists>e. queryAuditRecords None (Some (-1)) None rows = Inl e"
proof -
  have "rowToAudit r = Inl SyntaxError" using assms(2,3) by (simp add: rowToAudit_def dispositionOf_def)
  then show ?thesis unfolding queryAuditRecords_def using assms(1) by (intro mapR_Inl [of r]) (simp_all add: limitRows_def)
qed

definition sample_audit :: audit_input where
  "sample_audit = \<lparr>ai_classification = ''execution_completed'', ai_actorId = ''ana'', ai_operation = None, ai_proposalId = Some ''p1'',
     ai_payloadHash = None, ai_budgetId = None, ai_backendIds = None, ai_policyVersion = None,
     ai_authorizationDisposition = Some ApprovalRequired, ai_idempotencyKey = None, ai_expectedPriorState = None,
     ai_observedResultState = None, ai_providerModel = None, ai_correlationId = None, ai_requestId = None,
     ai_result = ''done'', ai_isError = None\<rparr>"

text \<open>
  The audit trail of the store is append-only and keeps what it is given: \<open>appendAuditRecord\<close> leaves
  every earlier record in place, adds one, and reading the added record back gives the record that
  the call returned.
\<close>
theorem appendAuditRecord_roundtrip:
  assumes "appendAuditRecord input uuid now rows = (Inr r, rows')"
  shows "\<exists>row. rows' = rows @ [row] \<and> rowToAudit row = Inr r \<and> ad_id r = uuid"
proof -
  from assms have "rows' = rows @ [auditOf uuid input (toISOString now) (map_option DispositionJson (ai_authorizationDisposition input))]"
    "r = auditOf uuid input (toISOString now) (ai_authorizationDisposition input)"
    by (auto simp: appendAuditRecord_def Let_def insertAudit_def insertRow_def split: if_splits)
  then show ?thesis by (simp add: auditOf_def [of uuid input "toISOString now" "ai_authorizationDisposition input"] exI)
qed

theorem appendAuditRecord_roundtrip_witness:
  "\<exists>row r. snd (appendAuditRecord sample_audit ''a1'' 0 []) = [row] \<and> rowToAudit row = Inr r \<and> ad_id r = ''a1''"
proof -
  have "map_sum id ad_id (fst (appendAuditRecord sample_audit ''a1'' 0 [])) = Inr ''a1''" by code_simp
  then obtain r where "appendAuditRecord sample_audit ''a1'' 0 [] = (Inr r, snd (appendAuditRecord sample_audit ''a1'' 0 []))"
    by (cases "fst (appendAuditRecord sample_audit ''a1'' 0 [])") (auto simp: prod_eq_iff)
  from appendAuditRecord_roundtrip [OF this] show ?thesis by auto
qed

end
