(* ===== verification/Registration.thy ===== *)
theory Registration
  imports Audit_Trail
begin

text \<open>
  Registration of the first owner and invitations of further members (\<^verbatim>\<open>store.ts\<close>). Both write to
  tables the governance store reads (\<open>actor_memberships\<close>, \<open>invitations\<close>) and to the audit records of
  the store, so the state is the governance store with these beside it. Identifiers, random tokens
  and the clock are arguments; so is the digest of a token, which Node's \<open>createHash\<close> computes.
\<close>

subsection \<open>State\<close>

record registration_row =
  rg_ownerUserId :: "string option"
  rg_bootstrappedAt :: "string option"
  rg_claimId :: "string option"
  rg_claimedEmail :: "string option"
  rg_claimedName :: "string option"
  rg_claimedAt :: "string option"

record store_db =
  sd_gov :: gov_db
  sd_registration :: "registration_row option"
  sd_audit :: "trail_row list"

definition storeRollback :: "store_db \<Rightarrow> store_db \<Rightarrow> store_db" where
  "storeRollback s t = s\<lparr>sd_gov := rollback (sd_gov s) (sd_gov t)\<rparr>"

definition storeAudit :: "trail_row \<Rightarrow> (store_db, unit) op" where
  "storeAudit row s = (case insertAudit row (sd_audit s) of
     Inl e \<Rightarrow> (Inl e, s) | Inr rows \<Rightarrow> (Inr (), s\<lparr>sd_audit := rows\<rparr>))"

text \<open>A governance operation run on the store.\<close>

definition onGov :: "(gov_db, 'a) op \<Rightarrow> (store_db, 'a) op" where
  "onGov m s = (case m (sd_gov s) of (r, g) \<Rightarrow> (r, s\<lparr>sd_gov := g\<rparr>))"

definition upsertActorMembershipStmt :: "actor_row \<Rightarrow> store_db \<Rightarrow> store_db" where
  "upsertActorMembershipStmt a s =
     (let actors = db_actors (sd_gov s) in s\<lparr>sd_gov := (sd_gov s)\<lparr>db_actors :=
       (if list_ex (\<lambda>x. ac_id x = ac_id a) actors then updateWhere (\<lambda>x. ac_id x = ac_id a) (\<lambda>_. a) actors
        else actors @ [a])\<rparr>\<rparr>)"

subsection \<open>Bootstrap\<close>

datatype registration_state = Bootstrap | Complete string "string option"

definition getRegistrationState :: "store_db \<Rightarrow> registration_state" where
  "getRegistrationState s =
     (case sd_registration s of
        None \<Rightarrow> Bootstrap
      | Some row \<Rightarrow> (case rg_ownerUserId row of None \<Rightarrow> Bootstrap
          | Some owner \<Rightarrow> if owner = [] then Bootstrap else Complete owner (rg_bootstrappedAt row)))"

definition bootstrapAudit :: "string \<Rightarrow> string \<Rightarrow> string \<Rightarrow> string \<Rightarrow> string \<Rightarrow> string \<Rightarrow> trail_row" where
  "bootstrapAudit uuid classification now actorId operation result = \<lparr>ad_id = uuid, ad_classification = classification,
     ad_timestamp = now, ad_actorId = actorId, ad_operation = Some operation, ad_proposalId = None, ad_payloadHash = None,
     ad_budgetId = None, ad_backendIds = ''[]'', ad_policyVersion = None, ad_authorizationDisposition = None,
     ad_idempotencyKey = None, ad_expectedPriorState = None, ad_observedResultState = None, ad_providerModel = None,
     ad_correlationId = None, ad_requestId = None, ad_result = result, ad_isError = False\<rparr>"

definition nonEmpty :: "string option \<Rightarrow> bool" where
  "nonEmpty v \<longleftrightarrow> (case v of None \<Rightarrow> False | Some t \<Rightarrow> t \<noteq> [])"

definition claimBootstrap :: "string \<Rightarrow> string \<Rightarrow> string \<Rightarrow> string \<Rightarrow> int \<Rightarrow> (store_db, string) op" where
  "claimBootstrap claimId email name auditId now = transaction storeRollback (
     bindOp (reads (\<lambda>s. Inr (sd_registration s))) (\<lambda>row.
     bindOp (reads (\<lambda>_. require (\<not> (case row of None \<Rightarrow> False | Some r \<Rightarrow> nonEmpty (rg_ownerUserId r)))
       ''Bootstrap already completed'')) (\<lambda>_.
       case row of
         Some r \<Rightarrow>
           if nonEmpty (rg_claimId r) then
             (if rg_claimedEmail r = Some email then returns (the (rg_claimId r)) else throws (Error ''Bootstrap already claimed''))
           else throws (SqliteConstraint ''registration_state'')
       | None \<Rightarrow>
           bindOp (writes (\<lambda>s. s\<lparr>sd_registration := Some \<lparr>rg_ownerUserId = None, rg_bootstrappedAt = None,
             rg_claimId = Some claimId, rg_claimedEmail = Some email, rg_claimedName = Some name,
             rg_claimedAt = Some (toISOString now)\<rparr>\<rparr>)) (\<lambda>_.
           bindOp (storeAudit (bootstrapAudit auditId ''bootstrap_claimed'' (toISOString now) email ''claim_bootstrap''
             (''Bootstrap claimed for '' @ email))) (\<lambda>_.
           returns claimId)))))"

definition owner_capabilities :: "string list" where
  "owner_capabilities = [''observe'', ''finding:transition'', ''notification:receive'', ''notification:admin'',
     ''categorization:execute'', ''rule:execute'']"

definition finalizeRegistration :: "string \<Rightarrow> string \<Rightarrow> string \<Rightarrow> registration_row option \<Rightarrow> registration_row option" where
  "finalizeRegistration claimId ownerUserId now row =
     (case row of None \<Rightarrow> None
      | Some r \<Rightarrow> if rg_claimId r = Some claimId \<and> rg_ownerUserId r = None
          then Some (r\<lparr>rg_ownerUserId := Some ownerUserId, rg_bootstrappedAt := Some now\<rparr>) else Some r)"

definition finalizeBootstrap :: "string \<Rightarrow> string \<Rightarrow> string \<Rightarrow> int \<Rightarrow> (store_db, string \<times> string option) op" where
  "finalizeBootstrap claimId ownerUserId auditId now = transaction storeRollback (
     bindOp (reads (\<lambda>s. case sd_registration s of
         None \<Rightarrow> Inl (Error ''No bootstrap claim found'')
       | Some r \<Rightarrow> if nonEmpty (rg_claimId r) then Inr r else Inl (Error ''No bootstrap claim found''))) (\<lambda>row.
     bindOp (reads (\<lambda>_. require (rg_claimId row = Some claimId) ''Claim ID mismatch'')) (\<lambda>_.
       if nonEmpty (rg_ownerUserId row) then returns (the (rg_ownerUserId row), rg_bootstrappedAt row)
       else
         bindOp (reads (\<lambda>_. require (rg_ownerUserId row = None) ''Bootstrap finalization failed'')) (\<lambda>_.
         bindOp (writes (\<lambda>s. s\<lparr>sd_registration := finalizeRegistration claimId ownerUserId (toISOString now) (sd_registration s)\<rparr>)) (\<lambda>_.
         bindOp (writes (upsertActorMembershipStmt \<lparr>ac_id = ownerUserId, ac_status = Active,
           ac_capabilities = owner_capabilities, ac_scope = ''*''\<rparr>)) (\<lambda>_.
         bindOp (storeAudit (bootstrapAudit auditId ''bootstrap_completed'' (toISOString now) ownerUserId ''bootstrap''
           ''Owner created'')) (\<lambda>_.
         returns (ownerUserId, Some (toISOString now)))))))))"

inductive registration_step :: "store_db \<Rightarrow> store_db \<Rightarrow> bool" where
  step_claim: "claimBootstrap claimId email name auditId now s = (c, t) \<Longrightarrow> registration_step s t"
| step_finalize: "finalizeBootstrap claimId ownerUserId auditId now s = (r, t) \<Longrightarrow> registration_step s t"

abbreviation registration_reach :: "store_db \<Rightarrow> store_db \<Rightarrow> bool" where
  "registration_reach \<equiv> registration_step\<^sup>*\<^sup>*"

subsection \<open>One owner\<close>

lemma claimBootstrap_owned:
  assumes "sd_registration s = Some r" "nonEmpty (rg_ownerUserId r)"
  shows "claimBootstrap claimId email name auditId now s =
    (Inl (Error ''Bootstrap already completed''), storeRollback s s)"
  using assms by (simp add: claimBootstrap_def transaction_def bindOp_def reads_def require_def)

lemma claimBootstrap_claimed:
  assumes "sd_registration s = Some r" "claimBootstrap claimId email name auditId now s = (c, t)"
  shows "sd_registration t = Some r"
  using assms
  by (auto simp: claimBootstrap_def transaction_def bindOp_def reads_def require_def returns_def throws_def storeRollback_def
      split: if_splits)

lemma finalizeBootstrap_owned:
  assumes "sd_registration s = Some r" "nonEmpty (rg_ownerUserId r)"
  shows "sd_registration (snd (finalizeBootstrap claimId ownerUserId auditId now s)) = Some r \<and>
    (fst (finalizeBootstrap claimId ownerUserId auditId now s) = Inr x \<longrightarrow> fst x = the (rg_ownerUserId r))"
  using assms
  by (auto simp: finalizeBootstrap_def transaction_def bindOp_def reads_def require_def returns_def storeRollback_def
      split: if_splits)

lemma upsertActor_registration [simp]: "sd_registration (upsertActorMembershipStmt a s) = sd_registration s"
  by (simp add: upsertActorMembershipStmt_def Let_def)

lemma storeAudit_Inr: "storeAudit row s = (Inr u, t) \<Longrightarrow> \<exists>rows. t = s\<lparr>sd_audit := rows\<rparr>"
  by (auto simp: storeAudit_def split: sum.splits)

lemma finalizeBootstrap_Inr:
  assumes "finalizeBootstrap claimId ownerUserId auditId now s = (Inr x, t)" "ownerUserId \<noteq> []"
  shows "\<exists>r. sd_registration t = Some r \<and> rg_ownerUserId r = Some (fst x) \<and> nonEmpty (rg_ownerUserId r) \<and>
    rg_claimId r = Some claimId"
proof -
  from assms(1) obtain row where row: "sd_registration s = Some row" "rg_claimId row = Some claimId"
    and rest: "(if nonEmpty (rg_ownerUserId row) then returns (the (rg_ownerUserId row), rg_bootstrappedAt row)
       else
         bindOp (reads (\<lambda>_. require (rg_ownerUserId row = None) ''Bootstrap finalization failed'')) (\<lambda>_.
         bindOp (writes (\<lambda>s. s\<lparr>sd_registration := finalizeRegistration claimId ownerUserId (toISOString now) (sd_registration s)\<rparr>)) (\<lambda>_.
         bindOp (writes (upsertActorMembershipStmt \<lparr>ac_id = ownerUserId, ac_status = Active,
           ac_capabilities = owner_capabilities, ac_scope = ''*''\<rparr>)) (\<lambda>_.
         bindOp (storeAudit (bootstrapAudit auditId ''bootstrap_completed'' (toISOString now) ownerUserId ''bootstrap''
           ''Owner created'')) (\<lambda>_.
         returns (ownerUserId, Some (toISOString now))))))) s = (Inr x, t)"
    unfolding finalizeBootstrap_def by (auto simp: store_simps require_eq_Inr split: option.splits if_splits)
  show ?thesis
  proof (cases "nonEmpty (rg_ownerUserId row)")
    case True
    with rest row show ?thesis by (auto simp: returns_def nonEmpty_def split: option.splits)
  next
    case False
    with rest row assms(2) show ?thesis
      by (auto simp: store_simps require_eq_Inr finalizeRegistration_def nonEmpty_def dest!: storeAudit_Inr)
  qed
qed

lemma owner_stays:
  assumes "registration_reach s t" "sd_registration s = Some r" "nonEmpty (rg_ownerUserId r)"
  shows "sd_registration t = Some r"
  using assms(1)
proof (induction rule: rtranclp_induct)
  case (step u v)
  from step.hyps(2) show ?case
  proof cases
    case (step_claim claimId email name auditId now c)
    then show ?thesis using claimBootstrap_claimed step.IH by blast
  next
    case (step_finalize claimId ownerUserId auditId now x)
    then show ?thesis using finalizeBootstrap_owned [OF step.IH assms(3), of claimId ownerUserId auditId now] by simp
  qed
qed (use assms(2) in simp)

definition fresh_store :: store_db where
  "fresh_store = \<lparr>sd_gov = empty_db (\<lambda>n. ''u'' @ decimal n), sd_registration = None, sd_audit = []\<rparr>"

definition claimed_store :: store_db where
  "claimed_store = snd (claimBootstrap ''c1'' ''ana@example.org'' ''Ana'' ''a1'' 0 fresh_store)"

text \<open>
  C38. A deployment gets one owner: once \<open>finalizeBootstrap\<close> has returned an owner (for a caller with a
  non-empty user id), then after any further bootstrap operations, by anybody, the registration is
  complete with that owner, a new bootstrap claim is refused, and a second finalization that succeeds
  returns the same owner.
\<close>
theorem bootstrap_single_owner:
  assumes "finalizeBootstrap claimId ownerUserId auditId now s = (Inr x, t)" and "ownerUserId \<noteq> []"
    and "registration_reach t u"
  shows "(\<exists>at. getRegistrationState u = Complete (fst x) at) \<and>
    fst (claimBootstrap claimId' email name auditId' now' u) = Inl (Error ''Bootstrap already completed'') \<and>
    (case fst (finalizeBootstrap claimId'' ownerUserId'' auditId'' now'' u) of Inl e \<Rightarrow> True | Inr y \<Rightarrow> fst y = fst x)"
proof -
  from finalizeBootstrap_Inr [OF assms(1,2)] obtain r where
    r: "sd_registration t = Some r" "rg_ownerUserId r = Some (fst x)" "nonEmpty (rg_ownerUserId r)" by blast
  have u: "sd_registration u = Some r" using owner_stays [OF assms(3) r(1,3)] .
  then have "getRegistrationState u = Complete (fst x) (rg_bootstrappedAt r)"
    using r(2,3) by (simp add: getRegistrationState_def nonEmpty_def)
  moreover have "fst (finalizeBootstrap claimId'' ownerUserId'' auditId'' now'' u) = Inr y \<Longrightarrow> fst y = fst x" for y
    using finalizeBootstrap_owned [OF u r(3), of claimId'' ownerUserId'' auditId'' now'' y] r(2) by simp
  ultimately show ?thesis using claimBootstrap_owned [OF u r(3)] by (simp split: sum.split)
qed

theorem bootstrap_single_owner_witness:
  "\<exists>at. getRegistrationState (snd (claimBootstrap ''c2'' ''eve@example.org'' ''Eve'' ''a3'' 9
     (snd (finalizeBootstrap ''c1'' ''ana'' ''a2'' 5 claimed_store)))) = Complete ''ana'' at"
proof -
  let ?run = "finalizeBootstrap ''c1'' ''ana'' ''a2'' 5 claimed_store"
  have "map_sum id fst (fst ?run) = Inr ''ana''" by code_simp
  then obtain x where x: "?run = (Inr x, snd ?run)" "fst x = ''ana''" by (cases "fst ?run") (auto simp: prod_eq_iff)
  have "registration_step (snd ?run) (snd (claimBootstrap ''c2'' ''eve@example.org'' ''Eve'' ''a3'' 9 (snd ?run)))"
    by (rule step_claim [OF surjective_pairing])
  from bootstrap_single_owner [OF x(1) _ r_into_rtranclp [of registration_step, OF this]] x(2) show ?thesis by simp
qed

end
