(* ===== verification/Json_Text.thy ===== *)
theory Json_Text
  imports Js_Value
begin

text \<open>
  The JSON text of values: \<open>JSON.stringify\<close>, and the canonical text that \<^verbatim>\<open>merchant.ts\<close> hashes and
  compares, in which the entries of every object are sorted by name. The order of the names is that
  of \<open>localeCompare\<close>, which depends on the collation of the runtime and is an argument.

  Not covered: names of entries that look like array indexes, which JavaScript moves to the front of
  an object, and the entry \<open>__proto__\<close>. A number that is not an integer is printed in its decimal form.
\<close>

subsection \<open>Texts\<close>

definition hexDigit :: "int \<Rightarrow> char" where
  "hexDigit d = char_of ((if d < 10 then 48 else 87) + d)"

definition jsonChar :: "char \<Rightarrow> string" where
  "jsonChar c =
     (if c = CHR 0x22 \<or> c = CHR 0x5C then [CHR 0x5C, c]
      else if code c = 8 then [CHR 0x5C, CHR ''b''] else if code c = 9 then [CHR 0x5C, CHR ''t'']
      else if code c = 10 then [CHR 0x5C, CHR ''n''] else if code c = 12 then [CHR 0x5C, CHR ''f'']
      else if code c = 13 then [CHR 0x5C, CHR ''r'']
      else if code c < 32 then CHR 0x5C # ''u00'' @ [hexDigit (code c div 16), hexDigit (code c mod 16)]
      else [c])"

definition jsonString :: "string \<Rightarrow> string" where
  "jsonString s = CHR 0x22 # concat (map jsonChar s) @ [CHR 0x22]"

definition jsonInt :: "int \<Rightarrow> string" where
  "jsonInt i = (if i < 0 then CHR ''-'' # decimal (nat (- i)) else decimal (nat i))"

fun jsonNumber :: "jsnum \<Rightarrow> string" where
  "jsonNumber (NInt i) = jsonInt i"
| "jsonNumber (NFrac s) = s"
| "jsonNumber _ = ''null''"

fun joinTexts :: "string list \<Rightarrow> string" where
  "joinTexts [] = []"
| "joinTexts [x] = x"
| "joinTexts (x # y # xs) = x @ '','' @ joinTexts (y # xs)"

text \<open>An entry whose value is \<open>undefined\<close> is left out of an object and is \<open>null\<close> in an array; \<open>BigInt\<close> throws.\<close>

fun jsonText :: "jsval \<Rightarrow> string"
  and jsonTexts :: "jsval list \<Rightarrow> string list"
  and jsonEntries :: "(string \<times> jsval) list \<Rightarrow> string list" where
  "jsonText (Bool b) = (if b then ''true'' else ''false'')"
| "jsonText (Num n) = jsonNumber n"
| "jsonText (Str s) = jsonString s"
| "jsonText (Arr xs) = ''['' @ joinTexts (jsonTexts xs) @ '']''"
| "jsonText (Obj fs) = ''{'' @ joinTexts (jsonEntries fs) @ ''}''"
| "jsonText _ = ''null''"
| "jsonTexts [] = []"
| "jsonTexts (x # xs) = jsonText x # jsonTexts xs"
| "jsonEntries [] = []"
| "jsonEntries ((k, x) # fs) =
     (if x = Undefined then jsonEntries fs else (jsonString k @ '':'' @ jsonText x) # jsonEntries fs)"

text \<open>Equations for evaluation: a code unit from its bits, and the printable characters first.\<close>

lemma code_bits [code]:
  "code (Char b0 b1 b2 b3 b4 b5 b6 b7) =
     (if b7 then 128 else 0) + ((if b6 then 64 else 0) + ((if b5 then 32 else 0) + ((if b4 then 16 else 0) +
       ((if b3 then 8 else 0) + ((if b2 then 4 else 0) + ((if b1 then 2 else 0) + (if b0 then 1 else 0)))))))"
  by (simp add: code_def of_char_Char horner_sum_simps)

lemma jsonChar_printable [code]:
  "jsonChar (Char b0 b1 b2 b3 b4 b5 b6 b7) =
     (if b5 \<or> b6 \<or> b7 then
        (let c = Char b0 b1 b2 b3 b4 b5 b6 b7 in if c = CHR 0x22 \<or> c = CHR 0x5C then [CHR 0x5C, c] else [c])
      else let n = code (Char b0 b1 b2 b3 b4 b5 b6 b7) in
        if n = 8 then [CHR 0x5C, CHR ''b''] else if n = 9 then [CHR 0x5C, CHR ''t'']
        else if n = 10 then [CHR 0x5C, CHR ''n''] else if n = 12 then [CHR 0x5C, CHR ''f'']
        else if n = 13 then [CHR 0x5C, CHR ''r'']
        else CHR 0x5C # ''u00'' @ [hexDigit (n div 16), hexDigit (n mod 16)])"
  by (cases b0; cases b1; cases b2; cases b3; cases b4; cases b5; cases b6; cases b7) (simp_all add: jsonChar_def code_bits Let_def)

subsection \<open>Canonical text\<close>

text \<open>The sort is stable, as \<open>Array.prototype.sort\<close> is; a missing value is printed as \<open>null\<close>.\<close>

fun canonical :: "(string \<Rightarrow> string \<Rightarrow> bool) \<Rightarrow> jsval \<Rightarrow> string"
  and canonicals :: "(string \<Rightarrow> string \<Rightarrow> bool) \<Rightarrow> jsval list \<Rightarrow> string list"
  and canonicalEntries :: "(string \<Rightarrow> string \<Rightarrow> bool) \<Rightarrow> (string \<times> jsval) list \<Rightarrow> (string \<times> string) list" where
  "canonical lt (Arr xs) = ''['' @ joinTexts (canonicals lt xs) @ '']''"
| "canonical lt (Obj fs) =
     ''{'' @ joinTexts (map (\<lambda>(k, t). jsonString k @ '':'' @ t)
       (sortBy (\<lambda>a b. lt (fst a) (fst b)) (canonicalEntries lt fs))) @ ''}''"
| "canonical lt v = jsonText v"
| "canonicals lt [] = []"
| "canonicals lt (x # xs) = canonical lt x # canonicals lt xs"
| "canonicalEntries lt [] = []"
| "canonicalEntries lt ((k, x) # fs) = (k, canonical lt x) # canonicalEntries lt fs"

subsection \<open>Texts inside texts\<close>

lemma startsWith_append: "startsWith p s \<Longrightarrow> startsWith p (s @ t)"
  by (induction p s rule: startsWith.induct) auto

lemma startsWith_self: "startsWith p (p @ t)"
  by (induction p) auto

lemma startsWith_contains: "startsWith p s \<Longrightarrow> containsText p s"
  by (cases s) auto

lemma containsText_append_left: "containsText p s \<Longrightarrow> containsText p (s @ t)"
proof (induction s)
  case Nil
  then have "p = []" by (cases p) auto
  then show ?case by (cases t) auto
qed (auto intro: startsWith_append [where s = "_ # _", simplified])

lemma containsText_append_right: "containsText p t \<Longrightarrow> containsText p (s @ t)"
proof (induction s)
  case (Cons c s)
  then show ?case by simp
qed simp

lemma containsText_joinTexts: "x \<in> set xs \<Longrightarrow> containsText p x \<Longrightarrow> containsText p (joinTexts xs)"
  by (induction xs rule: joinTexts.induct)
    (auto intro: containsText_append_left containsText_append_right
      containsText_append_right [where s = "_ @ [_]", simplified])

end
