(* ===== verification/Invitations.thy ===== *)
theory Invitations
  imports Registration Governance_Props Json_Text
begin

text \<open>
  Invitations (\<^verbatim>\<open>store.ts\<close>): a manager of a space creates a bearer token, a recipient claims it with a
  mailbox, and a verified person redeems the claim for a membership. Creation, revocation and listing
  ask the evaluator as the manager; claim and redemption ask it again whether the issuer still holds
  the authority the invitation captured. Redemption runs \<open>acceptInvitedMembership\<close> of the governance
  store inside its own transaction.
\<close>

subsection \<open>Inputs\<close>

record invitation_control =
  vc_spaceId :: string
  vc_auth :: human_control
  vc_now :: "string option"
  vc_requestId :: "string option"
  vc_correlationId :: "string option"

record claim_input =
  ci_token :: string
  ci_email :: string
  ci_requestId :: "string option"
  ci_correlationId :: "string option"

record invitation_metadata =
  im_id :: string
  im_status :: invitation_status
  im_createdByUserId :: string
  im_spaceId :: "string option"
  im_issuerMembershipId :: "string option"
  im_policyVersion :: "string option"
  im_expiresAt :: string
  im_claimedEmail :: "string option"
  im_redeemedUserId :: "string option"
  im_createdAt :: string
  im_claimedAt :: "string option"
  im_redeemedAt :: "string option"

definition rowToInvitationMetadata :: "invitation_row \<Rightarrow> invitation_metadata" where
  "rowToInvitationMetadata r = \<lparr>im_id = iv_id r, im_status = iv_status r, im_createdByUserId = iv_createdByUserId r,
     im_spaceId = iv_spaceId r, im_issuerMembershipId = iv_issuerMembershipId r, im_policyVersion = iv_policyVersion r,
     im_expiresAt = iv_expiresAt r, im_claimedEmail = iv_claimedEmail r, im_redeemedUserId = iv_redeemedUserId r,
     im_createdAt = iv_createdAt r, im_claimedAt = iv_claimedAt r, im_redeemedAt = iv_redeemedAt r\<rparr>"

subsection \<open>Authority\<close>

text \<open>The one operation, on the space itself, that a request about invitations carries.\<close>

definition spaceRequest :: "string \<Rightarrow> string \<Rightarrow> string \<Rightarrow> phase \<Rightarrow> string \<Rightarrow> string \<Rightarrow> string option \<Rightarrow>
    operational_auth option \<Rightarrow> auth_input" where
  "spaceRequest actorId spaceId version ph operation now membershipId auth = \<lparr>in_actorId = actorId, in_spaceId = spaceId,
     in_membershipId = membershipId, in_expectedPolicyVersion = version, in_phase = ph, in_operation = operation,
     in_required = [\<lparr>rq_capability = ''membership:manage'', rq_resourceKind = ''space'', rq_resourceId = spaceId,
       rq_visibility = None\<rparr>],
     in_payload = [(''operations'', Arr [Obj [(''operation'', Str operation), (''resourceKind'', Str ''space''),
       (''resourceId'', Str spaceId)]])],
     in_now = now, in_agentId = None, in_delegationId = None, in_delegationVersion = None, in_auth = auth,
     in_verifiedHumanApproval = False\<rparr>"

definition invitationControl :: "gov_db \<Rightarrow> invitation_control \<Rightarrow> string \<Rightarrow> int \<Rightarrow>
    (space_row \<times> versioned_policy \<times> string \<times> string) result" where
  "invitationControl gov input operation clock =
     (let now = (case vc_now input of None \<Rightarrow> toISOString clock | Some t \<Rightarrow> t) in
      case liveSpace gov (vc_spaceId input) of
        None \<Rightarrow> Inl (Error ''Invitation control authorization denied'')
      | Some space \<Rightarrow>
          andThen (getPolicy gov (sp_id space)) (\<lambda>policy.
            case policy of
              None \<Rightarrow> Inl (Error ''Invitation control authorization denied'')
            | Some p \<Rightarrow>
                (let authorization = authorize gov (spaceRequest (hc_actorId (vc_auth input)) (sp_id space) (vp_version p)
                   PhaseApprove operation now None (Some (HumanSession (vc_auth input)))) in
                 if \<not> ar_allowed authorization \<or> \<not> nonEmpty (ar_membershipId authorization)
                 then Inl (Error ''Invitation control authorization denied'')
                 else Inr (space, p, the (ar_membershipId authorization), now))))"

text \<open>
  \<open>Date.parse(expires) <= Date.parse(now)\<close>; an instant that does not parse compares as false. Stored
  expiries are printed instants; for a text of \<open>now\<close> that is not one, the checks that follow throw.
\<close>

definition expiredBy :: "string \<Rightarrow> string \<Rightarrow> bool" where
  "expiredBy expiresAt now \<longleftrightarrow> (case (date_parse expiresAt, date_parse now) of (Some e, Some n) \<Rightarrow> e \<le> n | _ \<Rightarrow> False)"

definition invitationIssuer :: "gov_db \<Rightarrow> invitation_row \<Rightarrow> string \<Rightarrow> unit result" where
  "invitationIssuer gov row now =
     (if \<not> nonEmpty (iv_spaceId row) \<or> \<not> nonEmpty (iv_issuerMembershipId row) \<or> \<not> nonEmpty (iv_policyVersion row) \<or>
         expiredBy (iv_expiresAt row) now
      then Inl (Error ''Invalid invitation'')
      else let spaceId = the (iv_spaceId row) in
        andThen (getCurrentMembership gov spaceId (iv_createdByUserId row) now) (\<lambda>membership.
          if map_option mb_id membership \<noteq> iv_issuerMembershipId row then Inl (Error ''Invalid invitation'')
          else require (ar_allowed (authorize gov (spaceRequest (iv_createdByUserId row) spaceId (the (iv_policyVersion row))
            PhaseRead ''invitation.create'' now (map_option mb_id membership) None))) ''Invalid invitation''))"

subsection \<open>Audit\<close>

definition invitationAudit :: "string \<Rightarrow> string \<Rightarrow> string \<Rightarrow> string \<Rightarrow> string \<Rightarrow> string \<Rightarrow> string \<Rightarrow> string \<Rightarrow>
    string option \<Rightarrow> string option \<Rightarrow> (store_db, unit) op" where
  "invitationAudit uuid iid spaceId actorId action now policyVersion issuerMembershipId requestId correlationId =
     bindOp (reads (\<lambda>s. Inr (case liveSpace (sd_gov s) spaceId of None \<Rightarrow> None | Some sp \<Rightarrow> sp_budgetId sp))) (\<lambda>budgetId.
     storeAudit \<lparr>ad_id = uuid, ad_classification = ''invitation_'' @ action, ad_timestamp = now, ad_actorId = actorId,
       ad_operation = Some (''invitation.'' @ action), ad_proposalId = Some iid, ad_payloadHash = None, ad_budgetId = budgetId,
       ad_backendIds = ''[]'', ad_policyVersion = Some policyVersion,
       ad_authorizationDisposition = Some (PlainText ''authorized_without_approval''), ad_idempotencyKey = None,
       ad_expectedPriorState = Some (''{'' @ jsonString ''spaceId'' @ '':'' @ jsonString spaceId @ '','' @
         jsonString ''issuerMembershipId'' @ '':'' @ jsonString issuerMembershipId @ ''}''),
       ad_observedResultState = None, ad_providerModel = None, ad_correlationId = correlationId, ad_requestId = requestId,
       ad_result = action, ad_isError = False\<rparr>)"

subsection \<open>Statements\<close>

definition invitations :: "store_db \<Rightarrow> invitation_row list" where
  "invitations s = db_invitations (sd_gov s)"

definition setInvitations :: "(invitation_row list \<Rightarrow> invitation_row list) \<Rightarrow> store_db \<Rightarrow> store_db" where
  "setInvitations f s = s\<lparr>sd_gov := (sd_gov s)\<lparr>db_invitations := f (db_invitations (sd_gov s))\<rparr>\<rparr>"

definition insertInvitation :: "invitation_row \<Rightarrow> (store_db, unit) op" where
  "insertInvitation r s =
     (case insertRow (\<lambda>x y. iv_id x = iv_id y \<or> iv_tokenDigest x = iv_tokenDigest y) ''invitations'' r (invitations s) of
        Inl e \<Rightarrow> (Inl e, s) | Inr rows \<Rightarrow> (Inr (), setInvitations (\<lambda>_. rows) s))"

definition unsettled :: "string \<Rightarrow> invitation_row \<Rightarrow> bool" where
  "unsettled iid r \<longleftrightarrow> iv_id r = iid \<and> iv_status r \<in> {InvActive, InvClaimed}"

definition updateInvitationClaim :: "string \<Rightarrow> string \<Rightarrow> string \<Rightarrow> string \<Rightarrow> invitation_row list \<Rightarrow> invitation_row list" where
  "updateInvitationClaim iid email claimId claimedAt =
     updateWhere (\<lambda>r. iv_id r = iid \<and> iv_status r = InvActive) (\<lambda>r. r\<lparr>iv_status := InvClaimed,
       iv_claimedEmail := Some email, iv_claimId := Some claimId, iv_claimedAt := Some claimedAt\<rparr>)"

definition updateInvitationRevoke :: "string \<Rightarrow> invitation_row list \<Rightarrow> invitation_row list" where
  "updateInvitationRevoke iid = updateWhere (unsettled iid) (\<lambda>r. r\<lparr>iv_status := InvRevoked\<rparr>)"

definition updateInvitationExpired :: "string \<Rightarrow> string \<Rightarrow> invitation_row list \<Rightarrow> invitation_row list" where
  "updateInvitationExpired iid now =
     updateWhere (\<lambda>r. unsettled iid r \<and> \<not> textLess now (iv_expiresAt r)) (\<lambda>r. r\<lparr>iv_status := InvExpired\<rparr>)"

definition redeemable :: "string \<Rightarrow> invitation_row \<Rightarrow> bool" where
  "redeemable claimId r \<longleftrightarrow> iv_claimId r = Some claimId \<and> iv_status r = InvClaimed"

definition updateInvitationRedeemed :: "string \<Rightarrow> string \<Rightarrow> string \<Rightarrow> invitation_row list \<Rightarrow> invitation_row list" where
  "updateInvitationRedeemed claimId userId redeemedAt = updateWhere (redeemable claimId) (\<lambda>r. r\<lparr>iv_status := InvRedeemed,
     iv_redeemedUserId := Some userId, iv_redeemedAt := Some redeemedAt\<rparr>)"

subsection \<open>Operations\<close>

definition invitationExpiry :: "string \<Rightarrow> string result" where
  "invitationExpiry now =
     (case date_parse now of None \<Rightarrow> Inl RangeError
      | Some t \<Rightarrow> if date_range (t + 604800000) then Inr (toISOString (t + 604800000)) else Inl RangeError)"

definition stripSlashes :: "string \<Rightarrow> string" where
  "stripSlashes s = rev (dropWhile (\<lambda>c. c = CHR ''/'') (rev s))"

definition createInvitation :: "(string \<Rightarrow> string) \<Rightarrow> string \<Rightarrow> invitation_control \<Rightarrow> string \<Rightarrow> string \<Rightarrow> string \<Rightarrow> int \<Rightarrow>
    (store_db, string \<times> string \<times> string) op" where
  "createInvitation sha256 authUrl input iid rawToken auditId clock = transaction storeRollback (
     bindOp (reads (\<lambda>s. invitationControl (sd_gov s) input ''invitation.create'' clock)) (\<lambda>(space, policy, membershipId, now).
     bindOp (reads (\<lambda>_. invitationExpiry now)) (\<lambda>expiresAt.
     bindOp (insertInvitation \<lparr>iv_id = iid, iv_status = InvActive, iv_createdByUserId = hc_actorId (vc_auth input),
       iv_expiresAt = expiresAt, iv_claimedEmail = None, iv_claimId = None, iv_spaceId = Some (sp_id space),
       iv_issuerMembershipId = Some membershipId, iv_policyVersion = Some (vp_version policy),
       iv_tokenDigest = sha256 rawToken, iv_redeemedUserId = None, iv_createdAt = now, iv_claimedAt = None,
       iv_redeemedAt = None\<rparr>) (\<lambda>_.
     bindOp (invitationAudit auditId iid (vc_spaceId input) (hc_actorId (vc_auth input)) ''created'' now (vp_version policy)
       membershipId (vc_requestId input) (vc_correlationId input)) (\<lambda>_.
     returns (iid, expiresAt, stripSlashes (if authUrl = [] then ''http://localhost:3000'' else authUrl) @
       ''/invite#token='' @ rawToken))))))"

definition revokeInvitation :: "invitation_control \<Rightarrow> string \<Rightarrow> string \<Rightarrow> int \<Rightarrow> (store_db, unit) op" where
  "revokeInvitation input invitationId auditId clock = transaction storeRollback (
     bindOp (reads (\<lambda>s. invitationControl (sd_gov s) input ''invitation.revoke'' clock)) (\<lambda>(space, policy, membershipId, now).
     bindOp (reads (\<lambda>s. case find (\<lambda>r. iv_id r = invitationId) (invitations s) of
         None \<Rightarrow> Inl (Error ''Invitation unavailable'')
       | Some row \<Rightarrow> if iv_spaceId row \<noteq> Some (vc_spaceId input) then Inl (Error ''Invitation unavailable'') else Inr row)) (\<lambda>row.
     if iv_status row = InvRevoked then returns ()
     else
       bindOp (reads (\<lambda>s. require (changes (unsettled (iv_id row)) (invitations s) = 1) ''Invitation cannot be revoked'')) (\<lambda>_.
       bindOp (writes (setInvitations (updateInvitationRevoke (iv_id row)))) (\<lambda>_.
       invitationAudit auditId (iv_id row) (vc_spaceId input) (hc_actorId (vc_auth input)) ''revoked'' now (vp_version policy)
         membershipId (vc_requestId input) (vc_correlationId input))))))"

definition listInvitations :: "invitation_control \<Rightarrow> int \<Rightarrow> store_db \<Rightarrow> invitation_metadata list result" where
  "listInvitations input clock s =
     andThen (invitationControl (sd_gov s) input ''invitation.list'' clock) (\<lambda>_.
       Inr (map rowToInvitationMetadata (sortBy (\<lambda>x y. textLess (iv_createdAt y) (iv_createdAt x))
         (filter (\<lambda>r. iv_spaceId r = Some (vc_spaceId input)) (invitations s)))))"

definition tokenText :: "string \<Rightarrow> bool" where
  "tokenText t \<longleftrightarrow> length t = 64 \<and> list_all (\<lambda>c. is_digit c \<or> 97 \<le> code c \<and> code c \<le> 102) t"

text \<open>The body of a claim; \<open>None\<close> when it found the invitation expired, and recorded that.\<close>

definition claimBody :: "claim_input \<Rightarrow> string \<Rightarrow> string \<Rightarrow> string \<Rightarrow> string \<Rightarrow> string \<Rightarrow>
    (store_db, (string \<times> string \<times> string) option) op" where
  "claimBody input digest email claimId auditId now =
     bindOp (reads (\<lambda>s. case find (\<lambda>r. iv_tokenDigest r = digest) (invitations s) of
         None \<Rightarrow> Inl (Error ''Invalid invitation'')
       | Some row \<Rightarrow> if iv_status row \<noteq> InvActive \<and> iv_status row \<noteq> InvClaimed then Inl (Error ''Invalid invitation'') else Inr row)) (\<lambda>row.
     if expiredBy (iv_expiresAt row) now then
       bindOp (writes (setInvitations (updateInvitationExpired (iv_id row) now))) (\<lambda>_.
       bindOp (if nonEmpty (iv_spaceId row) \<and> nonEmpty (iv_issuerMembershipId row) \<and> nonEmpty (iv_policyVersion row)
         then invitationAudit auditId (iv_id row) (the (iv_spaceId row)) ''system'' ''expired'' now (the (iv_policyVersion row))
           (the (iv_issuerMembershipId row)) None None
         else returns ()) (\<lambda>_. returns None))
     else
       bindOp (reads (\<lambda>s. invitationIssuer (sd_gov s) row now)) (\<lambda>_.
       if iv_status row = InvClaimed then
         (if iv_claimedEmail row \<noteq> Some email \<or> \<not> nonEmpty (iv_claimId row) then throws (Error ''Invalid invitation'')
          else returns (Some (the (iv_claimId row), email, the (iv_spaceId row))))
       else
         bindOp (reads (\<lambda>s. require (changes (\<lambda>r. iv_id r = iv_id row \<and> iv_status r = InvActive) (invitations s) = 1)
           ''Invalid invitation'')) (\<lambda>_.
         bindOp (writes (setInvitations (updateInvitationClaim (iv_id row) email claimId now))) (\<lambda>_.
         bindOp (invitationAudit auditId (iv_id row) (the (iv_spaceId row)) ''system'' ''claimed'' now (the (iv_policyVersion row))
           (the (iv_issuerMembershipId row)) (ci_requestId input) (ci_correlationId input)) (\<lambda>_.
         returns (Some (claimId, email, the (iv_spaceId row))))))))"

definition claimInvitation :: "(string \<Rightarrow> string) \<Rightarrow> claim_input \<Rightarrow> string \<Rightarrow> string \<Rightarrow> int \<Rightarrow> (store_db, string \<times> string \<times> string) op" where
  "claimInvitation sha256 input claimId auditId clock =
     bindOp (reads (\<lambda>_. require (tokenText (ci_token input) \<and> \<not> blank (ci_email input)) ''Invalid invitation'')) (\<lambda>_.
     bindOp (transaction storeRollback (claimBody input (sha256 (ci_token input)) (toLowerCase (trim (ci_email input)))
       claimId auditId (toISOString clock))) (\<lambda>result.
     case result of None \<Rightarrow> throws (Error ''Invalid invitation'') | Some r \<Rightarrow> returns r))"

definition completeInvitationRedemption :: "string \<Rightarrow> string \<Rightarrow> human_control \<Rightarrow> string \<Rightarrow> string option \<Rightarrow> string option \<Rightarrow>
    string \<Rightarrow> int \<Rightarrow> (store_db, unit) op" where
  "completeInvitationRedemption claimId userId auth email nowOpt requestId auditId clock = transaction storeRollback (
     (let now = (case nowOpt of None \<Rightarrow> toISOString clock | Some t \<Rightarrow> t) in
     bindOp (reads (\<lambda>_. require (hc_actorId auth = userId) ''Invitation target identity mismatch'')) (\<lambda>_.
     bindOp (reads (\<lambda>s. case find (\<lambda>r. iv_claimId r = Some claimId) (invitations s) of
         None \<Rightarrow> Inl (Error ''Invalid invitation'')
       | Some row \<Rightarrow> if iv_status row \<noteq> InvClaimed \<or> iv_claimedEmail row \<noteq> Some (toLowerCase (trim email))
           then Inl (Error ''Invalid invitation'') else Inr row)) (\<lambda>row.
     bindOp (reads (\<lambda>s. invitationIssuer (sd_gov s) row now)) (\<lambda>_.
     bindOp (reads (\<lambda>s. Inr (find (\<lambda>a. ac_id a = userId) (db_actors (sd_gov s))))) (\<lambda>identity.
     bindOp (reads (\<lambda>_. require (case identity of None \<Rightarrow> True | Some a \<Rightarrow> ac_status a = Active)
       ''Invitation identity is inactive'')) (\<lambda>_.
     bindOp (if identity = None then writes (upsertActorMembershipStmt \<lparr>ac_id = userId, ac_status = Active,
       ac_capabilities = [], ac_scope = []\<rparr>) else returns ()) (\<lambda>_.
     bindOp (onGov (acceptInvitedMembership claimId email now auth)) (\<lambda>_.
     bindOp (reads (\<lambda>s. require (changes (redeemable claimId) (invitations s) = 1) ''Invitation redemption failed'')) (\<lambda>_.
     bindOp (writes (setInvitations (updateInvitationRedeemed claimId userId now))) (\<lambda>_.
     invitationAudit auditId (iv_id row) (the (iv_spaceId row)) userId ''redeemed'' now (the (iv_policyVersion row))
       (the (iv_issuerMembershipId row)) requestId None)))))))))))"

text \<open>
  What can happen to the store while invitations are pending: the four operations, and anything
  else that leaves the table of invitations alone.
\<close>

inductive invitation_step :: "store_db \<Rightarrow> store_db \<Rightarrow> bool" where
  step_create: "createInvitation sha256 authUrl input iid rawToken auditId clock s = (c, t) \<Longrightarrow> invitation_step s t"
| step_revoke: "revokeInvitation input invitationId auditId clock s = (u, t) \<Longrightarrow> invitation_step s t"
| step_claim: "claimInvitation sha256 cinput claimId auditId clock s = (c, t) \<Longrightarrow> invitation_step s t"
| step_redeem: "completeInvitationRedemption claimId userId auth email nowOpt requestId auditId clock s = (u, t) \<Longrightarrow>
    invitation_step s t"
| step_other: "invitations t = invitations s \<Longrightarrow> invitation_step s t"

abbreviation invitation_reach :: "store_db \<Rightarrow> store_db \<Rightarrow> bool" where
  "invitation_reach \<equiv> invitation_step\<^sup>*\<^sup>*"

subsection \<open>Frames\<close>

lemma triple_bind_returns [triple_rules]: "triple P (f x) Q E \<Longrightarrow> triple P (bindOp (returns x) f) Q E"
  by simp

lemma invitations_simps [simp]:
  "invitations (setInvitations f s) = f (invitations s)"
  "invitations (s\<lparr>sd_audit := rows\<rparr>) = invitations s"
  "invitations (storeRollback s t) = invitations s"
  "invitations (upsertActorMembershipStmt a s) = invitations s"
  by (simp_all add: invitations_def setInvitations_def storeRollback_def upsertActorMembershipStmt_def Let_def)

lemma invitationAudit_Inr:
  assumes "invitationAudit uuid iid sid aid action now v m rq co s = (Inr u, t)"
  shows "\<exists>row. t = s\<lparr>sd_audit := sd_audit s @ [row]\<rparr> \<and>
    ad_authorizationDisposition row = Some (PlainText ''authorized_without_approval'')"
  using assms by (auto simp: invitationAudit_def store_simps storeAudit_def insertAudit_def insertRow_def split: if_splits)

lemma audit_invitations: "triple (\<lambda>g. db_invitations g = X) (audit sid aid cls sub now details) (\<lambda>_ g. db_invitations g = X)
    (\<lambda>g. db_invitations g = X)"
  by (auto simp: triple_def audit_def bindOp_def randomUUID_def insertInto_def reads_def writes_def split: sum.splits)

lemma createMembership_invitations: "triple (\<lambda>g. db_invitations g = X) (createMembership sid aid by' from until now orig)
    (\<lambda>_ g. db_invitations g = X) (\<lambda>g. db_invitations g = X)"
  by (auto simp: triple_def createMembership_def bindOp_def randomUUID_def insertInto_def reads_def writes_def returns_def Let_def
      split: sum.splits if_splits)

lemma acceptInvitedMembership_invitations: "triple (\<lambda>g. db_invitations g = X) (acceptInvitedMembership claimId email now auth)
    (\<lambda>_ g. db_invitations g = X) (\<lambda>g. db_invitations g = X)"
  unfolding acceptInvitedMembership_def Let_def
  by (intro triple_rules triple_transaction triple_call [OF audit_invitations] triple_call [OF createMembership_invitations]) auto

lemma onGov_Inr: "onGov m s = (Inr x, t) \<longleftrightarrow> (\<exists>g. m (sd_gov s) = (Inr x, g) \<and> t = s\<lparr>sd_gov := g\<rparr>)"
  by (auto simp: onGov_def split: prod.splits)

lemma accept_table: "onGov (acceptInvitedMembership claimId email now auth) s = (c, t) \<Longrightarrow> invitations t = invitations s"
  by (auto simp: onGov_def invitations_def split: prod.splits dest: tripleD [OF acceptInvitedMembership_invitations refl])

subsection \<open>What every operation keeps of the table\<close>

locale invitation_invariant =
  fixes P :: "invitation_row list \<Rightarrow> bool"
  assumes keep_insert: "P rows \<Longrightarrow> iv_status r = InvActive \<Longrightarrow>
      \<forall>x \<in> set rows. iv_id r \<noteq> iv_id x \<and> iv_tokenDigest r \<noteq> iv_tokenDigest x \<Longrightarrow> P (rows @ [r])"
    and keep_claim: "P rows \<Longrightarrow> P (updateInvitationClaim iid email claimId at rows)"
    and keep_revoke: "P rows \<Longrightarrow> P (updateInvitationRevoke iid rows)"
    and keep_expire: "P rows \<Longrightarrow> P (updateInvitationExpired iid now rows)"
    and keep_redeem: "P rows \<Longrightarrow> P (updateInvitationRedeemed claimId userId at rows)"
begin

abbreviation holds :: "store_db \<Rightarrow> bool" where
  "holds s \<equiv> P (invitations s)"

lemma atomically: "triple holds m (\<lambda>_. holds) (\<lambda>_. True) \<Longrightarrow> triple holds (transaction storeRollback m) (\<lambda>_. holds) holds"
  by (erule triple_transaction) simp

lemma audit_keeps: "triple holds (invitationAudit uuid iid sid aid action now v m rq co) (\<lambda>_. holds) (\<lambda>_. True)"
  by (auto simp: triple_def split: sum.splits dest: invitationAudit_Inr)

lemmas audit_call = triple_call [OF audit_keeps]
lemmas audit_end = triple_weaken [OF audit_keeps]

lemma accept_keeps: "triple holds (onGov (acceptInvitedMembership claimId email now auth)) (\<lambda>_. holds) (\<lambda>_. True)"
  by (auto simp: triple_def split: prod.splits sum.splits dest: accept_table)

lemma insert_keeps: "iv_status r = InvActive \<Longrightarrow> triple holds (insertInvitation r) (\<lambda>_. holds) (\<lambda>_. True)"
  by (auto simp: triple_def insertInvitation_def insertRow_def list_ex_iff intro: keep_insert split: sum.splits if_splits)

lemma createInvitation_keeps: "triple holds (createInvitation sha256 authUrl input iid rawToken auditId clock) (\<lambda>_. holds) holds"
  unfolding createInvitation_def
  by (intro atomically triple_rules triple_call [OF insert_keeps] audit_call) auto

lemma revokeInvitation_keeps: "triple holds (revokeInvitation input invitationId auditId clock) (\<lambda>_. holds) holds"
  unfolding revokeInvitation_def
  by (intro atomically triple_rules audit_end) (auto intro: keep_revoke)

lemma claimBody_keeps: "triple holds (claimBody input digest email claimId auditId now) (\<lambda>_. holds) (\<lambda>_. True)"
  unfolding claimBody_def
  by (intro triple_rules audit_call) (auto simp: triple_def throws_def returns_def intro: keep_claim keep_expire)

lemma claimInvitation_keeps: "triple holds (claimInvitation sha256 input claimId auditId clock) (\<lambda>_. holds) holds"
  unfolding claimInvitation_def
  by (intro triple_rules triple_call [OF atomically [OF claimBody_keeps]]) (auto simp: triple_def throws_def)

lemma completeInvitationRedemption_keeps:
  "triple holds (completeInvitationRedemption claimId userId auth email nowOpt requestId auditId clock) (\<lambda>_. holds) holds"
  unfolding completeInvitationRedemption_def Let_def
  by (intro atomically triple_rules triple_call [OF accept_keeps] audit_end) (auto intro: keep_redeem)

lemma step_keeps: "invitation_step s t \<Longrightarrow> holds s \<Longrightarrow> holds t"
  by (induction rule: invitation_step.induct)
    (auto dest: tripleD [OF createInvitation_keeps] tripleD [OF revokeInvitation_keeps] tripleD [OF claimInvitation_keeps]
      tripleD [OF completeInvitationRedemption_keeps])

lemma reach_keeps: "invitation_reach s t \<Longrightarrow> holds s \<Longrightarrow> holds t"
  by (induction rule: rtranclp_induct) (auto intro: step_keeps)

end

subsection \<open>One way through the states\<close>

definition consent :: "invitation_row \<Rightarrow> string \<times> string \<times> string option \<times> string option \<times> string option \<times> string" where
  "consent r = (iv_tokenDigest r, iv_createdByUserId r, iv_spaceId r, iv_issuerMembershipId r, iv_policyVersion r, iv_expiresAt r)"

definition evolves :: "invitation_row \<Rightarrow> invitation_row \<Rightarrow> bool" where
  "evolves r x \<longleftrightarrow> iv_id x = iv_id r \<and> consent x = consent r \<and>
     (iv_status r = InvActive \<or> iv_claimId x = iv_claimId r \<and> iv_claimedEmail x = iv_claimedEmail r \<and> iv_status x \<noteq> InvActive) \<and>
     (iv_status r \<in> {InvActive, InvClaimed} \<or> x = r)"

lemma evolves_refl [simp]: "evolves r r"
  by (auto simp: evolves_def)

lemma evolves_update:
  assumes "\<exists>x \<in> set rows. evolves r x" "\<And>x. evolves r x \<Longrightarrow> p x \<Longrightarrow> evolves r (f x)"
  shows "\<exists>y \<in> set (updateWhere p f rows). evolves r y"
  using assms by (auto simp: updateWhere_def)

lemmas update_defs = updateInvitationClaim_def updateInvitationRevoke_def updateInvitationExpired_def
  updateInvitationRedeemed_def

interpretation life: invitation_invariant "\<lambda>rows. \<exists>x \<in> set rows. evolves r x" for r
  by (unfold_locales, simp, unfold update_defs; erule evolves_update)
    (auto simp: evolves_def consent_def unsettled_def redeemable_def)

definition tokens_unique :: "invitation_row list \<Rightarrow> bool" where
  "tokens_unique rows \<longleftrightarrow> distinct (map iv_id rows) \<and> distinct (map iv_tokenDigest rows)"

interpretation unique: invitation_invariant tokens_unique
  by unfold_locales
    (auto simp: tokens_unique_def update_defs map_key_updateWhere)

lemma claim_settled:
  assumes "tokens_unique (invitations s)" "r \<in> set (invitations s)" "iv_status r \<notin> {InvActive, InvClaimed}"
    "sha256 (ci_token input) = iv_tokenDigest r"
  shows "fst (claimInvitation sha256 input claimId auditId clock s) = Inl (Error ''Invalid invitation'')"
proof -
  have "find (\<lambda>x. iv_tokenDigest x = iv_tokenDigest r) (invitations s) = Some r"
    using assms(1) by (intro find_unique [OF _ assms(2)]) (simp add: tokens_unique_def)
  then show ?thesis using assms(3,4)
    by (simp add: claimInvitation_def claimBody_def bindOp_def reads_def require_def transaction_def)
qed

lemma createMembership_Inr:
  "createMembership sid aid by' from until now orig s = (Inr m, t) \<Longrightarrow>
     \<exists>n. t = s\<lparr>db_next := n, db_memberships := db_memberships s @ [m]\<rparr> \<and> mb_spaceId m = sid \<and> mb_actorId m = aid \<and>
       mb_validFrom m = toISOString from \<and> mb_validUntil m = map_option toISOString until \<and> mb_revokedAt m = None"
  by (auto simp: createMembership_def store_simps Let_def)

text \<open>Somebody who has no current period and none that ends later has exactly the one just created.\<close>

lemma fresh_period_current:
  assumes "isoTime now = Inr t" "iso_range t" "mb_validFrom m = toISOString t" "mb_validUntil m = None"
    "currentMembership s sid aid now = Inr None" "activeIdentity s aid" "liveSpace s sid = Some sp"
    "existsR (\<lambda>p. case mb_validUntil p of None \<Rightarrow> Inr True
       | Some u \<Rightarrow> andThen (isoTime u) (\<lambda>stop. Inr (stop > t))) (openPeriods s sid aid) = Inr False"
    "activeIdentity s' aid" "liveSpace s' sid = Some sp" "openPeriods s' sid aid = openPeriods s sid aid @ [m]"
  shows "currentMembership s' sid aid now = Inr (Some m)"
proof -
  let ?cur = "\<lambda>r. isCurrentAt (mb_validFrom r) (mb_validUntil r) now"
  obtain act where act: "filterR ?cur (openPeriods s sid aid) = Inr act"
    using assms(5,6,7) by (auto simp: currentMembership_def read_simps)
  have past: "?cur x \<noteq> Inr True" if "x \<in> set (openPeriods s sid aid)" for x
    using assms(1,8) that by (fastforce simp: existsR_False isCurrentAt_def read_simps split: option.splits if_splits)
  have "?cur x = Inr False" if "x \<in> set (openPeriods s sid aid)" for x
    using past [OF that] filterR_Inr_defined [OF act that] by auto
  moreover have "?cur m = Inr True" using assms(1-4) by (simp add: isCurrentAt_def)
  ultimately have "filterR ?cur (openPeriods s' sid aid) = Inr (filter (\<lambda>x. ?cur x = Inr True) (openPeriods s' sid aid))"
    by (intro filterR_total) (auto simp: assms(11))
  moreover have "filter (\<lambda>x. ?cur x = Inr True) (openPeriods s' sid aid) = [m]"
    using past \<open>?cur m = Inr True\<close> by (simp add: assms(11) filter_empty_conv)
  ultimately show ?thesis using assms(9,10) by (simp add: currentMembership_def)
qed

lemma guarded_Inr:
  "(case x of None \<Rightarrow> Inl e | Some y \<Rightarrow> f y) = Inr z \<longleftrightarrow> (\<exists>y. x = Some y \<and> f y = Inr z)"
  "(if b then Inl e else m) = Inr z \<longleftrightarrow> \<not> b \<and> m = Inr z"
  by (auto split: option.split)

lemma claimedInvitation_Inr:
  assumes "claimedInvitation g claimId mail t now = Inr (row, sp, p, issuer)"
  shows "find (\<lambda>r. iv_claimId r = Some claimId) (db_invitations g) = Some row"
    "iv_spaceId row = Some (sp_id sp)" "liveSpace g (sp_id sp) = Some sp"
proof -
  from assms obtain sid where "find (\<lambda>r. iv_claimId r = Some claimId) (db_invitations g) = Some row"
    "iv_spaceId row = Some sid" "liveSpace g sid = Some sp"
    by (auto simp: claimedInvitation_def read_simps guarded_Inr)
  moreover from this(3) have "sp_id sp = sid" by (auto simp: liveSpace_def dest: find_SomeD)
  ultimately show "find (\<lambda>r. iv_claimId r = Some claimId) (db_invitations g) = Some row"
    "iv_spaceId row = Some (sp_id sp)" "liveSpace g (sp_id sp) = Some sp" by simp_all
qed

lemma currentMembership_frame:
  assumes "db_actors g' = db_actors g" "db_spaces g' = db_spaces g" "db_memberships g' = db_memberships g"
  shows "currentMembership g' = currentMembership g"
  using assms by (intro ext) (simp add: currentMembership_def activeIdentity_def liveSpace_def openPeriods_def)

lemma accept_Inr:
  assumes "acceptInvitedMembership claimId email now auth g = (Inr m, g')" "isoTime now = Inr t" "iso_range t"
  shows "\<exists>row sid. find (\<lambda>r. iv_claimId r = Some claimId) (db_invitations g) = Some row \<and> iv_spaceId row = Some sid \<and>
    currentMembership g' sid (hc_actorId auth) now = Inr (Some m) \<and>
    db_grants g' = db_grants g \<and> db_actors g' = db_actors g \<and> db_spaces g' = db_spaces g"
proof -
  let ?aid = "hc_actorId auth"
  from assms(1,2) obtain row sp p issuer current where
    c: "claimedInvitation g claimId (toLowerCase (trim email)) t now = Inr (row, sp, p, issuer)"
    and act: "activeIdentity g ?aid" and cur: "currentMembership g (sp_id sp) ?aid now = Inr current"
    and rest: "(case current of
         Some m \<Rightarrow>
           bindOp (audit (sp_id sp) ?aid ''invitation_membership_accepted'' (Some (mb_id m)) now
             (invitationDetails row issuer p True auth)) (\<lambda>_. returns m)
       | None \<Rightarrow>
           bindOp (reads (\<lambda>db. existsR (\<lambda>p. case mb_validUntil p of None \<Rightarrow> Inr True
               | Some u \<Rightarrow> andThen (isoTime u) (\<lambda>stop. Inr (stop > t)))
             (openPeriods db (sp_id sp) ?aid))) (\<lambda>later.
           bindOp (reads (\<lambda>_. require (\<not> later) ''Invitation invalid'')) (\<lambda>_.
           bindOp (createMembership (sp_id sp) ?aid (mb_actorId issuer) t None now Managed) (\<lambda>m.
           bindOp (audit (sp_id sp) ?aid ''invitation_membership_accepted'' (Some (mb_id m)) now
             (invitationDetails row issuer p False auth)) (\<lambda>_. returns m))))) g = (Inr m, g')"
    unfolding acceptInvitedMembership_def Let_def by (auto simp: store_simps require_eq_Inr)
  note row = claimedInvitation_Inr [OF c]
  show ?thesis
  proof (cases current)
    case (Some m')
    with rest obtain n a where m: "m' = m" and g': "g' = g\<lparr>db_next := n, db_audit := a\<rparr>"
      by (auto simp: store_simps dest!: audit_Inr)
    then have "currentMembership g' = currentMembership g" by (intro currentMembership_frame) simp_all
    with cur Some row m g' show ?thesis by auto
  next
    case None
    with rest obtain n a where
      later: "existsR (\<lambda>p. case mb_validUntil p of None \<Rightarrow> Inr True
        | Some u \<Rightarrow> andThen (isoTime u) (\<lambda>stop. Inr (stop > t))) (openPeriods g (sp_id sp) ?aid) = Inr False"
      and g': "db_actors g' = db_actors g" "db_spaces g' = db_spaces g" "db_memberships g' = db_memberships g @ [m]"
        "db_grants g' = db_grants g"
      and m: "mb_spaceId m = sp_id sp" "mb_actorId m = ?aid" "mb_validFrom m = toISOString t" "mb_validUntil m = None"
        "mb_revokedAt m = None"
      by (auto simp: store_simps require_eq_Inr dest!: audit_Inr createMembership_Inr)
    have "currentMembership g' (sp_id sp) ?aid now = Inr (Some m)"
      using None cur act row(3) later m g'
      by (intro fresh_period_current [OF assms(2,3), where s = g])
        (simp_all add: activeIdentity_def liveSpace_def openPeriods_def)
    with row g' show ?thesis by auto
  qed
qed

text \<open>
  C12. An invitation goes one way through its states: after any further operations its token, issuer,
  space, policy version and expiry are the captured ones; once claimed it stays bound to that
  claim and mailbox and never becomes active again; once redeemed, revoked or expired its row never
  changes, and its token is refused.
\<close>
theorem invitation_lifecycle:
  assumes "r \<in> set (invitations s)" and "tokens_unique (invitations s)" and "invitation_reach s t"
  shows "(\<exists>x \<in> set (invitations t). evolves r x) \<and>
    (iv_status r \<in> {InvActive, InvClaimed} \<or> sha256 (ci_token input) \<noteq> iv_tokenDigest r \<or>
      fst (claimInvitation sha256 input claimId auditId clock t) = Inl (Error ''Invalid invitation''))"
proof -
  have ex: "\<exists>x \<in> set (invitations t). evolves r x"
    using assms(1) by (intro life.reach_keeps [OF assms(3)]) (auto intro!: bexI [of _ r])
  have "r \<in> set (invitations t)" if "iv_status r \<notin> {InvActive, InvClaimed}"
    using ex that by (auto simp: evolves_def)
  then show ?thesis using ex claim_settled [OF unique.reach_keeps [OF assms(3,2)]] by blast
qed

definition sample_invitation :: "invitation_status \<Rightarrow> invitation_row" where
  "sample_invitation st = \<lparr>iv_id = ''i1'', iv_status = st, iv_createdByUserId = ''ana'',
     iv_expiresAt = ''2024-06-05T00:00:00.000Z'', iv_claimedEmail = Some ''ben@example.org'', iv_claimId = Some ''c1'',
     iv_spaceId = Some ''s1'', iv_issuerMembershipId = Some ''m1'', iv_policyVersion = Some ''1'',
     iv_tokenDigest = replicate 64 (CHR ''a''), iv_redeemedUserId = None, iv_createdAt = t0, iv_claimedAt = Some t0,
     iv_redeemedAt = None\<rparr>"

definition sample_store :: "invitation_status \<Rightarrow> store_db" where
  "sample_store st = \<lparr>sd_gov = sample_db\<lparr>db_invitations := [sample_invitation st]\<rparr>, sd_registration = None, sd_audit = []\<rparr>"

definition ana_invites :: invitation_control where
  "ana_invites = \<lparr>vc_spaceId = ''s1'', vc_auth = ana_control, vc_now = Some t1, vc_requestId = None, vc_correlationId = None\<rparr>"

definition sample_claim :: claim_input where
  "sample_claim = \<lparr>ci_token = replicate 64 (CHR ''a''), ci_email = ''eve@example.org'', ci_requestId = None, ci_correlationId = None\<rparr>"

theorem invitation_lifecycle_witness:
  "fst (claimInvitation (\<lambda>x. x) sample_claim ''c2'' ''a2'' 1717243200000
     (snd (createInvitation (\<lambda>x. x) [] ana_invites ''i2'' (replicate 64 (CHR ''b'')) ''a1'' 0 (sample_store InvRevoked)))) =
   Inl (Error ''Invalid invitation'')"
proof -
  let ?s = "sample_store InvRevoked" and ?r = "sample_invitation InvRevoked"
  let ?t = "snd (createInvitation (\<lambda>x. x) [] ana_invites ''i2'' (replicate 64 (CHR ''b'')) ''a1'' 0 ?s)"
  have rows: "?r \<in> set (invitations ?s)" "tokens_unique (invitations ?s)"
    by (simp_all add: sample_store_def invitations_def tokens_unique_def)
  have "invitation_reach ?s ?t" by (rule r_into_rtranclp [of invitation_step, OF step_create [OF surjective_pairing]])
  from invitation_lifecycle [OF rows this, of "\<lambda>x. x" sample_claim "''c2''" "''a2''" "1717243200000"] show ?thesis
    by (simp add: sample_invitation_def sample_claim_def)
qed

subsection \<open>Redemption\<close>

abbreviation instantOf :: "string option \<Rightarrow> int \<Rightarrow> string" where
  "instantOf nowOpt clock \<equiv> (case nowOpt of None \<Rightarrow> toISOString clock | Some n \<Rightarrow> n)"

text \<open>
  C11. Redeeming an invitation is sound: it succeeds only for a claim that is pending, with the mailbox
  that claimed it, by the person who authenticated, while the issuer still holds the authority
  captured by the invitation; afterwards that person has a current membership of the invitation's
  space, the invitation is redeemed in their name, and no grant has been added or changed.
\<close>
theorem redemption_sound:
  assumes "completeInvitationRedemption claimId userId auth email nowOpt requestId auditId clock s = (Inr (), t)"
    and "isoTime (instantOf nowOpt clock) = Inr i" and "iso_range i"
  shows "\<exists>row sid m. find (\<lambda>r. iv_claimId r = Some claimId) (invitations s) = Some row \<and> iv_status row = InvClaimed \<and>
    iv_claimedEmail row = Some (toLowerCase (trim email)) \<and> iv_spaceId row = Some sid \<and> hc_actorId auth = userId \<and>
    invitationIssuer (sd_gov s) row (instantOf nowOpt clock) = Inr () \<and>
    getCurrentMembership (sd_gov t) sid userId (instantOf nowOpt clock) = Inr (Some m) \<and>
    row\<lparr>iv_status := InvRedeemed, iv_redeemedUserId := Some userId, iv_redeemedAt := Some (instantOf nowOpt clock)\<rparr>
      \<in> set (invitations t) \<and>
    db_grants (sd_gov t) = db_grants (sd_gov s)"
proof -
  let ?now = "instantOf nowOpt clock"
  from assms(1) obtain row s' m g where auth: "hc_actorId auth = userId"
    and row: "find (\<lambda>r. iv_claimId r = Some claimId) (invitations s) = Some row" "iv_status row = InvClaimed"
      "iv_claimedEmail row = Some (toLowerCase (trim email))"
    and issuer: "invitationIssuer (sd_gov s) row ?now = Inr ()"
    and up: "(if find (\<lambda>a. ac_id a = userId) (db_actors (sd_gov s)) = None then writes (upsertActorMembershipStmt
      \<lparr>ac_id = userId, ac_status = Active, ac_capabilities = [], ac_scope = []\<rparr>) else returns ()) s = (Inr (), s')"
    and acc: "acceptInvitedMembership claimId email ?now auth (sd_gov s') = (Inr m, g)"
    and gov: "sd_gov t = g\<lparr>db_invitations := updateInvitationRedeemed claimId userId ?now (db_invitations g)\<rparr>"
    unfolding completeInvitationRedemption_def Let_def
    by (auto simp only: store_simps require_eq_Inr guarded_Inr onGov_Inr setInvitations_def split_paired_Ex sum.inject
      dest!: invitationAudit_Inr) fastforce
  from up have s': "invitations s' = invitations s" "db_grants (sd_gov s') = db_grants (sd_gov s)"
    by (auto simp: store_simps upsertActorMembershipStmt_def Let_def invitations_def split: if_split_asm)
  from accept_Inr [OF acc assms(2,3)] s' row obtain sid where sid: "iv_spaceId row = Some sid"
    and cur: "currentMembership g sid userId ?now = Inr (Some m)" and grants: "db_grants g = db_grants (sd_gov s)"
    by (auto simp: invitations_def auth)
  have g: "db_invitations g = invitations s"
    using tripleD [OF acceptInvitedMembership_invitations refl acc] s' by (simp add: invitations_def)
  from gov have "currentMembership (sd_gov t) = currentMembership g" by (intro currentMembership_frame) simp_all
  moreover have "row \<in> set (invitations s)" "redeemable claimId row"
    using find_SomeD [OF row(1)] row(2) by (auto simp: redeemable_def)
  ultimately show ?thesis using auth row issuer sid cur grants gov g assms(2)
    by (auto simp: getCurrentMembership_def invitations_def updateInvitationRedeemed_def updateWhere_def intro!: image_eqI [of _ _ row])
qed

definition ben_control :: human_control where
  "ben_control = ana_control\<lparr>hc_actorId := ''ben''\<rparr>"

abbreviation ben_redeems :: "(unit result) \<times> store_db" where
  "ben_redeems \<equiv> completeInvitationRedemption ''c1'' ''ben'' ben_control '' Ben@example.org'' (Some t1) None ''a1'' 0
     (sample_store InvClaimed)"

theorem redemption_sound_witness:
  "\<exists>m. getCurrentMembership (sd_gov (snd ben_redeems)) ''s1'' ''ben'' t1 = Inr (Some m)"
proof -
  have "fst ben_redeems = Inr ()" by code_simp
  then have run: "ben_redeems = (Inr (), snd ben_redeems)" by (simp add: prod_eq_iff)
  have "map_sum id iso_range (isoTime t1) = Inr True" by code_simp
  then obtain i where i: "isoTime (instantOf (Some t1) 0) = Inr i" "iso_range i" by (cases "isoTime t1") auto
  have "iv_spaceId r = Some ''s1''" if "r \<in> set (invitations (sample_store InvClaimed))" for r
    using that by (simp add: invitations_def sample_store_def sample_invitation_def)
  then show ?thesis using redemption_sound [OF run i] by (auto dest: find_SomeD)
qed

subsection \<open>The audit row of an invitation\<close>

text \<open>
  The authorization disposition of this row is plain text, where readers expect JSON: once an invitation has been
  created, reading the whole audit trail fails.
\<close>

lemma invitation_audit_unreadable:
  assumes "createInvitation sha256 authUrl input iid rawToken auditId clock s = (Inr x, t)"
  shows "\<exists>e. queryAuditRecords None (Some (-1)) None (sd_audit t) = Inl e"
proof -
  from assms obtain row where "row \<in> set (sd_audit t)"
    "ad_authorizationDisposition row = Some (PlainText ''authorized_without_approval'')"
    by (auto simp: createInvitation_def store_simps split: prod.split_asm dest!: invitationAudit_Inr) blast
  then show ?thesis by (rule unreadable_row) simp
qed

end
