(* ===== verification/Review_Queue.thy ===== *)
theory Review_Queue
  imports Authorization
begin

text \<open>
  Review items (\<^verbatim>\<open>store.ts\<close>): a proposed category for a transaction that people approve, correct,
  reject, skip or undo. An item moves along \<open>REVIEW_TRANSITIONS\<close>, guarded by an optimistic version; every
  move writes an action, and an approval or correction also a correction record. Public moves carry
  an authorization that the governance store evaluates inside the transaction. JSON columns are kept
  as the values they encode, so \<open>rowToReviewItem\<close> is the identity; identifiers and the clock are
  arguments. Which rule set a native item refers to is resolved by \<^verbatim>\<open>review-rule-sets.ts\<close>, which is
  not modelled: whether the set exists is an argument.
\<close>

subsection \<open>Data\<close>

datatype review_status = RvDiscovered | RvSuggestionGenerated | RvPendingReview | RvApproved | RvApplying | RvCorrecting
  | RvApplied | RvApplyFailed | RvRejected | RvSkipped | RvSuperseded

fun reviewStatusText :: "review_status \<Rightarrow> string" where
  "reviewStatusText RvDiscovered = ''discovered''"
| "reviewStatusText RvSuggestionGenerated = ''suggestion_generated''"
| "reviewStatusText RvPendingReview = ''pending_review''"
| "reviewStatusText RvApproved = ''approved''"
| "reviewStatusText RvApplying = ''applying''"
| "reviewStatusText RvCorrecting = ''correcting''"
| "reviewStatusText RvApplied = ''applied''"
| "reviewStatusText RvApplyFailed = ''apply_failed''"
| "reviewStatusText RvRejected = ''rejected''"
| "reviewStatusText RvSkipped = ''skipped''"
| "reviewStatusText RvSuperseded = ''superseded''"

fun review_transitions :: "review_status \<Rightarrow> review_status list" where
  "review_transitions RvDiscovered = [RvSuggestionGenerated, RvPendingReview, RvSuperseded]"
| "review_transitions RvSuggestionGenerated = [RvPendingReview, RvSkipped, RvSuperseded]"
| "review_transitions RvPendingReview = [RvApproved, RvCorrecting, RvRejected, RvSkipped, RvSuperseded]"
| "review_transitions RvApproved = [RvCorrecting, RvApplying, RvPendingReview, RvSuperseded]"
| "review_transitions RvApplying = [RvApplied, RvApplyFailed, RvSuperseded]"
| "review_transitions RvCorrecting = [RvApplying, RvPendingReview, RvSuperseded, RvRejected, RvSkipped, RvApproved]"
| "review_transitions RvApplied = [RvSuperseded]"
| "review_transitions RvApplyFailed = [RvCorrecting, RvPendingReview, RvSuperseded]"
| "review_transitions RvRejected = [RvSuperseded, RvPendingReview]"
| "review_transitions RvSkipped = [RvSuperseded, RvPendingReview]"
| "review_transitions RvSuperseded = []"

definition undo_sources :: "review_status list" where
  "undo_sources = [RvApproved, RvCorrecting, RvRejected, RvSkipped]"

record source_transaction =
  st_id :: string
  st_accountId :: string
  st_categoryId :: "string option"
  st_direction :: string
  st_minorUnits :: string
  st_currency :: string

record review_item =
  rv_id :: string
  rv_suggestionId :: "string option"
  rv_budgetId :: string
  rv_transactionId :: string
  rv_sourceTransaction :: "source_transaction option"
  rv_categoryId :: string
  rv_classifier :: string
  rv_promptVersion :: string
  rv_transactionVersion :: int
  rv_status :: review_status
  rv_correlationId :: "string option"
  rv_assignedReviewerId :: "string option"
  rv_approvedBy :: "string list"
  rv_reviewersRequired :: int
  rv_priority :: int
  rv_evidence :: "(string \<times> jsval) list"
  rv_provenance :: string
  rv_supersededBy :: "string option"
  rv_supersededReason :: "string option"
  rv_freshnessExpiresAt :: "string option"
  rv_version :: int
  rv_createdAt :: string
  rv_updatedAt :: string

record review_action =
  ra_id :: string
  ra_reviewItemId :: string
  ra_fromStatus :: review_status
  ra_toStatus :: review_status
  ra_actor :: string
  ra_reason :: "string option"
  ra_metadata :: "(string \<times> jsval) list"
  ra_createdAt :: string

record correction_row =
  co_id :: string
  co_reviewItemId :: string
  co_transactionId :: string
  co_transactionVersion :: int
  co_merchant :: "string option"
  co_importedPayee :: "string option"
  co_accountId :: "string option"
  co_direction :: "string option"
  co_amount :: "int option"
  co_date :: "string option"
  co_categoryId :: string
  co_categoryName :: "string option"
  co_previousCategoryId :: "string option"
  co_proposalId :: "string option"
  co_proposalActorId :: "string option"
  co_payloadHash :: "string option"
  co_idempotencyKey :: "string option"
  co_verified :: bool
  co_actor :: string
  co_fromStatus :: review_status
  co_toStatus :: review_status
  co_sourceReviewId :: string
  co_createdAt :: string

record review_db =
  rw_gov :: gov_db
  rw_items :: "review_item list"
  rw_actions :: "review_action list"
  rw_corrections :: "correction_row list"

record review_authorization =
  rz_spaceId :: string
  rz_policyVersion :: string
  rz_auth :: operational_auth
  rz_transaction :: source_transaction

record transition_input =
  ti_toStatus :: review_status
  ti_actor :: string
  ti_reason :: "string option"
  ti_metadata :: "(string \<times> jsval) list option"
  ti_expectedVersion :: int
  ti_supersededBy :: "string option"
  ti_authorization :: "review_authorization option"
  ti_merchant :: "string option"
  ti_importedPayee :: "string option"
  ti_accountId :: "string option"
  ti_direction :: "string option"
  ti_amount :: "int option"
  ti_date :: "string option"
  ti_categoryName :: "string option"

record review_input =
  ri_suggestionId :: "string option"
  ri_budgetId :: string
  ri_transactionId :: string
  ri_sourceTransaction :: "source_transaction option"
  ri_authorize :: "bool option"
  ri_categoryId :: string
  ri_classifier :: string
  ri_promptVersion :: "string option"
  ri_transactionVersion :: "int option"
  ri_correlationId :: "string option"
  ri_assignedReviewerId :: "string option"
  ri_reviewersRequired :: "int option"
  ri_priority :: "int option"
  ri_evidence :: "(string \<times> jsval) list option"
  ri_provenance :: string
  ri_freshnessExpiresAt :: "string option"

text \<open>\<open>String(n)\<close> of an integer, for the messages.\<close>

definition intText :: "int \<Rightarrow> string" where
  "intText n = (if n < 0 then CHR ''-'' # decimal (nat (- n)) else decimal (nat n))"

definition orElse :: "'a option \<Rightarrow> 'a \<Rightarrow> 'a" where
  "orElse x d = (case x of None \<Rightarrow> d | Some v \<Rightarrow> v)"

text \<open>\<open>json_extract\<close> along a path of names; SQL's \<open>NULL\<close> is \<open>None\<close>.\<close>

fun jsonExtract :: "jsval \<Rightarrow> string list \<Rightarrow> jsval option" where
  "jsonExtract (Obj fs) (k # ks) = (case map_of fs k of None \<Rightarrow> None | Some v \<Rightarrow> jsonExtract v ks)"
| "jsonExtract _ (k # ks) = None"
| "jsonExtract Undefined [] = None"
| "jsonExtract Null [] = None"
| "jsonExtract v [] = Some v"

abbreviation ruleSetPath :: "review_item \<Rightarrow> string list \<Rightarrow> jsval option" where
  "ruleSetPath r p \<equiv> jsonExtract (Obj (rv_evidence r)) (''ruleSetRef'' # p)"

subsection \<open>Statements\<close>

definition selectReviewItem :: "review_db \<Rightarrow> string \<Rightarrow> review_item option" where
  "selectReviewItem s rid = find (\<lambda>r. rv_id r = rid) (rw_items s)"

definition isUnscoped :: "review_item \<Rightarrow> bool" where
  "isUnscoped r \<longleftrightarrow> rv_status r \<noteq> RvSuperseded \<and> (rv_classifier r \<noteq> ''rule'' \<or> ruleSetPath r [''kind''] = None)"

definition isScoped :: "review_item \<Rightarrow> bool" where
  "isScoped r \<longleftrightarrow> rv_status r \<noteq> RvSuperseded \<and> rv_classifier r = ''rule'' \<and> ruleSetPath r [''kind''] = Some (Str ''scoped'')"

definition sameIssue :: "review_item \<Rightarrow> review_item \<Rightarrow> bool" where
  "sameIssue r x \<longleftrightarrow> rv_budgetId r = rv_budgetId x \<and> rv_transactionId r = rv_transactionId x \<and>
     rv_categoryId r = rv_categoryId x \<and> rv_classifier r = rv_classifier x"

text \<open>The primary key and the two partial unique indexes.\<close>

definition issueClash :: "review_item \<Rightarrow> review_item \<Rightarrow> bool" where
  "issueClash r x \<longleftrightarrow> sameIssue r x \<and> (isUnscoped r \<and> isUnscoped x \<or>
     isScoped r \<and> isScoped x \<and>
       (\<exists>a \<in> set_option (ruleSetPath r [''scope'', ''spaceId'']). ruleSetPath x [''scope'', ''spaceId''] = Some a) \<and>
       (\<exists>a \<in> set_option (ruleSetPath r [''scope'', ''connectionId'']). ruleSetPath x [''scope'', ''connectionId''] = Some a))"

definition reviewClash :: "review_item \<Rightarrow> review_item \<Rightarrow> bool" where
  "reviewClash r x \<longleftrightarrow> rv_id r = rv_id x \<or> issueClash r x"

definition insertReviewItem :: "review_item \<Rightarrow> review_item list \<Rightarrow> review_item list" where
  "insertReviewItem r rows = (if list_ex (reviewClash r) rows then rows else rows @ [r])"

definition selectReviewByIssue :: "review_db \<Rightarrow> string \<Rightarrow> string \<Rightarrow> string \<Rightarrow> string \<Rightarrow> review_item option" where
  "selectReviewByIssue s budgetId transactionId categoryId classifier =
     find (\<lambda>r. rv_budgetId r = budgetId \<and> rv_transactionId r = transactionId \<and> rv_categoryId r = categoryId \<and>
       rv_classifier r = classifier \<and> isUnscoped r) (rw_items s)"

definition selectScopedNativeReviewByIssue :: "review_db \<Rightarrow> string \<Rightarrow> string \<Rightarrow> string \<Rightarrow> jsval \<Rightarrow> jsval \<Rightarrow> review_item option" where
  "selectScopedNativeReviewByIssue s budgetId transactionId categoryId spaceId connectionId =
     find (\<lambda>r. rv_budgetId r = budgetId \<and> rv_transactionId r = transactionId \<and> rv_categoryId r = categoryId \<and> isScoped r \<and>
       ruleSetPath r [''scope'', ''spaceId''] = Some spaceId \<and> ruleSetPath r [''scope'', ''budgetId''] = Some (Str budgetId) \<and>
       ruleSetPath r [''scope'', ''connectionId''] = Some connectionId) (rw_items s)"

definition atVersion :: "string \<Rightarrow> int \<Rightarrow> review_item \<Rightarrow> bool" where
  "atVersion rid v r \<longleftrightarrow> rv_id r = rid \<and> rv_version r = v"

definition transitionReviewItemUpdate :: "string \<Rightarrow> review_status \<Rightarrow> review_status \<Rightarrow> int \<Rightarrow> string option \<Rightarrow> string option \<Rightarrow>
    string list option \<Rightarrow> string \<Rightarrow> review_item list \<Rightarrow> review_item list" where
  "transitionReviewItemUpdate rid fromStatus toStatus expectedVersion reason supersededBy approvedBy now =
     updateWhere (\<lambda>r. atVersion rid expectedVersion r \<and> rv_status r = fromStatus)
       (\<lambda>r. r\<lparr>rv_status := toStatus, rv_supersededReason := reason,
          rv_supersededBy := (if toStatus = RvSuperseded then supersededBy else rv_supersededBy r),
          rv_approvedBy := (if toStatus = RvApproved then (case approvedBy of None \<Rightarrow> [] | Some l \<Rightarrow> l) else rv_approvedBy r),
          rv_updatedAt := now, rv_version := rv_version r + 1\<rparr>)"

definition supersedeReviewItem :: "string \<Rightarrow> review_status \<Rightarrow> int \<Rightarrow> string \<Rightarrow> string \<Rightarrow> string \<Rightarrow> review_item list \<Rightarrow> review_item list" where
  "supersedeReviewItem rid oldStatus oldVersion supersededBy reason now =
     updateWhere (\<lambda>r. atVersion rid oldVersion r \<and> rv_status r = oldStatus)
       (\<lambda>r. r\<lparr>rv_status := RvSuperseded, rv_supersededBy := Some supersededBy, rv_supersededReason := Some reason,
          rv_updatedAt := now, rv_version := rv_version r + 1\<rparr>)"

definition updateApprovedBy :: "string \<Rightarrow> string list \<Rightarrow> string \<Rightarrow> int \<Rightarrow> review_item list \<Rightarrow> review_item list" where
  "updateApprovedBy rid approvedBy now expectedVersion = updateWhere (atVersion rid expectedVersion)
     (\<lambda>r. r\<lparr>rv_approvedBy := approvedBy, rv_updatedAt := now, rv_version := rv_version r + 1\<rparr>)"

definition insertReviewAction :: "review_action \<Rightarrow> (review_db, unit) op" where
  "insertReviewAction a s = (case insertRow (\<lambda>x y. ra_id x = ra_id y) ''review_actions'' a (rw_actions s) of
     Inl e \<Rightarrow> (Inl e, s) | Inr rows \<Rightarrow> (Inr (), s\<lparr>rw_actions := rows\<rparr>))"

definition insertCorrection :: "correction_row \<Rightarrow> (review_db, unit) op" where
  "insertCorrection c s = (case insertRow (\<lambda>x y. co_id x = co_id y) ''review_corrections'' c (rw_corrections s) of
     Inl e \<Rightarrow> (Inl e, s) | Inr rows \<Rightarrow> (Inr (), s\<lparr>rw_corrections := rows\<rparr>))"

abbreviation onItems :: "(review_item list \<Rightarrow> review_item list) \<Rightarrow> review_db \<Rightarrow> review_db" where
  "onItems f s \<equiv> s\<lparr>rw_items := f (rw_items s)\<rparr>"

subsection \<open>Authority of a public move\<close>

fun humanAuth :: "operational_auth \<Rightarrow> bool" where
  "humanAuth (HumanSession c) = (hc_method c = ''session'' \<or> hc_method c = ''human-session'')"
| "humanAuth (Session _ _ _) = True"
| "humanAuth (ApiKeyHuman _ _ _ _) = True"
| "humanAuth (ApiKeyAgent _ _ _ _ _ _) = False"

definition reviewOperation :: "review_status \<Rightarrow> review_status \<Rightarrow> string option" where
  "reviewOperation fromStatus toStatus =
     (if toStatus = RvRejected then Some ''reject_review''
      else if toStatus = RvSkipped then Some ''skip_review''
      else if toStatus = RvPendingReview \<and> fromStatus \<in> set undo_sources then Some ''undo_review''
      else None)"

definition reviewRefs :: "review_item \<Rightarrow> source_transaction \<Rightarrow> (string \<times> string) list" where
  "reviewRefs full tx =
     [(''budget'', rv_budgetId full), (''transaction'', rv_transactionId full), (''account'', st_accountId tx)] @
     (if rv_categoryId full \<noteq> [] then [(''category'', rv_categoryId full)] else []) @
     (case st_categoryId tx of None \<Rightarrow> []
      | Some c \<Rightarrow> if c \<noteq> [] \<and> c \<noteq> rv_categoryId full then [(''category'', c)] else [])"

definition reviewPayload :: "string \<Rightarrow> review_item \<Rightarrow> source_transaction \<Rightarrow> (string \<times> jsval) list" where
  "reviewPayload operation full tx =
     [(''operations'', Arr [Obj ([(''operation'', Str operation), (''transactionId'', Str (rv_transactionId full)),
         (''accountId'', Str (st_accountId tx)), (''direction'', Str (st_direction tx)),
         (''amount'', Obj [(''minorUnits'', Str (st_minorUnits tx)), (''currency'', Str (st_currency tx))])] @
         (if rv_categoryId full \<noteq> [] then [(''categoryId'', Str (rv_categoryId full))] else []))]),
      (''currentTransaction'', Obj [(''categoryId'', case st_categoryId tx of None \<Rightarrow> Null | Some c \<Rightarrow> Str c)])]"

definition reviewRequest :: "string \<Rightarrow> review_item \<Rightarrow> transition_input \<Rightarrow> review_authorization \<Rightarrow> string \<Rightarrow> auth_input" where
  "reviewRequest operation full input ctx now = \<lparr>in_actorId = ti_actor input, in_spaceId = rz_spaceId ctx,
     in_membershipId = None, in_expectedPolicyVersion = rz_policyVersion ctx, in_phase = PhaseRead, in_operation = operation,
     in_required = map (\<lambda>(kind, rid). \<lparr>rq_capability = ''categorization:execute'', rq_resourceKind = kind, rq_resourceId = rid,
       rq_visibility = Some ResourceVisibility\<rparr>) (reviewRefs full (rz_transaction ctx)),
     in_payload = reviewPayload operation full (rz_transaction ctx), in_now = now, in_agentId = None,
     in_delegationId = None, in_delegationVersion = None, in_auth = Some (rz_auth ctx), in_verifiedHumanApproval = False\<rparr>"

definition reviewAuthority :: "gov_db \<Rightarrow> review_item \<Rightarrow> transition_input \<Rightarrow> review_authorization \<Rightarrow> string \<Rightarrow> unit result" where
  "reviewAuthority gov full input ctx now =
     (case reviewOperation (rv_status full) (ti_toStatus input) of
        None \<Rightarrow> Inl (Error ''Review action authorization unavailable'')
      | Some operation \<Rightarrow>
          if \<not> humanAuth (rz_auth ctx) \<or> authActorId (rz_auth ctx) \<noteq> ti_actor input \<or>
             map_option sp_id (getSpaceForBudget gov (rv_budgetId full)) \<noteq> Some (rz_spaceId ctx) \<or>
             st_id (rz_transaction ctx) \<noteq> rv_transactionId full
          then Inl (Error ''Review action authorization unavailable'')
          else require (ar_allowed (authorize gov (reviewRequest operation full input ctx now)))
            ''Review action authorization unavailable'')"

subsection \<open>Transitions\<close>

definition reviewTransaction :: "(review_db, 'a) op \<Rightarrow> (review_db, 'a) op" where
  "reviewTransaction = transaction (\<lambda>s _. s)"

definition readBack :: "string \<Rightarrow> (review_db, review_item) op" where
  "readBack rid = reads (\<lambda>s. case selectReviewItem s rid of None \<Rightarrow> Inl TypeError | Some r \<Rightarrow> Inr r)"

definition historicalReview :: "review_item \<Rightarrow> bool" where
  "historicalReview r \<longleftrightarrow> (case js_record (field (rv_evidence r) ''ruleSetRef'') of
     None \<Rightarrow> False | Some ref \<Rightarrow> field ref ''kind'' = Str ''historical-unattributed'')"

definition transitionAction :: "string \<Rightarrow> string \<Rightarrow> review_status \<Rightarrow> review_status \<Rightarrow> transition_input \<Rightarrow> string option \<Rightarrow> string \<Rightarrow> review_action" where
  "transitionAction actionId rid fromStatus toStatus input reason now = \<lparr>ra_id = actionId, ra_reviewItemId = rid,
     ra_fromStatus = fromStatus, ra_toStatus = toStatus, ra_actor = ti_actor input, ra_reason = reason,
     ra_metadata = orElse (ti_metadata input) [], ra_createdAt = now\<rparr>"

text \<open>An approval that does not complete the quorum: recorded, the status stays.\<close>

definition recordApproval :: "review_item \<Rightarrow> transition_input \<Rightarrow> string list \<Rightarrow> string \<Rightarrow> string \<Rightarrow> (review_db, review_item) op" where
  "recordApproval current input approvedBy actionId now =
     (let rid = rv_id current; fromStatus = rv_status current in
      bindOp (reads (\<lambda>s. require (changes (atVersion rid (ti_expectedVersion input)) (rw_items s) \<noteq> 0)
        (''Version conflict on review item '' @ rid @ '': expected '' @ intText (ti_expectedVersion input)))) (\<lambda>_.
      bindOp (writes (onItems (updateApprovedBy rid approvedBy now (ti_expectedVersion input)))) (\<lambda>_.
      bindOp (insertReviewAction (transitionAction actionId rid fromStatus fromStatus input
        (Some (orElse (ti_reason input) (''Approved by '' @ ti_actor input @ '' ('' @ decimal (length approvedBy) @ ''/'' @
          intText (rv_reviewersRequired current) @ '' reviewers)''))) now)) (\<lambda>_.
      readBack rid))))"

definition correctionOf :: "string \<Rightarrow> review_item \<Rightarrow> review_status \<Rightarrow> transition_input \<Rightarrow> string \<Rightarrow> correction_row" where
  "correctionOf correctionId full fromStatus input now = \<lparr>co_id = correctionId, co_reviewItemId = rv_id full,
     co_transactionId = rv_transactionId full, co_transactionVersion = rv_transactionVersion full, co_merchant = ti_merchant input,
     co_importedPayee = ti_importedPayee input, co_accountId = ti_accountId input, co_direction = ti_direction input,
     co_amount = ti_amount input, co_date = ti_date input, co_categoryId = rv_categoryId full, co_categoryName = ti_categoryName input,
     co_previousCategoryId = None, co_proposalId = None, co_proposalActorId = None, co_payloadHash = None,
     co_idempotencyKey = None, co_verified = False, co_actor = ti_actor input, co_fromStatus = fromStatus,
     co_toStatus = ti_toStatus input, co_sourceReviewId = rv_id full, co_createdAt = now\<rparr>"

definition performTransition :: "review_item \<Rightarrow> transition_input \<Rightarrow> string list option \<Rightarrow> string \<Rightarrow> string \<Rightarrow> string \<Rightarrow>
    (review_db, review_item) op" where
  "performTransition current input approvedBy actionId correctionId now =
     (let rid = rv_id current; fromStatus = rv_status current; toStatus = ti_toStatus input in
      bindOp (reads (\<lambda>s. require (changes (\<lambda>r. atVersion rid (ti_expectedVersion input) r \<and> rv_status r = fromStatus) (rw_items s) \<noteq> 0)
        (''Version conflict on review item '' @ rid @ '': expected '' @ intText (ti_expectedVersion input) @
          '', current version may have changed''))) (\<lambda>_.
      bindOp (writes (onItems (transitionReviewItemUpdate rid fromStatus toStatus (ti_expectedVersion input)
        (if toStatus = RvSuperseded then ti_reason input else None) (ti_supersededBy input) approvedBy now))) (\<lambda>_.
      bindOp (insertReviewAction (transitionAction actionId rid fromStatus toStatus input (ti_reason input) now)) (\<lambda>_.
      bindOp (if toStatus = RvApproved \<or> toStatus = RvCorrecting then
          bindOp (readBack rid) (\<lambda>full. insertCorrection (correctionOf correctionId full fromStatus input now))
        else returns ()) (\<lambda>_.
      readBack rid)))))"

definition transitionReviewItemInTransaction :: "string \<Rightarrow> transition_input \<Rightarrow> string \<Rightarrow> string \<Rightarrow> string \<Rightarrow> (review_db, review_item) op" where
  "transitionReviewItemInTransaction rid input actionId correctionId now = reviewTransaction (
     bindOp (reads (\<lambda>s. case selectReviewItem s rid of
         None \<Rightarrow> Inl (Error (''Review item '' @ rid @ '' not found'')) | Some r \<Rightarrow> Inr r)) (\<lambda>current.
     bindOp (reads (\<lambda>_. require (\<not> (historicalReview current \<and> ti_toStatus input \<noteq> RvSuperseded))
       ''Historical native Review requires current source synchronization'')) (\<lambda>_.
     bindOp (reads (\<lambda>s. case ti_authorization input of None \<Rightarrow> Inr ()
       | Some ctx \<Rightarrow> reviewAuthority (rw_gov s) current input ctx now)) (\<lambda>_.
     let fromStatus = rv_status current; toStatus = ti_toStatus input in
     if fromStatus = toStatus then returns current
     else
       bindOp (reads (\<lambda>_. require (fromStatus \<noteq> RvSuperseded) ''Cannot transition from superseded status'')) (\<lambda>_.
       bindOp (reads (\<lambda>_. require (toStatus \<in> set (review_transitions fromStatus))
         (''Cannot transition review item '' @ rid @ '' from '' @ quoted (reviewStatusText fromStatus) @ '' to '' @ quoted (reviewStatusText toStatus)))) (\<lambda>_.
       if toStatus = RvApproved then
         (if ti_actor input \<in> set (rv_approvedBy current) then returns current
          else let approvedBy = rv_approvedBy current @ [ti_actor input] in
            if int (length approvedBy) < rv_reviewersRequired current then recordApproval current input approvedBy actionId now
            else performTransition current input (Some approvedBy) actionId correctionId now)
       else performTransition current input None actionId correctionId now))))))"

abbreviation transitionInternalReviewItem :: "string \<Rightarrow> transition_input \<Rightarrow> string \<Rightarrow> string \<Rightarrow> string \<Rightarrow> (review_db, review_item) op" where
  "transitionInternalReviewItem \<equiv> transitionReviewItemInTransaction"

definition transitionReviewItem :: "string \<Rightarrow> transition_input \<Rightarrow> string \<Rightarrow> string \<Rightarrow> string \<Rightarrow> (review_db, review_item) op" where
  "transitionReviewItem rid input actionId correctionId now =
     (if ti_authorization input = None \<or> ti_toStatus input \<notin> {RvRejected, RvSkipped, RvPendingReview}
      then throws (Error ''Review action authorization unavailable'')
      else transitionInternalReviewItem rid input actionId correctionId now)"

definition updateReviewItemCategory :: "string \<Rightarrow> string \<Rightarrow> int \<Rightarrow> string \<Rightarrow> (review_db, review_item) op" where
  "updateReviewItemCategory rid categoryId expectedVersion now =
     bindOp (reads (\<lambda>s. require (changes (atVersion rid expectedVersion) (rw_items s) \<noteq> 0)
       (''Version conflict on review item '' @ rid @ '': expected '' @ intText expectedVersion))) (\<lambda>_.
     bindOp (reads (\<lambda>s. if list_ex (\<lambda>r. atVersion rid expectedVersion r \<and>
         list_ex (\<lambda>x. rv_id x \<noteq> rid \<and> issueClash (r\<lparr>rv_categoryId := categoryId\<rparr>) x) (rw_items s)) (rw_items s)
       then Inl (SqliteConstraint ''review_items'') else Inr ())) (\<lambda>_.
     bindOp (writes (onItems (updateWhere (atVersion rid expectedVersion)
       (\<lambda>r. r\<lparr>rv_categoryId := categoryId, rv_updatedAt := now, rv_version := rv_version r + 1\<rparr>)))) (\<lambda>_.
     readBack rid)))"

definition undoInput :: "review_status \<Rightarrow> int \<Rightarrow> string \<Rightarrow> string option \<Rightarrow> int option \<Rightarrow> review_authorization option \<Rightarrow> transition_input" where
  "undoInput fromStatus version actor reason expectedVersion authorization = \<lparr>ti_toStatus = RvPendingReview, ti_actor = actor,
     ti_reason = Some (orElse reason (''Undo from '' @ quoted (reviewStatusText fromStatus))),
     ti_metadata = Some [(''undo'', Bool True), (''previousStatus'', Str (reviewStatusText fromStatus))],
     ti_expectedVersion = orElse expectedVersion version, ti_supersededBy = None, ti_authorization = authorization,
     ti_merchant = None, ti_importedPayee = None, ti_accountId = None, ti_direction = None, ti_amount = None, ti_date = None,
     ti_categoryName = None\<rparr>"

definition undoable :: "string \<Rightarrow> review_db \<Rightarrow> review_item result" where
  "undoable rid s =
     (case selectReviewItem s rid of
        None \<Rightarrow> Inl (Error (''Review item '' @ rid @ '' not found''))
      | Some current \<Rightarrow>
          if rv_status current \<notin> set undo_sources
          then Inl (Error (''Cannot undo from '' @ quoted (reviewStatusText (rv_status current)) @
            '': only approved, correcting, rejected, skipped support undo''))
          else Inr current)"

definition undoReviewTransition :: "string \<Rightarrow> string \<Rightarrow> string option \<Rightarrow> int option \<Rightarrow> review_authorization option \<Rightarrow>
    string \<Rightarrow> string \<Rightarrow> string \<Rightarrow> (review_db, review_item) op" where
  "undoReviewTransition rid actor reason expectedVersion authorization actionId correctionId now =
     (if authorization = None then throws (Error ''Review action authorization unavailable'')
      else bindOp (reads (undoable rid)) (\<lambda>current.
        transitionReviewItem rid (undoInput (rv_status current) (rv_version current) actor reason expectedVersion authorization)
          actionId correctionId now))"

definition undoInternalReviewTransition :: "string \<Rightarrow> string \<Rightarrow> string option \<Rightarrow> int option \<Rightarrow> review_authorization option \<Rightarrow>
    string \<Rightarrow> string \<Rightarrow> string \<Rightarrow> (review_db, review_item) op" where
  "undoInternalReviewTransition rid actor reason expectedVersion authorization actionId correctionId now =
     bindOp (reads (undoable rid)) (\<lambda>current.
       transitionInternalReviewItem rid (undoInput (rv_status current) (rv_version current) actor reason expectedVersion authorization)
         actionId correctionId now)"

subsection \<open>Groups\<close>

record transition_result =
  tr_itemId :: string
  tr_success :: bool
  tr_item :: "review_item option"
  tr_error :: "js_error option"

definition notFound :: "string \<Rightarrow> transition_result" where
  "notFound rid = \<lparr>tr_itemId = rid, tr_success = False, tr_item = None, tr_error = Some (Error ''Not found'')\<rparr>"

definition groupInput :: "review_status \<Rightarrow> string \<Rightarrow> string option \<Rightarrow> int \<Rightarrow> transition_input" where
  "groupInput toStatus actor reason version = \<lparr>ti_toStatus = toStatus, ti_actor = actor, ti_reason = reason, ti_metadata = None,
     ti_expectedVersion = version, ti_supersededBy = None, ti_authorization = None, ti_merchant = None, ti_importedPayee = None,
     ti_accountId = None, ti_direction = None, ti_amount = None, ti_date = None, ti_categoryName = None\<rparr>"

text \<open>
  The loop over the group: an item that fails is reported and the others go on. The identifiers and
  the instant of each move are given beside the item.
\<close>

fun transitionEach :: "review_status \<Rightarrow> string \<Rightarrow> string option \<Rightarrow>
    (string \<times> review_item option \<times> string \<times> string \<times> string) list \<Rightarrow> review_db \<Rightarrow> transition_result list \<times> review_db" where
  "transitionEach toStatus actor reason [] s = ([], s)"
| "transitionEach toStatus actor reason ((rid, None, _) # rest) s =
     (case transitionEach toStatus actor reason rest s of (results, t) \<Rightarrow> (notFound rid # results, t))"
| "transitionEach toStatus actor reason ((rid, Some item, actionId, correctionId, now) # rest) s =
     (case transitionInternalReviewItem (rv_id item) (groupInput toStatus actor reason (rv_version item)) actionId correctionId now s of
        (outcome, s') \<Rightarrow>
          (case transitionEach toStatus actor reason rest s' of (results, t) \<Rightarrow>
             ((case outcome of
                 Inl e \<Rightarrow> \<lparr>tr_itemId = rv_id item, tr_success = False, tr_item = None, tr_error = Some e\<rparr>
               | Inr r \<Rightarrow> \<lparr>tr_itemId = rv_id item, tr_success = True, tr_item = Some r, tr_error = None\<rparr>) # results, t)))"

definition joinComma :: "string list \<Rightarrow> string" where
  "joinComma xs = (case xs of [] \<Rightarrow> [] | x # r \<Rightarrow> x @ concat (map (\<lambda>t. '', '' @ t) r))"

definition transitionInternalReviewItems :: "(string \<times> string \<times> string \<times> string) list \<Rightarrow> review_status \<Rightarrow> string \<Rightarrow> string option \<Rightarrow>
    (review_db, transition_result list) op" where
  "transitionInternalReviewItems ids toStatus actor reason s =
     (let items = map (\<lambda>(rid, fresh). (rid, selectReviewItem s rid, fresh)) ids;
          found = List.map_filter (\<lambda>(rid, item, fresh). item) items in
      if ids = [] then (Inr [], s)
      else case found of
        [] \<Rightarrow> (Inr (map (notFound \<circ> fst) ids), s)
      | first # _ \<Rightarrow>
          if \<not> list_all (\<lambda>i. rv_status i = rv_status first) found then
            (Inl (Error (''Heterogeneous group: all items must have the same current status (found items with statuses: '' @
               joinComma (map reviewStatusText (rev (remdups (rev (map rv_status found))))) @ '')'')), s)
          else if toStatus \<notin> set (review_transitions (rv_status first)) then
            (Inl (Error (''Cannot transition from '' @ quoted (reviewStatusText (rv_status first)) @ '' to '' @ quoted (reviewStatusText toStatus))), s)
          else (case transitionEach toStatus actor reason items s of (results, t) \<Rightarrow> (Inr results, t)))"

subsection \<open>Creation\<close>

definition validSource :: "review_input \<Rightarrow> bool" where
  "validSource input = (case ri_sourceTransaction input of None \<Rightarrow> True
     | Some source \<Rightarrow> st_id source = ri_transactionId input \<and> \<not> blank (st_accountId source) \<and>
         (case st_categoryId source of None \<Rightarrow> True | Some c \<Rightarrow> \<not> blank c) \<and>
         (st_direction source = ''incoming'' \<or> st_direction source = ''outgoing'') \<and>
         decimal_text (st_minorUnits source) \<and> dec_val (st_minorUnits source) \<le> 9223372036854775807 \<and>
         currency_text (st_currency source))"

definition nativeScope :: "review_input \<Rightarrow> (string \<times> jsval) list option" where
  "nativeScope input =
     (if ri_classifier input \<noteq> ''rule'' then None
      else case js_record (field (orElse (ri_evidence input) []) ''ruleSetRef'') of
          None \<Rightarrow> None
        | Some ref \<Rightarrow> if field ref ''kind'' = Str ''scoped'' then js_record (field ref ''scope'') else None)"

definition isString :: "jsval \<Rightarrow> bool" where
  "isString v = (case v of Str _ \<Rightarrow> True | _ \<Rightarrow> False)"

definition nativeReferenceAvailable :: "review_input \<Rightarrow> bool \<Rightarrow> bool \<Rightarrow> bool" where
  "nativeReferenceAvailable input preparedNativeReference ruleSetExists =
     (case nativeScope input of None \<Rightarrow> True
      | Some scope \<Rightarrow> field scope ''budgetId'' = Str (ri_budgetId input) \<and>
          (case js_record (field (orElse (ri_evidence input) []) ''ruleSetRef'') of None \<Rightarrow> False
           | Some ref \<Rightarrow> isString (field ref ''id'')) \<and>
          (preparedNativeReference \<or> ruleSetExists))"

definition findIssue :: "review_input \<Rightarrow> review_db \<Rightarrow> review_item option" where
  "findIssue input s =
     (case nativeScope input of
        Some scope \<Rightarrow> selectScopedNativeReviewByIssue s (ri_budgetId input) (ri_transactionId input) (ri_categoryId input)
          (field scope ''spaceId'') (field scope ''connectionId'')
      | None \<Rightarrow> selectReviewByIssue s (ri_budgetId input) (ri_transactionId input) (ri_categoryId input) (ri_classifier input))"

definition newReviewItem :: "review_input \<Rightarrow> string \<Rightarrow> int \<Rightarrow> string \<Rightarrow> review_item" where
  "newReviewItem input rid inputVersion now = \<lparr>rv_id = rid, rv_suggestionId = ri_suggestionId input, rv_budgetId = ri_budgetId input,
     rv_transactionId = ri_transactionId input, rv_sourceTransaction = ri_sourceTransaction input,
     rv_categoryId = ri_categoryId input, rv_classifier = ri_classifier input, rv_promptVersion = orElse (ri_promptVersion input) [],
     rv_transactionVersion = inputVersion, rv_status = RvDiscovered, rv_correlationId = ri_correlationId input,
     rv_assignedReviewerId = ri_assignedReviewerId input, rv_approvedBy = [],
     rv_reviewersRequired = orElse (ri_reviewersRequired input) 1, rv_priority = orElse (ri_priority input) 0,
     rv_evidence = orElse (ri_evidence input) [], rv_provenance = ri_provenance input, rv_supersededBy = None,
     rv_supersededReason = None, rv_freshnessExpiresAt = ri_freshnessExpiresAt input, rv_version = 1, rv_createdAt = now,
     rv_updatedAt = now\<rparr>"

definition supersedeAndInsert :: "review_item \<Rightarrow> review_item \<Rightarrow> string \<Rightarrow> string \<Rightarrow> (review_db, review_item) op" where
  "supersedeAndInsert old new actionId now =
     bindOp (writes (onItems (supersedeReviewItem (rv_id old) (rv_status old) (rv_version old) (rv_id new)
       (''Superseded by newer classification (transactionVersion '' @ intText (rv_transactionVersion new) @ '')'') now))) (\<lambda>_.
     bindOp (insertReviewAction \<lparr>ra_id = actionId, ra_reviewItemId = rv_id old, ra_fromStatus = rv_status old,
       ra_toStatus = RvSuperseded, ra_actor = ''system'',
       ra_reason = Some (''Superseded by newer snapshot (version '' @ intText (rv_transactionVersion new) @ '')''),
       ra_metadata = [(''newItemId'', Str (rv_id new))], ra_createdAt = now\<rparr>) (\<lambda>_.
     bindOp (writes (onItems (insertReviewItem new))) (\<lambda>_.
     reads (\<lambda>s. case selectReviewItem s (rv_id new) of
       None \<Rightarrow> Inl (Error ''Failed to read back created review item'') | Some r \<Rightarrow> Inr r))))"

definition createReviewItemInTransaction :: "review_input \<Rightarrow> bool \<Rightarrow> bool \<Rightarrow> string \<Rightarrow> string \<Rightarrow> string \<Rightarrow> (review_db, review_item) op" where
  "createReviewItemInTransaction input preparedNativeReference ruleSetExists newId actionId now =
     bindOp (reads (\<lambda>_. require (validSource input) ''Invalid canonical review source authority'')) (\<lambda>_.
     bindOp (reads (\<lambda>_. require (field (orElse (ri_evidence input) []) ''ruleIds'' = Undefined)
       ''Inline native Review rule IDs are no longer supported'')) (\<lambda>_.
     bindOp (reads (\<lambda>_. require (nativeReferenceAvailable input preparedNativeReference ruleSetExists)
       ''Native Review rule-set reference is unavailable'')) (\<lambda>_.
     reviewTransaction (
       bindOp (reads (\<lambda>_. require (orElse (ri_authorize input) True) ''Review publication authority changed'')) (\<lambda>_.
       bindOp (reads (\<lambda>s. Inr (findIssue input s))) (\<lambda>existing.
       let inputVersion = orElse (ri_transactionVersion input) 1; new = newReviewItem input newId inputVersion now in
       case existing of
         Some old \<Rightarrow>
           if inputVersion \<le> rv_transactionVersion old then
             (if ri_sourceTransaction input \<noteq> None \<and> ri_sourceTransaction input \<noteq> rv_sourceTransaction old then
                bindOp (writes (onItems (updateWhere (\<lambda>r. rv_id r = rv_id old) (\<lambda>r. r\<lparr>rv_sourceTransaction := ri_sourceTransaction input,
                  rv_version := rv_version r + 1, rv_updatedAt := now\<rparr>)))) (\<lambda>_. readBack (rv_id old))
              else returns old)
           else supersedeAndInsert old new actionId now
       | None \<Rightarrow>
           bindOp (reads (\<lambda>s. Inr (list_ex (reviewClash new) (rw_items s)))) (\<lambda>clash.
             if clash then
               reads (\<lambda>s. case findIssue input s of None \<Rightarrow> Inl (Error ''Failed to create or retrieve review item'')
                 | Some r \<Rightarrow> Inr r)
             else bindOp (writes (onItems (insertReviewItem new))) (\<lambda>_. returns new)))))))) "

abbreviation createReviewItem :: "review_input \<Rightarrow> bool \<Rightarrow> string \<Rightarrow> string \<Rightarrow> string \<Rightarrow> (review_db, review_item) op" where
  "createReviewItem input \<equiv> createReviewItemInTransaction input False"

subsection \<open>Queries\<close>

abbreviation getReviewItem :: "review_db \<Rightarrow> string \<Rightarrow> review_item option" where
  "getReviewItem \<equiv> selectReviewItem"

abbreviation findReviewByIssue :: "review_db \<Rightarrow> string \<Rightarrow> string \<Rightarrow> string \<Rightarrow> string \<Rightarrow> review_item option" where
  "findReviewByIssue \<equiv> selectReviewByIssue"

definition closedRank :: "review_item \<Rightarrow> nat" where
  "closedRank r = of_bool (rv_status r \<in> {RvApplied, RvApplyFailed, RvRejected, RvSkipped, RvSuperseded})"

definition priorityBefore :: "review_item \<Rightarrow> review_item \<Rightarrow> bool" where
  "priorityBefore x y \<longleftrightarrow> rv_priority y < rv_priority x \<or> rv_priority x = rv_priority y \<and> textLess (rv_createdAt x) (rv_createdAt y)"

definition openBefore :: "review_item \<Rightarrow> review_item \<Rightarrow> bool" where
  "openBefore x y \<longleftrightarrow> closedRank x < closedRank y \<or> closedRank x = closedRank y \<and> priorityBefore x y"

definition matchesReview :: "string option \<Rightarrow> review_status option \<Rightarrow> review_item \<Rightarrow> bool" where
  "matchesReview budgetId status r \<longleftrightarrow> (case budgetId of None \<Rightarrow> True | Some b \<Rightarrow> rv_budgetId r = b) \<and>
     (case status of None \<Rightarrow> True | Some st \<Rightarrow> rv_status r = st)"

definition listReviewItems :: "string option \<Rightarrow> review_status option \<Rightarrow> int option \<Rightarrow> int option \<Rightarrow> review_db \<Rightarrow> review_item list" where
  "listReviewItems budgetId status limit offset s =
     limitRows (orElse limit 50) (drop (nat (orElse offset 0))
       (sortBy (if budgetId = None \<and> status \<noteq> None then priorityBefore else openBefore)
         (filter (matchesReview budgetId status) (rw_items s))))"

definition countReviewItems :: "string option \<Rightarrow> review_status option \<Rightarrow> review_db \<Rightarrow> nat" where
  "countReviewItems budgetId status s = length (filter (matchesReview budgetId status) (rw_items s))"

definition listReviewItemsByCorrelation :: "string \<Rightarrow> review_db \<Rightarrow> review_item list" where
  "listReviewItemsByCorrelation correlationId s = sortBy (\<lambda>x y. textLess (rv_createdAt x) (rv_createdAt y))
     (filter (\<lambda>r. rv_correlationId r = Some correlationId) (rw_items s))"

definition getReviewActions :: "string \<Rightarrow> review_db \<Rightarrow> review_action list" where
  "getReviewActions rid s = sortBy (\<lambda>x y. textLess (ra_createdAt x) (ra_createdAt y))
     (filter (\<lambda>a. ra_reviewItemId a = rid) (rw_actions s))"

subsection \<open>Steps\<close>

text \<open>The operations on review items, and anything else that leaves their three tables alone.\<close>

inductive review_step :: "review_db \<Rightarrow> review_db \<Rightarrow> bool" where
  step_create: "createReviewItemInTransaction input prepared exists newId actionId now s = (x, t) \<Longrightarrow> review_step s t"
| step_transition: "transitionInternalReviewItem rid tinput actionId correctionId now s = (x, t) \<Longrightarrow> review_step s t"
| step_public: "transitionReviewItem rid tinput actionId correctionId now s = (x, t) \<Longrightarrow> review_step s t"
| step_category: "updateReviewItemCategory rid categoryId expectedVersion now s = (x, t) \<Longrightarrow> review_step s t"
| step_undo: "undoReviewTransition rid actor reason ev auth actionId correctionId now s = (x, t) \<Longrightarrow> review_step s t"
| step_undo_internal: "undoInternalReviewTransition rid actor reason ev auth actionId correctionId now s = (x, t) \<Longrightarrow> review_step s t"
| step_group: "transitionInternalReviewItems ids toStatus actor reason s = (y, t) \<Longrightarrow> review_step s t"
| step_other: "review_step s (s\<lparr>rw_gov := gov\<rparr>)"

abbreviation review_reach :: "review_db \<Rightarrow> review_db \<Rightarrow> bool" where
  "review_reach \<equiv> review_step\<^sup>*\<^sup>*"

definition empty_reviews :: "gov_db \<Rightarrow> review_db" where
  "empty_reviews gov = \<lparr>rw_gov = gov, rw_items = [], rw_actions = [], rw_corrections = []\<rparr>"

end
