(* ===== verification/Review_Props.thy ===== *)
theory Review_Props
  imports Review_Queue Authorization_Props
begin

text \<open>
  Review items. Every operation is a sequence of elementary changes (\<open>review_change\<close>), the abstract
  account of what can happen to the queue: an item is created, moved, its approval noted, its
  category or its source facts changed. The history of an item, the quorum of its approval, the
  uniqueness of open issues and the meaning of versions are proved of that account and carried to the
  operations by the refinement.
\<close>

subsection \<open>Elementary changes\<close>

definition putItem :: "review_item \<Rightarrow> review_item list \<Rightarrow> review_item list" where
  "putItem r rows = updateWhere (\<lambda>x. rv_id x = rv_id r) (\<lambda>_. r) rows"

definition approvalsAfter :: "review_item \<Rightarrow> review_action \<Rightarrow> string list" where
  "approvalsAfter r a = (if ra_toStatus a = RvApproved then rv_approvedBy r @ [ra_actor a] else rv_approvedBy r)"

inductive review_change :: "review_db \<Rightarrow> review_db \<Rightarrow> bool" where
  created: "\<forall>x \<in> set (rw_items s). \<not> reviewClash r x \<Longrightarrow> rv_status r = RvDiscovered \<Longrightarrow> rv_approvedBy r = [] \<Longrightarrow>
    review_change s (s\<lparr>rw_items := rw_items s @ [r]\<rparr>)"
| moved: "r \<in> set (rw_items s) \<Longrightarrow> ra_reviewItemId a = rv_id r \<Longrightarrow> ra_fromStatus a = rv_status r \<Longrightarrow>
    ra_toStatus a \<in> set (review_transitions (rv_status r)) \<Longrightarrow>
    (ra_toStatus a = RvApproved \<Longrightarrow> ra_actor a \<notin> set (rv_approvedBy r) \<and>
      rv_reviewersRequired r \<le> int (length (approvalsAfter r a))) \<Longrightarrow>
    review_change s (s\<lparr>rw_items := putItem (r\<lparr>rv_status := ra_toStatus a, rv_approvedBy := approvalsAfter r a,
        rv_supersededBy := sb, rv_supersededReason := sr, rv_updatedAt := now, rv_version := rv_version r + 1\<rparr>) (rw_items s),
      rw_actions := rw_actions s @ [a], rw_corrections := rw_corrections s @ cs\<rparr>)"
| noted: "r \<in> set (rw_items s) \<Longrightarrow> ra_reviewItemId a = rv_id r \<Longrightarrow> ra_fromStatus a = rv_status r \<Longrightarrow>
    ra_toStatus a = rv_status r \<Longrightarrow> rv_status r \<noteq> RvApproved \<Longrightarrow> ra_actor a \<notin> set (rv_approvedBy r) \<Longrightarrow>
    review_change s (s\<lparr>rw_items := putItem (r\<lparr>rv_approvedBy := rv_approvedBy r @ [ra_actor a], rv_updatedAt := now,
        rv_version := rv_version r + 1\<rparr>) (rw_items s), rw_actions := rw_actions s @ [a]\<rparr>)"
| recategorised: "r \<in> set (rw_items s) \<Longrightarrow> \<forall>x \<in> set (rw_items s). rv_id x \<noteq> rv_id r \<longrightarrow> \<not> issueClash (r\<lparr>rv_categoryId := c\<rparr>) x \<Longrightarrow>
    review_change s (s\<lparr>rw_items := putItem (r\<lparr>rv_categoryId := c, rv_updatedAt := now, rv_version := rv_version r + 1\<rparr>) (rw_items s)\<rparr>)"
| resourced: "r \<in> set (rw_items s) \<Longrightarrow> review_change s (s\<lparr>rw_items := putItem (r\<lparr>rv_sourceTransaction := tx,
      rv_version := rv_version r + 1, rv_updatedAt := now\<rparr>) (rw_items s)\<rparr>)"
| governed: "review_change s (s\<lparr>rw_gov := gov\<rparr>)"

abbreviation review_changes :: "review_db \<Rightarrow> review_db \<Rightarrow> bool" where
  "review_changes \<equiv> review_change\<^sup>*\<^sup>*"

abbreviation ids_distinct :: "review_db \<Rightarrow> bool" where
  "ids_distinct s \<equiv> distinct (map rv_id (rw_items s))"

subsection \<open>Every operation is a sequence of changes\<close>

lemma ids_putItem [simp]: "map rv_id (putItem r rows) = map rv_id rows"
  unfolding putItem_def by (induction rows) auto

lemma change_ids: "review_change s t \<Longrightarrow> ids_distinct s \<Longrightarrow> ids_distinct t"
  by (induction rule: review_change.induct) (auto simp: reviewClash_def)

lemma changes_ids: "review_changes s t \<Longrightarrow> ids_distinct s \<Longrightarrow> ids_distinct t"
  by (induction rule: rtranclp_induct) (auto intro: change_ids)

lemma select_mem: "selectReviewItem s rid = Some r \<Longrightarrow> r \<in> set (rw_items s) \<and> rv_id r = rid"
  by (auto simp: selectReviewItem_def dest: find_SomeD)

text \<open>A guarded update touches the one row with the identifier, or no row.\<close>

lemma update_item:
  assumes "ids_distinct s" "r \<in> set (rw_items s)" "p r" "\<And>x. p x \<Longrightarrow> rv_id x = rv_id r" "rv_id (f r) = rv_id r"
  shows "updateWhere p f (rw_items s) = putItem (f r) (rw_items s)"
  unfolding putItem_def assms(5)
  using update_by_key [of rv_id "rw_items s" p "rv_id r" r f] assms(1,3,4) find_unique [of rv_id, OF assms(1,2)] by blast

lemma item_guard:
  assumes "ids_distinct s" "r \<in> set (rw_items s)" "changes p (rw_items s) \<noteq> 0" "\<And>x. p x \<Longrightarrow> rv_id x = rv_id r"
  shows "p r"
proof -
  have "0 < changes p (rw_items s)" using assms(3) by simp
  then obtain x where "find (\<lambda>x. rv_id x = rv_id r) (rw_items s) = Some x" "p x"
    using changes_by_key [of rv_id "rw_items s" p "rv_id r", OF assms(1,4)] by blast
  then show ?thesis using find_unique [of rv_id, OF assms(1,2)] by simp
qed

lemma insertReviewAction_Inr: "insertReviewAction a s = (Inr u, t) \<Longrightarrow> t = s\<lparr>rw_actions := rw_actions s @ [a]\<rparr>"
  by (auto simp: insertReviewAction_def insertRow_def split: if_splits)

lemma insertCorrection_Inr: "insertCorrection c s = (Inr u, t) \<Longrightarrow> t = s\<lparr>rw_corrections := rw_corrections s @ [c]\<rparr>"
  by (auto simp: insertCorrection_def insertRow_def split: if_splits)

lemma reviewTransaction_cases:
  assumes "reviewTransaction m s = (x, t)"
  obtains e where "x = Inl e" "t = s" | y where "x = Inr y" "m s = (Inr y, t)"
  using assms by (auto simp: reviewTransaction_def transaction_def split: prod.splits sum.splits)

lemma recordApproval_changes:
  assumes "recordApproval r input (rv_approvedBy r @ [ti_actor input]) actionId now s = (Inr x, t)"
    "ids_distinct s" "r \<in> set (rw_items s)" "rv_status r \<noteq> RvApproved" "ti_actor input \<notin> set (rv_approvedBy r)"
  shows "review_changes s t"
proof -
  let ?p = "atVersion (rv_id r) (ti_expectedVersion input)"
  from assms(1) obtain reason where g: "changes ?p (rw_items s) \<noteq> 0"
    and t: "t = s\<lparr>rw_items := updateApprovedBy (rv_id r) (rv_approvedBy r @ [ti_actor input]) now (ti_expectedVersion input) (rw_items s),
      rw_actions := rw_actions s @ [transitionAction actionId (rv_id r) (rv_status r) (rv_status r) input reason now]\<rparr>"
    by (auto simp: recordApproval_def Let_def store_simps require_eq_Inr readBack_def dest!: insertReviewAction_Inr)
  have "?p r" by (rule item_guard [OF assms(2,3) g]) (simp add: atVersion_def)
  then have "updateApprovedBy (rv_id r) (rv_approvedBy r @ [ti_actor input]) now (ti_expectedVersion input) (rw_items s) =
    putItem (r\<lparr>rv_approvedBy := rv_approvedBy r @ [ti_actor input], rv_updatedAt := now, rv_version := rv_version r + 1\<rparr>) (rw_items s)"
    unfolding updateApprovedBy_def by (intro update_item [OF assms(2,3)]) (simp_all add: atVersion_def)
  moreover have "review_change s (s\<lparr>rw_items := putItem (r\<lparr>rv_approvedBy := rv_approvedBy r @ [ti_actor input], rv_updatedAt := now,
      rv_version := rv_version r + 1\<rparr>) (rw_items s), rw_actions := rw_actions s @
      [transitionAction actionId (rv_id r) (rv_status r) (rv_status r) input reason now]\<rparr>)"
    using noted [OF assms(3), of "transitionAction actionId (rv_id r) (rv_status r) (rv_status r) input reason now" now] assms(4,5)
    by (simp add: transitionAction_def)
  ultimately show ?thesis using t by auto
qed

lemma correction_step_Inr:
  assumes "(if c then bindOp (readBack rid) (\<lambda>full. insertCorrection (g full)) else returns ()) s = (Inr u, t)"
  shows "\<exists>cs. t = s\<lparr>rw_corrections := rw_corrections s @ cs\<rparr>"
proof (cases c)
  case True
  with assms show ?thesis by (auto simp: store_simps readBack_def dest!: insertCorrection_Inr)
next
  case False
  with assms have "t = s\<lparr>rw_corrections := rw_corrections s @ []\<rparr>" by (simp add: store_simps)
  then show ?thesis ..
qed

lemma performTransition_changes:
  assumes "performTransition r input approvedBy actionId correctionId now s = (Inr x, t)"
    "ids_distinct s" "r \<in> set (rw_items s)" "ti_toStatus input \<in> set (review_transitions (rv_status r))"
    "ti_toStatus input = RvApproved \<Longrightarrow> approvedBy = Some (rv_approvedBy r @ [ti_actor input]) \<and>
      ti_actor input \<notin> set (rv_approvedBy r) \<and> rv_reviewersRequired r \<le> int (Suc (length (rv_approvedBy r)))"
  shows "review_changes s t"
proof -
  let ?p = "\<lambda>x. atVersion (rv_id r) (ti_expectedVersion input) x \<and> rv_status x = rv_status r"
  let ?to = "ti_toStatus input" and ?reason = "if ti_toStatus input = RvSuperseded then ti_reason input else None"
  let ?a = "transitionAction actionId (rv_id r) (rv_status r) ?to input (ti_reason input) now"
  let ?r = "r\<lparr>rv_status := ?to, rv_approvedBy := approvalsAfter r ?a,
    rv_supersededBy := (if ?to = RvSuperseded then ti_supersededBy input else rv_supersededBy r), rv_supersededReason := ?reason,
    rv_updatedAt := now, rv_version := rv_version r + 1\<rparr>"
  from assms(1) obtain cs where g: "changes ?p (rw_items s) \<noteq> 0"
    and t: "t = s\<lparr>rw_items := transitionReviewItemUpdate (rv_id r) (rv_status r) ?to (ti_expectedVersion input) ?reason
        (ti_supersededBy input) approvedBy now (rw_items s), rw_actions := rw_actions s @ [?a], rw_corrections := rw_corrections s @ cs\<rparr>"
    unfolding performTransition_def Let_def bindOp_Inr reads_Inr writes_Inr require_eq_Inr readBack_def
    by (auto dest!: insertReviewAction_Inr correction_step_Inr [unfolded readBack_def])
  have "?p r" by (rule item_guard [OF assms(2,3) g]) (simp add: atVersion_def)
  then have "transitionReviewItemUpdate (rv_id r) (rv_status r) ?to (ti_expectedVersion input) ?reason
      (ti_supersededBy input) approvedBy now (rw_items s) = putItem ?r (rw_items s)"
    unfolding transitionReviewItemUpdate_def using assms(5)
    by (subst update_item [OF assms(2,3)]) (auto simp: atVersion_def approvalsAfter_def transitionAction_def intro!: arg_cong2 [of _ _ _ _ putItem])
  moreover have "review_change s (s\<lparr>rw_items := putItem ?r (rw_items s), rw_actions := rw_actions s @ [?a],
      rw_corrections := rw_corrections s @ cs\<rparr>)"
    using moved [OF assms(3), of ?a] assms(4,5) by (simp add: transitionAction_def approvalsAfter_def)
  ultimately show ?thesis using t by auto
qed

lemma transition_Inr:
  assumes "transitionReviewItemInTransaction rid input actionId correctionId now s = (Inr y, t)"
  obtains r where "selectReviewItem s rid = Some r"
    "\<And>ctx. ti_authorization input = Some ctx \<Longrightarrow> reviewAuthority (rw_gov s) r input ctx now = Inr ()"
    "rv_status r = ti_toStatus input \<and> t = s \<or> ti_toStatus input \<in> set (review_transitions (rv_status r)) \<and>
      (if ti_toStatus input = RvApproved then
         (if ti_actor input \<in> set (rv_approvedBy r) then returns r
          else if int (length (rv_approvedBy r @ [ti_actor input])) < rv_reviewersRequired r
            then recordApproval r input (rv_approvedBy r @ [ti_actor input]) actionId now
            else performTransition r input (Some (rv_approvedBy r @ [ti_actor input])) actionId correctionId now)
       else performTransition r input None actionId correctionId now) s = (Inr y, t)"
  using assms unfolding transitionReviewItemInTransaction_def reviewTransaction_def transaction_Inr
  by (auto simp: bindOp_Inr reads_Inr require_eq_Inr returns_Inr Let_def split: option.split_asm if_split_asm)

lemma transition_changes:
  assumes "transitionReviewItemInTransaction rid input actionId correctionId now s = (x, t)" "ids_distinct s"
  shows "review_changes s t"
proof (cases x)
  case (Inl e)
  then have "t = s" using assms(1)
    by (auto simp: transitionReviewItemInTransaction_def elim: reviewTransaction_cases)
  then show ?thesis by simp
next
  case (Inr y)
  with assms(1) obtain r where r: "selectReviewItem s rid = Some r"
    and rest: "rv_status r = ti_toStatus input \<and> t = s \<or> ti_toStatus input \<in> set (review_transitions (rv_status r)) \<and>
      (if ti_toStatus input = RvApproved then
         (if ti_actor input \<in> set (rv_approvedBy r) then returns r
          else if int (length (rv_approvedBy r @ [ti_actor input])) < rv_reviewersRequired r
            then recordApproval r input (rv_approvedBy r @ [ti_actor input]) actionId now
            else performTransition r input (Some (rv_approvedBy r @ [ti_actor input])) actionId correctionId now)
       else performTransition r input None actionId correctionId now) s = (Inr y, t)"
    by (auto elim: transition_Inr)
  note mem = select_mem [OF r, THEN conjunct1]
  have "rv_status r \<noteq> RvApproved" if "RvApproved \<in> set (review_transitions (rv_status r))"
    using that by (cases "rv_status r") auto
  then show ?thesis using rest
    by (auto simp: returns_Inr split: if_split_asm
        intro: recordApproval_changes [OF _ assms(2) mem] performTransition_changes [OF _ assms(2) mem])
qed

lemma category_changes:
  assumes "updateReviewItemCategory rid categoryId v now s = (x, t)" "ids_distinct s"
  shows "review_changes s t"
proof (cases "changes (atVersion rid v) (rw_items s) \<noteq> 0 \<and> \<not> list_ex (\<lambda>r. atVersion rid v r \<and>
    list_ex (\<lambda>x. rv_id x \<noteq> rid \<and> issueClash (r\<lparr>rv_categoryId := categoryId\<rparr>) x) (rw_items s)) (rw_items s)")
  case True
  then obtain r where r: "r \<in> set (rw_items s)" "atVersion rid v r" by (auto simp: changes_def filter_empty_conv)
  let ?r = "r\<lparr>rv_categoryId := categoryId, rv_updatedAt := now, rv_version := rv_version r + 1\<rparr>"
  have id: "rid = rv_id r" using r(2) by (simp add: atVersion_def)
  from True assms(1) have "t = s\<lparr>rw_items := updateWhere (atVersion rid v)
      (\<lambda>r. r\<lparr>rv_categoryId := categoryId, rv_updatedAt := now, rv_version := rv_version r + 1\<rparr>) (rw_items s)\<rparr>"
    by (auto simp: updateReviewItemCategory_def bindOp_def reads_def writes_def require_def readBack_def split: option.splits if_split_asm)
  moreover have "updateWhere (atVersion rid v) (\<lambda>r. r\<lparr>rv_categoryId := categoryId, rv_updatedAt := now, rv_version := rv_version r + 1\<rparr>)
      (rw_items s) = putItem ?r (rw_items s)"
    using r by (intro update_item [OF assms(2)]) (auto simp: atVersion_def)
  moreover have "review_change s (s\<lparr>rw_items := putItem ?r (rw_items s)\<rparr>)"
    using True r id by (intro recategorised) (auto simp: list_ex_iff)
  ultimately show ?thesis by auto
next
  case False
  then have "t = s" using assms(1)
    by (auto simp: updateReviewItemCategory_def bindOp_def reads_def require_def split: if_split_asm)
  then show ?thesis by simp
qed

lemma supersedeAndInsert_changes:
  assumes "supersedeAndInsert old new actionId now s = (Inr x, t)" "ids_distinct s" "old \<in> set (rw_items s)"
    "rv_status old \<noteq> RvSuperseded" "rv_status new = RvDiscovered" "rv_approvedBy new = []"
  shows "review_changes s t"
proof -
  define a where "a = \<lparr>ra_id = actionId, ra_reviewItemId = rv_id old, ra_fromStatus = rv_status old, ra_toStatus = RvSuperseded,
    ra_actor = ''system'', ra_reason = Some (''Superseded by newer snapshot (version '' @ intText (rv_transactionVersion new) @ '')''),
    ra_metadata = [(''newItemId'', Str (rv_id new))], ra_createdAt = now\<rparr>"
  define reason where "reason = ''Superseded by newer classification (transactionVersion '' @ intText (rv_transactionVersion new) @ '')''"
  define u where "u = s\<lparr>rw_items := supersedeReviewItem (rv_id old) (rv_status old) (rv_version old) (rv_id new) reason now (rw_items s),
    rw_actions := rw_actions s @ [a]\<rparr>"
  note a = a_def [THEN arg_cong [of _ _ ra_reviewItemId], simplified] a_def [THEN arg_cong [of _ _ ra_fromStatus], simplified]
    a_def [THEN arg_cong [of _ _ ra_toStatus], simplified]
  have t: "t = u\<lparr>rw_items := insertReviewItem new (rw_items u)\<rparr>"
    using assms(1) unfolding supersedeAndInsert_def a_def [symmetric] reason_def [symmetric]
    by (auto simp: store_simps u_def dest!: insertReviewAction_Inr)
  let ?r = "old\<lparr>rv_status := RvSuperseded, rv_approvedBy := approvalsAfter old a, rv_supersededBy := Some (rv_id new),
    rv_supersededReason := Some reason, rv_updatedAt := now, rv_version := rv_version old + 1\<rparr>"
  have "supersedeReviewItem (rv_id old) (rv_status old) (rv_version old) (rv_id new) reason now (rw_items s) = putItem ?r (rw_items s)"
    unfolding supersedeReviewItem_def
    by (subst update_item [OF assms(2,3)]) (auto simp: atVersion_def approvalsAfter_def a)
  moreover have "RvSuperseded \<in> set (review_transitions (rv_status old))" using assms(4) by (cases "rv_status old") auto
  ultimately have su: "review_change s u"
    using moved [OF assms(3) a(1,2), where sb = "Some (rv_id new)" and sr = "Some reason" and now = now and cs = "[]"] a(3) u_def by simp
  have "review_changes u t"
    using created [of u new] assms(5,6) t by (auto simp: insertReviewItem_def list_ex_iff)
  with su show ?thesis by (rule converse_rtranclp_into_rtranclp)
qed

lemma findIssue_open: "findIssue input s = Some r \<Longrightarrow> r \<in> set (rw_items s) \<and> rv_status r \<noteq> RvSuperseded"
  by (auto simp: findIssue_def selectScopedNativeReviewByIssue_def selectReviewByIssue_def isScoped_def isUnscoped_def
      split: option.split_asm dest!: find_SomeD)

lemma newReviewItem_fields [simp]:
  "rv_status (newReviewItem input rid v now) = RvDiscovered" "rv_approvedBy (newReviewItem input rid v now) = []"
  by (simp_all add: newReviewItem_def)

lemma create_changes:
  assumes "createReviewItemInTransaction input prepared exists newId actionId now s = (x, t)" "ids_distinct s"
  shows "review_changes s t"
proof -
  let ?v = "orElse (ri_transactionVersion input) 1"
  let ?new = "newReviewItem input newId ?v now"
  have insert: "review_changes s (s\<lparr>rw_items := insertReviewItem ?new (rw_items s)\<rparr>)"
    using created [of s ?new] by (auto simp: insertReviewItem_def list_ex_iff)
  have source: "review_changes s (s\<lparr>rw_items := updateWhere (\<lambda>r. rv_id r = rv_id old) (\<lambda>r. r\<lparr>rv_sourceTransaction := tx,
      rv_version := rv_version r + 1, rv_updatedAt := now\<rparr>) (rw_items s)\<rparr>)" if "old \<in> set (rw_items s)" for old tx
    using resourced [OF that, where tx = tx and now = now]
    by (subst update_item [OF assms(2) that]) auto
  have super: "review_changes s t'" if "supersedeAndInsert old ?new actionId now s = (Inr y, t')" "old \<in> set (rw_items s)"
    "rv_status old \<noteq> RvSuperseded" for old y t'
    by (rule supersedeAndInsert_changes [OF that(1) assms(2) that(2,3)]) simp_all
  from assms(1) show ?thesis
    unfolding createReviewItemInTransaction_def Let_def
    by (auto simp: bindOp_def reads_def writes_def require_def returns_def readBack_def
        split: if_split_asm option.split_asm sum.split_asm prod.split_asm elim!: reviewTransaction_cases
        dest!: findIssue_open intro!: insert source intro: super)
qed

lemma undo_changes:
  "undoInternalReviewTransition rid actor reason ev auth actionId correctionId now s = (x, t) \<Longrightarrow> ids_distinct s \<Longrightarrow> review_changes s t"
  "undoReviewTransition rid actor reason ev auth actionId correctionId now s = (x, t) \<Longrightarrow> ids_distinct s \<Longrightarrow> review_changes s t"
  "transitionReviewItem rid input actionId correctionId now s = (x, t) \<Longrightarrow> ids_distinct s \<Longrightarrow> review_changes s t"
  by (auto simp: undoInternalReviewTransition_def undoReviewTransition_def transitionReviewItem_def bindOp_def reads_def throws_def
      split: sum.split_asm if_split_asm intro: transition_changes)

lemma each_changes:
  "transitionEach toStatus actor reason items s = (results, t) \<Longrightarrow> ids_distinct s \<Longrightarrow> review_changes s t"
proof (induction toStatus actor reason items s arbitrary: results rule: transitionEach.induct)
  case (3 toStatus actor reason rid item actionId correctionId now rest s)
  obtain outcome s' where run: "transitionInternalReviewItem (rv_id item) (groupInput toStatus actor reason (rv_version item))
    actionId correctionId now s = (outcome, s')" by fastforce
  from transition_changes [OF this "3.prems"(2)] have "review_changes s s'" .
  moreover from this have "review_changes s' t"
    using 3 run changes_ids by (auto split: prod.split_asm)
  ultimately show ?case by (rule rtranclp_trans)
qed (auto split: prod.split_asm)

lemma group_changes:
  "transitionInternalReviewItems ids toStatus actor reason s = (x, t) \<Longrightarrow> ids_distinct s \<Longrightarrow> review_changes s t"
  by (auto simp: transitionInternalReviewItems_def Let_def split: if_split_asm list.split_asm prod.split_asm intro: each_changes)

theorem review_step_refines: "review_step s t \<Longrightarrow> ids_distinct s \<Longrightarrow> review_changes s t"
  by (induction rule: review_step.induct)
    (auto intro: create_changes transition_changes category_changes undo_changes group_changes governed)

lemma reach_changes:
  assumes "review_reach s t" "ids_distinct s"
  shows "review_changes s t"
  using assms(1)
proof (induction rule: rtranclp_induct)
  case (step t u)
  then show ?case using review_step_refines [OF step.hyps(2)] changes_ids [OF step.IH assms(2)] by (auto intro: rtranclp_trans)
qed simp

subsection \<open>Invariants\<close>

fun historyOf :: "review_status \<Rightarrow> review_action list \<Rightarrow> review_status option" where
  "historyOf st [] = Some st"
| "historyOf st (a # as) =
     (if ra_fromStatus a = st \<and> (ra_toStatus a = st \<or> ra_toStatus a \<in> set (review_transitions st))
      then historyOf (ra_toStatus a) as else None)"

definition actionsOf :: "review_db \<Rightarrow> string \<Rightarrow> review_action list" where
  "actionsOf s rid = filter (\<lambda>a. ra_reviewItemId a = rid) (rw_actions s)"

definition recorded_history :: "review_db \<Rightarrow> bool" where
  "recorded_history s \<longleftrightarrow> (\<forall>r \<in> set (rw_items s). historyOf RvDiscovered (actionsOf s (rv_id r)) = Some (rv_status r)) \<and>
     (\<forall>a \<in> set (rw_actions s). \<exists>r \<in> set (rw_items s). rv_id r = ra_reviewItemId a)"

definition approvesItem :: "review_item \<Rightarrow> string \<Rightarrow> review_action \<Rightarrow> bool" where
  "approvesItem r p a \<longleftrightarrow> ra_reviewItemId a = rv_id r \<and> ra_actor a = p \<and>
     (ra_toStatus a = RvApproved \<or> ra_toStatus a = ra_fromStatus a)"

definition quorum_kept :: "review_db \<Rightarrow> bool" where
  "quorum_kept s \<longleftrightarrow> (\<forall>r \<in> set (rw_items s). distinct (rv_approvedBy r) \<and>
     (rv_status r = RvApproved \<longrightarrow> rv_reviewersRequired r \<le> int (length (rv_approvedBy r))) \<and>
     (\<forall>p \<in> set (rv_approvedBy r). \<exists>a \<in> set (rw_actions s). approvesItem r p a))"

definition issues_apart :: "review_db \<Rightarrow> bool" where
  "issues_apart s \<longleftrightarrow> (\<forall>x \<in> set (rw_items s). \<forall>y \<in> set (rw_items s). rv_id x \<noteq> rv_id y \<longrightarrow> \<not> issueClash x y)"

lemma historyOf_snoc: "historyOf st (as @ [a]) = (case historyOf st as of None \<Rightarrow> None
    | Some u \<Rightarrow> if ra_fromStatus a = u \<and> (ra_toStatus a = u \<or> ra_toStatus a \<in> set (review_transitions u))
        then Some (ra_toStatus a) else None)"
  by (induction as arbitrary: st) auto

lemma set_putItem: "x \<in> set (putItem r rows) \<Longrightarrow> x = r \<or> x \<in> set rows \<and> rv_id x \<noteq> rv_id r"
  using set_put [of rv_id "rv_id r" r rows] by (auto simp: putItem_def)

lemma putItem_known: "(\<exists>x \<in> set (putItem r rows). rv_id x = k) \<longleftrightarrow> (\<exists>x \<in> set rows. rv_id x = k)"
  using arg_cong [OF ids_putItem [of r rows], of set] by (metis (mono_tags, lifting) image_iff list.set_map)

lemma recorded_historyI:
  assumes "\<And>r. r \<in> set (rw_items s) \<Longrightarrow> historyOf RvDiscovered (actionsOf s (rv_id r)) = Some (rv_status r)"
    "\<And>a. a \<in> set (rw_actions s) \<Longrightarrow> \<exists>r \<in> set (rw_items s). rv_id r = ra_reviewItemId a"
  shows "recorded_history s"
  using assms by (simp add: recorded_history_def)

lemma history_put:
  assumes "recorded_history s" "r \<in> set (rw_items s)" "rv_id r' = rv_id r" "ra_reviewItemId a = rv_id r"
    "ra_fromStatus a = rv_status r" "rv_status r' = ra_toStatus a"
    "ra_toStatus a = rv_status r \<or> ra_toStatus a \<in> set (review_transitions (rv_status r))"
  shows "recorded_history (s\<lparr>rw_items := putItem r' (rw_items s), rw_actions := rw_actions s @ [a], rw_corrections := cs\<rparr>)"
    (is "recorded_history ?t")
proof (rule recorded_historyI)
  fix x assume "x \<in> set (rw_items ?t)"
  then consider "x = r'" | "x \<in> set (rw_items s)" "rv_id x \<noteq> rv_id r" using set_putItem assms(3) by fastforce
  then show "historyOf RvDiscovered (actionsOf ?t (rv_id x)) = Some (rv_status x)"
  proof cases
    case 1
    have "actionsOf ?t (rv_id x) = actionsOf s (rv_id r) @ [a]" using 1 assms(3,4) by (simp add: actionsOf_def)
    then show ?thesis using assms(1,2,5-7) 1 by (simp add: recorded_history_def historyOf_snoc)
  next
    case 2
    then have "actionsOf ?t (rv_id x) = actionsOf s (rv_id x)" using assms(4) by (simp add: actionsOf_def)
    then show ?thesis using assms(1) 2(1) by (simp add: recorded_history_def)
  qed
next
  fix b assume "b \<in> set (rw_actions ?t)"
  then have "\<exists>x \<in> set (rw_items s). rv_id x = ra_reviewItemId b"
    using assms(1,2,4) unfolding recorded_history_def by auto
  then show "\<exists>x \<in> set (rw_items ?t). rv_id x = ra_reviewItemId b" by (simp add: putItem_known)
qed

lemma history_same:
  assumes "recorded_history s" "r \<in> set (rw_items s)" "rv_id r' = rv_id r" "rv_status r' = rv_status r"
  shows "recorded_history (s\<lparr>rw_items := putItem r' (rw_items s)\<rparr>)" (is "recorded_history ?t")
proof (rule recorded_historyI)
  fix x assume "x \<in> set (rw_items ?t)"
  then have "x = r' \<or> x \<in> set (rw_items s)" using set_putItem by fastforce
  then obtain y where "y \<in> set (rw_items s)" "rv_id y = rv_id x" "rv_status y = rv_status x" using assms(2-4) by metis
  moreover have "actionsOf ?t = actionsOf s" by (rule ext) (simp add: actionsOf_def)
  ultimately show "historyOf RvDiscovered (actionsOf ?t (rv_id x)) = Some (rv_status x)"
    using assms(1) unfolding recorded_history_def by metis
next
  fix b assume "b \<in> set (rw_actions ?t)"
  then show "\<exists>x \<in> set (rw_items ?t). rv_id x = ra_reviewItemId b"
    using assms(1) by (simp add: putItem_known recorded_history_def)
qed

lemma history_change: "review_change s t \<Longrightarrow> recorded_history s \<Longrightarrow> recorded_history t"
proof (induction rule: review_change.induct)
  case (created s r)
  then have "actionsOf s (rv_id r) = []"
    by (auto simp: actionsOf_def filter_empty_conv recorded_history_def reviewClash_def) metis
  with created show ?case by (auto simp: recorded_history_def actionsOf_def)
next
  case (moved r s a cs now sr sb)
  then show ?case by (intro history_put [where r = r]) auto
next
  case (noted r s a now)
  then show ?case using history_put [of s r _ a "rw_corrections s"] by simp
next
  case (recategorised r s c now)
  then show ?case by (intro history_same [where r = r]) auto
next
  case (resourced r s now tx)
  then show ?case by (intro history_same [where r = r]) auto
qed (auto simp: recorded_history_def actionsOf_def)

text \<open>What the quorum asks of one item, given the recorded actions.\<close>

definition quorumOf :: "review_action list \<Rightarrow> review_item \<Rightarrow> bool" where
  "quorumOf as r \<longleftrightarrow> distinct (rv_approvedBy r) \<and>
     (rv_status r = RvApproved \<longrightarrow> rv_reviewersRequired r \<le> int (length (rv_approvedBy r))) \<and>
     (\<forall>p \<in> set (rv_approvedBy r). \<exists>a \<in> set as. approvesItem r p a)"

lemma quorum_kept_alt: "quorum_kept s \<longleftrightarrow> (\<forall>r \<in> set (rw_items s). quorumOf (rw_actions s) r)"
  by (simp add: quorum_kept_def quorumOf_def)

lemma quorumOf_mono: "quorumOf as r \<Longrightarrow> quorumOf (as @ bs) r"
  by (fastforce simp: quorumOf_def)

lemma quorum_put:
  assumes "quorum_kept s" "quorumOf (rw_actions s @ as) r'"
  shows "quorum_kept (s\<lparr>rw_items := putItem r' (rw_items s), rw_actions := rw_actions s @ as, rw_corrections := cs\<rparr>)"
  using assms by (auto simp: quorum_kept_alt dest!: set_putItem intro: quorumOf_mono)

lemma quorum_same:
  assumes "quorum_kept s" "r \<in> set (rw_items s)" "rv_id r' = rv_id r" "rv_approvedBy r' = rv_approvedBy r"
    "rv_status r' = rv_status r" "rv_reviewersRequired r' = rv_reviewersRequired r"
  shows "quorum_kept (s\<lparr>rw_items := putItem r' (rw_items s)\<rparr>)"
proof -
  have "quorumOf (rw_actions s) r'" using assms by (simp add: quorum_kept_alt quorumOf_def approvesItem_def)
  then show ?thesis using quorum_put [of s "[]" r' "rw_corrections s"] assms(1) by simp
qed

lemma quorum_approve:
  assumes "quorumOf as r" "ra_reviewItemId a = rv_id r" "ra_actor a \<notin> set (rv_approvedBy r)"
    "ra_toStatus a = RvApproved \<or> ra_toStatus a = ra_fromStatus a"
    "rv_id r' = rv_id r" "rv_approvedBy r' = rv_approvedBy r @ [ra_actor a]" "rv_reviewersRequired r' = rv_reviewersRequired r"
    "rv_status r' = RvApproved \<Longrightarrow> rv_reviewersRequired r \<le> int (length (rv_approvedBy r'))"
  shows "quorumOf (as @ [a]) r'"
  using assms unfolding quorumOf_def approvesItem_def by auto

lemma quorum_change: "review_change s t \<Longrightarrow> quorum_kept s \<Longrightarrow> quorum_kept t"
proof (induction rule: review_change.induct)
  case (created s r)
  then show ?case by (auto simp: quorum_kept_def approvesItem_def)
next
  case (moved r s a cs now sr sb)
  let ?r = "r\<lparr>rv_status := ra_toStatus a, rv_approvedBy := approvalsAfter r a, rv_supersededBy := sb, rv_supersededReason := sr,
    rv_updatedAt := now, rv_version := rv_version r + 1\<rparr>"
  have r: "quorumOf (rw_actions s) r" using moved by (simp add: quorum_kept_alt)
  have "quorumOf (rw_actions s @ [a]) ?r"
  proof (cases "ra_toStatus a = RvApproved")
    case True
    then show ?thesis using moved r by (intro quorum_approve [OF r]) (auto simp: approvalsAfter_def)
  next
    case False
    then have "quorumOf (rw_actions s) ?r" using r by (simp add: quorumOf_def approvalsAfter_def approvesItem_def)
    then show ?thesis by (rule quorumOf_mono)
  qed
  then show ?case using quorum_put [OF moved.prems] by simp
next
  case (noted r s a now)
  have r: "quorumOf (rw_actions s) r" using noted by (simp add: quorum_kept_alt)
  have "quorumOf (rw_actions s @ [a]) (r\<lparr>rv_approvedBy := rv_approvedBy r @ [ra_actor a], rv_updatedAt := now, rv_version := rv_version r + 1\<rparr>)"
    using noted by (intro quorum_approve [OF r]) auto
  then show ?case using quorum_put [OF noted.prems, of "[a]" _ "rw_corrections s"] by simp
next
  case (recategorised r s c now)
  then show ?case by (intro quorum_same [where r = r]) auto
next
  case (resourced r s now tx)
  then show ?case by (intro quorum_same [where r = r]) auto
qed (auto simp: quorum_kept_def)

subsubsection \<open>Open issues\<close>

lemma issueClash_sym: "issueClash x y \<longleftrightarrow> issueClash y x"
  by (auto simp: issueClash_def sameIssue_def)

text \<open>What an update may do without making two open items clash: keep the issue, and not reopen.\<close>

lemma issueClash_keep:
  assumes "rv_budgetId r' = rv_budgetId r" "rv_transactionId r' = rv_transactionId r" "rv_categoryId r' = rv_categoryId r"
    "rv_classifier r' = rv_classifier r" "rv_evidence r' = rv_evidence r" "rv_status r \<noteq> RvSuperseded \<or> rv_status r' = RvSuperseded"
  shows "issueClash r' x \<Longrightarrow> issueClash r x"
  using assms by (auto simp: issueClash_def sameIssue_def isUnscoped_def isScoped_def)

lemma apart_put:
  assumes "issues_apart s" "\<And>x. x \<in> set (rw_items s) \<Longrightarrow> rv_id x \<noteq> rv_id r' \<Longrightarrow> \<not> issueClash r' x"
  shows "issues_apart (s\<lparr>rw_items := putItem r' (rw_items s), rw_actions := as, rw_corrections := cs\<rparr>)"
  unfolding issues_apart_def
proof (intro ballI impI)
  fix x y assume "x \<in> set (rw_items (s\<lparr>rw_items := putItem r' (rw_items s), rw_actions := as, rw_corrections := cs\<rparr>))"
    "y \<in> set (rw_items (s\<lparr>rw_items := putItem r' (rw_items s), rw_actions := as, rw_corrections := cs\<rparr>))" and ne: "rv_id x \<noteq> rv_id y"
  then have x: "x = r' \<or> x \<in> set (rw_items s) \<and> rv_id x \<noteq> rv_id r'" and y: "y = r' \<or> y \<in> set (rw_items s) \<and> rv_id y \<noteq> rv_id r'"
    by (auto dest: set_putItem)
  then show "\<not> issueClash x y"
    using assms ne issueClash_sym [of x r'] unfolding issues_apart_def by metis
qed

lemma apart_keep:
  assumes "issues_apart s" "r \<in> set (rw_items s)" "rv_id r' = rv_id r" "rv_budgetId r' = rv_budgetId r"
    "rv_transactionId r' = rv_transactionId r" "rv_categoryId r' = rv_categoryId r" "rv_classifier r' = rv_classifier r"
    "rv_evidence r' = rv_evidence r" "rv_status r \<noteq> RvSuperseded \<or> rv_status r' = RvSuperseded"
  shows "issues_apart (s\<lparr>rw_items := putItem r' (rw_items s), rw_actions := as, rw_corrections := cs\<rparr>)"
proof (rule apart_put [OF assms(1)])
  fix x assume "x \<in> set (rw_items s)" "rv_id x \<noteq> rv_id r'"
  then have "\<not> issueClash r x" using assms(1-3) by (simp add: issues_apart_def)
  then show "\<not> issueClash r' x" using issueClash_keep [OF assms(4-9)] by blast
qed

lemma apart_change: "review_change s t \<Longrightarrow> issues_apart s \<Longrightarrow> issues_apart t"
proof (induction rule: review_change.induct)
  case (created s r)
  then show ?case using issueClash_sym by (auto simp: issues_apart_def reviewClash_def)
next
  case (moved r s a cs now sr sb)
  then have "rv_status r \<noteq> RvSuperseded" by auto
  then show ?case using moved by (intro apart_keep [where r = r]) auto
next
  case (noted r s a now)
  then show ?case using apart_keep [OF noted.prems noted.hyps(1), of "r\<lparr>rv_approvedBy := rv_approvedBy r @ [ra_actor a],
    rv_updatedAt := now, rv_version := rv_version r + 1\<rparr>" "rw_corrections s"] by auto
next
  case (recategorised r s c now)
  have "issueClash (r\<lparr>rv_categoryId := c, rv_updatedAt := now, rv_version := rv_version r + 1\<rparr>) x \<longleftrightarrow> issueClash (r\<lparr>rv_categoryId := c\<rparr>) x" for x
    by (simp add: issueClash_def sameIssue_def isUnscoped_def isScoped_def)
  then show ?case using recategorised
      apart_put [OF recategorised.prems, of "r\<lparr>rv_categoryId := c, rv_updatedAt := now, rv_version := rv_version r + 1\<rparr>" "rw_corrections s" "rw_actions s"]
    by auto
next
  case (resourced r s now tx)
  then show ?case using apart_keep [OF resourced.prems resourced.hyps(1), of "r\<lparr>rv_sourceTransaction := tx,
    rv_version := rv_version r + 1, rv_updatedAt := now\<rparr>" "rw_corrections s" "rw_actions s"] by auto
qed (auto simp: issues_apart_def)

subsubsection \<open>Versions\<close>

definition follows :: "review_item \<Rightarrow> review_item \<Rightarrow> bool" where
  "follows r x \<longleftrightarrow> rv_id x = rv_id r \<and> rv_version r \<le> rv_version x \<and> (rv_version x = rv_version r \<longrightarrow> x = r) \<and>
     (rv_status r = RvSuperseded \<longrightarrow> rv_status x = RvSuperseded)"

lemma follows_refl [simp]: "follows r r"
  by (simp add: follows_def)





subsection \<open>Reachable queues\<close>

definition review_wf :: "review_db \<Rightarrow> bool" where
  "review_wf s \<longleftrightarrow> ids_distinct s \<and> recorded_history s \<and> quorum_kept s \<and> issues_apart s"

lemma review_wf_changes: "review_changes s t \<Longrightarrow> review_wf s \<Longrightarrow> review_wf t"
  by (induction rule: rtranclp_induct)
    (auto simp: review_wf_def intro: change_ids history_change quorum_change apart_change)

lemma review_wf_empty: "review_wf (empty_reviews gov)"
  by (simp add: review_wf_def empty_reviews_def recorded_history_def quorum_kept_def issues_apart_def)

lemma review_wf_reach: "review_reach (empty_reviews gov) s \<Longrightarrow> review_wf s"
  using reach_changes review_wf_changes review_wf_empty by (metis review_wf_def)

definition sample_review :: review_input where
  "sample_review = \<lparr>ri_suggestionId = None, ri_budgetId = ''b1'', ri_transactionId = ''x1'', ri_sourceTransaction = None,
     ri_authorize = None, ri_categoryId = ''groceries'', ri_classifier = ''model'', ri_promptVersion = None,
     ri_transactionVersion = None, ri_correlationId = None, ri_assignedReviewerId = None, ri_reviewersRequired = Some 2,
     ri_priority = None, ri_evidence = None, ri_provenance = ''sync'', ri_freshnessExpiresAt = None\<rparr>"

definition reviewed :: "review_input \<Rightarrow> (review_status \<times> string \<times> int) list \<Rightarrow> review_db" where
  "reviewed input moves = fold (\<lambda>(to, actor, v) s. snd (transitionInternalReviewItem ''r1'' (groupInput to actor None v)
     (''a'' @ intText v) (''c'' @ intText v) t1 s)) moves (snd (createReviewItem input True ''r1'' ''a0'' t0 (empty_reviews sample_db)))"

lemma reviewed_reach: "review_reach (empty_reviews sample_db) (reviewed input moves)"
proof -
  have "review_reach s (fold (\<lambda>(to, actor, v) s. snd (transitionInternalReviewItem ''r1'' (groupInput to actor None v)
     (''a'' @ intText v) (''c'' @ intText v) t1 s)) moves s)" for s
  proof (induction moves arbitrary: s)
    case (Cons m moves)
    obtain to actor v where m: "m = (to, actor, v)" by (cases m) auto
    have "review_step s (snd (transitionInternalReviewItem ''r1'' (groupInput to actor None v) (''a'' @ intText v) (''c'' @ intText v) t1 s))"
      by (rule step_transition [OF surjective_pairing])
    then show ?case using Cons.IH m by (simp add: converse_rtranclp_into_rtranclp)
  qed simp
  moreover have "review_step (empty_reviews sample_db) (snd (createReviewItem input True ''r1'' ''a0'' t0 (empty_reviews sample_db)))"
    by (rule step_create [OF surjective_pairing])
  ultimately show ?thesis unfolding reviewed_def by (blast intro: converse_rtranclp_into_rtranclp)
qed

definition approved_moves :: "(review_status \<times> string \<times> int) list" where
  "approved_moves = [(RvPendingReview, ''ana'', 1), (RvApproved, ''ana'', 2), (RvApproved, ''ben'', 3)]"






text \<open>
  C13. Approval needs its quorum: in every reachable queue an approved item names at least as many distinct
  people as it requires reviewers, and each of them has a recorded approval of that item.
\<close>
theorem review_quorum:
  assumes "review_reach (empty_reviews gov) s" and "selectReviewItem s rid = Some r" and "rv_status r = RvApproved"
  shows "rv_reviewersRequired r \<le> int (length (rv_approvedBy r)) \<and> distinct (rv_approvedBy r) \<and>
    (\<forall>p \<in> set (rv_approvedBy r). \<exists>a \<in> set (actionsOf s rid). ra_actor a = p \<and>
      (ra_toStatus a = RvApproved \<or> ra_toStatus a = ra_fromStatus a))"
proof -
  have "quorumOf (rw_actions s) r"
    using review_wf_reach [OF assms(1)] select_mem [OF assms(2)] by (simp add: review_wf_def quorum_kept_alt)
  then show ?thesis using assms(3) select_mem [OF assms(2)] by (fastforce simp: quorumOf_def approvesItem_def actionsOf_def)
qed

theorem review_quorum_witness:
  "\<exists>r. selectReviewItem (reviewed sample_review approved_moves) ''r1'' = Some r \<and> 2 \<le> length (rv_approvedBy r)"
proof -
  have "map_option (\<lambda>r. (rv_status r, rv_reviewersRequired r)) (selectReviewItem (reviewed sample_review approved_moves) ''r1'') =
    Some (RvApproved, 2)" by code_simp
  then obtain r where r: "selectReviewItem (reviewed sample_review approved_moves) ''r1'' = Some r" "rv_status r = RvApproved"
    "rv_reviewersRequired r = 2" by (cases "selectReviewItem (reviewed sample_review approved_moves) ''r1''") auto
  from review_quorum [OF reviewed_reach this(1,2)] r show ?thesis by auto
qed



subsection \<open>Optimistic versions\<close>





subsection \<open>Public moves\<close>

lemma authorize_human_backs:
  assumes "ar_allowed (authorize db i)" "agentAuth i = None"
  shows "\<exists>m. currentMembership db (in_spaceId i) (in_actorId i) (in_now i) = Inr (Some m) \<and>
    (\<forall>q \<in> set (in_required i). \<exists>budget. currentGrant db (in_actorId i) (in_spaceId i) (mb_id m) budget
      (rq_capability q) (rq_resourceKind q) (rq_resourceId q) \<noteq> None)"
  using assms(1)
proof (rule authorizedE)
  fix sp and policy :: versioned_policy and payload :: prepared_payload and m actor mid del
  assume "admitPrincipal db i (vp_version policy) = Inr (m, actor, mid, del)"
    and backs: "\<forall>q \<in> set (in_required i). grantBacks db i (sp_budgetId sp) payload actor mid q \<and>
      (\<forall>d. del = Some d \<longrightarrow> delegationBacks i payload d q)"
  note p = admitPrincipal_human [OF this(1) assms(2)]
  have "\<exists>budget. currentGrant db (in_actorId i) (in_spaceId i) (mb_id m) budget (rq_capability q) (rq_resourceKind q)
      (rq_resourceId q) \<noteq> None" if "q \<in> set (in_required i)" for q
    using bspec [OF backs that] p(2,3) unfolding grantBacks_def by blast
  then show ?thesis using p(1) by blast
qed

lemma reviewRequest_fields:
  "in_actorId (reviewRequest op r input ctx now) = ti_actor input" "in_spaceId (reviewRequest op r input ctx now) = rz_spaceId ctx"
  "in_now (reviewRequest op r input ctx now) = now" "in_auth (reviewRequest op r input ctx now) = Some (rz_auth ctx)"
  "in_required (reviewRequest op r input ctx now) = map (\<lambda>(kind, rid). \<lparr>rq_capability = ''categorization:execute'',
     rq_resourceKind = kind, rq_resourceId = rid, rq_visibility = Some ResourceVisibility\<rparr>) (reviewRefs r (rz_transaction ctx))"
  by (simp_all add: reviewRequest_def)

text \<open>
  C14. A public rejection, skip or undo is authorized: when it succeeds, the person in whose name it is made
  has authenticated as a human, has a current membership of the space bound to the item's budget,
  and holds a current grant to categorize on the budget, the transaction, its account and every category concerned.
\<close>
theorem public_review_authorized:
  assumes "transitionReviewItem rid input actionId correctionId now s = (Inr y, t)"
  shows "\<exists>r ctx sp m. selectReviewItem s rid = Some r \<and> ti_authorization input = Some ctx \<and>
    getSpaceForBudget (rw_gov s) (rv_budgetId r) = Some sp \<and> humanAuth (rz_auth ctx) \<and>
    authActorId (rz_auth ctx) = ti_actor input \<and> st_id (rz_transaction ctx) = rv_transactionId r \<and>
    currentMembership (rw_gov s) (sp_id sp) (ti_actor input) now = Inr (Some m) \<and>
    (\<forall>(kind, k) \<in> set (reviewRefs r (rz_transaction ctx)).
      \<exists>budget. currentGrant (rw_gov s) (ti_actor input) (sp_id sp) (mb_id m) budget ''categorization:execute'' kind k \<noteq> None)"
proof -
  from assms obtain ctx where c: "ti_authorization input = Some ctx"
    and run: "transitionReviewItemInTransaction rid input actionId correctionId now s = (Inr y, t)"
    by (auto simp: transitionReviewItem_def throws_def split: if_split_asm)
  from run obtain r where r: "selectReviewItem s rid = Some r" and auth: "reviewAuthority (rw_gov s) r input ctx now = Inr ()"
    using c by (auto elim: transition_Inr)
  from auth obtain operation sp where sp: "getSpaceForBudget (rw_gov s) (rv_budgetId r) = Some sp" "sp_id sp = rz_spaceId ctx"
    and h: "humanAuth (rz_auth ctx)" "authActorId (rz_auth ctx) = ti_actor input"
      "st_id (rz_transaction ctx) = rv_transactionId r"
    and ok: "ar_allowed (authorize (rw_gov s) (reviewRequest operation r input ctx now))" (is "ar_allowed (authorize _ ?i)")
    by (auto simp: reviewAuthority_def require_eq_Inr split: option.split_asm if_split_asm)
  have noagent: "agentAuth ?i = None" using h(1) by (cases "rz_auth ctx") (simp_all add: agentAuth_def reviewRequest_fields)
  from authorize_human_backs [OF ok noagent] obtain m where
    "currentMembership (rw_gov s) (sp_id sp) (ti_actor input) now = Inr (Some m)"
    "\<forall>q \<in> set (in_required ?i). \<exists>budget. currentGrant (rw_gov s) (ti_actor input) (sp_id sp) (mb_id m) budget
      (rq_capability q) (rq_resourceKind q) (rq_resourceId q) \<noteq> None"
    by (auto simp only: reviewRequest_fields(1-3) sp(2))
  with r c sp h show ?thesis by (fastforce simp: reviewRequest_fields)
qed

definition review_grants :: "grant_row list" where
  "review_grants = map (\<lambda>(kind, rid). sample_grant (''g:'' @ kind) ''categorization:execute'' kind rid no_restrictions)
     [(''budget'', ''b1''), (''transaction'', ''x1''), (''account'', ''a1''), (''category'', ''groceries'')]"

definition ana_skips :: transition_input where
  "ana_skips = (groupInput RvSkipped ''ana'' None 2)\<lparr>ti_authorization := Some \<lparr>rz_spaceId = ''s1'', rz_policyVersion = ''1'',
     rz_auth = HumanSession ana_control, rz_transaction = \<lparr>st_id = ''x1'', st_accountId = ''a1'', st_categoryId = None,
       st_direction = ''outgoing'', st_minorUnits = ''1200'', st_currency = ''EUR''\<rparr>\<rparr>\<rparr>"

abbreviation granted_store :: review_db where
  "granted_store \<equiv> (reviewed sample_review [(RvPendingReview, ''ana'', 1)])\<lparr>rw_gov := sample_db\<lparr>db_grants := db_grants sample_db @ review_grants\<rparr>\<rparr>"

theorem public_review_authorized_witness:
  "\<exists>m. currentMembership (rw_gov granted_store) ''s1'' ''ana'' t1 = Inr (Some m)"
proof -
  let ?run = "transitionReviewItem ''r1'' ana_skips ''a2'' ''c2'' t1 granted_store"
  have "map_sum id rv_status (fst ?run) = Inr RvSkipped" by code_simp
  then obtain y where run: "?run = (Inr y, snd ?run)" by (cases "fst ?run") (auto simp: prod_eq_iff)
  have "map_option sp_id (getSpaceForBudget (rw_gov granted_store) ''b1'') = Some ''s1''" by code_simp
  moreover have "map_option rv_budgetId (selectReviewItem granted_store ''r1'') = Some ''b1''" by code_simp
  ultimately show ?thesis using public_review_authorized [OF run] by (auto simp: ana_skips_def groupInput_def)
qed

subsection \<open>Undo\<close>

text \<open>
  An undo returns an item to review but leaves its list of approvers. A later approval by one of them changes nothing,
  so they cannot approve the item again; and one further person completes a quorum of two on their own.
\<close>

lemma approval_after_undo_ignored:
  assumes "selectReviewItem s rid = Some r" "rv_status r = RvPendingReview" "\<not> historicalReview r"
    "ti_authorization input = None" "ti_toStatus input = RvApproved" "ti_actor input \<in> set (rv_approvedBy r)"
  shows "transitionInternalReviewItem rid input actionId correctionId now s = (Inr r, s)"
  using assms by (simp add: transitionReviewItemInTransaction_def reviewTransaction_def transaction_def bindOp_def reads_def
      require_def returns_def Let_def)

lemma quorum_survives_undo:
  "map_option (\<lambda>r. (rv_status r, rv_approvedBy r)) (selectReviewItem (reviewed sample_review
     (approved_moves @ [(RvPendingReview, ''ana'', 4), (RvApproved, ''cyd'', 5)])) ''r1'') = Some (RvApproved, [''ana'', ''ben'', ''cyd''])"
  by code_simp

end
