(* ===== verification/Merchant_Data.thy ===== *)
theory Merchant_Data
  imports Json_Text Iso_Time
begin

text \<open>
  Values of the merchant workflow (\<^verbatim>\<open>merchant.ts\<close>): scopes, visibility, source references, policies,
  decisions, evidence, quota buckets and research attempts, each with the conditions its schema
  checks. A request that fails its schema throws a \<open>ZodError\<close>. Stored JSON is kept as the value it
  encodes.

  Three arguments stand for what the runtime provides: the digest, the collation order, and the names
  of the time zones it knows.
\<close>

record merchant_env =
  me_sha256 :: "string \<Rightarrow> string"
  me_localeLess :: "string \<Rightarrow> string \<Rightarrow> bool"
  me_timeZone :: "string \<Rightarrow> bool"

subsection \<open>Scalars\<close>

definition idText :: "string \<Rightarrow> bool" where
  "idText s \<longleftrightarrow> s \<noteq> [] \<and> int (length s) \<le> 512 \<and> trim s = s \<and> list_all (\<lambda>c. 32 \<le> code c \<and> code c \<noteq> 127) s"

definition hashText :: "string \<Rightarrow> bool" where
  "hashText s \<longleftrightarrow> int (length s) = 64 \<and> list_all (\<lambda>c. is_digit c \<or> 97 \<le> code c \<and> code c \<le> 102) s"

definition countValue :: "int \<Rightarrow> bool" where
  "countValue i \<longleftrightarrow> 0 \<le> i \<and> i \<le> max_safe_integer"

definition atomsText :: "string \<Rightarrow> bool" where
  "atomsText s \<longleftrightarrow> int (length s) \<le> 128 \<and> decimal_text s"

definition positiveAtoms :: "string \<Rightarrow> bool" where
  "positiveAtoms s \<longleftrightarrow> atomsText s \<and> 0 < dec_val s"

definition nullable :: "('a \<Rightarrow> bool) \<Rightarrow> 'a option \<Rightarrow> bool" where
  "nullable p x = (case x of None \<Rightarrow> True | Some y \<Rightarrow> p y)"

text \<open>\<^verbatim>\<open>/^\d{4}-\d{2}-\d{2}T\d{2}:\d{2}:\d{2}(?:\.\d{3})?Z$/\<close>\<close>

definition timestampPattern :: "string \<Rightarrow> bool" where
  "timestampPattern v \<longleftrightarrow> do {
     (_, t) \<leftarrow> digits 4 v; t \<leftarrow> expect CHR ''-'' t; (_, t) \<leftarrow> digits 2 t; t \<leftarrow> expect CHR ''-'' t;
     (_, t) \<leftarrow> digits 2 t; t \<leftarrow> expect CHR ''T'' t; (_, t) \<leftarrow> digits 2 t; t \<leftarrow> expect CHR '':'' t;
     (_, t) \<leftarrow> digits 2 t; t \<leftarrow> expect CHR '':'' t; (_, t) \<leftarrow> digits 2 t;
     if t = ''Z'' then Some t else do { t \<leftarrow> expect CHR ''.'' t; (_, t) \<leftarrow> digits 3 t; if t = ''Z'' then Some t else None }
   } \<noteq> None"

text \<open>\<^verbatim>\<open>replace('.000Z', 'Z')\<close> on a text of that pattern.\<close>

definition dropZeroMillis :: "string \<Rightarrow> string" where
  "dropZeroMillis v =
     (if drop (length v - 5) v = ''.000Z'' then take (length v - 5) v @ ''Z'' else v)"

definition timestampText :: "string \<Rightarrow> bool" where
  "timestampText v \<longleftrightarrow> timestampPattern v \<and>
     (case date_parse v of None \<Rightarrow> False | Some t \<Rightarrow> dropZeroMillis (toISOString t) = dropZeroMillis v)"

text \<open>\<open>Date.parse\<close> of a text that passed the schema.\<close>

definition instant :: "string \<Rightarrow> int" where
  "instant v = (case date_parse v of None \<Rightarrow> 0 | Some t \<Rightarrow> t)"

definition textLeq :: "string \<Rightarrow> string \<Rightarrow> bool" where
  "textLeq a b \<longleftrightarrow> a = b \<or> textLess a b"

text \<open>
  \<open>Date.parse(lease) > Date.parse(now)\<close>; a text that does not parse compares as false. The form with a
  six-digit year, which a lease has only when it ends after the year 9999, is not parsed here.
\<close>

definition active :: "string \<Rightarrow> string \<Rightarrow> bool" where
  "active lease now \<longleftrightarrow> (case (date_parse lease, date_parse now) of (Some l, Some n) \<Rightarrow> n < l | _ \<Rightarrow> False)"

definition merchantLease :: "string \<Rightarrow> string" where
  "merchantLease now = toISOString (instant now + 30000)"

lemma digits_SomeD: "digits k v = Some (n, t) \<Longrightarrow> list_all is_digit (take k v) \<and> k \<le> length v \<and> t = drop k v"
  by (auto simp: digits_def split: if_splits)

lemma timestampPattern_head:
  assumes "timestampPattern v"
  shows "\<exists>c w. v = c # w \<and> is_digit c \<and> 5 \<le> length w"
proof -
  from assms obtain n t u where t: "digits 4 v = Some (n, t)" "expect CHR ''-'' t = Some u" "digits 2 u \<noteq> None"
    unfolding timestampPattern_def
    by (cases "digits 4 v"; cases "expect CHR ''-'' (snd (the (digits 4 v)))") (auto split: bind_splits)
  then have "t = CHR ''-'' # u" "2 \<le> length u"
    by (auto simp: expect_def digits_def split: list.splits if_splits)
  with digits_SomeD [OF t(1)] have "7 \<le> length v" "list_all is_digit (take 4 v)"
    by (auto dest!: arg_cong [where f = length])
  then show ?thesis by (cases v) auto
qed

lemma dropZeroMillis_head: "5 \<le> length w \<Longrightarrow> \<exists>u. dropZeroMillis (c # w) = c # u"
  by (auto simp: dropZeroMillis_def take_Cons split: nat.splits if_splits)

lemma timestamp_instant:
  assumes "timestampText v"
  shows "date_parse v = Some (instant v)" and "iso_range (instant v)"
proof -
  from assms obtain t where t: "date_parse v = Some t" "dropZeroMillis (toISOString t) = dropZeroMillis v"
    and pattern: "timestampPattern v"
    by (auto simp: timestampText_def split: option.splits)
  from timestampPattern_head [OF pattern] obtain c w where v: "v = c # w" "is_digit c" "5 \<le> length w" by blast
  from dropZeroMillis_head [OF v(3), of c] v(1) t(2) obtain u where u: "dropZeroMillis (toISOString t) = c # u" by auto
  show "date_parse v = Some (instant v)" using t by (simp add: instant_def)
  show "iso_range (instant v)"
  proof (rule ccontr)
    assume "\<not> iso_range (instant v)"
    then have out: "\<not> iso_range t" using t by (simp add: instant_def)
    have "date_range t"
      using u by (rule_tac ccontr) (simp add: toISOString_def dropZeroMillis_def)
    then obtain d x where d: "toISOString t = d # x" "d = CHR ''+'' \<or> d = CHR ''-''" "5 \<le> length x"
      using out_of_range_year [OF out] unfolding toISOString_def Let_def by (auto simp: yearText_def)
    then have "d = c" using dropZeroMillis_head [OF d(3), of d] u by auto
    then show False using d(2) v(2) by (auto simp: is_digit_def code_def)
  qed
qed

lemma active_printed:
  assumes "active (toISOString t) now" "timestampText now"
  shows "iso_range t" and "instant now < t" and "\<not> textLeq (toISOString t) (toISOString (instant now))"
proof -
  from assms timestamp_instant [OF assms(2)] obtain l where l: "date_parse (toISOString t) = Some l" "instant now < l"
    by (auto simp: active_def split: option.splits)
  then show r: "iso_range t" using toISOString_out_of_range by fastforce
  with l date_parse_toISOString show less: "instant now < t" by simp
  from timestamp_instant [OF assms(2)] r less date_parse_toISOString
  show "\<not> textLeq (toISOString t) (toISOString (instant now))"
    unfolding textLeq_def by (metis less_irrefl option.inject order_less_asym textLess_toISOString)
qed

subsection \<open>Scopes, visibility and source references\<close>

record merchant_scope =
  ms_spaceId :: string
  ms_budgetId :: string
  ms_connectionId :: string

definition scopeOk :: "merchant_scope \<Rightarrow> bool" where
  "scopeOk sc \<longleftrightarrow> idText (ms_spaceId sc) \<and> idText (ms_budgetId sc) \<and> idText (ms_connectionId sc)"

definition scopeKey :: "merchant_scope \<Rightarrow> string" where
  "scopeKey sc = jsonText (Arr [Str (ms_spaceId sc), Str (ms_budgetId sc), Str (ms_connectionId sc)])"

record merchant_visibility =
  mv_hash :: string
  mv_privateActorId :: "string option"

definition visibilityOk :: "merchant_visibility \<Rightarrow> bool" where
  "visibilityOk v \<longleftrightarrow> hashText (mv_hash v) \<and> nullable idText (mv_privateActorId v)"

definition zeroHash :: string where
  "zeroHash = replicate 64 CHR ''0''"

record required_ref =
  rf_resourceKind :: string
  rf_resourceId :: string
  rf_capability :: string
  rf_version :: "string option"

record source_refs =
  rs_accountIds :: "string list"
  rs_categoryIds :: "string list"
  rs_ruleIds :: "string list"
  rs_transactionIds :: "string list"
  rs_factsHash :: string
  rs_required :: "required_ref list"

definition emptyRefs :: source_refs where
  "emptyRefs = \<lparr>rs_accountIds = [], rs_categoryIds = [], rs_ruleIds = [], rs_transactionIds = [],
     rs_factsHash = zeroHash, rs_required = []\<rparr>"

definition resourceKinds :: "string list" where
  "resourceKinds = [''space'', ''budget'', ''account'', ''category'', ''transaction'', ''rule'', ''evidence'', ''wallet'',
     ''receipt'', ''commitment'', ''scenario'', ''reservation'', ''purchase'', ''transfer'', ''ledger_effect'',
     ''session'', ''proposal'']"

definition idList :: "string list \<Rightarrow> bool" where
  "idList xs \<longleftrightarrow> int (length xs) \<le> 250000 \<and> list_all idText xs \<and> distinct xs"

definition manifestComplete :: "required_ref list \<Rightarrow> string \<Rightarrow> string list \<Rightarrow> bool" where
  "manifestComplete required kind ids \<longleftrightarrow>
     (let needed = remdups (map rf_resourceId (filter (\<lambda>r. rf_resourceKind r = kind) required)) in
      length needed = length ids \<and> list_all (\<lambda>i. i \<in> set needed) ids)"

definition refsOk :: "source_refs \<Rightarrow> bool" where
  "refsOk r \<longleftrightarrow> idList (rs_accountIds r) \<and> idList (rs_categoryIds r) \<and> idList (rs_ruleIds r) \<and> idList (rs_transactionIds r) \<and>
     hashText (rs_factsHash r) \<and> int (length (rs_required r)) \<le> 2000000 \<and>
     list_all (\<lambda>q. rf_resourceKind q \<in> set resourceKinds \<and> idText (rf_resourceId q) \<and> idText (rf_capability q) \<and>
       nullable idText (rf_version q)) (rs_required r) \<and>
     manifestComplete (rs_required r) ''account'' (rs_accountIds r) \<and>
     manifestComplete (rs_required r) ''category'' (rs_categoryIds r) \<and>
     manifestComplete (rs_required r) ''rule'' (rs_ruleIds r) \<and>
     manifestComplete (rs_required r) ''transaction'' (rs_transactionIds r) \<and>
     distinct (map (\<lambda>q. (rf_resourceKind q, rf_resourceId q, rf_capability q)) (rs_required r))"

subsection \<open>Policies\<close>

datatype merchant_mode = MerchantDisabled | MerchantLocalOnly | MerchantExternalAllowed

record calendar_selection =
  cs_jurisdiction :: string
  cs_subdivision :: "string option"
  cs_timeZone :: string

record calendar_configuration =
  cc_budget :: "calendar_selection option"
  cc_accounts :: "(string \<times> calendar_selection option) list"

record merchant_policy_value =
  mp_mode :: merchant_mode
  mp_allowedProviderIds :: "string list"
  mp_maxSearchesPerDay :: int
  mp_maxSpendMinorUnitsPerMonth :: int
  mp_billingCurrency :: string
  mp_cacheTtlHours :: int
  mp_calendar :: "calendar_configuration option"

record merchant_policy = merchant_policy_value +
  mp_scope :: merchant_scope
  mp_version :: int
  mp_generation :: int
  mp_updatedAt :: string

text \<open>\<^verbatim>\<open>/^[A-Za-z][A-Za-z0-9_+.-]*(?:\/[A-Za-z0-9_+.-]+)*$/\<close>\<close>

definition is_letter :: "char \<Rightarrow> bool" where
  "is_letter c \<longleftrightarrow> 65 \<le> code c \<and> code c \<le> 90 \<or> 97 \<le> code c \<and> code c \<le> 122"

definition zonePattern :: "string \<Rightarrow> bool" where
  "zonePattern s \<longleftrightarrow> s \<noteq> [] \<and> is_letter (hd s) \<and> last s \<noteq> CHR ''/'' \<and>
     list_all (\<lambda>c. is_letter c \<or> is_digit c \<or> c \<in> set ''_+.-/'') s \<and>
     successively (\<lambda>a b. \<not> (a = CHR ''/'' \<and> b = CHR ''/'')) s"

definition selectionOk :: "merchant_env \<Rightarrow> calendar_selection \<Rightarrow> bool" where
  "selectionOk env c \<longleftrightarrow> idText (cs_jurisdiction c) \<and> nullable idText (cs_subdivision c) \<and>
     int (length (cs_timeZone c)) \<le> 128 \<and> zonePattern (cs_timeZone c) \<and> me_timeZone env (cs_timeZone c)"

definition calendarOk :: "merchant_env \<Rightarrow> calendar_configuration \<Rightarrow> bool" where
  "calendarOk env c \<longleftrightarrow> nullable (selectionOk env) (cc_budget c) \<and> int (length (cc_accounts c)) \<le> 10000 \<and>
     list_all (\<lambda>(a, sel). idText a \<and> nullable (selectionOk env) sel) (cc_accounts c) \<and> distinct (map fst (cc_accounts c))"

definition policyValueOk :: "merchant_env \<Rightarrow> merchant_policy_value \<Rightarrow> bool" where
  "policyValueOk env p \<longleftrightarrow> int (length (mp_allowedProviderIds p)) \<le> 100 \<and> list_all idText (mp_allowedProviderIds p) \<and>
     distinct (mp_allowedProviderIds p) \<and> countValue (mp_maxSearchesPerDay p) \<and>
     countValue (mp_maxSpendMinorUnitsPerMonth p) \<and> currency_text (mp_billingCurrency p) \<and>
     1 \<le> mp_cacheTtlHours p \<and> mp_cacheTtlHours p \<le> 720 \<and> nullable (calendarOk env) (mp_calendar p)"

subsection \<open>Decisions and evidence\<close>

record alias_payload =
  al_sourceText :: string
  al_sourceField :: string
  al_normalizationVersion :: string
  al_targetPayeeId :: string
  al_accountId :: "string option"
  al_sourceTransactionIds :: "string list"

datatype decision_payload = AliasPayload alias_payload | PatternPayload string

datatype decision_kind = DecisionAlias | DecisionPattern

datatype decision_state = DecisionAccepted | DecisionRejected | DecisionRevoked

fun payloadKind :: "decision_payload \<Rightarrow> decision_kind" where
  "payloadKind (AliasPayload _) = DecisionAlias"
| "payloadKind (PatternPayload _) = DecisionPattern"

fun payloadOk :: "decision_payload \<Rightarrow> bool" where
  "payloadOk (AliasPayload a) \<longleftrightarrow> al_sourceText a \<noteq> [] \<and> int (length (al_sourceText a)) \<le> 4096 \<and>
     al_sourceField a \<in> {''importedPayee'', ''description'', ''verboseTitle'', ''notes'', ''payeeName''} \<and>
     idText (al_normalizationVersion a) \<and> idText (al_targetPayeeId a) \<and> nullable idText (al_accountId a) \<and>
     idList (al_sourceTransactionIds a)"
| "payloadOk (PatternPayload p) \<longleftrightarrow> idText p"

record merchant_decision =
  de_id :: string
  de_scope :: merchant_scope
  de_payload :: decision_payload
  de_state :: decision_state
  de_actorId :: string
  de_version :: int
  de_updatedAt :: string
  de_generation :: int
  de_visibility :: merchant_visibility
  de_sourceRefs :: source_refs

record merchant_evidence_value =
  ev_key :: string
  ev_revision :: string
  ev_snapshotId :: string
  ev_factsHash :: string
  ev_normalizationVersion :: string
  ev_calendarVersion :: "string option"
  ev_policyVersion :: int
  ev_capturedAt :: string
  ev_expiresAt :: string
  ev_visibility :: merchant_visibility
  ev_sourceRefs :: source_refs

record merchant_evidence = merchant_evidence_value +
  ev_scope :: merchant_scope
  ev_generation :: int

definition evidenceOk :: "merchant_evidence_value \<Rightarrow> bool" where
  "evidenceOk v \<longleftrightarrow> idText (ev_key v) \<and> hashText (ev_revision v) \<and> idText (ev_snapshotId v) \<and> hashText (ev_factsHash v) \<and>
     idText (ev_normalizationVersion v) \<and> nullable idText (ev_calendarVersion v) \<and> countValue (ev_policyVersion v) \<and>
     timestampText (ev_capturedAt v) \<and> timestampText (ev_expiresAt v) \<and> visibilityOk (ev_visibility v) \<and>
     refsOk (ev_sourceRefs v)"

subsection \<open>Research attempts\<close>

datatype bucket_kind = BucketInstallation | BucketSpace | BucketBudget | BucketCredential | BucketDelegation

record quota_bucket =
  qb_kind :: bucket_kind
  qb_id :: string
  qb_maxSearchesPerDay :: int
  qb_maxSpendMinorUnitsPerMonth :: int

definition bucketOk :: "quota_bucket \<Rightarrow> bool" where
  "bucketOk b \<longleftrightarrow> idText (qb_id b) \<and> countValue (qb_maxSearchesPerDay b) \<and> countValue (qb_maxSpendMinorUnitsPerMonth b)"

record merchant_tariff =
  tf_version :: string
  tf_billingCurrency :: string
  tf_costAtoms :: string

definition tariffOk :: "merchant_tariff \<Rightarrow> bool" where
  "tariffOk t \<longleftrightarrow> idText (tf_version t) \<and> currency_text (tf_billingCurrency t) \<and> positiveAtoms (tf_costAtoms t)"

record merchant_cache_key =
  ck_scope :: merchant_scope
  ck_queryFingerprint :: string
  ck_locale :: "string option"
  ck_providerId :: string
  ck_providerVersion :: string
  ck_parametersHash :: string
  ck_normalizationVersion :: string
  ck_egressPolicyVersion :: string
  ck_visibilityHash :: string

definition cacheKeyOk :: "merchant_cache_key \<Rightarrow> bool" where
  "cacheKeyOk k \<longleftrightarrow> scopeOk (ck_scope k) \<and> hashText (ck_queryFingerprint k) \<and>
     nullable (\<lambda>l. l \<noteq> [] \<and> int (length l) \<le> 64) (ck_locale k) \<and> idText (ck_providerId k) \<and> idText (ck_providerVersion k) \<and>
     hashText (ck_parametersHash k) \<and> idText (ck_normalizationVersion k) \<and> idText (ck_egressPolicyVersion k) \<and>
     hashText (ck_visibilityHash k)"

datatype attempt_phase =
    AttemptReserved | AttemptDispatched | AttemptSucceeded | AttemptKnownFailed | AttemptUncertain

text \<open>The outcome a worker settles with, and the one that only the release of unsent work stores.\<close>

datatype attempt_outcome =
    OutcomeSucceeded string
  | OutcomeNotBilled
  | OutcomeUncertain
  | OutcomeNotInvoked

fun outcomeOk :: "attempt_outcome \<Rightarrow> bool" where
  "outcomeOk (OutcomeSucceeded atoms) \<longleftrightarrow> atomsText atoms"
| "outcomeOk OutcomeNotInvoked \<longleftrightarrow> False"
| "outcomeOk _ \<longleftrightarrow> True"

fun outcomePhase :: "attempt_outcome \<Rightarrow> attempt_phase" where
  "outcomePhase (OutcomeSucceeded _) = AttemptSucceeded"
| "outcomePhase OutcomeUncertain = AttemptUncertain"
| "outcomePhase _ = AttemptKnownFailed"

fun outcomeAtoms :: "attempt_outcome \<Rightarrow> string option" where
  "outcomeAtoms (OutcomeSucceeded atoms) = Some atoms"
| "outcomeAtoms OutcomeUncertain = None"
| "outcomeAtoms _ = Some ''0''"

record attempt_row =
  at_id :: string
  at_scopeKey :: string
  at_idempotencyHash :: string
  at_intentHash :: string
  at_keyHash :: string
  at_generation :: int
  at_policyVersion :: int
  at_phase :: attempt_phase
  at_reserved :: string
  at_settled :: "string option"
  at_billingCurrency :: string
  at_tariffVersion :: string
  at_createdAt :: string
  at_leaseExpiresAt :: string
  at_dispatchedAt :: "string option"
  at_claimToken :: "string option"
  at_outcome :: "attempt_outcome option"
  at_visibility :: merchant_visibility
  at_sourceRefs :: source_refs
  at_buckets :: "quota_bucket list"
  at_dayWindow :: string
  at_monthWindow :: string
  at_contentDeleted :: bool

subsection \<open>Digests\<close>

definition digest :: "merchant_env \<Rightarrow> jsval \<Rightarrow> string" where
  "digest env v = me_sha256 env (canonical (me_localeLess env) v)"

definition optionalText :: "string option \<Rightarrow> jsval" where
  "optionalText x = (case x of None \<Rightarrow> Null | Some s \<Rightarrow> Str s)"

definition scopeJson :: "merchant_scope \<Rightarrow> jsval" where
  "scopeJson sc = Obj [(''spaceId'', Str (ms_spaceId sc)), (''budgetId'', Str (ms_budgetId sc)),
     (''connectionId'', Str (ms_connectionId sc))]"

definition visibilityJson :: "merchant_visibility \<Rightarrow> jsval" where
  "visibilityJson v = Obj [(''hash'', Str (mv_hash v)), (''privateActorId'', optionalText (mv_privateActorId v))]"

definition refsJson :: "source_refs \<Rightarrow> jsval" where
  "refsJson r = Obj [(''accountIds'', Arr (map Str (rs_accountIds r))), (''categoryIds'', Arr (map Str (rs_categoryIds r))),
     (''ruleIds'', Arr (map Str (rs_ruleIds r))), (''transactionIds'', Arr (map Str (rs_transactionIds r))),
     (''factsHash'', Str (rs_factsHash r)),
     (''required'', Arr (map (\<lambda>q. Obj [(''resourceKind'', Str (rf_resourceKind q)), (''resourceId'', Str (rf_resourceId q)),
        (''capability'', Str (rf_capability q)), (''version'', optionalText (rf_version q))]) (rs_required r)))]"

definition cacheKeyJson :: "merchant_cache_key \<Rightarrow> jsval" where
  "cacheKeyJson k = Obj [(''scope'', scopeJson (ck_scope k)), (''queryFingerprint'', Str (ck_queryFingerprint k)),
     (''locale'', optionalText (ck_locale k)), (''providerId'', Str (ck_providerId k)),
     (''providerVersion'', Str (ck_providerVersion k)), (''parametersHash'', Str (ck_parametersHash k)),
     (''normalizationVersion'', Str (ck_normalizationVersion k)),
     (''egressPolicyVersion'', Str (ck_egressPolicyVersion k)), (''visibilityHash'', Str (ck_visibilityHash k))]"

fun bucketKindText :: "bucket_kind \<Rightarrow> string" where
  "bucketKindText BucketInstallation = ''installation''"
| "bucketKindText BucketSpace = ''space''"
| "bucketKindText BucketBudget = ''budget''"
| "bucketKindText BucketCredential = ''credential''"
| "bucketKindText BucketDelegation = ''delegation''"

definition bucketJson :: "quota_bucket \<Rightarrow> jsval" where
  "bucketJson b = Obj [(''kind'', Str (bucketKindText (qb_kind b))), (''id'', Str (qb_id b)),
     (''maxSearchesPerDay'', Num (NInt (qb_maxSearchesPerDay b))),
     (''maxSpendMinorUnitsPerMonth'', Num (NInt (qb_maxSpendMinorUnitsPerMonth b)))]"

definition tariffJson :: "merchant_tariff option \<Rightarrow> jsval" where
  "tariffJson t = (case t of None \<Rightarrow> Null
     | Some t \<Rightarrow> Obj [(''version'', Str (tf_version t)), (''billingCurrency'', Str (tf_billingCurrency t)),
         (''costAtoms'', Str (tf_costAtoms t))])"

definition bucketName :: "quota_bucket \<Rightarrow> string" where
  "bucketName b = bucketKindText (qb_kind b) @ ''/'' @ qb_id b"

definition attemptIntent :: "merchant_env \<Rightarrow> merchant_cache_key \<Rightarrow> source_refs \<Rightarrow> merchant_visibility \<Rightarrow> int \<Rightarrow> int \<Rightarrow>
    merchant_tariff option \<Rightarrow> quota_bucket list \<Rightarrow> string" where
  "attemptIntent env key refs visibility generation policyVersion tariff buckets =
     digest env (Obj [(''key'', cacheKeyJson key), (''sourceRefs'', refsJson refs), (''visibility'', visibilityJson visibility),
       (''generation'', Num (NInt generation)), (''policyVersion'', Num (NInt policyVersion)),
       (''tariff'', tariffJson tariff),
       (''buckets'', Arr (map bucketJson (sortBy (\<lambda>a b. me_localeLess env (bucketName a) (bucketName b)) buckets)))])"

end
