(* ===== verification/Merchant_Redact.thy ===== *)
theory Merchant_Redact
  imports Merchant_Data
begin

text \<open>
  Removal of what was derived from merchant content out of the copies in other tables
  (\<open>redactMerchantDerivedCopies\<close> of \<^verbatim>\<open>merchant.ts\<close>): suggestions, review items, findings, notification
  events and report records. Of each row the model keeps the columns the function reads or writes.
  A JSON column is the value it encodes, \<open>None\<close> for \<open>NULL\<close> or a text that is not JSON.
\<close>

subsection \<open>Markers\<close>

record merchant_derivation =
  dv_scope :: merchant_scope
  dv_privateActorId :: "string option"
  dv_capturedAt :: string
  dv_expiresAt :: string

definition strictKeys :: "string list \<Rightarrow> (string \<times> jsval) list \<Rightarrow> bool" where
  "strictKeys ks fs \<longleftrightarrow> list_all (\<lambda>(k, _). k \<in> set ks) fs"

fun textOf :: "jsval \<Rightarrow> string option" where
  "textOf (Str s) = Some s"
| "textOf _ = None"

fun nullableTextOf :: "jsval \<Rightarrow> string option option" where
  "nullableTextOf (Str s) = Some (Some s)"
| "nullableTextOf Null = Some None"
| "nullableTextOf _ = None"

definition parseScope :: "jsval \<Rightarrow> merchant_scope option" where
  "parseScope v = do {
     fs \<leftarrow> js_record v;
     s \<leftarrow> textOf (field fs ''spaceId'');
     b \<leftarrow> textOf (field fs ''budgetId'');
     c \<leftarrow> textOf (field fs ''connectionId'');
     let sc = \<lparr>ms_spaceId = s, ms_budgetId = b, ms_connectionId = c\<rparr>;
     if strictKeys [''spaceId'', ''budgetId'', ''connectionId''] fs \<and> scopeOk sc then Some sc else None
   }"

definition parseDerivation :: "jsval \<Rightarrow> merchant_derivation option" where
  "parseDerivation v = do {
     fs \<leftarrow> js_record v;
     sc \<leftarrow> parseScope (field fs ''scope'');
     p \<leftarrow> nullableTextOf (field fs ''privateActorId'');
     c \<leftarrow> textOf (field fs ''capturedAt'');
     e \<leftarrow> textOf (field fs ''expiresAt'');
     if strictKeys [''scope'', ''privateActorId'', ''capturedAt'', ''expiresAt''] fs \<and> nullable idText p \<and>
        timestampText c \<and> timestampText e \<and> instant c < instant e
     then Some \<lparr>dv_scope = sc, dv_privateActorId = p, dv_capturedAt = c, dv_expiresAt = e\<rparr> else None
   }"

definition merchantKeys :: "string list" where
  "merchantKeys = [''merchantDerivation'', ''merchantProof'', ''merchantEvidence'', ''merchantAnalysis'',
     ''merchantIntelligence'', ''merchantEnrichment'', ''merchantResearch'', ''merchantRecurrences'', ''merchantSuggestions'']"

definition merchantKey :: "string \<Rightarrow> bool" where
  "merchantKey k \<longleftrightarrow> k \<in> set merchantKeys"

subsection \<open>Redaction of a value\<close>

record redact_options =
  rx_actorId :: "string option"
  rx_spaceId :: "string option"
  rx_budgetId :: "string option"
  rx_connectionId :: "string option"
  rx_now :: "string option"

definition everything :: redact_options where
  "everything = \<lparr>rx_actorId = None, rx_spaceId = None, rx_budgetId = None, rx_connectionId = None, rx_now = None\<rparr>"

text \<open>\<open>v?.k\<close>\<close>

definition member :: "jsval \<Rightarrow> string \<Rightarrow> jsval" where
  "member v k = (case v of Obj fs \<Rightarrow> field fs k | _ \<Rightarrow> Undefined)"

definition markerOf :: "merchant_derivation option \<Rightarrow> (string \<times> jsval) list \<Rightarrow> merchant_derivation option" where
  "markerOf inherited fs =
     (if hasOwn fs ''merchantDerivation'' then parseDerivation (field fs ''merchantDerivation'') else inherited)"

definition scopeOf :: "merchant_derivation option \<Rightarrow> merchant_scope option \<Rightarrow> (string \<times> jsval) list \<Rightarrow> merchant_scope option" where
  "scopeOf marker inheritedScope fs =
     (case marker of
        Some m \<Rightarrow> Some (dv_scope m)
      | None \<Rightarrow>
          (let scope = member (member (field fs ''merchantProof'') ''reviewContext'') ''scope'' in
           if scope = Undefined then inheritedScope
           else case parseScope scope of Some sc \<Rightarrow> Some sc | None \<Rightarrow> inheritedScope))"

definition wants :: "string option \<Rightarrow> ('a \<Rightarrow> string) \<Rightarrow> 'a option \<Rightarrow> bool" where
  "wants opt f x = (case (opt, x) of (Some w, Some y) \<Rightarrow> f y = w | _ \<Rightarrow> True)"

definition selectedBy :: "redact_options \<Rightarrow> merchant_derivation option \<Rightarrow> merchant_scope option \<Rightarrow> bool" where
  "selectedBy opts marker scope \<longleftrightarrow>
     (case (rx_actorId opts, marker) of (Some a, Some m) \<Rightarrow> dv_privateActorId m = Some a | _ \<Rightarrow> True) \<and>
     wants (rx_spaceId opts) ms_spaceId scope \<and> wants (rx_budgetId opts) ms_budgetId scope \<and>
     wants (rx_connectionId opts) ms_connectionId scope \<and>
     (case (rx_now opts, marker) of
        (Some now, Some m) \<Rightarrow> instant (dv_expiresAt m) \<le> instant now \<or>
          instant (dv_capturedAt m) \<le> instant now - 30 * 86400000
      | _ \<Rightarrow> True)"

text \<open>The value without the derived parts that are selected, and whether some part of it has to stay.\<close>

fun redact :: "redact_options \<Rightarrow> merchant_derivation option \<Rightarrow> bool \<Rightarrow> bool \<Rightarrow> merchant_scope option \<Rightarrow> jsval \<Rightarrow> jsval \<times> bool"
  and redactList :: "redact_options \<Rightarrow> merchant_derivation option \<Rightarrow> bool \<Rightarrow> merchant_scope option \<Rightarrow> jsval list \<Rightarrow>
    (jsval \<times> bool) list"
  and redactEntries :: "redact_options \<Rightarrow> merchant_derivation option \<Rightarrow> bool \<Rightarrow> merchant_scope option \<Rightarrow> bool \<Rightarrow> bool \<Rightarrow>
    (string \<times> jsval) list \<Rightarrow> (string \<times> jsval) list \<times> bool" where
  "redact opts inherited derived target inheritedScope (Arr xs) =
     (let children = redactList opts inherited derived inheritedScope xs in
      (Arr (filter (\<lambda>v. v \<noteq> Undefined) (map fst children)), list_ex snd children))"
| "redact opts inherited derived target inheritedScope (Obj fs) =
     (let marker = markerOf inherited fs; scope = scopeOf marker inheritedScope fs;
          selected = selectedBy opts marker scope;
          merchantRevision = (target \<or> list_ex (\<lambda>(k, _). merchantKey k) fs);
          (cleaned, kept) = redactEntries opts marker derived scope selected merchantRevision fs;
          retained = (\<not> selected \<or> kept)
      in (if derived \<and> selected \<and> \<not> retained then Undefined else Obj cleaned, retained))"
| "redact opts inherited derived target inheritedScope v = (v, False)"
| "redactList opts inherited derived inheritedScope [] = []"
| "redactList opts inherited derived inheritedScope (x # xs) =
     redact opts inherited derived False inheritedScope x # redactList opts inherited derived inheritedScope xs"
| "redactEntries opts marker derived scope selected merchantRevision [] = ([], False)"
| "redactEntries opts marker derived scope selected merchantRevision ((k, x) # fs) =
     (let (y, r) = redact opts marker (derived \<or> merchantKey k) False scope x;
          (rest, kept) = redactEntries opts marker derived scope selected merchantRevision fs
      in if selected \<and> ((derived \<or> merchantKey k) \<and> \<not> r \<or> merchantRevision \<and> k = ''sourceRevision'')
         then (rest, kept) else ((k, y) # rest, r \<or> kept))"

subsection \<open>Redaction of the copies\<close>

record copy_row =
  cp_table :: string
  cp_id :: string
  cp_budgetId :: "string option"
  cp_columns :: "(string \<times> jsval option) list"
  cp_classifier :: string
  cp_categoryId :: string
  cp_status :: string
  cp_supersededReason :: "string option"
  cp_supersededBy :: "string option"
  cp_version :: int

text \<open>\<^verbatim>\<open>LIKE '%"merchant%'\<close> ignores the case of ASCII letters.\<close>

definition mentionsMerchant :: "jsval \<Rightarrow> bool" where
  "mentionsMerchant v \<longleftrightarrow>
     containsText (CHR 0x22 # ''merchant'') (map (\<lambda>c. if is_upper c then char_of (code c + 32) else c) (jsonText v))"

definition copySelected :: "redact_options \<Rightarrow> copy_row \<Rightarrow> bool" where
  "copySelected opts row \<longleftrightarrow>
     (list_ex (\<lambda>(_, v). case v of None \<Rightarrow> False | Some w \<Rightarrow> mentionsMerchant w) (cp_columns row) \<or>
      cp_table row = ''review_items'' \<and> cp_classifier row = ''merchant'') \<and>
     (case rx_budgetId opts of None \<Rightarrow> True | Some b \<Rightarrow> cp_budgetId row = Some b)"

text \<open>What \<open>JSON.stringify\<close> stores of a value: entries that are \<open>undefined\<close> are left out.\<close>

fun storedJson :: "jsval \<Rightarrow> jsval"
  and storedJsons :: "jsval list \<Rightarrow> jsval list"
  and storedEntries :: "(string \<times> jsval) list \<Rightarrow> (string \<times> jsval) list" where
  "storedJson (Arr xs) = Arr (storedJsons xs)"
| "storedJson (Obj fs) = Obj (storedEntries fs)"
| "storedJson v = v"
| "storedJsons [] = []"
| "storedJsons (x # xs) = storedJson x # storedJsons xs"
| "storedEntries [] = []"
| "storedEntries ((k, x) # fs) = (if x = Undefined then storedEntries fs else (k, storedJson x) # storedEntries fs)"

text \<open>Whether the redaction took the merchant content a merchant review item rests on.\<close>

definition removedTarget :: "jsval \<Rightarrow> jsval \<Rightarrow> bool" where
  "removedTarget old new =
     (let has = (\<lambda>v k. case v of Obj fs \<Rightarrow> hasOwn fs k | _ \<Rightarrow> False) in
      if member old ''merchantProof'' \<noteq> Undefined then member new ''merchantProof'' = Undefined
      else list_ex (\<lambda>k. has old k \<and> \<not> has new k) [''merchantDerivation'', ''merchantEvidence'', ''sourceRevision''])"

fun isObject :: "jsval \<Rightarrow> bool" where
  "isObject (Arr _) = True"
| "isObject (Obj _) = True"
| "isObject _ = False"

definition supersedeCopy :: "copy_row \<Rightarrow> copy_row \<times> nat" where
  "supersedeCopy row =
     (if cp_classifier row = ''merchant'' \<and> cp_status row \<in> {''discovered'', ''suggestion_generated'', ''pending_review''}
      then (row\<lparr>cp_categoryId := [], cp_status := ''superseded'',
              cp_supersededReason := Some ''merchant_derived_content_deleted'', cp_supersededBy := None,
              cp_version := cp_version row + 1\<rparr>, 1)
      else (row, 0))"

text \<open>One column of a selected row; \<open>cleaned\<close> is the value before it is printed, as the code compares it.\<close>

definition redactColumn :: "merchant_env \<Rightarrow> redact_options \<Rightarrow> copy_row \<times> nat \<Rightarrow> string \<times> jsval option \<Rightarrow> copy_row \<times> nat" where
  "redactColumn env opts acc c =
     (case (acc, c) of ((row, changed), (column, content)) \<Rightarrow>
      (case content of
         None \<Rightarrow> (row, changed)
       | Some v \<Rightarrow>
           (let target = (cp_table row = ''review_items'' \<and> column = ''evidence'' \<and> cp_classifier row = ''merchant'');
                cleaned = fst (redact opts None False target None v) in
            if canonical (me_localeLess env) v = canonical (me_localeLess env) cleaned then (row, changed)
            else
              (let row1 = row\<lparr>cp_columns := map (\<lambda>(k, w). (k, if k = column then Some (storedJson cleaned) else w)) (cp_columns row)\<rparr> in
               if target \<and> isObject v \<and> isObject cleaned \<and> removedTarget v cleaned
               then (case supersedeCopy row1 of (row2, n) \<Rightarrow> (row2, changed + 1 + n))
               else (row1, changed + 1)))))"

definition redactCopy :: "merchant_env \<Rightarrow> redact_options \<Rightarrow> copy_row \<Rightarrow> copy_row \<times> nat" where
  "redactCopy env opts row =
     (if copySelected opts row then foldl (redactColumn env opts) (row, 0) (cp_columns row) else (row, 0))"

definition redactMerchantDerivedCopies :: "merchant_env \<Rightarrow> redact_options \<Rightarrow> copy_row list \<Rightarrow> copy_row list \<times> nat" where
  "redactMerchantDerivedCopies env opts rows =
     (let done = map (redactCopy env opts) rows in (map fst done, sum_list (map snd done)))"

end
