(* ===== verification/Merchant_Store.thy ===== *)
theory Merchant_Store
  imports Merchant_Redact
begin

text \<open>
  The merchant workflow store (class \<open>MerchantWorkflow\<close> and \<open>reconcileMerchantRestore\<close> of
  \<^verbatim>\<open>merchant.ts\<close>): generations of a scope, policies, decisions, evidence and the research attempts
  that are reserved against quotas, claimed by a worker, dispatched to a provider and settled. The
  cache of provider answers is not modelled: no operation here reads it, and the two that fill and
  read it check addresses with the runtime's \<open>URL\<close> parser. Every operation is one immediate transaction: one
  that throws leaves the tables as they were. Identifiers and claim tokens are arguments.
\<close>

subsection \<open>Tables\<close>

record scope_row =
  sg_key :: string
  sg_spaceId :: string
  sg_budgetId :: string
  sg_connectionId :: string
  sg_generation :: int
  sg_restorePending :: bool
  sg_billingHoldUntil :: "string option"
  sg_billingUnresolved :: bool

record decision_row =
  dr_scopeKey :: string
  dr_visibilityHash :: string
  dr_id :: string
  dr_kind :: decision_kind
  dr_updatedAt :: string
  dr_value :: merchant_decision

record evidence_row =
  er_scopeKey :: string
  er_visibilityHash :: string
  er_key :: string
  er_expiresAt :: string
  er_capturedAt :: string
  er_value :: merchant_evidence

record merchant_db =
  md_scopes :: "scope_row list"
  md_policies :: "(string \<times> merchant_policy) list"
  md_decisions :: "decision_row list"
  md_evidence :: "evidence_row list"
  md_attempts :: "attempt_row list"
  md_copies :: "copy_row list"

definition emptyMerchant :: merchant_db where
  "emptyMerchant = \<lparr>md_scopes = [], md_policies = [], md_decisions = [], md_evidence = [], md_attempts = [], md_copies = []\<rparr>"

subsection \<open>Requests\<close>

record merchant_context =
  mx_scope :: merchant_scope
  mx_now :: string
  mx_generation :: int
  mx_visibility :: "merchant_visibility option"
  mx_sourceRefs :: source_refs

record merchant_access =
  ma_scope :: merchant_scope
  ma_now :: string
  ma_expectedGeneration :: int
  ma_authorize :: "merchant_context \<Rightarrow> bool"

record merchant_view = merchant_access +
  ma_visibility :: merchant_visibility
  ma_actorId :: string

definition accessOk :: "'a merchant_access_scheme \<Rightarrow> bool" where
  "accessOk input \<longleftrightarrow> scopeOk (ma_scope input) \<and> timestampText (ma_now input) \<and> countValue (ma_expectedGeneration input)"

definition viewOk :: "merchant_view \<Rightarrow> bool" where
  "viewOk input \<longleftrightarrow> accessOk input \<and> visibilityOk (ma_visibility input) \<and> idText (ma_actorId input)"

subsection \<open>Scopes and authority\<close>

definition scopeRow :: "merchant_db \<Rightarrow> merchant_scope \<Rightarrow> scope_row option" where
  "scopeRow s sc = find (\<lambda>r. sg_key r = scopeKey sc) (md_scopes s)"

definition globalRow :: "merchant_db \<Rightarrow> scope_row option" where
  "globalRow s = find (\<lambda>r. sg_key r = []) (md_scopes s)"

definition generation :: "merchant_db \<Rightarrow> merchant_scope \<Rightarrow> int" where
  "generation s sc = (case scopeRow s sc of None \<Rightarrow> 0 | Some r \<Rightarrow> sg_generation r)"

text \<open>\<open>state?.f ?? global?.f\<close>\<close>

definition scopeOrGlobal :: "(scope_row \<Rightarrow> 'a) \<Rightarrow> 'a \<Rightarrow> merchant_db \<Rightarrow> merchant_scope \<Rightarrow> 'a" where
  "scopeOrGlobal f d s sc =
     (case scopeRow s sc of Some r \<Rightarrow> f r | None \<Rightarrow> (case globalRow s of Some g \<Rightarrow> f g | None \<Rightarrow> d))"

text \<open>For a column that may be \<open>NULL\<close>: \<open>??\<close> also falls through on it.\<close>

definition holdUntil :: "merchant_db \<Rightarrow> merchant_scope \<Rightarrow> string option" where
  "holdUntil s sc =
     (case Option.bind (scopeRow s sc) sg_billingHoldUntil of
        Some t \<Rightarrow> Some t
      | None \<Rightarrow> Option.bind (globalRow s) sg_billingHoldUntil)"

definition ensureScope :: "merchant_scope \<Rightarrow> merchant_db \<Rightarrow> merchant_db" where
  "ensureScope sc s =
     (if scopeRow s sc \<noteq> None then s
      else s\<lparr>md_scopes := md_scopes s @ [\<lparr>sg_key = scopeKey sc, sg_spaceId = ms_spaceId sc, sg_budgetId = ms_budgetId sc,
        sg_connectionId = ms_connectionId sc, sg_generation = 0,
        sg_restorePending = (case globalRow s of None \<Rightarrow> False | Some g \<Rightarrow> sg_restorePending g),
        sg_billingHoldUntil = Option.bind (globalRow s) sg_billingHoldUntil,
        sg_billingUnresolved = (case globalRow s of None \<Rightarrow> False | Some g \<Rightarrow> sg_billingUnresolved g)\<rparr>]\<rparr>)"

definition merchantAuthorize :: "'a merchant_access_scheme \<Rightarrow> source_refs \<Rightarrow> merchant_visibility option \<Rightarrow> merchant_db \<Rightarrow> bool" where
  "merchantAuthorize input refs visibility s =
     ma_authorize input \<lparr>mx_scope = ma_scope input, mx_now = ma_now input, mx_generation = generation s (ma_scope input),
       mx_visibility = visibility, mx_sourceRefs = refs\<rparr>"

definition fenced :: "'a merchant_access_scheme \<Rightarrow> bool \<Rightarrow> merchant_db \<Rightarrow> bool" where
  "fenced input allowRestore s \<longleftrightarrow> ma_expectedGeneration input = generation s (ma_scope input) \<and>
     (allowRestore \<or> \<not> scopeOrGlobal sg_restorePending False s (ma_scope input))"

definition permitted :: "'a merchant_access_scheme \<Rightarrow> bool \<Rightarrow> merchant_db \<Rightarrow> bool" where
  "permitted input allowRestore s \<longleftrightarrow> merchantAuthorize input emptyRefs None s \<and> fenced input allowRestore s"

definition seesPrivate :: "merchant_view \<Rightarrow> merchant_visibility \<Rightarrow> bool" where
  "seesPrivate input visibility \<longleftrightarrow> mv_privateActorId visibility \<in> {None, Some (ma_actorId input)}"

definition permittedView :: "merchant_view \<Rightarrow> source_refs \<Rightarrow> merchant_visibility \<Rightarrow> merchant_db \<Rightarrow> bool" where
  "permittedView input refs visibility s \<longleftrightarrow> merchantAuthorize input refs (Some visibility) s \<and>
     ma_visibility input = visibility \<and> seesPrivate input visibility \<and> fenced input False s"

definition bumpGeneration :: "(scope_row \<Rightarrow> bool) \<Rightarrow> merchant_db \<Rightarrow> merchant_db" where
  "bumpGeneration p s = s\<lparr>md_scopes := updateWhere p (\<lambda>r. r\<lparr>sg_generation := sg_generation r + 1\<rparr>) (md_scopes s)\<rparr>"

subsection \<open>Policies\<close>

text \<open>
  Stored values passed their schema when they were written; of what the schema of a read checks, only
  the counters can have grown out of it since.
\<close>

definition decodePolicy :: "merchant_policy \<Rightarrow> merchant_policy result" where
  "decodePolicy p = andThen (require (countValue (mp_version p) \<and> countValue (mp_generation p))
     ''Stored merchant state is unavailable'') (\<lambda>_. Inr p)"

definition decodeDecision :: "merchant_decision \<Rightarrow> merchant_decision result" where
  "decodeDecision d = andThen (require (countValue (de_version d) \<and> countValue (de_generation d))
     ''Stored merchant state is unavailable'') (\<lambda>_. Inr d)"

definition policyValue :: "merchant_db \<Rightarrow> merchant_scope \<Rightarrow> merchant_policy option result" where
  "policyValue s sc =
     (case map_of (md_policies s) (scopeKey sc) of
        None \<Rightarrow> Inr None
      | Some p \<Rightarrow> andThen (decodePolicy p) (\<lambda>q. Inr (Some q)))"

definition policyVersionOf :: "merchant_policy option \<Rightarrow> int" where
  "policyVersionOf p = (case p of None \<Rightarrow> 0 | Some q \<Rightarrow> mp_version q)"

definition external :: "merchant_db \<Rightarrow> merchant_scope \<Rightarrow> int \<Rightarrow> merchant_cache_key option \<Rightarrow> bool result" where
  "external s sc policyVersion key =
     andThen (policyValue s sc) (\<lambda>policy.
       Inr (case policy of None \<Rightarrow> False
         | Some p \<Rightarrow> mp_mode p = MerchantExternalAllowed \<and> mp_version p = policyVersion \<and>
             (case key of None \<Rightarrow> True | Some k \<Rightarrow> ck_providerId k \<in> set (mp_allowedProviderIds p))))"

definition upsert :: "'k \<Rightarrow> 'v \<Rightarrow> ('k \<times> 'v) list \<Rightarrow> ('k \<times> 'v) list" where
  "upsert k v xs = (if list_ex (\<lambda>e. fst e = k) xs then map (\<lambda>e. if fst e = k then (k, v) else e) xs else xs @ [(k, v)])"

definition policy :: "merchant_access \<Rightarrow> (merchant_db, merchant_policy option) op" where
  "policy input s =
     (if \<not> accessOk input then (Inl ZodError, s)
      else if permitted input False s then (policyValue s (ma_scope input), s) else (Inr None, s))"

subsection \<open>Research attempts: rows\<close>

definition attemptRow :: "merchant_db \<Rightarrow> merchant_scope \<Rightarrow> string \<Rightarrow> attempt_row option" where
  "attemptRow s sc i = find (\<lambda>r. at_scopeKey r = scopeKey sc \<and> at_id r = i) (md_attempts s)"

record research_attempt =
  ra_id :: string
  ra_scope :: merchant_scope
  ra_phase :: attempt_phase
  ra_generation :: int
  ra_policyVersion :: int
  ra_reservedCostAtoms :: string
  ra_settledCostAtoms :: "string option"
  ra_billingCurrency :: string
  ra_tariffVersion :: string
  ra_createdAt :: string
  ra_leaseExpiresAt :: string
  ra_dispatchedAt :: "string option"
  ra_notInvoked :: bool
  ra_claimToken :: "string option"
  ra_visibility :: merchant_visibility
  ra_sourceRefs :: source_refs

definition attemptValue :: "attempt_row \<Rightarrow> merchant_scope \<Rightarrow> research_attempt" where
  "attemptValue r sc = \<lparr>ra_id = at_id r, ra_scope = sc, ra_phase = at_phase r, ra_generation = at_generation r,
     ra_policyVersion = at_policyVersion r, ra_reservedCostAtoms = at_reserved r, ra_settledCostAtoms = at_settled r,
     ra_billingCurrency = at_billingCurrency r, ra_tariffVersion = at_tariffVersion r, ra_createdAt = at_createdAt r,
     ra_leaseExpiresAt = at_leaseExpiresAt r, ra_dispatchedAt = at_dispatchedAt r,
     ra_notInvoked = (at_outcome r = Some OutcomeNotInvoked), ra_claimToken = at_claimToken r,
     ra_visibility = at_visibility r, ra_sourceRefs = at_sourceRefs r\<rparr>"

definition admittedAttempt :: "merchant_view \<Rightarrow> attempt_row \<Rightarrow> merchant_db \<Rightarrow> bool" where
  "admittedAttempt input row s \<longleftrightarrow> permittedView input (at_sourceRefs row) (at_visibility row) s \<and>
     at_generation row = ma_expectedGeneration input \<and> \<not> at_contentDeleted row"

definition updateAttempts :: "(attempt_row \<Rightarrow> bool) \<Rightarrow> (attempt_row \<Rightarrow> attempt_row) \<Rightarrow> merchant_db \<Rightarrow> merchant_db" where
  "updateAttempts p f s = s\<lparr>md_attempts := updateWhere p f (md_attempts s)\<rparr>"

definition failUnsent :: "attempt_outcome \<Rightarrow> attempt_row \<Rightarrow> attempt_row" where
  "failUnsent outcome r = r\<lparr>at_phase := AttemptKnownFailed, at_settled := Some ''0'', at_claimToken := None,
     at_outcome := Some outcome\<rparr>"

definition reconcile :: "string \<Rightarrow> merchant_db \<Rightarrow> merchant_db" where
  "reconcile now s =
     updateAttempts (\<lambda>r. at_phase r = AttemptDispatched \<and> textLeq (at_leaseExpiresAt r) (toISOString (instant now)))
       (\<lambda>r. r\<lparr>at_phase := AttemptUncertain\<rparr>)
     (updateAttempts (\<lambda>r. at_phase r = AttemptReserved \<and> at_dispatchedAt r = None \<and>
         textLeq (at_leaseExpiresAt r) (toISOString (instant now)))
       (failUnsent OutcomeNotBilled) s)"

definition cancel :: "merchant_scope \<Rightarrow> merchant_db \<Rightarrow> merchant_db" where
  "cancel sc s = updateAttempts (\<lambda>r. at_scopeKey r = scopeKey sc \<and> at_phase r = AttemptReserved) (failUnsent OutcomeNotBilled) s"

subsection \<open>Policy changes\<close>

definition setMerchantPolicy :: "merchant_env \<Rightarrow> merchant_access \<Rightarrow> merchant_policy_value \<Rightarrow> int \<Rightarrow>
    (merchant_db, merchant_policy option) op" where
  "setMerchantPolicy env input value expectedVersion s =
     (if \<not> accessOk input \<or> \<not> policyValueOk env value \<or> \<not> countValue expectedVersion then (Inl ZodError, s)
      else if \<not> permitted input False s then (Inr None, s)
      else case policyValue s (ma_scope input) of
        Inl e \<Rightarrow> (Inl e, s)
      | Inr previous \<Rightarrow>
          if policyVersionOf previous \<noteq> expectedVersion then (Inr None, s)
          else
            (let sc = ma_scope input; key = scopeKey sc;
                 s1 = cancel sc (bumpGeneration (\<lambda>r. sg_key r = key) (ensureScope sc s));
                 p = merchant_policy_value.extend value (merchant_policy.fields sc (expectedVersion + 1)
                   (ma_expectedGeneration input + 1) (ma_now input));
                 s2 = s1\<lparr>md_policies := upsert key p (md_policies s1)\<rparr> in
             case mapR (\<lambda>r. decodeDecision (dr_value r)) (filter (\<lambda>r. dr_scopeKey r = key) (md_decisions s2)) of
               Inl e \<Rightarrow> (Inl e, s)
             | Inr _ \<Rightarrow> (Inr (Some p),
                 s2\<lparr>md_decisions := updateWhere (\<lambda>r. dr_scopeKey r = key)
                   (\<lambda>r. r\<lparr>dr_value := (dr_value r)\<lparr>de_generation := mp_generation p\<rparr>\<rparr>) (md_decisions s2)\<rparr>)))"

subsection \<open>Decisions\<close>

definition decisionRow :: "merchant_db \<Rightarrow> merchant_scope \<Rightarrow> string \<Rightarrow> string \<Rightarrow> decision_row option" where
  "decisionRow s sc vis i =
     find (\<lambda>r. dr_scopeKey r = scopeKey sc \<and> dr_visibilityHash r = vis \<and> dr_id r = i) (md_decisions s)"

text \<open>The loop over the rows of a page; \<open>None\<close> when one of them may not be read.\<close>

fun pageDecisions :: "merchant_view \<Rightarrow> nat \<Rightarrow> merchant_db \<Rightarrow> merchant_decision list \<Rightarrow> decision_row list \<Rightarrow>
    merchant_decision list option result" where
  "pageDecisions input limit s records [] = Inr (Some records)"
| "pageDecisions input limit s records (r # rows) =
     andThen (decodeDecision (dr_value r)) (\<lambda>value.
       if \<not> permittedView input (de_sourceRefs value) (de_visibility value) s then Inr None
       else
         (let records1 = (if de_generation value = ma_expectedGeneration input then records @ [value] else records) in
          if limit < length records1 then Inr (Some records1)
          else pageDecisions input limit s records1 rows))"

definition decisions :: "merchant_view \<Rightarrow> decision_kind option \<Rightarrow> string option \<Rightarrow> int \<Rightarrow>
    (merchant_db, merchant_decision list \<times> string option) op" where
  "decisions input kind cursor limit s =
     (if \<not> viewOk input \<or> \<not> (1 \<le> limit \<and> limit \<le> 1000) \<or> \<not> nullable idText cursor then (Inl ZodError, s)
      else
        (let start = (case cursor of None \<Rightarrow> [] | Some c \<Rightarrow> c);
             rows = sortBy (\<lambda>a b. textLess (dr_id a) (dr_id b))
               (filter (\<lambda>r. dr_scopeKey r = scopeKey (ma_scope input) \<and> dr_visibilityHash r = mv_hash (ma_visibility input) \<and>
                  textLess start (dr_id r) \<and> (kind = None \<or> kind = Some (dr_kind r))) (md_decisions s)) in
         (andThen (pageDecisions input (nat limit) s [] rows) (\<lambda>page.
            case page of
              None \<Rightarrow> Inr ([], None)
            | Some records \<Rightarrow>
                if nat limit < length records
                then (let shown = butlast records in Inr (shown, if shown = [] then None else Some (de_id (last shown))))
                else Inr (records, None)), s)))"

fun aliasDependencies :: "decision_payload \<Rightarrow> source_refs \<Rightarrow> bool" where
  "aliasDependencies (AliasPayload a) refs \<longleftrightarrow>
     list_all (\<lambda>i. i \<in> set (rs_transactionIds refs)) (al_sourceTransactionIds a) \<and>
     nullable (\<lambda>acc. acc \<in> set (rs_accountIds refs)) (al_accountId a)"
| "aliasDependencies (PatternPayload _) refs \<longleftrightarrow> True"

definition decide :: "merchant_view \<Rightarrow> string \<Rightarrow> decision_payload \<Rightarrow> decision_state \<Rightarrow> source_refs \<Rightarrow> int \<Rightarrow>
    (merchant_db, merchant_decision option) op" where
  "decide input i payload st refs expectedVersion s =
     (if \<not> viewOk input \<or> \<not> idText i \<or> \<not> payloadOk payload \<or> \<not> refsOk refs \<or> \<not> countValue expectedVersion then (Inl ZodError, s)
      else if \<not> aliasDependencies payload refs then (Inl (Error ''Alias source identities must be complete dependencies''), s)
      else if \<not> permittedView input refs (ma_visibility input) s then (Inr None, s)
      else
        (let sc = ma_scope input; vis = mv_hash (ma_visibility input) in
         case andThen (case decisionRow s sc vis i of None \<Rightarrow> Inr None | Some r \<Rightarrow> map_sum (\<lambda>x. x) Some (decodeDecision (dr_value r)))
             (\<lambda>previous. Inr previous) of
           Inl e \<Rightarrow> (Inl e, s)
         | Inr previous \<Rightarrow>
             if (case previous of None \<Rightarrow> 0 | Some d \<Rightarrow> de_version d) \<noteq> expectedVersion \<or>
                (case previous of None \<Rightarrow> False
                  | Some d \<Rightarrow> \<not> merchantAuthorize input (de_sourceRefs d) (Some (de_visibility d)) s)
             then (Inr None, s)
             else
               (let s1 = ensureScope sc s;
                    value = \<lparr>de_id = i, de_scope = sc, de_payload = payload, de_state = st, de_actorId = ma_actorId input,
                      de_version = expectedVersion + 1, de_updatedAt = ma_now input,
                      de_generation = ma_expectedGeneration input, de_visibility = ma_visibility input, de_sourceRefs = refs\<rparr>;
                    row = \<lparr>dr_scopeKey = scopeKey sc, dr_visibilityHash = vis, dr_id = i, dr_kind = payloadKind payload,
                      dr_updatedAt = ma_now input, dr_value = value\<rparr>;
                    same = (\<lambda>r. dr_scopeKey r = scopeKey sc \<and> dr_visibilityHash r = vis \<and> dr_id r = i) in
                (Inr (Some value),
                 s1\<lparr>md_decisions := (if list_ex same (md_decisions s1) then updateWhere same (\<lambda>_. row) (md_decisions s1)
                    else md_decisions s1 @ [row])\<rparr>))))"

subsection \<open>Evidence\<close>

definition evidenceRow :: "merchant_db \<Rightarrow> merchant_scope \<Rightarrow> string \<Rightarrow> string \<Rightarrow> evidence_row option" where
  "evidenceRow s sc vis k =
     find (\<lambda>r. er_scopeKey r = scopeKey sc \<and> er_visibilityHash r = vis \<and> er_key r = k) (md_evidence s)"

definition evidence :: "merchant_view \<Rightarrow> string \<Rightarrow> (merchant_db, merchant_evidence option) op" where
  "evidence input k s =
     (if \<not> viewOk input \<or> \<not> idText k then (Inl ZodError, s)
      else case evidenceRow s (ma_scope input) (mv_hash (ma_visibility input)) k of
        None \<Rightarrow> (Inr None, s)
      | Some r \<Rightarrow>
          (let v = er_value r in
           if permittedView input (ev_sourceRefs v) (ev_visibility v) s \<and> ev_generation v = ma_expectedGeneration input \<and>
              active (ev_expiresAt v) (ma_now input)
           then (andThen (policyValue s (ma_scope input)) (\<lambda>p.
                   Inr (if ev_policyVersion v = policyVersionOf p then Some v else None)), s)
           else (Inr None, s)))"

text \<open>\<open>evidenceFactsSchema\<close>: the value without its times and snapshot.\<close>

definition evidenceFacts :: "'a merchant_evidence_value_scheme \<Rightarrow> merchant_evidence_value" where
  "evidenceFacts v = \<lparr>ev_key = ev_key v, ev_revision = ev_revision v, ev_snapshotId = [], ev_factsHash = ev_factsHash v,
     ev_normalizationVersion = ev_normalizationVersion v, ev_calendarVersion = ev_calendarVersion v,
     ev_policyVersion = ev_policyVersion v, ev_capturedAt = [], ev_expiresAt = [], ev_visibility = ev_visibility v,
     ev_sourceRefs = ev_sourceRefs v\<rparr>"

definition putEvidence :: "merchant_view \<Rightarrow> merchant_evidence_value \<Rightarrow> string option \<Rightarrow>
    (merchant_db, merchant_evidence option) op" where
  "putEvidence input proposed expectedRevision s =
     (if \<not> viewOk input \<or> \<not> evidenceOk proposed \<or> \<not> nullable hashText expectedRevision then (Inl ZodError, s)
      else if ev_visibility proposed \<noteq> ma_visibility input \<or> ev_factsHash proposed \<noteq> rs_factsHash (ev_sourceRefs proposed) \<or>
        \<not> active (ev_expiresAt proposed) (ev_capturedAt proposed) then (Inl (Error ''Inconsistent evidence provenance''), s)
      else if \<not> permittedView input (ev_sourceRefs proposed) (ev_visibility proposed) s \<or>
        \<not> active (ev_expiresAt proposed) (ma_now input) then (Inr None, s)
      else case policyValue s (ma_scope input) of
        Inl e \<Rightarrow> (Inl e, s)
      | Inr p \<Rightarrow>
          if ev_policyVersion proposed \<noteq> policyVersionOf p then (Inr None, s)
          else
            (let sc = ma_scope input; vis = mv_hash (ma_visibility input);
                 previous = map_option er_value (evidenceRow s sc vis (ev_key proposed)) in
             if map_option ev_revision previous \<noteq> expectedRevision then (Inr None, s)
             else if (case previous of None \<Rightarrow> False
                 | Some q \<Rightarrow> ev_revision q = ev_revision proposed \<and> evidenceFacts q \<noteq> evidenceFacts proposed)
             then (Inl (Error ''Changed evidence facts require a new revision''), s)
             else
               (let s1 = ensureScope sc s;
                    value = merchant_evidence_value.extend proposed (merchant_evidence.fields sc (ma_expectedGeneration input));
                    row = \<lparr>er_scopeKey = scopeKey sc, er_visibilityHash = vis, er_key = ev_key proposed,
                      er_expiresAt = toISOString (instant (ev_expiresAt proposed)),
                      er_capturedAt = toISOString (instant (ev_capturedAt proposed)), er_value = value\<rparr>;
                    same = (\<lambda>r. er_scopeKey r = scopeKey sc \<and> er_visibilityHash r = vis \<and> er_key r = ev_key proposed) in
                (Inr (Some value),
                 s1\<lparr>md_evidence := (if list_ex same (md_evidence s1) then updateWhere same (\<lambda>_. row) (md_evidence s1)
                    else md_evidence s1 @ [row])\<rparr>))))"

end
