(* ===== verification/Merchant_Research.thy ===== *)
theory Merchant_Research
  imports Merchant_Store
begin

text \<open>
  Research attempts of the merchant workflow (\<^verbatim>\<open>merchant.ts\<close>): reservation against the quotas of every
  bucket, claim, dispatch with its limits on concurrency and rate, release, settlement; purging,
  pruning and the quarantine of a restored copy. Costs are decimal texts and exact integers
  (\<open>BigInt\<close>), as in the code.
\<close>

subsection \<open>Reservation\<close>

datatype denial =
    DeniedUnauthorized | DeniedStaleGeneration | DeniedRestorePending | DeniedRestoreBillingHold
  | DeniedPolicy | DeniedUnknownPricing | DeniedDailyCap | DeniedMonthlyCap

datatype admission = Admitted research_attempt | PendingAttempt research_attempt | Denied denial

record reserve_input =
  ri_idempotencyKey :: string
  ri_key :: merchant_cache_key
  ri_sourceRefs :: source_refs
  ri_policyVersion :: int
  ri_tariff :: "merchant_tariff option"
  ri_buckets :: "quota_bucket list"

definition reserveInputOk :: "merchant_view \<Rightarrow> reserve_input \<Rightarrow> bool" where
  "reserveInputOk input r \<longleftrightarrow> viewOk input \<and> idText (ri_idempotencyKey r) \<and> cacheKeyOk (ri_key r) \<and> refsOk (ri_sourceRefs r) \<and>
     countValue (ri_policyVersion r) \<and> nullable tariffOk (ri_tariff r) \<and> list_all bucketOk (ri_buckets r) \<and>
     4 \<le> int (length (ri_buckets r)) \<and> int (length (ri_buckets r)) \<le> 1000"

definition bucketIdentity :: "quota_bucket \<Rightarrow> bucket_kind \<times> string" where
  "bucketIdentity b = (qb_kind b, qb_id b)"

definition bucketsComplete :: "merchant_scope \<Rightarrow> quota_bucket list \<Rightarrow> bool" where
  "bucketsComplete sc buckets \<longleftrightarrow> distinct (map bucketIdentity buckets) \<and>
     list_all (\<lambda>kind. length (filter (\<lambda>b. qb_kind b = kind) buckets) = 1)
       [BucketInstallation, BucketSpace, BucketBudget, BucketCredential] \<and>
     map_option qb_id (find (\<lambda>b. qb_kind b = BucketSpace) buckets) = Some (ms_spaceId sc) \<and>
     map_option qb_id (find (\<lambda>b. qb_kind b = BucketBudget) buckets) = Some (ms_spaceId sc @ ''/'' @ ms_budgetId sc)"

definition constrain :: "merchant_policy \<Rightarrow> quota_bucket \<Rightarrow> quota_bucket" where
  "constrain p b =
     (if qb_kind b = BucketBudget
      then b\<lparr>qb_maxSearchesPerDay := min (qb_maxSearchesPerDay b) (mp_maxSearchesPerDay p),
             qb_maxSpendMinorUnitsPerMonth := min (qb_maxSpendMinorUnitsPerMonth b) (mp_maxSpendMinorUnitsPerMonth p)\<rparr>
      else b)"

definition chargedTo :: "bucket_kind \<times> string \<Rightarrow> attempt_row \<Rightarrow> bool" where
  "chargedTo ident r \<longleftrightarrow> list_ex (\<lambda>b. bucketIdentity b = ident) (at_buckets r)"

definition attemptCost :: "attempt_row \<Rightarrow> int" where
  "attemptCost r = dec_val (case at_settled r of None \<Rightarrow> at_reserved r | Some atoms \<Rightarrow> atoms)"

text \<open>The inner loop: searches of the day and spending of the month, \<open>None\<close> on a foreign currency.\<close>

fun bucketTotals :: "bucket_kind \<times> string \<Rightarrow> string \<Rightarrow> string \<Rightarrow> string \<Rightarrow> int \<times> int \<Rightarrow> attempt_row list \<Rightarrow> (int \<times> int) option" where
  "bucketTotals ident day month currency acc [] = Some acc"
| "bucketTotals ident day month currency (daily, monthly) (r # rows) =
     (if \<not> chargedTo ident r then bucketTotals ident day month currency (daily, monthly) rows
      else if at_monthWindow r = month \<and> at_billingCurrency r \<noteq> currency then None
      else bucketTotals ident day month currency
        (if at_dayWindow r = day then daily + 1 else daily,
         if at_monthWindow r = month then monthly + attemptCost r else monthly) rows)"

fun quotaDenial :: "string \<Rightarrow> string \<Rightarrow> merchant_tariff \<Rightarrow> attempt_row list \<Rightarrow> quota_bucket list \<Rightarrow> denial option" where
  "quotaDenial day month tariff ledger [] = None"
| "quotaDenial day month tariff ledger (b # buckets) =
     (case bucketTotals (bucketIdentity b) day month (tf_billingCurrency tariff) (0, 0) ledger of
        None \<Rightarrow> Some DeniedPolicy
      | Some (daily, monthly) \<Rightarrow>
          if qb_maxSearchesPerDay b \<le> daily then Some DeniedDailyCap
          else if qb_maxSpendMinorUnitsPerMonth b * 1000000 < monthly + dec_val (tf_costAtoms tariff) then Some DeniedMonthlyCap
          else quotaDenial day month tariff ledger buckets)"

definition ledgerRows :: "string \<Rightarrow> string \<Rightarrow> merchant_db \<Rightarrow> attempt_row list" where
  "ledgerRows day month s =
     filter (\<lambda>r. (at_dayWindow r = day \<or> at_monthWindow r = month) \<and> at_phase r \<noteq> AttemptKnownFailed) (md_attempts s)"

definition pendingAttempt :: "merchant_scope \<Rightarrow> string \<Rightarrow> int \<Rightarrow> string \<Rightarrow> merchant_db \<Rightarrow> attempt_row option" where
  "pendingAttempt sc keyHash gen now s =
     (case sortBy (\<lambda>a b. textLess (at_createdAt a) (at_createdAt b))
        (filter (\<lambda>r. at_scopeKey r = scopeKey sc \<and> at_keyHash r = keyHash \<and> at_generation r = gen \<and>
           at_phase r \<in> {AttemptReserved, AttemptDispatched} \<and>
           textLess (toISOString (instant now)) (at_leaseExpiresAt r)) (md_attempts s)) of
        [] \<Rightarrow> None
      | r # _ \<Rightarrow> Some r)"

definition researchAttempt :: "merchant_env \<Rightarrow> string \<Rightarrow> merchant_view \<Rightarrow> reserve_input \<Rightarrow> merchant_tariff \<Rightarrow> string \<Rightarrow> attempt_row" where
  "researchAttempt env uuid input r tariff intent = \<lparr>at_id = uuid, at_scopeKey = scopeKey (ma_scope input),
     at_idempotencyHash = digest env (Str (ri_idempotencyKey r)), at_intentHash = intent,
     at_keyHash = digest env (cacheKeyJson (ri_key r)), at_generation = ma_expectedGeneration input,
     at_policyVersion = ri_policyVersion r, at_phase = AttemptReserved, at_reserved = tf_costAtoms tariff,
     at_settled = None, at_billingCurrency = tf_billingCurrency tariff, at_tariffVersion = tf_version tariff,
     at_createdAt = toISOString (instant (ma_now input)), at_leaseExpiresAt = merchantLease (ma_now input),
     at_dispatchedAt = None, at_claimToken = None, at_outcome = None, at_visibility = ma_visibility input,
     at_sourceRefs = ri_sourceRefs r, at_buckets = ri_buckets r, at_dayWindow = take 10 (ma_now input),
     at_monthWindow = take 7 (ma_now input), at_contentDeleted = False\<rparr>"

definition attemptClash :: "attempt_row \<Rightarrow> attempt_row \<Rightarrow> bool" where
  "attemptClash a b \<longleftrightarrow> at_id a = at_id b \<or> at_scopeKey a = at_scopeKey b \<and> at_idempotencyHash a = at_idempotencyHash b"

text \<open>The checks before the ledger is touched: the denial, or the policy and the tariff to charge.\<close>

definition reserveGate :: "merchant_view \<Rightarrow> reserve_input \<Rightarrow> merchant_db \<Rightarrow> (denial + merchant_policy \<times> merchant_tariff) result" where
  "reserveGate input r s =
     (let sc = ma_scope input in
      if \<not> merchantAuthorize input (ri_sourceRefs r) (Some (ma_visibility input)) s \<or> \<not> seesPrivate input (ma_visibility input)
      then Inr (Inl DeniedUnauthorized)
      else if ma_expectedGeneration input \<noteq> generation s sc then Inr (Inl DeniedStaleGeneration)
      else if scopeOrGlobal sg_restorePending False s sc then Inr (Inl DeniedRestorePending)
      else andThen (policyValue s sc) (\<lambda>policy.
        andThen (external s sc (ri_policyVersion r) (Some (ri_key r))) (\<lambda>allowed.
          case policy of
            None \<Rightarrow> Inr (Inl DeniedPolicy)
          | Some p \<Rightarrow>
              if \<not> allowed then Inr (Inl DeniedPolicy)
              else if scopeOrGlobal sg_billingUnresolved False s sc \<or>
                (case holdUntil s sc of None \<Rightarrow> False | Some t \<Rightarrow> active t (ma_now input)) then Inr (Inl DeniedRestoreBillingHold)
              else case ri_tariff r of
                None \<Rightarrow> Inr (Inl DeniedUnknownPricing)
              | Some tariff \<Rightarrow>
                  if tf_billingCurrency tariff \<noteq> mp_billingCurrency p then Inr (Inl DeniedPolicy)
                  else Inr (Inr (p, tariff)))))"

definition reserveNew :: "merchant_env \<Rightarrow> string \<Rightarrow> merchant_view \<Rightarrow> reserve_input \<Rightarrow> merchant_policy \<Rightarrow> merchant_tariff \<Rightarrow> string \<Rightarrow>
    (merchant_db, admission) op" where
  "reserveNew env uuid input r p tariff intent s =
     (let sc = ma_scope input; now = ma_now input; day = take 10 now; month = take 7 now in
      case pendingAttempt sc (digest env (cacheKeyJson (ri_key r))) (ma_expectedGeneration input) now s of
        Some pending \<Rightarrow>
          (Inr (if admittedAttempt input pending s then PendingAttempt (attemptValue pending sc) else Denied DeniedUnauthorized), s)
      | None \<Rightarrow>
          (case quotaDenial day month tariff (ledgerRows day month s) (map (constrain p) (ri_buckets r)) of
             Some reason \<Rightarrow> (Inr (Denied reason), s)
           | None \<Rightarrow>
               (let row = researchAttempt env uuid input r tariff intent in
                case insertRow attemptClash ''merchant_research_attempts'' row (md_attempts s) of
                  Inl e \<Rightarrow> (Inl e, s)
                | Inr rows \<Rightarrow> (Inr (Admitted (attemptValue row sc)), (ensureScope sc s)\<lparr>md_attempts := rows\<rparr>))))"

definition reserveAttempt :: "merchant_env \<Rightarrow> string \<Rightarrow> merchant_view \<Rightarrow> reserve_input \<Rightarrow> (merchant_db, admission) op" where
  "reserveAttempt env uuid input r s =
     (let sc = ma_scope input in
      if \<not> reserveInputOk input r then (Inl ZodError, s)
      else if ck_scope (ri_key r) \<noteq> sc \<or> ck_visibilityHash (ri_key r) \<noteq> mv_hash (ma_visibility input)
      then (Inl (Error ''Research cache identity is outside its scope''), s)
      else if \<not> bucketsComplete sc (ri_buckets r) then (Inl (Error ''Incomplete or inconsistent research quota buckets''), s)
      else
        (let intent = attemptIntent env (ri_key r) (ri_sourceRefs r) (ma_visibility input) (ma_expectedGeneration input)
               (ri_policyVersion r) (ri_tariff r) (ri_buckets r) in
         case reserveGate input r s of
           Inl e \<Rightarrow> (Inl e, s)
         | Inr (Inl reason) \<Rightarrow> (Inr (Denied reason), s)
         | Inr (Inr (p, tariff)) \<Rightarrow>
             (case find (\<lambda>a. at_scopeKey a = scopeKey sc \<and> at_idempotencyHash a = digest env (Str (ri_idempotencyKey r)))
                (md_attempts s) of
                Some original \<Rightarrow>
                  if at_contentDeleted original then (Inr (Denied DeniedUnauthorized), s)
                  else if at_intentHash original \<noteq> intent then (Inl (Error ''Merchant idempotency intent conflict''), s)
                  else
                    (let s1 = reconcile (ma_now input) s in
                     case attemptRow s1 sc (at_id original) of
                       None \<Rightarrow> (Inl TypeError, s)
                     | Some current \<Rightarrow>
                         (Inr (if admittedAttempt input current s1 then Admitted (attemptValue current sc)
                            else Denied DeniedUnauthorized), s1))
              | None \<Rightarrow>
                  (case reserveNew env uuid input r p tariff intent (reconcile (ma_now input) s) of
                     (Inl e, _) \<Rightarrow> (Inl e, s)
                   | (Inr a, s1) \<Rightarrow> (Inr a, s1)))))"

subsection \<open>Claim, dispatch, release and settlement\<close>

definition attempt :: "merchant_view \<Rightarrow> string \<Rightarrow> (merchant_db, research_attempt option) op" where
  "attempt input i s =
     (if \<not> viewOk input \<or> \<not> idText i then (Inl ZodError, s)
      else case attemptRow s (ma_scope input) i of
        None \<Rightarrow> (Inr None, s)
      | Some row \<Rightarrow>
          if \<not> admittedAttempt input row s then (Inr None, s)
          else
            (let s1 = reconcile (ma_now input) s in
             (Inr (map_option (\<lambda>r. attemptValue r (ma_scope input)) (attemptRow s1 (ma_scope input) i)), s1)))"

definition claimAttempt :: "string \<Rightarrow> merchant_view \<Rightarrow> string \<Rightarrow> (merchant_db, research_attempt option) op" where
  "claimAttempt token input i s =
     (if \<not> viewOk input \<or> \<not> idText i then (Inl ZodError, s)
      else case attemptRow s (ma_scope input) i of
        None \<Rightarrow> (Inr None, s)
      | Some row \<Rightarrow>
          if \<not> admittedAttempt input row s then (Inr None, s)
          else
            (let s1 = reconcile (ma_now input) s in
             if at_phase row \<noteq> AttemptReserved \<or> \<not> active (at_leaseExpiresAt row) (ma_now input) \<or> at_claimToken row \<noteq> None
             then (Inr None, s1)
             else case external s1 (ma_scope input) (at_policyVersion row) None of
               Inl e \<Rightarrow> (Inl e, s)
             | Inr allowed \<Rightarrow>
                 if \<not> allowed then (Inr None, s1)
                 else
                   (let s2 = updateAttempts (\<lambda>r. at_id r = i)
                          (\<lambda>r. r\<lparr>at_claimToken := Some token, at_leaseExpiresAt := merchantLease (ma_now input)\<rparr>) s1 in
                    (Inr (map_option (\<lambda>r. attemptValue r (ma_scope input)) (attemptRow s2 (ma_scope input) i)), s2))))"

text \<open>Attempts that may still be executing at the provider.\<close>

definition running :: "string \<Rightarrow> merchant_db \<Rightarrow> attempt_row list" where
  "running now s = filter (\<lambda>r. textLess (toISOString (instant now)) (at_leaseExpiresAt r) \<and>
     (at_phase r = AttemptDispatched \<or> at_phase r = AttemptUncertain \<and> at_outcome r = None)) (md_attempts s)"

definition recentLaunches :: "string \<Rightarrow> merchant_db \<Rightarrow> attempt_row list" where
  "recentLaunches now s = filter (\<lambda>r. case at_dispatchedAt r of None \<Rightarrow> False
     | Some t \<Rightarrow> textLess (toISOString (instant now - 1000)) t) (md_attempts s)"

text \<open>
  Whether the credential of the row was used in the launches. A row without a credential bucket, which
  a reservation never makes, would fail on the first launch that has one.
\<close>

definition launchedRecently :: "attempt_row \<Rightarrow> attempt_row list \<Rightarrow> bool result" where
  "launchedRecently row launches =
     (case find (\<lambda>b. qb_kind b = BucketCredential) (at_buckets row) of
        Some credential \<Rightarrow> Inr (list_ex (chargedTo (bucketIdentity credential)) launches)
      | None \<Rightarrow> if list_ex (\<lambda>r. list_ex (\<lambda>b. qb_kind b = BucketCredential) (at_buckets r)) launches
                then Inl TypeError else Inr False)"

definition launch :: "string \<Rightarrow> attempt_row \<Rightarrow> attempt_row" where
  "launch now r = r\<lparr>at_phase := AttemptDispatched, at_dispatchedAt := Some (toISOString (instant now))\<rparr>"

definition dispatchAttempt :: "merchant_view \<Rightarrow> string \<Rightarrow> string \<Rightarrow> (merchant_db, bool) op" where
  "dispatchAttempt input i token s =
     (if \<not> viewOk input \<or> \<not> idText i \<or> \<not> idText token then (Inl ZodError, s)
      else case attemptRow s (ma_scope input) i of
        None \<Rightarrow> (Inr False, s)
      | Some row \<Rightarrow>
          if \<not> admittedAttempt input row s then (Inr False, s)
          else
            (let now = ma_now input; s1 = reconcile now s in
             if at_phase row \<noteq> AttemptReserved \<or> at_claimToken row \<noteq> Some token \<or> \<not> active (at_leaseExpiresAt row) now
             then (Inr False, s1)
             else case external s1 (ma_scope input) (at_policyVersion row) None of
               Inl e \<Rightarrow> (Inl e, s)
             | Inr allowed \<Rightarrow>
                 if \<not> allowed \<or> at_dayWindow row \<noteq> take 10 now \<or> at_monthWindow row \<noteq> take 7 now then (Inr False, s1)
                 else if list_ex (\<lambda>b. 2 \<le> length (filter (chargedTo (bucketIdentity b)) (running now s1)))
                   (filter (\<lambda>b. qb_kind b = BucketInstallation \<or> qb_kind b = BucketCredential) (at_buckets row))
                 then (Inr False, s1)
                 else case launchedRecently row (recentLaunches now s1) of
                   Inl e \<Rightarrow> (Inl e, s)
                 | Inr recent \<Rightarrow>
                     if recent then (Inr False, s1)
                     else (Inr True, updateAttempts (\<lambda>r. at_id r = i) (launch now) s1)))"

definition abandonAttempt :: "merchant_view \<Rightarrow> string \<Rightarrow> string option \<Rightarrow> (merchant_db, bool) op" where
  "abandonAttempt input i token s =
     (if \<not> viewOk input \<or> \<not> idText i \<or> \<not> nullable idText token then (Inl ZodError, s)
      else case attemptRow s (ma_scope input) i of
        None \<Rightarrow> (Inr False, s)
      | Some row \<Rightarrow>
          if \<not> admittedAttempt input row s \<or> at_phase row \<noteq> AttemptReserved \<or> at_dispatchedAt row \<noteq> None \<or>
             (case token of Some t \<Rightarrow> at_claimToken row \<noteq> Some t
              | None \<Rightarrow> at_claimToken row \<noteq> None \<and> active (at_leaseExpiresAt row) (ma_now input))
          then (Inr False, s)
          else (Inr True, updateAttempts (\<lambda>r. at_id r = i) (failUnsent OutcomeNotBilled) s))"

record attempt_owner =
  ao_scope :: merchant_scope
  ao_now :: string
  ao_expectedGeneration :: int
  ao_id :: string
  ao_claimToken :: string

text \<open>\<open>decodeStored(outcomeSchema, ...)\<close>: the schema refuses what only the release of unsent work stores.\<close>

definition decodeOutcome :: "attempt_outcome \<Rightarrow> attempt_outcome result" where
  "decodeOutcome outcome = andThen (require (outcomeOk outcome) ''Stored merchant state is unavailable'') (\<lambda>_. Inr outcome)"

definition releaseUnsentAttempt :: "attempt_owner \<Rightarrow> (merchant_db, bool) op" where
  "releaseUnsentAttempt input s =
     (if \<not> scopeOk (ao_scope input) \<or> \<not> timestampText (ao_now input) \<or> \<not> countValue (ao_expectedGeneration input) \<or>
         \<not> idText (ao_id input) \<or> \<not> idText (ao_claimToken input) then (Inl ZodError, s)
      else case attemptRow s (ao_scope input) (ao_id input) of
        None \<Rightarrow> (Inr False, s)
      | Some row \<Rightarrow>
          if at_generation row \<noteq> ao_expectedGeneration input \<or> at_claimToken row \<noteq> Some (ao_claimToken input) \<or>
             \<not> active (at_leaseExpiresAt row) (ao_now input) \<or>
             at_phase row \<notin> {AttemptReserved, AttemptDispatched, AttemptUncertain} then (Inr False, s)
          else case (case at_outcome row of None \<Rightarrow> Inr True
                 | Some outcome \<Rightarrow> andThen (decodeOutcome outcome) (\<lambda>q. Inr (outcomePhase q = AttemptUncertain))) of
            Inl e \<Rightarrow> (Inl e, s)
          | Inr unsettled \<Rightarrow>
              if \<not> unsettled then (Inr False, s)
              else (Inr True, updateAttempts (\<lambda>r. at_id r = ao_id input) (failUnsent OutcomeNotInvoked) s))"

definition settleAttempt :: "merchant_view \<Rightarrow> string \<Rightarrow> string \<Rightarrow> attempt_outcome \<Rightarrow> (merchant_db, bool) op" where
  "settleAttempt input i token outcome s =
     (if \<not> viewOk input \<or> \<not> idText i \<or> \<not> idText token \<or> \<not> outcomeOk outcome then (Inl ZodError, s)
      else case attemptRow s (ma_scope input) i of
        None \<Rightarrow> (Inr False, s)
      | Some row \<Rightarrow>
          if \<not> admittedAttempt input row s \<or> at_claimToken row \<noteq> Some token \<or> at_dispatchedAt row = None then (Inr False, s)
          else if (case outcome of OutcomeSucceeded atoms \<Rightarrow> dec_val (at_reserved row) < dec_val atoms | _ \<Rightarrow> False)
          then (Inl (Error ''Settlement exceeds reserved atoms''), s)
          else case at_outcome row of
            Some previous \<Rightarrow>
              (case decodeOutcome previous of Inl e \<Rightarrow> (Inl e, s) | Inr q \<Rightarrow> (Inr (q = outcome), s))
          | None \<Rightarrow>
              if at_phase row \<noteq> AttemptDispatched \<and> at_phase row \<noteq> AttemptUncertain then (Inr False, s)
              else (Inr True, updateAttempts (\<lambda>r. at_id r = i)
                (\<lambda>r. r\<lparr>at_phase := outcomePhase outcome, at_settled := outcomeAtoms outcome, at_outcome := Some outcome\<rparr>) s))"

subsection \<open>Purging and pruning\<close>

definition blankContent :: "attempt_row \<Rightarrow> attempt_row" where
  "blankContent r = r\<lparr>at_sourceRefs := emptyRefs, at_visibility := \<lparr>mv_hash = zeroHash, mv_privateActorId = None\<rparr>,
     at_keyHash := zeroHash, at_intentHash := zeroHash, at_contentDeleted := True\<rparr>"

definition unsettle :: "attempt_row \<Rightarrow> attempt_row" where
  "unsettle r = r\<lparr>at_phase := (if at_phase r = AttemptDispatched then AttemptUncertain else at_phase r)\<rparr>"

definition erase :: "merchant_scope \<Rightarrow> merchant_db \<Rightarrow> merchant_db" where
  "erase sc s =
     (let key = scopeKey sc;
          s1 = cancel sc (s\<lparr>md_decisions := filter (\<lambda>r. dr_scopeKey r \<noteq> key) (md_decisions s),
            md_evidence := filter (\<lambda>r. er_scopeKey r \<noteq> key) (md_evidence s)\<rparr>) in
      updateAttempts (\<lambda>r. at_scopeKey r = key)
        (\<lambda>r. blankContent (unsettle (if at_phase r \<in> {AttemptDispatched, AttemptUncertain} then r else r\<lparr>at_claimToken := None\<rparr>))) s1)"

definition redactScope :: "merchant_env \<Rightarrow> redact_options \<Rightarrow> merchant_db \<Rightarrow> merchant_db" where
  "redactScope env opts s = s\<lparr>md_copies := fst (redactMerchantDerivedCopies env opts (md_copies s))\<rparr>"

definition purge :: "merchant_env \<Rightarrow> merchant_access \<Rightarrow> (merchant_db, int) op" where
  "purge env input s =
     (let sc = ma_scope input in
      if \<not> accessOk input then (Inl ZodError, s)
      else if \<not> permitted input True s then (Inr (generation s sc), s)
      else (Inr (ma_expectedGeneration input + 1),
        redactScope env (everything\<lparr>rx_spaceId := Some (ms_spaceId sc), rx_budgetId := Some (ms_budgetId sc),
            rx_connectionId := Some (ms_connectionId sc)\<rparr>)
          (erase sc (bumpGeneration (\<lambda>r. sg_key r = scopeKey sc) (ensureScope sc s)))))"

definition purgeBudget :: "merchant_env \<Rightarrow> merchant_access \<Rightarrow> (merchant_db, int) op" where
  "purgeBudget env input s =
     (let sc = ma_scope input in
      if \<not> accessOk input then (Inl ZodError, s)
      else if \<not> permitted input True s then (Inr (generation s sc), s)
      else
        (let s1 = ensureScope sc s;
             ours = (\<lambda>r. sg_spaceId r = ms_spaceId sc \<and> sg_budgetId r = ms_budgetId sc);
             connections = map sg_connectionId (filter ours (md_scopes s1));
             s2 = foldl (\<lambda>t c. erase (sc\<lparr>ms_connectionId := c\<rparr>) t) (bumpGeneration ours s1) connections in
         (Inr (ma_expectedGeneration input + 1),
          redactScope env (everything\<lparr>rx_spaceId := Some (ms_spaceId sc), rx_budgetId := Some (ms_budgetId sc)\<rparr>) s2)))"

definition prune :: "merchant_env \<Rightarrow> string \<Rightarrow> (merchant_db, unit) op" where
  "prune env now s =
     (if \<not> timestampText now then (Inl ZodError, s)
      else
        (let current = toISOString (instant now); operational = toISOString (instant now - 30 * 86400000);
             billing = toISOString (instant now - 90 * 86400000);
             s1 = reconcile now s;
             s2 = s1\<lparr>md_evidence := filter (\<lambda>r. \<not> (textLeq (er_expiresAt r) current \<or> textLeq (er_capturedAt r) operational)) (md_evidence s1)\<rparr>;
             s3 = updateAttempts (\<lambda>r. textLeq (at_createdAt r) operational) blankContent s2;
             s4 = s3\<lparr>md_attempts := filter (\<lambda>r. \<not> (textLeq (at_createdAt r) billing \<and>
               at_phase r \<in> {AttemptSucceeded, AttemptKnownFailed})) (md_attempts s3)\<rparr> in
         (Inr (), redactScope env (everything\<lparr>rx_now := Some now\<rparr>) s4)))"

subsection \<open>Restored copies\<close>

definition acknowledgeRestore :: "merchant_access \<Rightarrow> string \<Rightarrow> (merchant_db, bool) op" where
  "acknowledgeRestore input actorId s =
     (if \<not> accessOk input \<or> \<not> idText actorId then (Inl ZodError, s)
      else if \<not> permitted input True s then (Inr False, s)
      else
        (let s1 = ensureScope (ma_scope input) s in
         case scopeRow s1 (ma_scope input) of
           None \<Rightarrow> (Inr False, s1)
         | Some r \<Rightarrow>
             if \<not> sg_restorePending r then (Inr False, s1)
             else (Inr True, s1\<lparr>md_scopes := updateWhere (\<lambda>r. sg_key r = scopeKey (ma_scope input))
               (\<lambda>r. r\<lparr>sg_restorePending := False\<rparr>) (md_scopes s1)\<rparr>)))"

text \<open>
  \<open>Date.UTC(year, month + 1, 1)\<close>: the first instant of the next month; the function takes a year below
  100 for one of the twentieth century.
\<close>

definition nextMonth :: "int \<Rightarrow> int" where
  "nextMonth t =
     (let n = t div 86400000; y = yearFromDay n; mo = monthFromDay (leap y) (n - dayFromYear y);
          year = (if 0 \<le> y \<and> y \<le> 99 then 1900 + y else y) in
      86400000 * (if mo = 12 then makeDay (year + 1) 1 1 else makeDay year (mo + 1) 1))"

definition restoredPolicy :: "string \<Rightarrow> merchant_policy \<Rightarrow> merchant_policy" where
  "restoredPolicy now p = p\<lparr>mp_mode := MerchantLocalOnly, mp_generation := mp_generation p + 1, mp_updatedAt := now\<rparr>"

definition quarantine :: "string option \<Rightarrow> bool \<Rightarrow> scope_row list \<Rightarrow> scope_row list" where
  "quarantine hold unresolved rows =
     (let global = \<lparr>sg_key = [], sg_spaceId = [], sg_budgetId = [], sg_connectionId = [], sg_generation = 0,
            sg_restorePending = True, sg_billingHoldUntil = hold, sg_billingUnresolved = unresolved\<rparr>;
          mark = (\<lambda>r. r\<lparr>sg_restorePending := True, sg_billingHoldUntil := hold, sg_billingUnresolved := unresolved\<rparr>);
          rows1 = (if list_ex (\<lambda>r. sg_key r = []) rows then updateWhere (\<lambda>r. sg_key r = []) mark rows else rows @ [global]) in
      updateWhere (\<lambda>r. sg_key r \<noteq> []) (\<lambda>r. mark (r\<lparr>sg_generation := sg_generation r + 1\<rparr>)) rows1)"

definition reconcileMerchantRestore :: "merchant_env \<Rightarrow> string \<Rightarrow> (merchant_db, unit) op" where
  "reconcileMerchantRestore env now s =
     (if \<not> timestampText now then (Inl ZodError, s)
      else
        (let unresolved = list_ex (\<lambda>r. at_phase r \<in> {AttemptDispatched, AttemptUncertain}) (md_attempts s);
             s1 = s\<lparr>md_scopes := quarantine (Some (toISOString (nextMonth (instant now)))) unresolved (md_scopes s),
               md_decisions := [], md_evidence := []\<rparr>;
             s2 = updateAttempts (\<lambda>r. at_phase r = AttemptReserved) (failUnsent OutcomeNotBilled) s1;
             s3 = updateAttempts (\<lambda>_. True) (\<lambda>r. blankContent (unsettle (r\<lparr>at_claimToken := None\<rparr>))) s2 in
         case mapR (\<lambda>(k, p). andThen (decodePolicy p) (\<lambda>q. Inr (k, restoredPolicy now q))) (md_policies s3) of
           Inl e \<Rightarrow> (Inl e, s)
         | Inr policies \<Rightarrow> (Inr (), redactScope env everything (s3\<lparr>md_policies := policies\<rparr>))))"

subsection \<open>Sequences of operations\<close>

text \<open>
  Everything that writes the tables, in any order; \<open>EvCopies\<close> is what other components write into the
  tables with derived copies.
\<close>

datatype merchant_event =
    EvSetPolicy merchant_access merchant_policy_value int
  | EvDecide merchant_view string decision_payload decision_state source_refs int
  | EvPutEvidence merchant_view merchant_evidence_value "string option"
  | EvReserve string merchant_view reserve_input
  | EvAttempt merchant_view string
  | EvClaim string merchant_view string
  | EvDispatch merchant_view string string
  | EvAbandon merchant_view string "string option"
  | EvRelease attempt_owner
  | EvSettle merchant_view string string attempt_outcome
  | EvPurge merchant_access
  | EvPurgeBudget merchant_access
  | EvPrune string
  | EvAcknowledge merchant_access string
  | EvRestore string
  | EvCopies "copy_row list"

fun merchantStep :: "merchant_env \<Rightarrow> merchant_event \<Rightarrow> merchant_db \<Rightarrow> merchant_db" where
  "merchantStep env (EvSetPolicy input value version) s = snd (setMerchantPolicy env input value version s)"
| "merchantStep env (EvDecide input i payload st refs version) s = snd (decide input i payload st refs version s)"
| "merchantStep env (EvPutEvidence input value revision) s = snd (putEvidence input value revision s)"
| "merchantStep env (EvReserve uuid input r) s = snd (reserveAttempt env uuid input r s)"
| "merchantStep env (EvAttempt input i) s = snd (attempt input i s)"
| "merchantStep env (EvClaim token input i) s = snd (claimAttempt token input i s)"
| "merchantStep env (EvDispatch input i token) s = snd (dispatchAttempt input i token s)"
| "merchantStep env (EvAbandon input i token) s = snd (abandonAttempt input i token s)"
| "merchantStep env (EvRelease input) s = snd (releaseUnsentAttempt input s)"
| "merchantStep env (EvSettle input i token outcome) s = snd (settleAttempt input i token outcome s)"
| "merchantStep env (EvPurge input) s = snd (purge env input s)"
| "merchantStep env (EvPurgeBudget input) s = snd (purgeBudget env input s)"
| "merchantStep env (EvPrune now) s = snd (prune env now s)"
| "merchantStep env (EvAcknowledge input actor) s = snd (acknowledgeRestore input actor s)"
| "merchantStep env (EvRestore now) s = snd (reconcileMerchantRestore env now s)"
| "merchantStep env (EvCopies rows) s = s\<lparr>md_copies := rows\<rparr>"

definition runMerchant :: "merchant_env \<Rightarrow> merchant_event list \<Rightarrow> merchant_db \<Rightarrow> merchant_db" where
  "runMerchant env events s = fold (merchantStep env) events s"

end
