(* ===== verification/Research_Refine.thy ===== *)
theory Research_Refine
  imports Merchant_Research
begin

text \<open>
  What the operations of the merchant workflow do to the table of research attempts, as an abstract
  machine: one attempt moves through its phases (\<open>attempt_moves\<close>), and the table changes by moves of
  its rows, by one reservation within the quotas, by one launch within the limits, or by pruning
  settled rows (\<open>research_change\<close>). Every operation is a sequence of such changes
  (\<open>merchant_step_refines\<close>); the invariants are proved on the changes alone.
\<close>

subsection \<open>One attempt\<close>

inductive attempt_moves :: "(attempt_row \<Rightarrow> bool) \<Rightarrow> attempt_row \<Rightarrow> attempt_row \<Rightarrow> bool" for W where
  claimed: "at_phase r = AttemptReserved \<Longrightarrow> attempt_moves W r (r\<lparr>at_claimToken := Some t, at_leaseExpiresAt := toISOString u\<rparr>)"
| unsent: "at_phase r = AttemptReserved \<Longrightarrow> attempt_moves W r (failUnsent OutcomeNotBilled r)"
| doubted: "at_phase r = AttemptDispatched \<Longrightarrow> attempt_moves W r (r\<lparr>at_phase := AttemptUncertain\<rparr>)"
| released: "W r \<Longrightarrow> at_phase r \<in> {AttemptReserved, AttemptDispatched, AttemptUncertain} \<Longrightarrow>
    attempt_moves W r (failUnsent OutcomeNotInvoked r)"
| settled: "W r \<Longrightarrow> at_phase r \<in> {AttemptDispatched, AttemptUncertain} \<Longrightarrow> at_outcome r = None \<Longrightarrow> outcomeOk outcome \<Longrightarrow>
    (\<And>atoms. outcome = OutcomeSucceeded atoms \<Longrightarrow> dec_val atoms \<le> dec_val (at_reserved r)) \<Longrightarrow>
    attempt_moves W r (r\<lparr>at_phase := outcomePhase outcome, at_settled := outcomeAtoms outcome, at_outcome := Some outcome\<rparr>)"
| blanked: "attempt_moves W r (blankContent r)"
| disowned: "attempt_moves W r (r\<lparr>at_claimToken := None\<rparr>)"

abbreviation attempt_evolves :: "(attempt_row \<Rightarrow> bool) \<Rightarrow> attempt_row \<Rightarrow> attempt_row \<Rightarrow> bool" where
  "attempt_evolves W \<equiv> (attempt_moves W)\<^sup>*\<^sup>*"

definition sameCharge :: "attempt_row \<Rightarrow> attempt_row \<Rightarrow> bool" where
  "sameCharge r q \<longleftrightarrow> at_id q = at_id r \<and> at_scopeKey q = at_scopeKey r \<and> at_idempotencyHash q = at_idempotencyHash r \<and>
     at_generation q = at_generation r \<and> at_policyVersion q = at_policyVersion r \<and> at_reserved q = at_reserved r \<and>
     at_billingCurrency q = at_billingCurrency r \<and> at_createdAt q = at_createdAt r \<and> at_buckets q = at_buckets r \<and>
     at_dayWindow q = at_dayWindow r \<and> at_monthWindow q = at_monthWindow r \<and> at_dispatchedAt q = at_dispatchedAt r"

lemmas row_defs = failUnsent_def blankContent_def unsettle_def

lemma moves_sameCharge: "attempt_moves W r q \<Longrightarrow> sameCharge r q"
  by (erule attempt_moves.cases) (auto simp: sameCharge_def row_defs)

lemma evolves_sameCharge: "attempt_evolves W r q \<Longrightarrow> sameCharge r q"
proof (induction rule: rtranclp_induct)
  case (step p q)
  then show ?case using moves_sameCharge [OF step.hyps(2)] by (simp add: sameCharge_def)
qed (simp add: sameCharge_def)

definition finished :: "attempt_row \<Rightarrow> bool" where
  "finished r \<longleftrightarrow> at_phase r \<in> {AttemptSucceeded, AttemptKnownFailed}"

lemma moves_finished:
  assumes "attempt_moves W r q" "finished r"
  shows "at_phase q = at_phase r \<and> at_settled q = at_settled r \<and> at_outcome q = at_outcome r"
  using assms by (cases rule: attempt_moves.cases) (auto simp: finished_def row_defs)

lemma evolves_finished:
  assumes "attempt_evolves W r q" "finished r"
  shows "at_phase q = at_phase r \<and> at_settled q = at_settled r \<and> at_outcome q = at_outcome r"
  using assms
proof (induction rule: rtranclp_induct)
  case (step p q)
  then have "finished p" by (simp add: finished_def)
  with step moves_finished [OF step.hyps(2)] show ?case by simp
qed simp

lemma moves_reserved:
  assumes "attempt_moves W r q" "at_phase q = AttemptReserved"
  shows "at_phase r = AttemptReserved"
  using assms
proof (cases rule: attempt_moves.cases)
  case (settled outcome)
  with assms(2) show ?thesis by (cases outcome) auto
qed (auto simp: row_defs)

lemma evolves_reserved: "attempt_evolves W r q \<Longrightarrow> at_phase q = AttemptReserved \<Longrightarrow> at_phase r = AttemptReserved"
  by (induction rule: rtranclp_induct) (auto dest: moves_reserved)

text \<open>What counts in the ledger, and that a move never charges more.\<close>

definition charged :: "attempt_row \<Rightarrow> bool" where
  "charged r \<longleftrightarrow> at_phase r \<noteq> AttemptKnownFailed"

definition soundCost :: "attempt_row \<Rightarrow> bool" where
  "soundCost r \<longleftrightarrow> 0 \<le> attemptCost r \<and> attemptCost r \<le> dec_val (at_reserved r)"

lemma cost_simps [simp]:
  "attemptCost (failUnsent outcome r) = 0"
  "attemptCost (blankContent r) = attemptCost r"
  "attemptCost (r\<lparr>at_claimToken := t\<rparr>) = attemptCost r"
  "attemptCost (r\<lparr>at_leaseExpiresAt := l\<rparr>) = attemptCost r"
  "attemptCost (r\<lparr>at_phase := p\<rparr>) = attemptCost r"
  "attemptCost (r\<lparr>at_dispatchedAt := d\<rparr>) = attemptCost r"
  by (simp_all add: attemptCost_def row_defs dec_val_def code_def cong: option.case_cong)

lemma cost_settled:
  "attemptCost (r\<lparr>at_phase := p, at_settled := atoms, at_outcome := x\<rparr>) =
     (case atoms of None \<Rightarrow> dec_val (at_reserved r) | Some a \<Rightarrow> dec_val a)"
  by (simp add: attemptCost_def split: option.splits)

lemma moves_cost:
  assumes "attempt_moves W r q" "soundCost r" "at_outcome r = None \<longrightarrow> at_settled r = None"
  shows "soundCost q \<and> attemptCost q \<le> attemptCost r \<and> (at_outcome q = None \<longrightarrow> at_settled q = None)"
  using assms(1)
proof (cases rule: attempt_moves.cases)
  case (settled outcome)
  have r: "attemptCost r = dec_val (at_reserved r)" using settled assms(3) by (simp add: attemptCost_def)
  have "soundCost q \<and> attemptCost q \<le> attemptCost r"
  proof (cases outcome)
    case (OutcomeSucceeded atoms)
    with settled have "0 \<le> dec_val atoms" by (auto simp: atomsText_def intro: decimal_text_nonneg)
    with settled OutcomeSucceeded r show ?thesis by (simp add: soundCost_def cost_settled)
  qed (use settled assms(2) r in \<open>auto simp: soundCost_def cost_settled dec_val_def code_def\<close>)
  with settled show ?thesis by simp
qed (use assms in \<open>auto simp: soundCost_def\<close>, auto simp: row_defs)

lemma moves_charged: "attempt_moves W r q \<Longrightarrow> charged q \<Longrightarrow> charged r"
  using moves_finished [of W r q] by (auto simp: charged_def finished_def)

subsection \<open>The table\<close>

definition daySearches :: "bucket_kind \<times> string \<Rightarrow> string \<Rightarrow> attempt_row list \<Rightarrow> int" where
  "daySearches ident day rows = int (length (filter (\<lambda>r. charged r \<and> chargedTo ident r \<and> at_dayWindow r = day) rows))"

definition monthRows :: "bucket_kind \<times> string \<Rightarrow> string \<Rightarrow> attempt_row list \<Rightarrow> attempt_row list" where
  "monthRows ident month rows = filter (\<lambda>r. charged r \<and> chargedTo ident r \<and> at_monthWindow r = month) rows"

definition monthSpend :: "bucket_kind \<times> string \<Rightarrow> string \<Rightarrow> attempt_row list \<Rightarrow> int" where
  "monthSpend ident month rows = sum_list (map attemptCost (monthRows ident month rows))"

definition fits :: "attempt_row list \<Rightarrow> attempt_row \<Rightarrow> quota_bucket \<Rightarrow> bool" where
  "fits rows r b \<longleftrightarrow> daySearches (bucketIdentity b) (at_dayWindow r) rows + 1 \<le> qb_maxSearchesPerDay b \<and>
     monthSpend (bucketIdentity b) (at_monthWindow r) rows + attemptCost r \<le> qb_maxSpendMinorUnitsPerMonth b * 1000000 \<and>
     (\<forall>x \<in> set (monthRows (bucketIdentity b) (at_monthWindow r) rows). at_billingCurrency x = at_billingCurrency r)"

definition freshAttempt :: "attempt_row \<Rightarrow> bool" where
  "freshAttempt r \<longleftrightarrow> at_phase r = AttemptReserved \<and> at_settled r = None \<and> at_outcome r = None \<and> at_dispatchedAt r = None \<and>
     at_claimToken r = None \<and> 0 < dec_val (at_reserved r) \<and> (\<exists>u. at_leaseExpiresAt r = toISOString u) \<and>
     length (filter (\<lambda>b. qb_kind b = BucketCredential) (at_buckets r)) = 1"

text \<open>A launch now of a reserved attempt, whose credential no attempt has used within the last second.\<close>

definition launchable :: "string \<Rightarrow> attempt_row list \<Rightarrow> attempt_row \<Rightarrow> bool" where
  "launchable now rows r \<longleftrightarrow> r \<in> set rows \<and> at_phase r = AttemptReserved \<and> timestampText now \<and>
     (\<forall>b. find (\<lambda>b. qb_kind b = BucketCredential) (at_buckets r) = Some b \<longrightarrow>
        (\<forall>x \<in> set rows. \<forall>d. chargedTo (bucketIdentity b) x \<longrightarrow> at_dispatchedAt x = Some d \<longrightarrow>
           \<not> textLess (toISOString (instant now - 1000)) d))"

inductive research_change :: "(attempt_row \<Rightarrow> bool) \<Rightarrow> bool \<Rightarrow> attempt_row list \<Rightarrow> attempt_row list \<Rightarrow> bool" for W pruning where
  rows_move: "list_all2 (attempt_evolves W) rows rows' \<Longrightarrow> research_change W pruning rows rows'"
| reserve: "freshAttempt r \<Longrightarrow> \<forall>x \<in> set rows. \<not> attemptClash r x \<Longrightarrow> \<forall>b \<in> set (at_buckets r). fits rows r b \<Longrightarrow>
    research_change W pruning rows (rows @ [r])"
| dispatch: "launchable now rows r \<Longrightarrow>
    research_change W pruning rows (updateWhere (\<lambda>x. at_id x = at_id r) (launch now) rows)"
| discard: "pruning \<Longrightarrow> (\<And>r. r \<in> set rows \<Longrightarrow> \<not> p r \<Longrightarrow> finished r) \<Longrightarrow> research_change W pruning rows (filter p rows)"

abbreviation research_changes :: "(attempt_row \<Rightarrow> bool) \<Rightarrow> bool \<Rightarrow> attempt_row list \<Rightarrow> attempt_row list \<Rightarrow> bool" where
  "research_changes W pruning \<equiv> (research_change W pruning)\<^sup>*\<^sup>*"

definition attemptsOk :: "attempt_row list \<Rightarrow> bool" where
  "attemptsOk rows \<longleftrightarrow> distinct (map at_id rows) \<and> (\<forall>r \<in> set rows. \<exists>u. at_leaseExpiresAt r = toISOString u)"

lemma list_all2_ids: "list_all2 (attempt_evolves W) rows rows' \<Longrightarrow> map at_id rows' = map at_id rows"
  by (induction rule: list_all2_induct) (auto dest!: evolves_sameCharge simp: sameCharge_def)

lemma moves_lease: "attempt_moves W r q \<Longrightarrow> \<exists>u. at_leaseExpiresAt r = toISOString u \<Longrightarrow> \<exists>u. at_leaseExpiresAt q = toISOString u"
  by (erule attempt_moves.cases) (auto simp: row_defs)

lemma evolves_lease:
  "attempt_evolves W r q \<Longrightarrow> \<exists>u. at_leaseExpiresAt r = toISOString u \<Longrightarrow> \<exists>u. at_leaseExpiresAt q = toISOString u"
  by (induction rule: rtranclp_induct) (blast intro: moves_lease)+

lemma list_all2_right: "list_all2 P xs ys \<Longrightarrow> y \<in> set ys \<Longrightarrow> \<exists>x \<in> set xs. P x y"
  by (induction rule: list_all2_induct) auto

lemma ok_change: "research_change W pruning rows rows' \<Longrightarrow> attemptsOk rows \<Longrightarrow> attemptsOk rows'"
proof (induction rule: research_change.induct)
  case (rows_move rows rows')
  have "\<exists>u. at_leaseExpiresAt q = toISOString u" if "q \<in> set rows'" for q
    using list_all2_right [OF rows_move.hyps that] rows_move.prems evolves_lease unfolding attemptsOk_def by blast
  with rows_move show ?case by (simp add: attemptsOk_def list_all2_ids)
next
  case (reserve r rows)
  then show ?case by (auto simp: attemptsOk_def attemptClash_def freshAttempt_def)
next
  case (dispatch now rows r)
  then show ?case by (auto simp: attemptsOk_def map_key_updateWhere launch_def set_updateWhere)
next
  case (discard rows p)
  then show ?case by (auto simp: attemptsOk_def distinct_map_filter)
qed

lemma ok_changes: "research_changes W pruning rows rows' \<Longrightarrow> attemptsOk rows \<Longrightarrow> attemptsOk rows'"
  by (induction rule: rtranclp_induct) (auto intro: ok_change)

lemma attempts_unique: "attemptsOk rows \<Longrightarrow> r \<in> set rows \<Longrightarrow> q \<in> set rows \<Longrightarrow> at_id r = at_id q \<Longrightarrow> r = q"
  by (auto simp: attemptsOk_def distinct_map inj_on_def)

subsection \<open>Updates are moves\<close>

lemma updateWhere_evolves:
  "(\<And>r. r \<in> set rows \<Longrightarrow> p r \<Longrightarrow> attempt_evolves W r (f r)) \<Longrightarrow> list_all2 (attempt_evolves W) rows (updateWhere p f rows)"
  by (induction rows) auto

lemma update_changes:
  assumes "\<And>r. r \<in> set (md_attempts s) \<Longrightarrow> p r \<Longrightarrow> attempt_evolves W r (f r)"
  shows "research_changes W pruning (md_attempts s) (md_attempts (updateAttempts p f s))"
proof -
  have "research_change W pruning (md_attempts s) (updateWhere p f (md_attempts s))"
    by (rule rows_move [OF updateWhere_evolves]) (rule assms)
  then show ?thesis by (auto simp: updateAttempts_def)
qed

lemma reconcile_changes: "research_changes W pruning (md_attempts s) (md_attempts (reconcile now s))"
  unfolding reconcile_def
  by (rule rtranclp_trans [OF update_changes update_changes]) (auto intro: attempt_moves.intros)

lemma cancel_changes: "research_changes W pruning (md_attempts s) (md_attempts (cancel sc s))"
  unfolding cancel_def by (rule update_changes) (auto intro: attempt_moves.intros)

lemma unsettle_evolves: "attempt_evolves W r (unsettle r)"
  by (cases "at_phase r = AttemptDispatched") (auto simp: unsettle_def intro: attempt_moves.doubted)

lemma blank_evolves: "attempt_evolves W r q \<Longrightarrow> attempt_evolves W r (blankContent (unsettle q))"
  by (meson attempt_moves.blanked rtranclp.rtrancl_into_rtrancl rtranclp_trans unsettle_evolves)

lemma disown_evolves: "attempt_evolves W r (r\<lparr>at_claimToken := None\<rparr>)"
  by (blast intro: attempt_moves.disowned)

subsection \<open>The rows an operation looks at\<close>

lemma attemptRow_SomeD:
  assumes "attemptRow s sc i = Some r"
  shows "r \<in> set (md_attempts s) \<and> at_id r = i \<and> at_scopeKey r = scopeKey sc"
  using find_SomeD [OF assms [unfolded attemptRow_def]] by auto

lemma update_row_changes:
  assumes ok: "attemptsOk (md_attempts s)" and r: "attemptRow s sc i = Some r" and f: "attempt_evolves W r (f r)"
  shows "research_changes W pruning (md_attempts s) (md_attempts (updateAttempts (\<lambda>q. at_id q = i) f s))"
proof (rule update_changes)
  fix q assume "q \<in> set (md_attempts s)" "at_id q = i"
  then have "q = r" using attempts_unique [OF ok] attemptRow_SomeD [OF r] by blast
  then show "attempt_evolves W q (f q)" using f by simp
qed

text \<open>A reservation whose lease still runs is not touched by \<open>reconcile\<close>.\<close>

lemma reconcile_keeps:
  assumes ok: "attemptsOk (md_attempts s)" and r: "r \<in> set (md_attempts s)" "at_phase r = AttemptReserved"
    and live: "active (at_leaseExpiresAt r) now" "timestampText now"
  shows "r \<in> set (md_attempts (reconcile now s))"
proof -
  obtain u where u: "at_leaseExpiresAt r = toISOString u" using ok r(1) by (auto simp: attemptsOk_def)
  have "\<not> textLeq (at_leaseExpiresAt r) (toISOString (instant now))"
    using active_printed(3) [of u now] live u by simp
  with r show ?thesis by (simp add: reconcile_def updateAttempts_def set_updateWhere)
qed

lemma reconcile_ok: "attemptsOk (md_attempts s) \<Longrightarrow> attemptsOk (md_attempts (reconcile now s))"
  by (rule ok_changes [OF reconcile_changes])

lemma find_unique_id:
  assumes "attemptsOk (md_attempts s)" "r \<in> set (md_attempts s)"
  shows "attemptRow s sc (at_id r) = (if at_scopeKey r = scopeKey sc then Some r else None)"
proof (cases "at_scopeKey r = scopeKey sc")
  case True
  have "find (\<lambda>q. at_scopeKey q = scopeKey sc \<and> at_id q = at_id r) (md_attempts s) = Some r"
    using assms True by (intro find_eq_SomeI) (auto dest: attempts_unique)
  then show ?thesis using True by (simp add: attemptRow_def)
next
  case False
  have "\<not> (at_scopeKey q = scopeKey sc \<and> at_id q = at_id r)" if "q \<in> set (md_attempts s)" for q
    using attempts_unique [OF assms(1) that assms(2)] False by auto
  then have "attemptRow s sc (at_id r) = None" unfolding attemptRow_def find_NoneD by blast
  then show ?thesis using False by simp
qed

subsection \<open>Quotas\<close>

lemma bucketTotals_sound:
  assumes "bucketTotals ident day month currency acc rows = Some (d', m')"
  shows "d' = fst acc + int (length (filter (\<lambda>r. chargedTo ident r \<and> at_dayWindow r = day) rows)) \<and>
    m' = snd acc + sum_list (map attemptCost (filter (\<lambda>r. chargedTo ident r \<and> at_monthWindow r = month) rows)) \<and>
    (\<forall>r \<in> set rows. chargedTo ident r \<longrightarrow> at_monthWindow r = month \<longrightarrow> at_billingCurrency r = currency)"
  using assms
proof (induction rows arbitrary: acc)
  case (Cons r rows)
  obtain d m where acc: "acc = (d, m)" by (cases acc)
  show ?case
  proof (cases "chargedTo ident r")
    case True
    with Cons.prems acc have "\<not> (at_monthWindow r = month \<and> at_billingCurrency r \<noteq> currency)"
      and "bucketTotals ident day month currency (if at_dayWindow r = day then d + 1 else d,
        if at_monthWindow r = month then m + attemptCost r else m) rows = Some (d', m')"
      by (simp_all split: if_splits)
    with Cons.IH [OF this(2)] acc True show ?thesis by simp
  next
    case False
    with Cons.prems acc have "bucketTotals ident day month currency acc rows = Some (d', m')" by simp
    from Cons.IH [OF this] False show ?thesis by simp
  qed
qed simp

lemma quotaDenial_None:
  assumes "quotaDenial day month tariff ledger buckets = None" "b \<in> set buckets"
  shows "\<exists>d m. bucketTotals (bucketIdentity b) day month (tf_billingCurrency tariff) (0, 0) ledger = Some (d, m) \<and>
    d < qb_maxSearchesPerDay b \<and> m + dec_val (tf_costAtoms tariff) \<le> qb_maxSpendMinorUnitsPerMonth b * 1000000"
  using assms
proof (induction buckets)
  case (Cons c buckets)
  from Cons.prems(1) obtain d m
    where "bucketTotals (bucketIdentity c) day month (tf_billingCurrency tariff) (0, 0) ledger = Some (d, m)"
      "d < qb_maxSearchesPerDay c" "m + dec_val (tf_costAtoms tariff) \<le> qb_maxSpendMinorUnitsPerMonth c * 1000000"
      "quotaDenial day month tariff ledger buckets = None"
    by (auto split: option.splits if_splits)
  with Cons show ?case by (cases "b = c") auto
qed simp

lemma constrain_simps [simp]:
  "bucketIdentity (constrain p b) = bucketIdentity b"
  "qb_maxSearchesPerDay (constrain p b) \<le> qb_maxSearchesPerDay b"
  "qb_maxSpendMinorUnitsPerMonth (constrain p b) \<le> qb_maxSpendMinorUnitsPerMonth b"
  by (simp_all add: constrain_def bucketIdentity_def)

lemma ledger_fits:
  assumes none: "quotaDenial day month tariff (ledgerRows day month s) (map (constrain p) buckets) = None"
    and b: "b \<in> set buckets"
    and r: "at_dayWindow r = day" "at_monthWindow r = month" "at_billingCurrency r = tf_billingCurrency tariff"
      "attemptCost r = dec_val (tf_costAtoms tariff)"
  shows "fits (md_attempts s) r b"
proof -
  let ?i = "bucketIdentity b" and ?l = "ledgerRows day month s"
  from quotaDenial_None [OF none, of "constrain p b"] b obtain d m
    where t: "bucketTotals ?i day month (tf_billingCurrency tariff) (0, 0) ?l = Some (d, m)"
      and le: "d < qb_maxSearchesPerDay (constrain p b)"
        "m + dec_val (tf_costAtoms tariff) \<le> qb_maxSpendMinorUnitsPerMonth (constrain p b) * 1000000"
    by auto
  have days: "filter (\<lambda>x. chargedTo ?i x \<and> at_dayWindow x = day) ?l =
      filter (\<lambda>x. charged x \<and> chargedTo ?i x \<and> at_dayWindow x = day) (md_attempts s)"
    and months: "filter (\<lambda>x. chargedTo ?i x \<and> at_monthWindow x = month) ?l = monthRows ?i month (md_attempts s)"
    by (auto simp: ledgerRows_def monthRows_def charged_def intro!: filter_cong)
  have "d = daySearches ?i day (md_attempts s)" "m = monthSpend ?i month (md_attempts s)"
    using bucketTotals_sound [OF t] by (simp_all add: daySearches_def monthSpend_def days months)
  moreover have "at_billingCurrency x = at_billingCurrency r" if "x \<in> set (monthRows ?i month (md_attempts s))" for x
    using bucketTotals_sound [OF t] that r(3) unfolding months [symmetric] by auto
  moreover have "qb_maxSearchesPerDay (constrain p b) \<le> qb_maxSearchesPerDay b"
    "qb_maxSpendMinorUnitsPerMonth (constrain p b) * 1000000 \<le> qb_maxSpendMinorUnitsPerMonth b * 1000000"
    by simp_all
  ultimately show ?thesis unfolding fits_def r using le by (auto simp del: constrain_simps)
qed

subsection \<open>The operations\<close>

lemma attempts_simps [simp]:
  "md_attempts (ensureScope sc s) = md_attempts s"
  "md_attempts (bumpGeneration g s) = md_attempts s"
  "md_attempts (redactScope env opts s) = md_attempts s"
  "md_attempts (updateAttempts p f s) = updateWhere p f (md_attempts s)"
  by (simp_all add: ensureScope_def bumpGeneration_def redactScope_def updateAttempts_def)

lemma attempts_only:
  assumes "md_attempts s = md_attempts t"
  shows "research_changes W pruning (md_attempts s) (md_attempts t)"
  using assms by simp

lemma reserveGate_admits:
  assumes "reserveGate input r s = Inr (Inr (p, tariff))"
  shows "ri_tariff r = Some tariff" and "policyValue s (ma_scope input) = Inr (Some p)"
    and "mp_mode p = MerchantExternalAllowed" and "mp_version p = ri_policyVersion r"
    and "\<not> scopeOrGlobal sg_restorePending False s (ma_scope input)"
    and "ma_expectedGeneration input = generation s (ma_scope input)"
    and "merchantAuthorize input (ri_sourceRefs r) (Some (ma_visibility input)) s"
  using assms by (auto simp: reserveGate_def external_def Let_def read_simps split: if_splits option.splits)

lemma researchAttempt_simps [simp]:
  "at_dayWindow (researchAttempt env uuid input r tariff intent) = take 10 (ma_now input)"
  "at_monthWindow (researchAttempt env uuid input r tariff intent) = take 7 (ma_now input)"
  "at_billingCurrency (researchAttempt env uuid input r tariff intent) = tf_billingCurrency tariff"
  "at_buckets (researchAttempt env uuid input r tariff intent) = ri_buckets r"
  "attemptCost (researchAttempt env uuid input r tariff intent) = dec_val (tf_costAtoms tariff)"
  by (simp_all add: researchAttempt_def attemptCost_def)

lemma researchAttempt_fresh:
  assumes "tariffOk tariff" "bucketsComplete sc (ri_buckets r)"
  shows "freshAttempt (researchAttempt env uuid input r tariff intent)"
  using assms by (auto simp: freshAttempt_def researchAttempt_def tariffOk_def positiveAtoms_def bucketsComplete_def merchantLease_def)

lemma reserveNew_changes:
  assumes "reserveNew env uuid input r p tariff intent s = (Inr a, t)" "tariffOk tariff" "bucketsComplete sc (ri_buckets r)"
  shows "research_changes W pruning (md_attempts s) (md_attempts t)"
proof (cases "pendingAttempt (ma_scope input) (digest env (cacheKeyJson (ri_key r))) (ma_expectedGeneration input) (ma_now input) s")
  case (Some pending)
  with assms(1) show ?thesis by (simp add: reserveNew_def Let_def)
next
  case None
  let ?day = "take 10 (ma_now input)" and ?month = "take 7 (ma_now input)"
  let ?row = "researchAttempt env uuid input r tariff intent"
  show ?thesis
  proof (cases "quotaDenial ?day ?month tariff (ledgerRows ?day ?month s) (map (constrain p) (ri_buckets r))")
    case (Some reason)
    with assms(1) None show ?thesis by (simp add: reserveNew_def Let_def)
  next
    case none: None
    with assms(1) None have rows: "md_attempts t = md_attempts s @ [?row]" "\<forall>x \<in> set (md_attempts s). \<not> attemptClash ?row x"
      by (auto simp: reserveNew_def Let_def read_simps split: sum.splits)
    have "\<forall>b \<in> set (at_buckets ?row). fits (md_attempts s) ?row b"
      using ledger_fits [OF none] by simp
    then have "research_change W pruning (md_attempts s) (md_attempts s @ [?row])"
      by (rule research_change.reserve [OF researchAttempt_fresh [OF assms(2,3)] rows(2)])
    then show ?thesis using rows(1) by (auto simp del: researchAttempt_simps)
  qed
qed

lemma reserve_changes: "research_changes W pruning (md_attempts s) (md_attempts (snd (reserveAttempt env uuid input r s)))"
proof (cases "reserveInputOk input r \<and> ck_scope (ri_key r) = ma_scope input \<and>
    ck_visibilityHash (ri_key r) = mv_hash (ma_visibility input) \<and> bucketsComplete (ma_scope input) (ri_buckets r)")
  case False
  then show ?thesis by (auto simp: reserveAttempt_def Let_def)
next
  case True
  show ?thesis
  proof (cases "reserveGate input r s")
    case (Inl e)
    with True show ?thesis by (simp add: reserveAttempt_def Let_def)
  next
    case (Inr verdict)
    show ?thesis
    proof (cases verdict)
      case (Inl reason)
      with True Inr show ?thesis by (simp add: reserveAttempt_def Let_def)
    next
      case (Inr charge)
      then obtain p tariff where gate: "reserveGate input r s = Inr (Inr (p, tariff))"
        using \<open>reserveGate input r s = Inr verdict\<close> by (cases charge) auto
      have tariff: "tariffOk tariff"
        using True reserveGate_admits(1) [OF gate] by (simp add: reserveInputOk_def nullable_def)
      have new: "research_changes W pruning (md_attempts s) (md_attempts t)"
        if "reserveNew env uuid input r p tariff intent (reconcile (ma_now input) s) = (Inr a, t)" for intent a t
        using rtranclp_trans [OF reconcile_changes reserveNew_changes [OF that tariff]] True by blast
      show ?thesis
        using True gate reconcile_changes [of W pruning s "ma_now input"]
        by (auto simp: reserveAttempt_def Let_def intro: new split: option.splits prod.splits sum.splits)
    qed
  qed
qed

lemma attempt_changes: "research_changes W pruning (md_attempts s) (md_attempts (snd (attempt input i s)))"
  using reconcile_changes [of W pruning s "ma_now input"] by (auto simp: attempt_def Let_def split: option.splits)

text \<open>What a claim and a dispatch that get past their checks have found.\<close>

lemma claim_cases:
  assumes "claimAttempt token input i s = (res, t)"
  obtains (same) "t = s"
  | (reconciled) "t = reconcile (ma_now input) s" "res = Inr None"
  | (claimed) r where "attemptRow s (ma_scope input) i = Some r" "admittedAttempt input r s" "at_phase r = AttemptReserved"
      "active (at_leaseExpiresAt r) (ma_now input)" "at_claimToken r = None" "viewOk input"
      "t = updateAttempts (\<lambda>q. at_id q = i) (\<lambda>q. q\<lparr>at_claimToken := Some token, at_leaseExpiresAt := merchantLease (ma_now input)\<rparr>)
         (reconcile (ma_now input) s)"
proof (cases "attemptRow s (ma_scope input) i")
  case None
  with assms same show thesis by (simp add: claimAttempt_def split: if_splits)
next
  case (Some r)
  let ?t = "reconcile (ma_now input) s"
  show thesis
  proof (cases "viewOk input \<and> idText i \<and> admittedAttempt input r s")
    case False
    with assms Some same show thesis by (auto simp: claimAttempt_def split: if_splits)
  next
    case view: True
    show thesis
    proof (cases "at_phase r = AttemptReserved \<and> active (at_leaseExpiresAt r) (ma_now input) \<and> at_claimToken r = None")
      case False
      with assms Some view have "t = ?t" "res = Inr None" by (auto simp: claimAttempt_def Let_def)
      then show thesis by (rule reconciled)
    next
      case True
      show thesis
      proof (cases "external ?t (ma_scope input) (at_policyVersion r) None = Inr True")
        case allowed: True
        show thesis
          by (rule claimed [OF Some]) (use assms Some view True allowed in \<open>auto simp: claimAttempt_def Let_def\<close>)
      next
        case False
        then have "t = s \<or> t = ?t \<and> res = Inr None"
          using assms Some view True by (auto simp: claimAttempt_def Let_def split: sum.splits if_splits)
        then show thesis using same reconciled by blast
      qed
    qed
  qed
qed

lemma dispatch_cases:
  assumes "dispatchAttempt input i token s = (res, t)"
  obtains (same) "t = s" "res \<noteq> Inr True"
  | (reconciled) "t = reconcile (ma_now input) s" "res = Inr False"
  | (launched) r where "attemptRow s (ma_scope input) i = Some r" "admittedAttempt input r s" "at_phase r = AttemptReserved"
      "active (at_leaseExpiresAt r) (ma_now input)" "at_claimToken r = Some token" "viewOk input" "res = Inr True"
      "external (reconcile (ma_now input) s) (ma_scope input) (at_policyVersion r) None = Inr True"
      "at_dayWindow r = take 10 (ma_now input)" "at_monthWindow r = take 7 (ma_now input)"
      "\<forall>b \<in> set (at_buckets r). qb_kind b \<in> {BucketInstallation, BucketCredential} \<longrightarrow>
         length (filter (chargedTo (bucketIdentity b)) (running (ma_now input) (reconcile (ma_now input) s))) \<le> 1"
      "launchedRecently r (recentLaunches (ma_now input) (reconcile (ma_now input) s)) = Inr False"
      "t = updateAttempts (\<lambda>q. at_id q = i) (launch (ma_now input)) (reconcile (ma_now input) s)"
proof (cases "attemptRow s (ma_scope input) i")
  case None
  with assms have "t = s" "res \<noteq> Inr True" by (auto simp: dispatchAttempt_def split: if_splits)
  then show thesis by (rule same)
next
  case (Some r)
  let ?t = "reconcile (ma_now input) s"
  let ?controlling = "filter (\<lambda>b. qb_kind b = BucketInstallation \<or> qb_kind b = BucketCredential) (at_buckets r)"
  let ?busy = "list_ex (\<lambda>b. 2 \<le> length (filter (chargedTo (bucketIdentity b)) (running (ma_now input) ?t))) ?controlling"
  show thesis
  proof (cases "viewOk input \<and> idText i \<and> idText token \<and> admittedAttempt input r s")
    case False
    with assms Some have "t = s" "res \<noteq> Inr True" by (auto simp: dispatchAttempt_def split: if_splits)
    then show thesis by (rule same)
  next
    case view: True
    show thesis
    proof (cases "at_phase r = AttemptReserved \<and> at_claimToken r = Some token \<and> active (at_leaseExpiresAt r) (ma_now input)")
      case False
      with assms Some view have "t = ?t" "res = Inr False" by (auto simp: dispatchAttempt_def Let_def)
      then show thesis by (rule reconciled)
    next
      case row: True
      show thesis
      proof (cases "external ?t (ma_scope input) (at_policyVersion r) None")
        case (Inl e)
        with assms Some view row have "t = s" "res \<noteq> Inr True" by (auto simp: dispatchAttempt_def Let_def)
        then show thesis by (rule same)
      next
        case (Inr allowed)
        show thesis
        proof (cases "allowed \<and> at_dayWindow r = take 10 (ma_now input) \<and> at_monthWindow r = take 7 (ma_now input) \<and> \<not> ?busy")
          case False
          with assms Some view row Inr have "t = ?t" "res = Inr False"
            by (auto simp: dispatchAttempt_def Let_def split: if_splits)
          then show thesis by (rule reconciled)
        next
          case True
          then have quiet: "\<forall>b \<in> set (at_buckets r). qb_kind b \<in> {BucketInstallation, BucketCredential} \<longrightarrow>
            length (filter (chargedTo (bucketIdentity b)) (running (ma_now input) ?t)) \<le> 1"
            by (auto simp: list_ex_iff not_le less_Suc_eq_le numeral_2_eq_2)
          show thesis
          proof (cases "launchedRecently r (recentLaunches (ma_now input) ?t) = Inr False")
            case idle: True
            show thesis
              by (rule launched [OF Some])
                (use assms Some view row Inr True quiet idle in \<open>auto simp: dispatchAttempt_def Let_def\<close>)
          next
            case False
            then have "t = s \<and> res \<noteq> Inr True \<or> t = ?t \<and> res = Inr False"
              using assms Some view row Inr True by (auto simp: dispatchAttempt_def Let_def split: sum.splits if_splits)
            then show thesis using same reconciled by blast
          qed
        qed
      qed
    qed
  qed
qed

lemma reconciled_row:
  assumes "attemptsOk (md_attempts s)" "attemptRow s sc i = Some r" "at_phase r = AttemptReserved"
    "active (at_leaseExpiresAt r) now" "timestampText now"
  shows "attemptRow (reconcile now s) sc i = Some r"
  using reconcile_keeps [OF assms(1) _ assms(3-5)] attemptRow_SomeD [OF assms(2)] find_unique_id [OF reconcile_ok [OF assms(1)]]
  by metis

lemma viewOk_now: "viewOk input \<Longrightarrow> timestampText (ma_now input)"
  by (simp add: viewOk_def accessOk_def)

lemma claim_changes:
  assumes ok: "attemptsOk (md_attempts s)"
  shows "research_changes W pruning (md_attempts s) (md_attempts (snd (claimAttempt token input i s)))"
proof -
  obtain res t where t: "claimAttempt token input i s = (res, t)" by (cases "claimAttempt token input i s")
  then show ?thesis
  proof (cases rule: claim_cases)
    case (claimed r)
    have "attemptRow (reconcile (ma_now input) s) (ma_scope input) i = Some r"
      using reconciled_row [OF ok claimed(1,3,4)] viewOk_now claimed(6) by blast
    then have "research_changes W pruning (md_attempts (reconcile (ma_now input) s)) (md_attempts t)"
      unfolding claimed(7) merchantLease_def using claimed(3)
      by (intro update_row_changes [OF reconcile_ok [OF ok]] r_into_rtranclp attempt_moves.claimed)
    then show ?thesis using t rtranclp_trans [OF reconcile_changes] by simp
  qed (use t reconcile_changes in simp_all)
qed

lemma recent_free:
  assumes "launchedRecently r (recentLaunches now s) = Inr False" "find (\<lambda>b. qb_kind b = BucketCredential) (at_buckets r) = Some b"
    "x \<in> set (md_attempts s)" "chargedTo (bucketIdentity b) x" "at_dispatchedAt x = Some d"
  shows "\<not> textLess (toISOString (instant now - 1000)) d"
  using assms by (auto simp: launchedRecently_def recentLaunches_def list_ex_iff)

lemma dispatch_changes:
  assumes ok: "attemptsOk (md_attempts s)"
  shows "research_changes W pruning (md_attempts s) (md_attempts (snd (dispatchAttempt input i token s)))"
proof -
  obtain res t where t: "dispatchAttempt input i token s = (res, t)" by (cases "dispatchAttempt input i token s")
  then show ?thesis
  proof (cases rule: dispatch_cases)
    case (launched r)
    let ?s = "reconcile (ma_now input) s"
    have now: "timestampText (ma_now input)" using viewOk_now launched(6) by blast
    have "attemptRow ?s (ma_scope input) i = Some r" by (rule reconciled_row [OF ok launched(1,3,4) now])
    then have r: "r \<in> set (md_attempts ?s)" "at_id r = i" using attemptRow_SomeD by blast+
    then have "launchable (ma_now input) (md_attempts ?s) r"
      using launched(3) now recent_free [OF launched(12)] by (auto simp: launchable_def)
    from research_change.dispatch [OF this] have "research_change W pruning (md_attempts ?s) (md_attempts t)"
      by (simp add: launched(13) r(2))
    then show ?thesis using t reconcile_changes [of W pruning s "ma_now input"] by simp
  qed (use t reconcile_changes in simp_all)
qed

lemma abandon_changes:
  assumes ok: "attemptsOk (md_attempts s)"
  shows "research_changes W pruning (md_attempts s) (md_attempts (snd (abandonAttempt input i token s)))"
proof (cases "attemptRow s (ma_scope input) i")
  case (Some r)
  have "research_changes W pruning (md_attempts s) (md_attempts (updateAttempts (\<lambda>q. at_id q = i) (failUnsent OutcomeNotBilled) s))"
    if "at_phase r = AttemptReserved"
    using that by (intro update_row_changes [OF ok Some] r_into_rtranclp attempt_moves.unsent)
  with Some show ?thesis by (simp add: abandonAttempt_def)
qed (simp add: abandonAttempt_def)

lemma release_changes:
  assumes ok: "attemptsOk (md_attempts s)"
    and W: "\<And>r. at_id r = ao_id input \<Longrightarrow> at_claimToken r = Some (ao_claimToken input) \<Longrightarrow> W r"
  shows "research_changes W pruning (md_attempts s) (md_attempts (snd (releaseUnsentAttempt input s)))"
proof (cases "attemptRow s (ao_scope input) (ao_id input)")
  case (Some r)
  have "research_changes W pruning (md_attempts s) (md_attempts (updateAttempts (\<lambda>q. at_id q = ao_id input) (failUnsent OutcomeNotInvoked) s))"
    if "at_phase r \<in> {AttemptReserved, AttemptDispatched, AttemptUncertain}" "at_claimToken r = Some (ao_claimToken input)"
    using that W attemptRow_SomeD [OF Some]
    by (intro update_row_changes [OF ok Some] r_into_rtranclp attempt_moves.released) blast+
  with Some show ?thesis by (simp add: releaseUnsentAttempt_def split: sum.split)
qed (simp add: releaseUnsentAttempt_def)

lemma settle_cases:
  assumes "settleAttempt input i token outcome s = (res, t)"
  obtains (same) "t = s"
  | (settled) r where "attemptRow s (ma_scope input) i = Some r" "at_claimToken r = Some token" "outcomeOk outcome"
      "at_phase r \<in> {AttemptDispatched, AttemptUncertain}" "at_outcome r = None" "res = Inr True"
      "\<And>atoms. outcome = OutcomeSucceeded atoms \<Longrightarrow> dec_val atoms \<le> dec_val (at_reserved r)"
      "t = updateAttempts (\<lambda>q. at_id q = i)
         (\<lambda>q. q\<lparr>at_phase := outcomePhase outcome, at_settled := outcomeAtoms outcome, at_outcome := Some outcome\<rparr>) s"
proof (cases "t = s")
  case False
  let ?t = "updateAttempts (\<lambda>q. at_id q = i)
    (\<lambda>q. q\<lparr>at_phase := outcomePhase outcome, at_settled := outcomeAtoms outcome, at_outcome := Some outcome\<rparr>) s"
  from False assms obtain r where r: "attemptRow s (ma_scope input) i = Some r"
    by (cases "attemptRow s (ma_scope input) i") (auto simp: settleAttempt_def split: if_splits)
  with False assms have none: "at_outcome r = None"
    by (cases "at_outcome r") (auto simp: settleAttempt_def split: if_splits sum.splits)
  with False assms r have "at_claimToken r = Some token" "outcomeOk outcome" "res = Inr True" "t = ?t"
    "at_phase r \<in> {AttemptDispatched, AttemptUncertain}"
    "\<not> (case outcome of OutcomeSucceeded atoms \<Rightarrow> dec_val (at_reserved r) < dec_val atoms | _ \<Rightarrow> False)"
    by (simp_all add: settleAttempt_def split: if_splits)
  with r none settled show thesis by (cases outcome) auto
qed (rule same)

lemma settle_changes:
  assumes ok: "attemptsOk (md_attempts s)"
    and W: "\<And>r. at_id r = i \<Longrightarrow> at_claimToken r = Some token \<Longrightarrow> W r"
  shows "research_changes W pruning (md_attempts s) (md_attempts (snd (settleAttempt input i token outcome s)))"
proof -
  obtain res t where t: "settleAttempt input i token outcome s = (res, t)" by (cases "settleAttempt input i token outcome s")
  then show ?thesis
  proof (cases rule: settle_cases)
    case (settled r)
    have "attempt_moves W r (r\<lparr>at_phase := outcomePhase outcome, at_settled := outcomeAtoms outcome, at_outcome := Some outcome\<rparr>)"
      using settled W attemptRow_SomeD [OF settled(1)] by (intro attempt_moves.settled) auto
    then have "research_changes W pruning (md_attempts s) (md_attempts t)"
      unfolding settled(8) by (intro update_row_changes [OF ok settled(1)] r_into_rtranclp)
    then show ?thesis using t by simp
  qed (use t in simp)
qed

lemma erase_changes: "research_changes W pruning (md_attempts s) (md_attempts (erase sc s))"
proof -
  let ?s = "s\<lparr>md_decisions := filter (\<lambda>r. dr_scopeKey r \<noteq> scopeKey sc) (md_decisions s),
    md_evidence := filter (\<lambda>r. er_scopeKey r \<noteq> scopeKey sc) (md_evidence s)\<rparr>"
  have "research_changes W pruning (md_attempts ?s) (md_attempts (cancel sc ?s))" by (rule cancel_changes)
  then have "research_changes W pruning (md_attempts s) (md_attempts (cancel sc ?s))" by simp
  moreover have "research_changes W pruning (md_attempts (cancel sc ?s)) (md_attempts (erase sc s))"
    unfolding erase_def Let_def by (rule update_changes) (auto intro!: blank_evolves disown_evolves)
  ultimately show ?thesis by (rule rtranclp_trans)
qed

lemma erase_all_changes: "research_changes W pruning (md_attempts s) (md_attempts (foldl (\<lambda>t c. erase (f c) t) s cs))"
  by (induction cs arbitrary: s) (auto intro: rtranclp_trans [OF erase_changes])

lemma purge_changes: "research_changes W pruning (md_attempts s) (md_attempts (snd (purge env input s)))"
  using erase_changes [of W pruning "bumpGeneration g (ensureScope sc s)" "ma_scope input" for g sc]
  by (auto simp: purge_def Let_def)

lemma purgeBudget_changes: "research_changes W pruning (md_attempts s) (md_attempts (snd (purgeBudget env input s)))"
  using erase_all_changes [of W pruning "bumpGeneration g (ensureScope sc s)" for g sc]
  by (auto simp: purgeBudget_def Let_def)

lemma prune_changes: "research_changes W True (md_attempts s) (md_attempts (snd (prune env now s)))"
proof (cases "timestampText now")
  case True
  let ?old = "\<lambda>days r. textLeq (at_createdAt r) (toISOString (instant now - days * 86400000))"
  let ?rows = "updateWhere (?old 30) blankContent (md_attempts (reconcile now s))"
  let ?keep = "\<lambda>r. \<not> (?old 90 r \<and> at_phase r \<in> {AttemptSucceeded, AttemptKnownFailed})"
  have "md_attempts (snd (prune env now s)) = filter ?keep ?rows"
    using True by (simp add: prune_def Let_def)
  moreover have "research_changes W True (md_attempts (reconcile now s)) ?rows"
    using update_changes [where s = "reconcile now s" and p = "?old 30" and f = blankContent and W = W and pruning = True] attempt_moves.blanked by auto
  moreover have "research_change W True ?rows (filter ?keep ?rows)"
    by (rule research_change.discard) (simp_all add: finished_def)
  ultimately show ?thesis using reconcile_changes [of W True s now] by (simp add: rtranclp_trans)
qed (simp add: prune_def)

lemma restore_changes: "research_changes W pruning (md_attempts s) (md_attempts (snd (reconcileMerchantRestore env now s)))"
proof (cases "timestampText now")
  case True
  let ?s = "updateAttempts (\<lambda>r. at_phase r = AttemptReserved) (failUnsent OutcomeNotBilled) s"
  let ?f = "\<lambda>r. blankContent (unsettle (r\<lparr>at_claimToken := None\<rparr>))"
  have "research_changes W pruning (md_attempts s) (md_attempts ?s)"
    by (rule update_changes) (auto intro: attempt_moves.unsent)
  moreover have "research_changes W pruning (md_attempts ?s) (md_attempts (updateAttempts (\<lambda>_. True) ?f ?s))"
    by (rule update_changes) (auto intro!: blank_evolves disown_evolves)
  ultimately have "research_changes W pruning (md_attempts s) (md_attempts (updateAttempts (\<lambda>_. True) ?f ?s))"
    by (rule rtranclp_trans)
  then show ?thesis using True by (simp add: reconcileMerchantRestore_def Let_def split: sum.split)
qed (simp add: reconcileMerchantRestore_def)

lemma setMerchantPolicy_changes: "research_changes W pruning (md_attempts s) (md_attempts (snd (setMerchantPolicy env input value v s)))"
  using cancel_changes [of W pruning "bumpGeneration g (ensureScope sc s)" "ma_scope input" for g sc]
  by (simp add: setMerchantPolicy_def Let_def split: sum.split)

lemma other_attempts:
  "md_attempts (snd (decide input i payload st refs v s)) = md_attempts s"
  "md_attempts (snd (putEvidence input value revision s)) = md_attempts s"
  "md_attempts (snd (acknowledgeRestore access actor s)) = md_attempts s"
  by (simp_all add: decide_def putEvidence_def acknowledgeRestore_def Let_def split: sum.split option.split)

text \<open>The events in which a worker settles or releases an attempt, and the one that removes rows.\<close>

fun settles :: "merchant_event \<Rightarrow> attempt_row \<Rightarrow> bool" where
  "settles (EvSettle input i token outcome) r \<longleftrightarrow> at_id r = i \<and> at_claimToken r = Some token"
| "settles (EvRelease input) r \<longleftrightarrow> at_id r = ao_id input \<and> at_claimToken r = Some (ao_claimToken input)"
| "settles _ r \<longleftrightarrow> False"

fun prunes :: "merchant_event \<Rightarrow> bool" where
  "prunes (EvPrune now) \<longleftrightarrow> True"
| "prunes _ \<longleftrightarrow> False"

lemma merchant_step_refines:
  assumes "attemptsOk (md_attempts s)"
  shows "research_changes (settles ev) (prunes ev) (md_attempts s) (md_attempts (merchantStep env ev s))"
  by (cases ev) (simp_all add: other_attempts setMerchantPolicy_changes reserve_changes attempt_changes claim_changes
    dispatch_changes abandon_changes release_changes settle_changes purge_changes purgeBudget_changes prune_changes
    restore_changes assms)

lemma merchant_step_ok: "attemptsOk (md_attempts s) \<Longrightarrow> attemptsOk (md_attempts (merchantStep env ev s))"
  by (rule ok_changes [OF merchant_step_refines])

lemma moves_mono: "attempt_moves W r q \<Longrightarrow> (\<And>x. W x \<Longrightarrow> V x) \<Longrightarrow> attempt_moves V r q"
  by (erule attempt_moves.cases) (auto intro: attempt_moves.intros)

lemma evolves_mono: "attempt_evolves W r q \<Longrightarrow> (\<And>x. W x \<Longrightarrow> V x) \<Longrightarrow> attempt_evolves V r q"
  by (induction rule: rtranclp_induct) (auto intro: moves_mono rtranclp.rtrancl_into_rtrancl)

lemma change_mono:
  assumes "research_change W p rows rows'" "\<And>x. W x \<Longrightarrow> V x" "p \<Longrightarrow> q"
  shows "research_change V q rows rows'"
  using assms(1)
proof (cases rule: research_change.cases)
  case rows_move
  then show ?thesis by (auto intro!: research_change.rows_move elim!: list_all2_mono evolves_mono assms(2))
qed (auto intro: research_change.intros assms(3))

lemma changes_mono:
  "research_changes W p rows rows' \<Longrightarrow> (\<And>x. W x \<Longrightarrow> V x) \<Longrightarrow> (p \<Longrightarrow> q) \<Longrightarrow> research_changes V q rows rows'"
  by (induction rule: rtranclp_induct) (auto intro: change_mono rtranclp.rtrancl_into_rtrancl)

definition settledBy :: "merchant_event list \<Rightarrow> attempt_row \<Rightarrow> bool" where
  "settledBy events r \<longleftrightarrow> list_ex (\<lambda>ev. settles ev r) events"

lemma run_refines:
  "attemptsOk (md_attempts s) \<Longrightarrow>
     research_changes (settledBy events) (list_ex prunes events) (md_attempts s) (md_attempts (runMerchant env events s)) \<and>
     attemptsOk (md_attempts (runMerchant env events s))"
proof (induction events arbitrary: s)
  case (Cons ev events)
  let ?t = "merchantStep env ev s"
  have step: "research_changes (settles ev) (prunes ev) (md_attempts s) (md_attempts ?t)" "attemptsOk (md_attempts ?t)"
    using merchant_step_refines merchant_step_ok Cons.prems by blast+
  have "research_changes (settledBy (ev # events)) (list_ex prunes (ev # events)) (md_attempts s) (md_attempts ?t)"
    by (rule changes_mono [OF step(1)]) (auto simp: settledBy_def)
  moreover have "research_changes (settledBy (ev # events)) (list_ex prunes (ev # events)) (md_attempts ?t)
      (md_attempts (runMerchant env events ?t))"
    by (rule changes_mono [OF conjunct1 [OF Cons.IH [OF step(2)]]]) (auto simp: settledBy_def)
  ultimately have "research_changes (settledBy (ev # events)) (list_ex prunes (ev # events)) (md_attempts s)
      (md_attempts (runMerchant env (ev # events) s))"
    by (simp add: runMerchant_def)
  then show ?case using Cons.IH [OF step(2)] by (simp add: runMerchant_def)
qed (simp add: runMerchant_def)

subsection \<open>Invariants of the table\<close>

text \<open>An invariant of the elementary changes holds in every state the operations reach.\<close>

locale attempt_invariant =
  fixes I :: "attempt_row list \<Rightarrow> bool"
  assumes initial: "I []"
    and change: "\<And>W pruning. research_change W pruning rows rows' \<Longrightarrow> attemptsOk rows \<Longrightarrow> I rows \<Longrightarrow> I rows'"
begin

lemma changes_keep: "research_changes W pruning rows rows' \<Longrightarrow> attemptsOk rows \<Longrightarrow> I rows \<Longrightarrow> I rows'"
proof (induction rule: rtranclp_induct)
  case (step y z)
  then have "attemptsOk y" using ok_changes by blast
  with step change show ?case by blast
qed

lemma reachable: "I (md_attempts (runMerchant env events emptyMerchant))"
proof -
  have "attemptsOk (md_attempts emptyMerchant)" "I (md_attempts emptyMerchant)"
    by (simp_all add: attemptsOk_def emptyMerchant_def initial)
  with run_refines changes_keep show ?thesis by blast
qed

end

end
