(* ===== verification/Research_Control.thy ===== *)
theory Research_Control
  imports Research_Refine
begin

text \<open>
  What closes external research in a scope and keeps it closed: a policy that does not allow it, and
  the quarantine of a restored copy.
\<close>

subsection \<open>Tables an operation leaves alone\<close>

lemma policies_simps [simp]:
  "md_policies (updateAttempts p f s) = md_policies s"
  "md_policies (ensureScope sc s) = md_policies s"
  "md_policies (bumpGeneration g s) = md_policies s"
  "md_policies (redactScope env opts s) = md_policies s"
  by (simp_all add: updateAttempts_def ensureScope_def bumpGeneration_def redactScope_def)

lemma scopes_simps [simp]:
  "md_scopes (updateAttempts p f s) = md_scopes s"
  "md_scopes (redactScope env opts s) = md_scopes s"
  by (simp_all add: updateAttempts_def redactScope_def)

lemma reconcile_tables [simp]:
  "md_policies (reconcile now s) = md_policies s" "md_scopes (reconcile now s) = md_scopes s"
  by (simp_all add: reconcile_def)

lemma cancel_tables [simp]: "md_policies (cancel sc s) = md_policies s" "md_scopes (cancel sc s) = md_scopes s"
  by (simp_all add: cancel_def)

lemma erase_tables [simp]: "md_policies (erase sc s) = md_policies s" "md_scopes (erase sc s) = md_scopes s"
  by (simp_all add: erase_def Let_def)

lemma erase_all_tables [simp]:
  "md_policies (foldl (\<lambda>t c. erase (f c) t) s cs) = md_policies s" "md_scopes (foldl (\<lambda>t c. erase (f c) t) s cs) = md_scopes s"
  by (induction cs arbitrary: s) simp_all

lemma reserveNew_tables:
  "md_policies (snd (reserveNew env uuid input r p tariff intent s)) = md_policies s"
  "md_scopes (snd (reserveNew env uuid input r p tariff intent s)) \<in> {md_scopes s, md_scopes (ensureScope (ma_scope input) s)}"
  by (simp_all add: reserveNew_def Let_def split: option.split sum.split)

lemma reserve_tables:
  "md_policies (snd (reserveAttempt env uuid input r s)) = md_policies s"
  "md_scopes (snd (reserveAttempt env uuid input r s)) \<in> {md_scopes s, md_scopes (ensureScope (ma_scope input) s)}"
proof -
  have ensure: "md_scopes (ensureScope sc (reconcile now s)) = md_scopes (ensureScope sc s)" for sc now
    by (simp add: ensureScope_def scopeRow_def globalRow_def)
  have new: "md_policies t = md_policies s" "md_scopes t \<in> {md_scopes s, md_scopes (ensureScope (ma_scope input) s)}"
    if "reserveNew env uuid input r p tariff intent (reconcile now s) = (a, t)" for p tariff intent now a t
    using reserveNew_tables [of env uuid input r p tariff intent "reconcile now s"] that ensure by simp_all
  show "md_policies (snd (reserveAttempt env uuid input r s)) = md_policies s"
    using new(1) by (auto simp: reserveAttempt_def Let_def split: option.split sum.split prod.split)
  show "md_scopes (snd (reserveAttempt env uuid input r s)) \<in> {md_scopes s, md_scopes (ensureScope (ma_scope input) s)}"
    using new(2) by (auto simp: reserveAttempt_def Let_def split: option.split sum.split prod.split)
qed

lemma attempt_op_tables:
  "md_policies (snd (attempt view i s)) = md_policies s" "md_scopes (snd (attempt view i s)) = md_scopes s"
  "md_policies (snd (claimAttempt token view i s)) = md_policies s" "md_scopes (snd (claimAttempt token view i s)) = md_scopes s"
  "md_policies (snd (dispatchAttempt view i token s)) = md_policies s" "md_scopes (snd (dispatchAttempt view i token s)) = md_scopes s"
  "md_policies (snd (abandonAttempt view i tok s)) = md_policies s" "md_scopes (snd (abandonAttempt view i tok s)) = md_scopes s"
  "md_policies (snd (releaseUnsentAttempt ow s)) = md_policies s" "md_scopes (snd (releaseUnsentAttempt ow s)) = md_scopes s"
  "md_policies (snd (settleAttempt view i token outcome s)) = md_policies s"
  "md_scopes (snd (settleAttempt view i token outcome s)) = md_scopes s"
  by (simp_all add: attempt_def claimAttempt_def dispatchAttempt_def abandonAttempt_def releaseUnsentAttempt_def
    settleAttempt_def Let_def split: option.split sum.split)

lemma other_policies:
  "md_policies (snd (decide view i payload st refs v s)) = md_policies s"
  "md_policies (snd (putEvidence view value revision s)) = md_policies s"
  "md_policies (snd (acknowledgeRestore access actor s)) = md_policies s"
  "md_policies (snd (purge env access s)) = md_policies s"
  "md_policies (snd (purgeBudget env access s)) = md_policies s"
  "md_policies (snd (prune env now s)) = md_policies s"
  by (simp_all add: decide_def putEvidence_def acknowledgeRestore_def purge_def purgeBudget_def prune_def Let_def
    split: sum.split option.split)

subsection \<open>Consent\<close>

definition noExternal :: "string \<Rightarrow> merchant_db \<Rightarrow> bool" where
  "noExternal key s \<longleftrightarrow> (\<forall>p. map_of (md_policies s) key = Some p \<longrightarrow> mp_mode p \<noteq> MerchantExternalAllowed)"

fun setsPolicy :: "string \<Rightarrow> merchant_event \<Rightarrow> bool" where
  "setsPolicy key (EvSetPolicy input value version) \<longleftrightarrow> scopeKey (ma_scope input) = key"
| "setsPolicy key _ \<longleftrightarrow> False"

lemma map_of_upsert: "map_of (upsert k v xs) = (map_of xs)(k \<mapsto> v)"
proof -
  have "map_of (map (\<lambda>e. if fst e = k then (k, v) else e) xs) = (if list_ex (\<lambda>e. fst e = k) xs then (map_of xs)(k \<mapsto> v) else map_of xs)"
    by (induction xs) (auto simp: fun_upd_twist)
  moreover have "map_of (xs @ [(k, v)]) = (map_of xs)(k \<mapsto> v)" if "\<not> list_ex (\<lambda>e. fst e = k) xs"
    using that by (induction xs) (auto simp: fun_upd_twist)
  ultimately show ?thesis by (simp add: upsert_def)
qed

lemma external_allowed: "external s sc v key = Inr True \<Longrightarrow> \<not> noExternal (scopeKey sc) s"
  by (auto simp: external_def policyValue_def noExternal_def decodePolicy_def read_simps split: option.splits)

lemma setMerchantPolicy_cases:
  assumes "setMerchantPolicy env input value v s = (res, t)"
  shows "t = s \<and> (\<forall>p. res \<noteq> Inr (Some p)) \<or> (\<exists>p. res = Inr (Some p) \<and> mp_mode p = mp_mode value \<and> md_policies t = upsert (scopeKey (ma_scope input)) p (md_policies s))"
  using assms
  by (auto simp: setMerchantPolicy_def Let_def merchant_policy_value.defs merchant_policy.defs split: if_splits sum.splits)

lemma restore_cases:
  assumes "reconcileMerchantRestore env now s = (res, t)"
  obtains (same) "t = s" "res \<noteq> Inr ()"
  | (restored) policies hold unresolved where "res = Inr ()" "md_policies t = policies"
      "md_scopes t = quarantine hold unresolved (md_scopes s)"
      "mapR (\<lambda>(k, p). andThen (decodePolicy p) (\<lambda>q. Inr (k, restoredPolicy now q))) (md_policies s) = Inr policies"
proof (cases "timestampText now")
  case True
  let ?read = "mapR (\<lambda>(k, p). andThen (decodePolicy p) (\<lambda>q. Inr (k, restoredPolicy now q))) (md_policies s)"
  show thesis
  proof (cases ?read)
    case (Inl e)
    with assms True have "t = s" "res \<noteq> Inr ()" by (auto simp: reconcileMerchantRestore_def Let_def)
    then show thesis by (rule same)
  next
    case (Inr policies)
    with assms True have "res = Inr ()" "md_policies t = policies"
      "md_scopes t = quarantine (Some (toISOString (nextMonth (instant now))))
         (list_ex (\<lambda>r. at_phase r \<in> {AttemptDispatched, AttemptUncertain}) (md_attempts s)) (md_scopes s)"
      by (auto simp: reconcileMerchantRestore_def Let_def)
    then show thesis using Inr by (rule restored)
  qed
next
  case False
  with assms have "t = s" "res \<noteq> Inr ()" by (auto simp: reconcileMerchantRestore_def)
  then show thesis by (rule same)
qed

lemma restore_policies:
  assumes "reconcileMerchantRestore env now s = (res, t)"
  shows "t = s \<and> res \<noteq> Inr () \<or> res = Inr () \<and> noExternal key t"
  using assms
proof (cases rule: restore_cases)
  case (restored policies hold unresolved)
  have "mp_mode (snd e) \<noteq> MerchantExternalAllowed" if "e \<in> set policies" for e
    using mapR_Inr_set [OF restored(4) that] by (auto simp: read_simps restoredPolicy_def)
  with restored(1,2) show ?thesis by (fastforce simp: noExternal_def dest: map_of_SomeD)
qed simp

lemma step_noExternal:
  assumes "noExternal key s" "\<not> setsPolicy key ev"
  shows "noExternal key (merchantStep env ev s)"
proof (cases ev)
  case (EvSetPolicy input val v)
  obtain res t where t: "setMerchantPolicy env input val v s = (res, t)" by (cases "setMerchantPolicy env input val v s")
  from setMerchantPolicy_cases [OF t] assms EvSetPolicy t show ?thesis by (auto simp: noExternal_def map_of_upsert)
next
  case (EvRestore now)
  obtain res t where t: "reconcileMerchantRestore env now s = (res, t)" by (cases "reconcileMerchantRestore env now s")
  from restore_policies [OF t, of key] assms EvRestore t show ?thesis by auto
qed (use assms in \<open>simp_all add: noExternal_def reserve_tables attempt_op_tables other_policies\<close>)

lemma run_noExternal:
  "noExternal key s \<Longrightarrow> \<forall>ev \<in> set events. \<not> setsPolicy key ev \<Longrightarrow> noExternal key (runMerchant env events s)"
proof (induction events arbitrary: s)
  case (Cons ev events)
  then have "noExternal key (merchantStep env ev s)" using step_noExternal by simp
  with Cons show ?case by (simp add: runMerchant_def)
qed (simp add: runMerchant_def)

text \<open>In a scope without consent nothing is reserved, claimed or sent.\<close>

lemma closed_reserve:
  assumes "noExternal (scopeKey (ma_scope view)) s"
  shows "fst (reserveAttempt env uuid view r s) \<noteq> Inr (Admitted a)"
proof
  assume res: "fst (reserveAttempt env uuid view r s) = Inr (Admitted a)"
  then obtain p tariff where "reserveGate view r s = Inr (Inr (p, tariff))"
    by (auto simp: reserveAttempt_def Let_def split: if_splits sum.splits)
  from reserveGate_admits(2,3) [OF this] assms show False
    by (auto simp: policyValue_def noExternal_def decodePolicy_def read_simps split: option.splits)
qed

lemma closed_claim:
  assumes "noExternal (scopeKey (ma_scope view)) s"
  shows "fst (claimAttempt token view i s) \<noteq> Inr (Some a)"
proof
  assume res: "fst (claimAttempt token view i s) = Inr (Some a)"
  then obtain v where "external (reconcile (ma_now view) s) (ma_scope view) v None = Inr True"
    by (auto simp: claimAttempt_def Let_def split: if_splits sum.splits option.splits)
  from external_allowed [OF this] assms show False by (auto simp: noExternal_def)
qed

lemma closed_dispatch:
  assumes "noExternal (scopeKey (ma_scope view)) s"
  shows "fst (dispatchAttempt view i token s) \<noteq> Inr True"
proof
  assume res: "fst (dispatchAttempt view i token s) = Inr True"
  obtain t where "dispatchAttempt view i token s = (Inr True, t)" using res by (cases "dispatchAttempt view i token s") auto
  then obtain v where "external (reconcile (ma_now view) s) (ma_scope view) v None = Inr True"
    by (cases rule: dispatch_cases) auto
  from external_allowed [OF this] assms show False by (auto simp: noExternal_def)
qed

subsection \<open>Quarantine\<close>

definition pending :: "merchant_scope \<Rightarrow> merchant_db \<Rightarrow> bool" where
  "pending sc s \<longleftrightarrow> scopeOrGlobal sg_restorePending False s sc"

fun acknowledges :: "string \<Rightarrow> merchant_event \<Rightarrow> bool" where
  "acknowledges key (EvAcknowledge input actor) \<longleftrightarrow> scopeKey (ma_scope input) = key"
| "acknowledges key _ \<longleftrightarrow> False"

lemma scopeKey_nonempty [simp]: "scopeKey sc \<noteq> []"
  by (simp add: scopeKey_def)

lemma pending_scopes: "md_scopes s = md_scopes t \<Longrightarrow> pending sc s = pending sc t"
  by (simp add: pending_def scopeOrGlobal_def scopeRow_def globalRow_def cong: option.case_cong)

lemma pending_ensure: "pending sc s \<Longrightarrow> pending sc (ensureScope sc' s)"
  by (auto simp: pending_def scopeOrGlobal_def scopeRow_def globalRow_def ensureScope_def find_append split: option.splits)

lemma pending_update:
  assumes "pending sc s" "\<And>r. sg_key (f r) = sg_key r" "\<And>r. p r \<Longrightarrow> sg_key r \<in> {scopeKey sc, []} \<Longrightarrow> sg_restorePending r \<Longrightarrow> sg_restorePending (f r)"
    and "md_scopes t = updateWhere p f (md_scopes s)"
  shows "pending sc t"
  using assms(1,3,4) find_key_updateWhere [of sg_key f _ p "md_scopes s", OF assms(2)]
  by (auto simp: pending_def scopeOrGlobal_def scopeRow_def globalRow_def dest!: find_SomeD split: option.splits)

lemma pending_bump: "pending sc s \<Longrightarrow> pending sc (bumpGeneration g s)"
  by (rule pending_update [where s = s and p = g and f = "\<lambda>r. r\<lparr>sg_generation := sg_generation r + 1\<rparr>"])
    (auto simp: bumpGeneration_def)

lemma quarantine_all: "r \<in> set (quarantine hold unresolved rows) \<Longrightarrow> sg_restorePending r"
  by (auto simp: quarantine_def Let_def set_updateWhere list_ex_iff split: if_splits)

lemma quarantine_global: "find (\<lambda>r. sg_key r = []) (quarantine hold unresolved rows) \<noteq> None"
proof -
  have kept: "list_ex (\<lambda>r. sg_key r = []) (updateWhere p f xs)"
    if "list_ex (\<lambda>r. sg_key r = []) xs" "\<And>r. sg_key (f r) = sg_key r" for p f xs
    using updateWhere_has_key [of sg_key f p xs "[]", OF that(2)] that(1) unfolding list_ex_iff by blast
  have "list_ex (\<lambda>r. sg_key r = []) (quarantine hold unresolved rows)"
    unfolding quarantine_def Let_def by (intro kept) (simp_all add: kept)
  then show ?thesis unfolding find_NoneD list_ex_iff by blast
qed

lemma pending_quarantine:
  assumes "md_scopes t = quarantine hold unresolved rows"
  shows "pending sc t"
proof -
  let ?rows = "quarantine hold unresolved rows"
  obtain g where g: "find (\<lambda>r. sg_key r = []) ?rows = Some g" using quarantine_global by (meson not_None_eq)
  have all: "sg_restorePending r" if "find p ?rows = Some r" for p r
    using quarantine_all find_SomeD [OF that] by blast
  show ?thesis
    using all g by (auto simp: pending_def scopeOrGlobal_def scopeRow_def globalRow_def assms split: option.splits)
qed

lemma restore_pending:
  assumes "reconcileMerchantRestore env now s = (res, t)"
  shows "t = s \<and> res \<noteq> Inr () \<or> res = Inr () \<and> pending sc t"
  using assms by (cases rule: restore_cases) (auto intro: pending_quarantine)

lemma pending_other_acknowledged:
  assumes "pending sc s" "scopeKey (ma_scope input) \<noteq> scopeKey sc"
  shows "pending sc (snd (acknowledgeRestore input actor s))"
proof -
  let ?s = "ensureScope (ma_scope input) s"
  let ?t = "?s\<lparr>md_scopes := updateWhere (\<lambda>r. sg_key r = scopeKey (ma_scope input)) (\<lambda>r. r\<lparr>sg_restorePending := False\<rparr>) (md_scopes ?s)\<rparr>"
  have "pending sc ?s" using assms(1) by (rule pending_ensure)
  moreover from this have "pending sc ?t"
    by (rule pending_update [where p = "\<lambda>r. sg_key r = scopeKey (ma_scope input)" and f = "\<lambda>r. r\<lparr>sg_restorePending := False\<rparr>"])
      (use assms(2) in auto)
  ultimately show ?thesis using assms(1) by (auto simp: acknowledgeRestore_def Let_def split: option.splits)
qed

lemma scopes_ensured:
  "md_scopes (snd (decide view i payload st refs v s)) \<in> {md_scopes s, md_scopes (ensureScope (ma_scope view) s)}"
  "md_scopes (snd (putEvidence view val revision s)) \<in> {md_scopes s, md_scopes (ensureScope (ma_scope view) s)}"
  "md_scopes (snd (prune env now s)) = md_scopes s"
  by (simp_all add: decide_def putEvidence_def prune_def Let_def split: sum.split option.split)

lemma scopes_bumped:
  "\<exists>g. md_scopes (snd (purge env input s)) \<in> {md_scopes s, md_scopes (bumpGeneration g (ensureScope (ma_scope input) s))}"
  "\<exists>g. md_scopes (snd (purgeBudget env input s)) \<in> {md_scopes s, md_scopes (bumpGeneration g (ensureScope (ma_scope input) s))}"
  "\<exists>g. md_scopes (snd (setMerchantPolicy env input val v s)) \<in>
     {md_scopes s, md_scopes (bumpGeneration g (ensureScope (ma_scope input) s))}"
  by (auto simp: purge_def purgeBudget_def setMerchantPolicy_def Let_def split: sum.split)

lemma pending_mem:
  "md_scopes t \<in> {md_scopes s, md_scopes u} \<Longrightarrow> pending sc s \<Longrightarrow> pending sc u \<Longrightarrow> pending sc t"
  using pending_scopes by blast

lemma step_pending:
  assumes "pending sc s" "\<not> acknowledges (scopeKey sc) ev"
  shows "pending sc (merchantStep env ev s)"
proof -
  have keep: "pending sc t" if "md_scopes t = md_scopes s" for t using pending_scopes that assms(1) by blast
  have ensured: "pending sc t" if "md_scopes t \<in> {md_scopes s, md_scopes (ensureScope sc' s)}" for t sc'
    by (rule pending_mem [OF that assms(1) pending_ensure [OF assms(1)]])
  have bumped: "pending sc t" if "\<exists>g. md_scopes t \<in> {md_scopes s, md_scopes (bumpGeneration g (ensureScope sc' s))}" for t sc'
    using that pending_mem [OF _ assms(1) pending_bump [OF pending_ensure [OF assms(1)]]] by blast
  show ?thesis
  proof (cases ev)
  case (EvAcknowledge input actor)
  with assms pending_other_acknowledged show ?thesis by simp
next
  case (EvRestore now)
  obtain res t where t: "reconcileMerchantRestore env now s = (res, t)" by (cases "reconcileMerchantRestore env now s")
  from restore_pending [OF t, of sc] assms EvRestore t show ?thesis by auto
next
  case (EvReserve uuid input r)
  then show ?thesis using ensured [OF reserve_tables(2)] by simp
next
  case (EvDecide input i payload st refs v)
  then show ?thesis using ensured [OF scopes_ensured(1)] by simp
next
  case (EvPutEvidence input val rev)
  then show ?thesis using ensured [OF scopes_ensured(2)] by simp
next
  case (EvPurge input)
  then show ?thesis using bumped [OF scopes_bumped(1)] by simp
next
  case (EvPurgeBudget input)
  then show ?thesis using bumped [OF scopes_bumped(2)] by simp
next
  case (EvSetPolicy input val v)
  then show ?thesis using bumped [OF scopes_bumped(3)] by simp
  qed (simp_all add: keep attempt_op_tables scopes_ensured(3))
qed

lemma run_pending:
  "pending sc s \<Longrightarrow> \<forall>ev \<in> set events. \<not> acknowledges (scopeKey sc) ev \<Longrightarrow> pending sc (runMerchant env events s)"
proof (induction events arbitrary: s)
  case (Cons ev events)
  then have "pending sc (merchantStep env ev s)" using step_pending by simp
  with Cons show ?case by (simp add: runMerchant_def)
qed (simp add: runMerchant_def)

lemma pending_reserve:
  assumes "pending (ma_scope view) s"
  shows "fst (reserveAttempt env uuid view r s) \<notin> range (\<lambda>a. Inr (Admitted a)) \<union> range (\<lambda>a. Inr (PendingAttempt a))"
proof
  assume res: "fst (reserveAttempt env uuid view r s) \<in> range (\<lambda>a. Inr (Admitted a)) \<union> range (\<lambda>a. Inr (PendingAttempt a))"
  then obtain p tariff where "reserveGate view r s = Inr (Inr (p, tariff))"
    by (auto simp: reserveAttempt_def Let_def split: if_splits sum.splits)
  from reserveGate_admits(5) [OF this] assms show False by (simp add: pending_def)
qed

lemma pending_claim:
  assumes "pending (ma_scope view) s"
  shows "fst (claimAttempt token view i s) \<noteq> Inr (Some a)" and "fst (dispatchAttempt view i token s) \<noteq> Inr True"
proof -
  have no: "\<not> admittedAttempt view row s" for row
    using assms by (simp add: admittedAttempt_def permittedView_def fenced_def pending_def)
  then show "fst (claimAttempt token view i s) \<noteq> Inr (Some a)" "fst (dispatchAttempt view i token s) \<noteq> Inr True"
    by (auto simp: claimAttempt_def dispatchAttempt_def split: option.splits)
qed

end
