(* ===== verification/Research_Sample.thy ===== *)
theory Research_Sample
  imports Merchant_Research
begin

text \<open>A concrete scope, its policies and one reserved and claimed attempt, for the instances below.\<close>

definition sampleMerchantEnv :: merchant_env where
  "sampleMerchantEnv = \<lparr>me_sha256 = (\<lambda>s. s), me_localeLess = (\<lambda>_ _. False), me_timeZone = (\<lambda>z. z = ''UTC'')\<rparr>"

definition sampleScope :: merchant_scope where
  "sampleScope = \<lparr>ms_spaceId = ''s1'', ms_budgetId = ''b1'', ms_connectionId = ''c1''\<rparr>"

definition sampleAccess :: "string \<Rightarrow> int \<Rightarrow> merchant_access" where
  "sampleAccess now gen = \<lparr>ma_scope = sampleScope, ma_now = now, ma_expectedGeneration = gen, ma_authorize = (\<lambda>_. True)\<rparr>"

definition sampleView :: "string \<Rightarrow> int \<Rightarrow> merchant_view" where
  "sampleView now gen = \<lparr>ma_scope = sampleScope, ma_now = now, ma_expectedGeneration = gen, ma_authorize = (\<lambda>_. True),
     ma_visibility = \<lparr>mv_hash = zeroHash, mv_privateActorId = None\<rparr>, ma_actorId = ''ana''\<rparr>"

definition samplePolicyValue :: "merchant_mode \<Rightarrow> merchant_policy_value" where
  "samplePolicyValue mode = \<lparr>mp_mode = mode, mp_allowedProviderIds = [''web''], mp_maxSearchesPerDay = 10,
     mp_maxSpendMinorUnitsPerMonth = 5, mp_billingCurrency = ''USD'', mp_cacheTtlHours = 24, mp_calendar = None\<rparr>"

definition sampleBucket :: "bucket_kind \<Rightarrow> string \<Rightarrow> quota_bucket" where
  "sampleBucket kind i = \<lparr>qb_kind = kind, qb_id = i, qb_maxSearchesPerDay = 3, qb_maxSpendMinorUnitsPerMonth = 4\<rparr>"

definition sampleAttempt :: attempt_row where
  "sampleAttempt = \<lparr>at_id = ''a1'', at_scopeKey = scopeKey sampleScope, at_idempotencyHash = ''h1'', at_intentHash = ''i1'',
     at_keyHash = ''k1'', at_generation = 1, at_policyVersion = 1, at_phase = AttemptReserved, at_reserved = ''1000000'',
     at_settled = None, at_billingCurrency = ''USD'', at_tariffVersion = ''1'', at_createdAt = ''2026-01-05T10:00:00.000Z'',
     at_leaseExpiresAt = merchantLease ''2026-01-05T10:00:00Z'', at_dispatchedAt = None, at_claimToken = Some ''t1'',
     at_outcome = None, at_visibility = \<lparr>mv_hash = zeroHash, mv_privateActorId = None\<rparr>, at_sourceRefs = emptyRefs,
     at_buckets = [sampleBucket BucketInstallation ''home'', sampleBucket BucketSpace ''s1'',
       sampleBucket BucketBudget ''s1/b1'', sampleBucket BucketCredential ''key''],
     at_dayWindow = ''2026-01-05'', at_monthWindow = ''2026-01'', at_contentDeleted = False\<rparr>"

definition sampleMerchant :: merchant_db where
  "sampleMerchant = emptyMerchant\<lparr>
     md_scopes := [\<lparr>sg_key = scopeKey sampleScope, sg_spaceId = ''s1'', sg_budgetId = ''b1'', sg_connectionId = ''c1'',
       sg_generation = 1, sg_restorePending = False, sg_billingHoldUntil = None, sg_billingUnresolved = False\<rparr>],
     md_policies := [(scopeKey sampleScope, merchant_policy_value.extend (samplePolicyValue MerchantExternalAllowed)
       (merchant_policy.fields sampleScope 1 1 ''2026-01-05T09:00:00Z''))],
     md_attempts := [sampleAttempt]\<rparr>"

text \<open>A suggestion that mentions merchants only in a text.\<close>

definition sampleCopy :: copy_row where
  "sampleCopy = \<lparr>cp_table = ''suggestions'', cp_id = ''s1'', cp_budgetId = Some ''b1'',
     cp_columns = [(''payload'', Some (Obj [(''note'', Str ''about merchants''), (''sourceRevision'', Str ''7'')]))],
     cp_classifier = [], cp_categoryId = [], cp_status = ''open'', cp_supersededReason = None, cp_supersededBy = None,
     cp_version = 1\<rparr>"

lemma sample_dispatch:
  "map_sum id id (fst (dispatchAttempt (sampleView ''2026-01-05T10:00:05Z'' 1) ''a1'' ''t1'' sampleMerchant)) = Inr True"
  by code_simp

lemma sample_withdrawal:
  "map_sum id (\<lambda>p. p \<noteq> None) (fst (setMerchantPolicy sampleMerchantEnv (sampleAccess ''2026-01-05T10:00:05Z'' 1)
     (samplePolicyValue MerchantLocalOnly) 1 sampleMerchant)) = Inr True"
  by code_simp

lemma sample_restore:
  "map_sum id id (fst (reconcileMerchantRestore sampleMerchantEnv ''2026-01-05T10:00:05Z'' sampleMerchant)) = Inr ()"
  by code_simp

text \<open>Consent and one reservation, run from the empty tables.\<close>

definition sampleReserve :: reserve_input where
  "sampleReserve = \<lparr>ri_idempotencyKey = ''k1'',
     ri_key = \<lparr>ck_scope = sampleScope, ck_queryFingerprint = zeroHash, ck_locale = None, ck_providerId = ''web'',
       ck_providerVersion = ''1'', ck_parametersHash = zeroHash, ck_normalizationVersion = ''1'',
       ck_egressPolicyVersion = ''1'', ck_visibilityHash = zeroHash\<rparr>,
     ri_sourceRefs = emptyRefs, ri_policyVersion = 1,
     ri_tariff = Some \<lparr>tf_version = ''1'', tf_billingCurrency = ''USD'', tf_costAtoms = ''1000000''\<rparr>,
     ri_buckets = at_buckets sampleAttempt\<rparr>"

definition sampleEvents :: "merchant_event list" where
  "sampleEvents = [
     EvSetPolicy (sampleAccess ''2026-01-05T10:00:00Z'' 0) (samplePolicyValue MerchantExternalAllowed) 0,
     EvReserve ''a1'' (sampleView ''2026-01-05T10:00:01Z'' 1) sampleReserve]"

lemma sample_run:
  "map (\<lambda>r. (at_buckets r, at_phase r, at_reserved r, at_dayWindow r)) (md_attempts (runMerchant sampleMerchantEnv sampleEvents emptyMerchant)) =
     [(at_buckets sampleAttempt, AttemptReserved, ''1000000'', ''2026-01-05'')]"
  by code_simp

end
