(* ===== verification/Research_Props.thy ===== *)
theory Research_Props
  imports Research_Control Research_Sample
begin

text \<open>
  What holds of the research attempts of the merchant workflow in every state the operations reach:
  the quotas of every bucket, the spacing of launches, the fate of a charge, withdrawn consent and the
  quarantine of a restored copy.
\<close>

subsection \<open>Quotas\<close>

definition costOk :: "attempt_row \<Rightarrow> bool" where
  "costOk r \<longleftrightarrow> soundCost r \<and> (at_outcome r = None \<longrightarrow> at_settled r = None)"

definition chargesLess :: "attempt_row \<Rightarrow> attempt_row \<Rightarrow> bool" where
  "chargesLess r q \<longleftrightarrow> at_buckets q = at_buckets r \<and> at_dayWindow q = at_dayWindow r \<and> at_monthWindow q = at_monthWindow r \<and>
     at_billingCurrency q = at_billingCurrency r \<and> (charged q \<longrightarrow> charged r) \<and>
     (costOk r \<longrightarrow> costOk q \<and> attemptCost q \<le> attemptCost r)"

definition withinLimits :: "attempt_row list \<Rightarrow> bool" where
  "withinLimits rows \<longleftrightarrow> (\<forall>r \<in> set rows. costOk r) \<and>
     (\<forall>xs r ys. rows = xs @ r # ys \<longrightarrow> charged r \<longrightarrow> (\<forall>b \<in> set (at_buckets r). fits xs r b))"

lemma moves_chargesLess: "attempt_moves W r q \<Longrightarrow> chargesLess r q"
  using moves_sameCharge [of W r q] moves_charged [of W r q] moves_cost [of W r q]
  by (auto simp: chargesLess_def sameCharge_def costOk_def)

lemma chargesLess_refl: "chargesLess r r"
  by (simp add: chargesLess_def)

lemma chargesLess_trans: "chargesLess r p \<Longrightarrow> chargesLess p q \<Longrightarrow> chargesLess r q"
  by (auto simp: chargesLess_def)

lemma evolves_chargesLess: "attempt_evolves W r q \<Longrightarrow> chargesLess r q"
  by (induction rule: rtranclp_induct) (auto intro: chargesLess_refl chargesLess_trans moves_chargesLess)

lemma chargedTo_less: "chargesLess r q \<Longrightarrow> chargedTo ident q = chargedTo ident r"
  by (simp add: chargesLess_def chargedTo_def)

lemma daySearches_less: "list_all2 chargesLess xs ys \<Longrightarrow> daySearches ident day ys \<le> daySearches ident day xs"
  by (induction rule: list_all2_induct) (auto simp: daySearches_def chargesLess_def chargedTo_def)

lemma monthSpend_Cons:
  "monthSpend ident month (r # rows) =
     (if charged r \<and> chargedTo ident r \<and> at_monthWindow r = month then attemptCost r else 0) + monthSpend ident month rows"
  by (simp add: monthSpend_def monthRows_def)

lemma monthSpend_less:
  "list_all2 chargesLess xs ys \<Longrightarrow> \<forall>r \<in> set xs. costOk r \<Longrightarrow> monthSpend ident month ys \<le> monthSpend ident month xs"
proof (induction rule: list_all2_induct)
  case (Cons x xs y ys)
  then have "costOk x" "chargesLess x y" "monthSpend ident month ys \<le> monthSpend ident month xs" by auto
  then show ?case
    by (auto simp: monthSpend_Cons chargedTo_less) (auto simp: chargesLess_def costOk_def soundCost_def)
qed simp

lemma monthRows_less:
  assumes "list_all2 chargesLess xs ys" "y \<in> set (monthRows ident month ys)"
  shows "\<exists>x \<in> set (monthRows ident month xs). at_billingCurrency y = at_billingCurrency x"
proof -
  from assms(2) have y: "y \<in> set ys" "charged y" "chargedTo ident y" "at_monthWindow y = month" by (auto simp: monthRows_def)
  from list_all2_right [OF assms(1) y(1)] obtain x where "x \<in> set xs" "chargesLess x y" by blast
  with y have "x \<in> set (monthRows ident month xs)" "at_billingCurrency y = at_billingCurrency x"
    by (auto simp: monthRows_def chargesLess_def chargedTo_def)
  then show ?thesis by blast
qed

lemma fits_less:
  assumes "fits xs r b" "list_all2 chargesLess xs ys" "\<forall>x \<in> set xs. costOk x" "chargesLess r q" "costOk r"
  shows "fits ys q b"
proof -
  have q: "at_dayWindow q = at_dayWindow r" "at_monthWindow q = at_monthWindow r" "at_billingCurrency q = at_billingCurrency r"
    "attemptCost q \<le> attemptCost r" using assms(4,5) by (auto simp: chargesLess_def)
  from assms(1) q daySearches_less [OF assms(2), of "bucketIdentity b" "at_dayWindow r"]
    monthSpend_less [OF assms(2,3), of "bucketIdentity b" "at_monthWindow r"]
    monthRows_less [OF assms(2), of _ "bucketIdentity b" "at_monthWindow r"]
  show ?thesis unfolding fits_def by fastforce
qed

lemma limits_less:
  assumes "withinLimits rows" "list_all2 chargesLess rows rows'"
  shows "withinLimits rows'"
  unfolding withinLimits_def
proof (intro conjI ballI allI impI)
  fix q assume "q \<in> set rows'"
  with list_all2_right [OF assms(2)] assms(1) show "costOk q" by (fastforce simp: withinLimits_def chargesLess_def)
next
  fix xs' q ys' b assume rows': "rows' = xs' @ q # ys'" and q: "charged q" "b \<in> set (at_buckets q)"
  from assms(2) obtain xs r ys where rows: "rows = xs @ r # ys" and less: "list_all2 chargesLess xs xs'" "chargesLess r q"
    unfolding rows' by (auto simp: list_all2_append2 list_all2_Cons2)
  from q less(2) have "charged r" "b \<in> set (at_buckets r)" by (auto simp: chargesLess_def)
  with assms(1) rows have "fits xs r b" "\<forall>x \<in> set xs. costOk x" "costOk r" by (auto simp: withinLimits_def)
  then show "fits xs' q b" using less by (blast intro: fits_less)
qed

lemma daySearches_filter: "daySearches ident day (filter p xs) \<le> daySearches ident day xs"
  by (induction xs) (auto simp: daySearches_def)

lemma monthSpend_filter: "\<forall>x \<in> set xs. costOk x \<Longrightarrow> monthSpend ident month (filter p xs) \<le> monthSpend ident month xs"
  by (induction xs) (auto simp: monthSpend_Cons costOk_def soundCost_def)

lemma fits_filter:
  assumes "fits xs r b" "\<forall>x \<in> set xs. costOk x"
  shows "fits (filter p xs) r b"
proof -
  have "set (monthRows ident month (filter p xs)) \<subseteq> set (monthRows ident month xs)" for ident month
    by (auto simp: monthRows_def)
  then show ?thesis
    using assms(1) daySearches_filter [of "bucketIdentity b" "at_dayWindow r" p xs]
      monthSpend_filter [OF assms(2), of "bucketIdentity b" "at_monthWindow r" p] unfolding fits_def by fastforce
qed

lemma filter_split: "filter p rows = xs' @ r # ys' \<Longrightarrow> \<exists>xs ys. rows = xs @ r # ys \<and> filter p xs = xs'"
proof (induction rows arbitrary: xs')
  case (Cons x rows)
  show ?case
  proof (cases "p x")
    case False
    with Cons obtain xs ys where "rows = xs @ r # ys" "filter p xs = xs'" by auto
    with False have "x # rows = (x # xs) @ r # ys" "filter p (x # xs) = xs'" by auto
    then show ?thesis by blast
  next
    case True
    show ?thesis
    proof (cases xs')
      case Nil
      with Cons.prems True have "x # rows = [] @ r # rows" "filter p [] = xs'" by auto
      then show ?thesis by blast
    next
      case (Cons y zs)
      with Cons.prems True Cons.IH [of zs] obtain xs ys where "rows = xs @ r # ys" "filter p xs = zs" "y = x" by auto
      with Cons True have "x # rows = (x # xs) @ r # ys" "filter p (x # xs) = xs'" by auto
      then show ?thesis by blast
    qed
  qed
qed simp

lemma limits_filter:
  assumes "withinLimits rows"
  shows "withinLimits (filter p rows)"
  unfolding withinLimits_def
proof (intro conjI ballI allI impI)
  fix q assume "q \<in> set (filter p rows)"
  with assms show "costOk q" by (simp add: withinLimits_def)
next
  fix xs' r ys' b assume split: "filter p rows = xs' @ r # ys'" and r: "charged r" "b \<in> set (at_buckets r)"
  from filter_split [OF split] obtain xs ys where rows: "rows = xs @ r # ys" "xs' = filter p xs" by auto
  with assms r have "fits xs r b" "\<forall>x \<in> set xs. costOk x" by (auto simp: withinLimits_def)
  then show "fits xs' r b" unfolding rows(2) by (rule fits_filter)
qed

lemma limits_snoc:
  assumes "withinLimits rows" "costOk r" "\<forall>b \<in> set (at_buckets r). fits rows r b"
  shows "withinLimits (rows @ [r])"
  unfolding withinLimits_def
proof (intro conjI ballI allI impI)
  fix q assume "q \<in> set (rows @ [r])"
  with assms show "costOk q" by (auto simp: withinLimits_def)
next
  fix xs q ys b assume split: "rows @ [r] = xs @ q # ys" and q: "charged q" "b \<in> set (at_buckets q)"
  show "fits xs q b"
  proof (cases ys rule: rev_cases)
    case Nil
    with split q assms(3) show ?thesis by auto
  next
    case (snoc ys' z)
    with split have "rows = xs @ q # ys'" by auto
    with assms(1) q show ?thesis by (auto simp: withinLimits_def)
  qed
qed

lemma launch_chargesLess: "at_phase r = AttemptReserved \<Longrightarrow> chargesLess r (launch now r)"
  by (auto simp: chargesLess_def launch_def charged_def costOk_def soundCost_def)

lemma updateWhere_list_all2:
  "(\<And>r. r \<in> set rows \<Longrightarrow> P r (if p r then f r else r)) \<Longrightarrow> list_all2 P rows (updateWhere p f rows)"
  by (induction rows) auto

lemma dispatch_less:
  assumes "launchable now rows r" "attemptsOk rows"
  shows "list_all2 chargesLess rows (updateWhere (\<lambda>x. at_id x = at_id r) (launch now) rows)"
proof (rule updateWhere_list_all2)
  fix x assume x: "x \<in> set rows"
  show "chargesLess x (if at_id x = at_id r then launch now x else x)"
  proof (cases "at_id x = at_id r")
    case True
    then have "x = r" using attempts_unique [OF assms(2) x] assms(1) by (simp add: launchable_def)
    with assms(1) launch_chargesLess show ?thesis by (auto simp: launchable_def)
  qed (simp add: chargesLess_refl)
qed

interpretation limits: attempt_invariant withinLimits
proof
  fix rows rows' W pruning
  assume change: "research_change W pruning rows rows'" and ok: "attemptsOk rows" and lim: "withinLimits rows"
  from change show "withinLimits rows'"
  proof (cases rule: research_change.cases)
    case rows_move
    then have "list_all2 chargesLess rows rows'" by (rule list_all2_mono) (rule evolves_chargesLess)
    with lim show ?thesis by (rule limits_less)
  next
    case (reserve r)
    then have "costOk r" by (simp add: freshAttempt_def costOk_def soundCost_def attemptCost_def)
    with reserve lim show ?thesis by (auto intro: limits_snoc)
  next
    case (dispatch now r)
    then show ?thesis using limits_less [OF lim dispatch_less [OF _ ok]] by simp
  next
    case (discard p)
    then show ?thesis using limits_filter [OF lim] by simp
  qed
qed (simp add: withinLimits_def)

text \<open>The last attempt that is charged to a bucket stands for all of them.\<close>

lemma last_charged:
  assumes "\<exists>x \<in> set rows. P x"
  shows "\<exists>xs r ys. rows = xs @ r # ys \<and> P r \<and> filter P ys = []"
  using split_list_last_prop [OF assms] by (auto simp: filter_empty_conv)

lemma day_limit:
  assumes "withinLimits rows" "0 \<le> L"
    and "\<And>r b. r \<in> set rows \<Longrightarrow> charged r \<Longrightarrow> at_dayWindow r = day \<Longrightarrow> b \<in> set (at_buckets r) \<Longrightarrow>
      bucketIdentity b = ident \<Longrightarrow> qb_maxSearchesPerDay b \<le> L"
  shows "daySearches ident day rows \<le> L"
proof (cases "\<exists>x \<in> set rows. charged x \<and> chargedTo ident x \<and> at_dayWindow x = day")
  case True
  from last_charged [OF this] obtain xs r ys where rows: "rows = xs @ r # ys"
    and r: "charged r" "chargedTo ident r" "at_dayWindow r = day"
    and ys: "filter (\<lambda>x. charged x \<and> chargedTo ident x \<and> at_dayWindow x = day) ys = []"
    by auto
  from r(2) obtain b where b: "b \<in> set (at_buckets r)" "bucketIdentity b = ident" by (auto simp: chargedTo_def list_ex_iff)
  with assms(1) rows r(1) have "fits xs r b" by (auto simp: withinLimits_def)
  with b r have "daySearches ident day xs + 1 \<le> qb_maxSearchesPerDay b" by (simp add: fits_def)
  moreover have "qb_maxSearchesPerDay b \<le> L" using assms(3) [of r b] rows r b by simp
  moreover have "daySearches ident day rows = daySearches ident day xs + 1" using rows r ys by (simp add: daySearches_def)
  ultimately show ?thesis by linarith
next
  case False
  then have "filter (\<lambda>r. charged r \<and> chargedTo ident r \<and> at_dayWindow r = day) rows = []" by (auto simp: filter_empty_conv)
  with assms(2) show ?thesis by (simp add: daySearches_def)
qed

lemma month_limit:
  assumes "withinLimits rows" "0 \<le> L"
    and "\<And>r b. r \<in> set rows \<Longrightarrow> charged r \<Longrightarrow> at_monthWindow r = month \<Longrightarrow> b \<in> set (at_buckets r) \<Longrightarrow>
      bucketIdentity b = ident \<Longrightarrow> qb_maxSpendMinorUnitsPerMonth b \<le> L"
  shows "monthSpend ident month rows \<le> L * 1000000"
proof (cases "\<exists>x \<in> set rows. charged x \<and> chargedTo ident x \<and> at_monthWindow x = month")
  case True
  from last_charged [OF this] obtain xs r ys where rows: "rows = xs @ r # ys"
    and r: "charged r" "chargedTo ident r" "at_monthWindow r = month" and ys: "monthRows ident month ys = []"
    by (auto simp: monthRows_def)
  from r(2) obtain b where b: "b \<in> set (at_buckets r)" "bucketIdentity b = ident" by (auto simp: chargedTo_def list_ex_iff)
  with assms(1) rows r(1) have "fits xs r b" by (auto simp: withinLimits_def)
  with b r have "monthSpend ident month xs + attemptCost r \<le> qb_maxSpendMinorUnitsPerMonth b * 1000000" by (simp add: fits_def)
  moreover have "qb_maxSpendMinorUnitsPerMonth b \<le> L" using assms(3) [of r b] rows r b by simp
  moreover have "monthSpend ident month rows = monthSpend ident month xs + attemptCost r"
    using rows r ys by (simp add: monthSpend_def monthRows_def)
  ultimately show ?thesis by linarith
next
  case False
  then have "monthRows ident month rows = []" by (auto simp: monthRows_def filter_empty_conv)
  with assms(2) show ?thesis by (simp add: monthSpend_def)
qed

subsection \<open>Spacing of launches\<close>

lemma before_range_text:
  assumes "t < -62167219200000" "date_range t" "iso_range u"
  shows "textLess (toISOString t) (toISOString u)"
proof -
  define n where "n = t div 86400000"
  have "n < -719528" using assms(1) by (simp add: n_def)
  then have "yearFromDay n < 0"
    using dayFromYear_mono [of 0 "yearFromDay n"] yearFromDay_bounds [of n]
    by (cases "0 \<le> yearFromDay n") (auto simp: dayFromYear_def)
  then obtain x where t: "toISOString t = CHR ''-'' # x"
    using assms(2) unfolding toISOString_def n_def Let_def by (auto simp: yearText_def)
  have "digits 4 (toISOString u) \<noteq> None"
    using date_parse_toISOString [OF assms(3)] by (cases "digits 4 (toISOString u)") (simp_all add: date_parse_def)
  then obtain c y where "toISOString u = c # y" "is_digit c"
    by (cases "toISOString u") (auto simp: digits_def split: if_splits)
  with t show ?thesis by (simp add: is_digit_def code_def)
qed

lemma printed_gap:
  assumes "iso_range t" "iso_range u" "\<not> textLess (toISOString (t - 1000)) (toISOString u)"
  shows "u + 1000 \<le> t"
proof (cases "iso_range (t - 1000)")
  case True
  with assms textLess_toISOString show ?thesis by (metis add.commute diff_add_cancel not_less add_le_cancel_left)
next
  case False
  with assms(1) have "t - 1000 < -62167219200000" "date_range (t - 1000)" by (auto simp: iso_range_def date_range_def)
  with before_range_text assms(2,3) show ?thesis by blast
qed

definition launchRecorded :: "attempt_row \<Rightarrow> bool" where
  "launchRecorded r \<longleftrightarrow> length (filter (\<lambda>b. qb_kind b = BucketCredential) (at_buckets r)) = 1 \<and>
     (\<forall>d. at_dispatchedAt r = Some d \<longrightarrow> at_phase r \<noteq> AttemptReserved \<and> (\<exists>t. iso_range t \<and> d = toISOString t))"

definition spacedFrom :: "attempt_row \<Rightarrow> attempt_row \<Rightarrow> bool" where
  "spacedFrom r q \<longleftrightarrow> (\<forall>c d e. at_id r \<noteq> at_id q \<longrightarrow> chargedTo (BucketCredential, c) r \<longrightarrow> chargedTo (BucketCredential, c) q \<longrightarrow>
     at_dispatchedAt r = Some d \<longrightarrow> at_dispatchedAt q = Some e \<longrightarrow> 1000 \<le> \<bar>instant d - instant e\<bar>)"

definition launchesSpaced :: "attempt_row list \<Rightarrow> bool" where
  "launchesSpaced rows \<longleftrightarrow> (\<forall>r \<in> set rows. launchRecorded r \<and> (\<forall>q \<in> set rows. spacedFrom r q))"

lemma spacedFrom_same:
  "spacedFrom r q \<Longrightarrow> sameCharge r r' \<Longrightarrow> sameCharge q q' \<Longrightarrow> spacedFrom r' q'"
  by (simp add: spacedFrom_def sameCharge_def chargedTo_def)

lemma spacedFrom_sym: "spacedFrom r q \<Longrightarrow> spacedFrom q r"
  unfolding spacedFrom_def by (metis abs_minus_commute)

lemma instant_printed: "iso_range t \<Longrightarrow> instant (toISOString t) = t"
  by (simp add: instant_def date_parse_toISOString)

lemma only_credential:
  assumes "length (filter (\<lambda>b. qb_kind b = BucketCredential) bs) = 1" "b \<in> set bs" "qb_kind b = BucketCredential"
  shows "find (\<lambda>b. qb_kind b = BucketCredential) bs = Some b"
proof -
  from assms(1) obtain a where a: "filter (\<lambda>b. qb_kind b = BucketCredential) bs = [a]" by (auto simp: length_Suc_conv)
  have "find (\<lambda>b. qb_kind b = BucketCredential) bs = Some a"
  proof (rule find_eq_SomeI)
    fix y assume "y \<in> set bs" "qb_kind y = BucketCredential"
    then have "y \<in> set (filter (\<lambda>b. qb_kind b = BucketCredential) bs)" by simp
    then show "y = a" unfolding a by simp
  qed (use a in \<open>auto simp: filter_eq_Cons_iff\<close>)
  moreover have "b \<in> set (filter (\<lambda>b. qb_kind b = BucketCredential) bs)" using assms(2,3) by simp
  ultimately show ?thesis unfolding a by simp
qed

lemma launch_spaced:
  assumes r: "launchable now rows r" "launchRecorded r" and q: "q \<in> set rows" "launchRecorded q"
  shows "spacedFrom (launch now r) q"
  unfolding spacedFrom_def
proof (intro allI impI)
  fix c d e
  assume same: "chargedTo (BucketCredential, c) (launch now r)" "chargedTo (BucketCredential, c) q"
    and d: "at_dispatchedAt (launch now r) = Some d" and e: "at_dispatchedAt q = Some e"
  have now: "timestampText now" "iso_range (instant now)" using r(1) timestamp_instant(2) by (auto simp: launchable_def)
  from e q(2) obtain u where u: "iso_range u" "e = toISOString u" by (auto simp: launchRecorded_def)
  from same(1) obtain b where b: "b \<in> set (at_buckets r)" "bucketIdentity b = (BucketCredential, c)"
    by (auto simp: chargedTo_def launch_def list_ex_iff)
  then have "find (\<lambda>b. qb_kind b = BucketCredential) (at_buckets r) = Some b"
    using r(2) by (intro only_credential) (auto simp: launchRecorded_def bucketIdentity_def)
  with r(1) q(1) same(2) e b(2) have "\<not> textLess (toISOString (instant now - 1000)) e"
    by (auto simp: launchable_def)
  with printed_gap [OF now(2) u(1)] u(2) have "u + 1000 \<le> instant now" by simp
  then show "1000 \<le> \<bar>instant d - instant e\<bar>" using d u now instant_printed by (auto simp: launch_def)
qed

lemma spaced_move:
  assumes "list_all2 (attempt_evolves W) rows rows'" "launchesSpaced rows"
  shows "launchesSpaced rows'"
  unfolding launchesSpaced_def
proof (intro ballI conjI)
  fix r' q' assume "r' \<in> set rows'" "q' \<in> set rows'"
  with list_all2_right [OF assms(1)] obtain r q where r: "r \<in> set rows" "attempt_evolves W r r'"
    and q: "q \<in> set rows" "attempt_evolves W q q'" by blast
  show "launchRecorded r'"
    using assms(2) r evolves_sameCharge [OF r(2)] evolves_reserved [OF r(2)]
    by (auto simp: launchesSpaced_def launchRecorded_def sameCharge_def)
  show "spacedFrom r' q'"
    using assms(2) r(1) q(1) spacedFrom_same [OF _ evolves_sameCharge [OF r(2)] evolves_sameCharge [OF q(2)]]
    by (auto simp: launchesSpaced_def)
qed

lemma spaced_dispatch:
  assumes r: "launchable now rows r" and ok: "attemptsOk rows" and sp: "launchesSpaced rows"
  shows "launchesSpaced (updateWhere (\<lambda>x. at_id x = at_id r) (launch now) rows)"
proof -
  let ?rows = "updateWhere (\<lambda>x. at_id x = at_id r) (launch now) rows"
  have mem: "x = launch now r \<or> x \<in> set rows" if "x \<in> set ?rows" for x
    using that attempts_unique [OF ok] r by (auto simp: set_updateWhere launchable_def)
  have rec: "launchRecorded x" if "x \<in> set rows" for x using sp that by (simp add: launchesSpaced_def)
  have "r \<in> set rows" using r by (simp add: launchable_def)
  then have new: "launchRecorded (launch now r)"
    using rec r timestamp_instant(2) by (auto simp: launchRecorded_def launch_def launchable_def)
  have "spacedFrom x y" if "x \<in> set ?rows" "y \<in> set ?rows" for x y
  proof -
    have far: "spacedFrom (launch now r) z" if "z \<in> set rows" for z
      using launch_spaced [OF r rec that rec] \<open>r \<in> set rows\<close> that by blast
    have "spacedFrom (launch now r) (launch now r)" by (simp add: spacedFrom_def)
    with mem [OF that(1)] mem [OF that(2)] far sp spacedFrom_sym show ?thesis by (auto simp: launchesSpaced_def)
  qed
  moreover have "launchRecorded x" if "x \<in> set ?rows" for x using mem [OF that] new rec by blast
  ultimately show ?thesis by (simp add: launchesSpaced_def)
qed

interpretation spacing: attempt_invariant launchesSpaced
proof
  fix rows rows' W pruning
  assume change: "research_change W pruning rows rows'" and ok: "attemptsOk rows" and sp: "launchesSpaced rows"
  from change show "launchesSpaced rows'"
  proof (cases rule: research_change.cases)
    case rows_move
    then show ?thesis using sp by (rule spaced_move)
  next
    case (reserve r)
    then have "launchRecorded r" "at_dispatchedAt r = None" by (auto simp: freshAttempt_def launchRecorded_def)
    with reserve(1) sp show ?thesis by (auto simp: launchesSpaced_def spacedFrom_def)
  next
    case (dispatch now r)
    then show ?thesis using spaced_dispatch [OF _ ok sp] by simp
  next
    case (discard p)
    then show ?thesis using sp by (auto simp: launchesSpaced_def)
  qed
qed (simp add: launchesSpaced_def)

subsection \<open>The fate of an attempt\<close>

text \<open>
  What is kept of an attempt that satisfies \<open>P\<close>, as long as workers settle only the attempts in \<open>W\<close>
  and rows are pruned only if \<open>pruning\<close>: after any changes there is still a row in the relation \<open>K\<close> to it.
\<close>

locale attempt_fate =
  fixes P :: "attempt_row \<Rightarrow> bool" and K :: "attempt_row \<Rightarrow> attempt_row \<Rightarrow> bool"
    and W :: "attempt_row \<Rightarrow> bool" and pruning :: bool
  assumes refl: "K r r"
    and trans: "K r p \<Longrightarrow> K p q \<Longrightarrow> K r q"
    and moves: "P r \<Longrightarrow> attempt_moves W r q \<Longrightarrow> P q \<and> K r q"
    and launched: "P r \<Longrightarrow> at_phase r \<noteq> AttemptReserved"
    and pruned: "P r \<Longrightarrow> pruning \<Longrightarrow> \<not> finished r"
begin

lemma evolves: "attempt_evolves W r q \<Longrightarrow> P r \<Longrightarrow> P q \<and> K r q"
  by (induction rule: rtranclp_induct) (blast intro: refl trans dest: moves)+

lemma change:
  assumes "research_change W pruning rows rows'" "attemptsOk rows" "r \<in> set rows" "P r"
  shows "\<exists>q \<in> set rows'. P q \<and> K r q"
  using assms(1)
proof (cases rule: research_change.cases)
  case rows_move
  then obtain q where "q \<in> set rows'" "attempt_evolves W r q" using assms(3)
    by (metis in_set_conv_nth list_all2_conv_all_nth)
  with evolves assms(4) show ?thesis by blast
next
  case (reserve new)
  with assms(3,4) refl show ?thesis by auto
next
  case (dispatch now x)
  then have "at_id r \<noteq> at_id x"
    using attempts_unique [OF assms(2,3)] launched [OF assms(4)] by (auto simp: launchable_def)
  then have "r \<in> set rows'" using assms(3) dispatch(1) by (simp add: set_updateWhere)
  with assms(4) refl show ?thesis by blast
next
  case (discard p)
  then have "r \<in> set rows'" using pruned [OF assms(4)] assms(3) by auto
  with assms(4) refl show ?thesis by blast
qed

lemma changes:
  assumes "research_changes W pruning rows rows'" "attemptsOk rows" "r \<in> set rows" "P r"
  shows "\<exists>q \<in> set rows'. P q \<and> K r q"
  using assms
proof (induction rule: rtranclp_induct)
  case (step y z)
  then obtain p where p: "p \<in> set y" "P p" "K r p" by blast
  have "attemptsOk y" using ok_changes [OF step.hyps(1)] step.prems(1) .
  from change [OF step.hyps(2) this p(1,2)] trans p(3) show ?case by blast
qed (use refl in blast)

end

definition sent :: "attempt_row \<Rightarrow> bool" where
  "sent r \<longleftrightarrow> at_phase r \<in> {AttemptDispatched, AttemptUncertain}"

definition sameCost :: "attempt_row \<Rightarrow> attempt_row \<Rightarrow> bool" where
  "sameCost r q \<longleftrightarrow> sameCharge r q \<and> at_settled q = at_settled r"


lemma sent_moves:
  assumes "attempt_moves W r q" "sent r" "\<not> W r"
  shows "sent q \<and> sameCost r q"
  using assms(1)
proof (cases rule: attempt_moves.cases)
qed (use assms in \<open>auto simp: sent_def sameCost_def sameCharge_def row_defs\<close>)

interpretation unsettled: attempt_fate "\<lambda>r. at_id r = i \<and> sent r" sameCost "\<lambda>r. at_id r \<noteq> i" pruning for i pruning
proof
  fix r q assume "at_id r = i \<and> sent r" "attempt_moves (\<lambda>r. at_id r \<noteq> i) r q"
  with sent_moves [of "\<lambda>r. at_id r \<noteq> i" r q] show "(at_id q = i \<and> sent q) \<and> sameCost r q"
    by (auto simp: sameCost_def sameCharge_def)
qed (auto simp: sent_def finished_def sameCost_def sameCharge_def)


subsection \<open>Properties\<close>


text \<open>
  C19. In every reachable state the attempts that count in the ledger respect the quotas of every bucket
  they are charged to: if no such attempt of a day was reserved under a limit above \<open>L\<close>, there are at most
  \<open>L\<close> of them, and if none of a month was reserved under a spending limit above \<open>M\<close> minor units, they
  cost at most \<open>M\<close> million atoms, settled costs at their exact amount and unsettled ones as reserved.
\<close>

theorem research_within_quota:
  assumes "rows = md_attempts (runMerchant env events emptyMerchant)" "0 \<le> L" "0 \<le> M"
    and "\<forall>r \<in> set rows. \<forall>b \<in> set (at_buckets r). charged r \<longrightarrow> bucketIdentity b = ident \<longrightarrow>
      (at_dayWindow r = day \<longrightarrow> qb_maxSearchesPerDay b \<le> L) \<and> (at_monthWindow r = month \<longrightarrow> qb_maxSpendMinorUnitsPerMonth b \<le> M)"
  shows "daySearches ident day rows \<le> L \<and> monthSpend ident month rows \<le> M * 1000000"
proof -
  have "withinLimits rows" unfolding assms(1) by (rule limits.reachable)
  then show ?thesis using assms(2-4) day_limit [of rows L day ident] month_limit [of rows M month ident] by blast
qed

theorem research_within_quota_witness:
  "daySearches (BucketCredential, ''key'') ''2026-01-05''
     (md_attempts (runMerchant sampleMerchantEnv sampleEvents emptyMerchant)) \<le> 3 \<and>
   monthSpend (BucketCredential, ''key'') ''2026-01''
     (md_attempts (runMerchant sampleMerchantEnv sampleEvents emptyMerchant)) \<le> 4 * 1000000"
proof -
  have "at_buckets r = at_buckets sampleAttempt" if "r \<in> set (md_attempts (runMerchant sampleMerchantEnv sampleEvents emptyMerchant))" for r
    using arg_cong [OF sample_run, of set] that by auto
  then show ?thesis
    by (intro research_within_quota [OF HOL.refl]) (auto simp: sampleAttempt_def sampleBucket_def)
qed

text \<open>
  C20. In every reachable state any two attempts charged to the same provider credential were launched
  at least one second apart, whatever the clock of the callers did.
\<close>

theorem research_launches_spaced:
  "launchesSpaced (md_attempts (runMerchant env events emptyMerchant))"
  by (rule spacing.reachable)

fun settlesAttempt :: "string \<Rightarrow> merchant_event \<Rightarrow> bool" where
  "settlesAttempt i (EvSettle input j token outcome) \<longleftrightarrow> i = j"
| "settlesAttempt i (EvRelease input) \<longleftrightarrow> i = ao_id input"
| "settlesAttempt i _ \<longleftrightarrow> False"

lemma settles_names: "settles ev r \<Longrightarrow> settlesAttempt (at_id r) ev"
  by (cases ev) auto

text \<open>
  C21. A launched attempt that nobody settled keeps its charge: as long as no event settles or releases
  it by its identity, it is still in the table, launched and at the same cost, whatever purging,
  pruning, policy changes and restores happen.
\<close>

theorem sent_charge_kept:
  assumes ok: "attemptsOk (md_attempts s)" and r: "r \<in> set (md_attempts s)" "sent r"
    and later: "\<forall>ev \<in> set events. \<not> settlesAttempt (at_id r) ev"
  shows "\<exists>q \<in> set (md_attempts (runMerchant env events s)). sent q \<and> sameCharge r q \<and> attemptCost q = attemptCost r"
proof -
  have other: "at_id q \<noteq> at_id r" if "settledBy events q" for q
  proof -
    from that obtain ev where "ev \<in> set events" "settles ev q" by (auto simp: settledBy_def list_ex_iff)
    with later settles_names [of ev q] show ?thesis by auto
  qed
  have "research_changes (\<lambda>q. at_id q \<noteq> at_id r) (list_ex prunes events) (md_attempts s) (md_attempts (runMerchant env events s))"
    by (rule changes_mono [OF conjunct1 [OF run_refines [OF ok]]]) (auto dest: other)
  from unsettled.changes [OF this ok r(1)] r(2)
  obtain q where "q \<in> set (md_attempts (runMerchant env events s))" "sent q" "sameCost r q" by auto
  moreover from this(3) have "sameCharge r q" "attemptCost q = attemptCost r"
    by (simp_all add: sameCost_def sameCharge_def attemptCost_def cong: option.case_cong)
  ultimately show ?thesis by blast
qed

definition sampleSent :: attempt_row where
  "sampleSent = launch ''2026-01-05T10:00:05Z'' sampleAttempt"

definition sampleSettled :: attempt_row where
  "sampleSettled = sampleAttempt\<lparr>at_id := ''a2'', at_phase := AttemptSucceeded, at_settled := Some ''500000'',
     at_outcome := Some (OutcomeSucceeded ''500000'')\<rparr>"

definition sampleSpent :: merchant_db where
  "sampleSpent = sampleMerchant\<lparr>md_attempts := [sampleSent, sampleSettled]\<rparr>"

lemma sampleSpent_ok: "attemptsOk (md_attempts sampleSpent)"
  by (auto simp: attemptsOk_def sampleSpent_def sampleSent_def sampleSettled_def launch_def sampleAttempt_def merchantLease_def)

theorem sent_charge_kept_witness:
  "\<exists>q \<in> set (md_attempts (runMerchant sampleMerchantEnv
      [EvPurge (sampleAccess ''2026-01-05T10:00:06Z'' 1), EvPrune ''2027-01-05T10:00:00Z'', EvRestore ''2027-01-05T10:00:00Z''] sampleSpent)).
     sent q \<and> sameCharge sampleSent q \<and> attemptCost q = attemptCost sampleSent"
  by (rule sent_charge_kept [OF sampleSpent_ok])
    (simp_all add: sampleSpent_def sent_def sampleSent_def launch_def)



lemma running_launch:
  assumes ok: "attemptsOk (md_attempts s)"
  shows "length (filter P (running now (updateAttempts (\<lambda>q. at_id q = i) f s))) \<le> Suc (length (filter P (running now s)))"
proof -
  let ?live = "\<lambda>r. textLess (toISOString (instant now)) (at_leaseExpiresAt r) \<and>
    (at_phase r = AttemptDispatched \<or> at_phase r = AttemptUncertain \<and> at_outcome r = None)"
  have "length (filter P (filter ?live (updateWhere (\<lambda>q. at_id q = i) f rows))) \<le> Suc (length (filter P (filter ?live rows)))"
    if "distinct (map at_id rows)" for rows
    using that
  proof (induction rows)
    case (Cons r rows)
    show ?case
    proof (cases "at_id r = i")
      case True
      with Cons.prems have "at_id q \<noteq> i" if "q \<in> set rows" for q using that by (auto simp: rev_image_eqI)
      then have "updateWhere (\<lambda>q. at_id q = i) f rows = rows" by (intro updateWhere_none)
      with True show ?thesis by simp
    next
      case False
      with Cons show ?thesis by simp
    qed
  qed simp
  with ok show ?thesis by (simp add: running_def attemptsOk_def)
qed

text \<open>
  C23. \<open>dispatchAttempt\<close> sends only what it may: the caller is admitted to the attempt, holds its claim on
  a lease that still runs, in the windows it was reserved for, and the current policy of the scope is
  the one it was reserved under and allows external research; afterwards at most two attempts run for
  the installation and for the credential.
\<close>

theorem dispatch_sound:
  assumes ok: "attemptsOk (md_attempts s)" and d: "dispatchAttempt input i token s = (Inr True, t)"
  shows "\<exists>r. attemptRow s (ma_scope input) i = Some r \<and> admittedAttempt input r s \<and> at_phase r = AttemptReserved \<and>
    at_claimToken r = Some token \<and> active (at_leaseExpiresAt r) (ma_now input) \<and>
    at_dayWindow r = take 10 (ma_now input) \<and> external s (ma_scope input) (at_policyVersion r) None = Inr True \<and>
    list_all (\<lambda>b. qb_kind b \<in> {BucketInstallation, BucketCredential} \<longrightarrow>
      length (filter (chargedTo (bucketIdentity b)) (running (ma_now input) t)) \<le> 2) (at_buckets r)"
  using d
proof (cases rule: dispatch_cases)
  case (launched r)
  have "external s sc v k = external (reconcile now s) sc v k" for sc v k now
    by (simp add: external_def policyValue_def)
  moreover have "length (filter (chargedTo (bucketIdentity b)) (running (ma_now input) t)) \<le> 2"
    if "b \<in> set (at_buckets r)" "qb_kind b \<in> {BucketInstallation, BucketCredential}" for b
  proof -
    have "length (filter (chargedTo (bucketIdentity b)) (running (ma_now input) (reconcile (ma_now input) s))) \<le> 1"
      using that launched(11) by blast
    then show ?thesis
      using running_launch [OF reconcile_ok [OF ok, of "ma_now input"], of "chargedTo (bucketIdentity b)" "ma_now input" i "launch (ma_now input)"]
      unfolding launched(13) by linarith
  qed
  ultimately show ?thesis using launched by (auto simp: list_all_iff)
qed simp_all

lemma sampleMerchant_ok: "attemptsOk (md_attempts sampleMerchant)"
  by (auto simp: attemptsOk_def sampleMerchant_def sampleAttempt_def merchantLease_def)

theorem dispatch_sound_witness:
  "\<exists>r. attemptRow sampleMerchant sampleScope ''a1'' = Some r \<and> at_phase r = AttemptReserved \<and> at_claimToken r = Some ''t1'' \<and>
     external sampleMerchant sampleScope (at_policyVersion r) None = Inr True"
proof -
  let ?v = "sampleView ''2026-01-05T10:00:05Z'' 1"
  obtain t where "dispatchAttempt ?v ''a1'' ''t1'' sampleMerchant = (Inr True, t)"
    using sample_dispatch by (cases "dispatchAttempt ?v ''a1'' ''t1'' sampleMerchant") (auto simp: map_sum_def split: sum.splits)
  from dispatch_sound [OF sampleMerchant_ok this] show ?thesis by (auto simp: sampleView_def)
qed

text \<open>
  C24. Withdrawn consent holds: once \<open>setPolicy\<close> has stored a policy for a scope that does not allow
  external research, then until another policy is set for the scope nothing is reserved, claimed or
  sent in it, whatever else happens, a restore included.
\<close>

theorem consent_withdrawn:
  assumes "setMerchantPolicy env input val v s = (Inr (Some p), t)" "mp_mode val \<noteq> MerchantExternalAllowed"
    and "\<forall>ev \<in> set events. \<not> setsPolicy (scopeKey (ma_scope input)) ev"
    and "u = runMerchant env events t" "ma_scope view = ma_scope input"
  shows "fst (reserveAttempt env uuid view r u) \<noteq> Inr (Admitted a) \<and> fst (claimAttempt token view i u) \<noteq> Inr (Some b) \<and>
    fst (dispatchAttempt view i token u) \<noteq> Inr True"
proof -
  have "noExternal (scopeKey (ma_scope input)) t"
    using setMerchantPolicy_cases [OF assms(1)] assms(2)
    by (auto simp: noExternal_def map_of_upsert)
  then have "noExternal (scopeKey (ma_scope view)) u"
    using run_noExternal assms(3-5) by simp
  then show ?thesis using closed_reserve closed_claim closed_dispatch by blast
qed

theorem consent_withdrawn_witness:
  "fst (dispatchAttempt (sampleView ''2026-01-05T10:00:06Z'' 2) ''a1'' ''t1''
     (runMerchant sampleMerchantEnv [EvPrune ''2026-01-05T10:00:06Z'']
       (snd (setMerchantPolicy sampleMerchantEnv (sampleAccess ''2026-01-05T10:00:05Z'' 1) (samplePolicyValue MerchantLocalOnly) 1
         sampleMerchant)))) \<noteq> Inr True"
proof -
  let ?input = "sampleAccess ''2026-01-05T10:00:05Z'' 1" and ?events = "[EvPrune ''2026-01-05T10:00:06Z'']"
  let ?view = "sampleView ''2026-01-05T10:00:06Z'' 2"
  let ?set = "setMerchantPolicy sampleMerchantEnv ?input (samplePolicyValue MerchantLocalOnly) 1 sampleMerchant"
  obtain p where "?set = (Inr (Some p), snd ?set)"
    using sample_withdrawal by (cases ?set) (auto simp: map_sum_def split: sum.splits)
  moreover have "mp_mode (samplePolicyValue MerchantLocalOnly) \<noteq> MerchantExternalAllowed" "ma_scope ?view = ma_scope ?input"
    "\<forall>ev \<in> set ?events. \<not> setsPolicy (scopeKey (ma_scope ?input)) ev"
    by (simp_all add: samplePolicyValue_def sampleView_def sampleAccess_def)
  ultimately show ?thesis
    using consent_withdrawn [where input = ?input and events = ?events and view = ?view and t = "snd ?set"] by blast
qed

text \<open>
  C25. A restored copy is quarantined: after \<open>reconcileMerchantRestore\<close> no policy allows external research,
  and in every scope nothing is reserved, claimed or sent until the restore has been acknowledged for
  that scope, whatever else happens.
\<close>

theorem restored_copy_quarantined:
  assumes "reconcileMerchantRestore env now s = (Inr (), t)"
    and "\<forall>ev \<in> set events. \<not> acknowledges (scopeKey (ma_scope view)) ev"
    and "u = runMerchant env events t"
  shows "noExternal key t \<and> fst (reserveAttempt env uuid view r u) \<noteq> Inr (Admitted a) \<and>
    fst (claimAttempt token view i u) \<noteq> Inr (Some b) \<and> fst (dispatchAttempt view i token u) \<noteq> Inr True"
proof -
  have "pending (ma_scope view) t" using restore_pending [OF assms(1)] by blast
  then have "pending (ma_scope view) u" using run_pending assms(2,3) by blast
  then show ?thesis
    using pending_reserve [of view u env uuid r] pending_claim [of view u] restore_policies [OF assms(1), of key]
    by auto
qed

theorem restored_copy_quarantined_witness:
  "fst (dispatchAttempt (sampleView ''2026-01-05T10:00:06Z'' 2) ''a1'' ''t1''
     (runMerchant sampleMerchantEnv [EvPrune ''2026-01-05T10:00:06Z'']
       (snd (reconcileMerchantRestore sampleMerchantEnv ''2026-01-05T10:00:05Z'' sampleMerchant)))) \<noteq> Inr True"
proof -
  let ?view = "sampleView ''2026-01-05T10:00:06Z'' 2" and ?events = "[EvPrune ''2026-01-05T10:00:06Z'']"
  let ?restore = "reconcileMerchantRestore sampleMerchantEnv ''2026-01-05T10:00:05Z'' sampleMerchant"
  have "?restore = (Inr (), snd ?restore)"
    using sample_restore by (cases ?restore) (auto simp: map_sum_def split: sum.splits)
  moreover have "\<forall>ev \<in> set ?events. \<not> acknowledges (scopeKey (ma_scope ?view)) ev" by simp
  ultimately show ?thesis
    using restored_copy_quarantined [where view = ?view and events = ?events and t = "snd ?restore"] by blast
qed

end
