(* ===== verification/Redact_Props.thy ===== *)
theory Redact_Props
  imports Research_Sample
begin

text \<open>
  What the redaction of derived copies achieves. Without a selection, as a restored copy is treated,
  no merchant entry is left at any depth of any column, although only rows whose text mentions the
  word are read and only columns whose canonical text changes are written. And whatever is selected,
  content without merchant entries is left as it is.
\<close>

subsection \<open>Values without merchant entries\<close>

text \<open>An entry whose value is \<open>undefined\<close> is not part of the stored text.\<close>

fun merchantFree :: "jsval \<Rightarrow> bool" where
  "merchantFree (Arr xs) \<longleftrightarrow> (\<forall>x \<in> set xs. merchantFree x)"
| "merchantFree (Obj fs) \<longleftrightarrow> (\<forall>(k, x) \<in> set fs. x \<noteq> Undefined \<longrightarrow> \<not> merchantKey k \<and> merchantFree x)"
| "merchantFree v \<longleftrightarrow> True"

subsection \<open>The redaction of an object as a filter\<close>

definition droppedEntry ::
    "redact_options \<Rightarrow> merchant_derivation option \<Rightarrow> bool \<Rightarrow> merchant_scope option \<Rightarrow> bool \<Rightarrow> bool \<Rightarrow> string \<times> jsval \<Rightarrow> bool" where
  "droppedEntry opts marker derived scope selected revision e \<longleftrightarrow> selected \<and>
     ((derived \<or> merchantKey (fst e)) \<and> \<not> snd (redact opts marker (derived \<or> merchantKey (fst e)) False scope (snd e)) \<or>
      revision \<and> fst e = ''sourceRevision'')"

lemma redactEntries_eq:
  "redactEntries opts marker derived scope selected revision fs =
     (let kept = filter (\<lambda>e. \<not> droppedEntry opts marker derived scope selected revision e) fs;
          child = (\<lambda>(k, x). redact opts marker (derived \<or> merchantKey k) False scope x)
      in (map (\<lambda>e. (fst e, fst (child e))) kept, list_ex (\<lambda>e. snd (child e)) kept))"
  by (induction fs) (auto simp: droppedEntry_def Let_def case_prod_unfold)

lemma redactList_eq_map:
  "redactList opts marker derived scope xs = map (redact opts marker derived False scope) xs"
  by (induction xs) auto

lemmas redact_eqs = redactEntries_eq redactList_eq_map Let_def case_prod_unfold

subsection \<open>Redaction of everything\<close>

lemma selectedBy_everything [simp]: "selectedBy everything marker scope"
  by (simp add: selectedBy_def everything_def wants_def)

text \<open>With everything selected nothing has to stay, and what is not derived never becomes \<open>undefined\<close>.\<close>

lemma redact_everything_retained [simp]: "\<not> snd (redact everything inherited derived target scope v)"
proof (induction v arbitrary: inherited derived target scope)
  case (Arr xs)
  then show ?case by (auto simp: redact_eqs list_ex_iff)
next
  case (Obj fs)
  then have "\<And>k x m d t sc. (k, x) \<in> set fs \<Longrightarrow> \<not> snd (redact everything m d t sc x)"
    by (auto intro: snds.intros)
  then show ?case by (auto simp: redact_eqs list_ex_iff)
qed auto

text \<open>So the redaction of an object drops its merchant entries, with the source revision beside them.\<close>

definition merchantEntry :: "bool \<Rightarrow> string \<times> jsval \<Rightarrow> bool" where
  "merchantEntry revision e \<longleftrightarrow> merchantKey (fst e) \<or> revision \<and> fst e = ''sourceRevision''"

lemma redact_everything_Arr:
  "fst (redact everything inherited False target scope (Arr xs)) =
    Arr (filter (\<lambda>v. v \<noteq> Undefined) (map (\<lambda>x. fst (redact everything inherited False False scope x)) xs))"
  by (simp add: redact_eqs comp_def)

lemma redact_everything_Obj:
  obtains m sc r where "fst (redact everything inherited False target scope (Obj fs)) =
    Obj (map (\<lambda>e. (fst e, fst (redact everything m False False sc (snd e)))) (filter (\<lambda>e. \<not> merchantEntry r e) fs))"
proof
  let ?m = "markerOf inherited fs" and ?r = "target \<or> list_ex (\<lambda>(k, _). merchantKey k) fs"
  show "fst (redact everything inherited False target scope (Obj fs)) =
    Obj (map (\<lambda>e. (fst e, fst (redact everything ?m False False (scopeOf ?m scope fs) (snd e)))) (filter (\<lambda>e. \<not> merchantEntry ?r e) fs))"
    by (auto simp: redact_eqs droppedEntry_def merchantEntry_def intro!: map_cong filter_cong)
qed

lemma redact_everything_free: "merchantFree (fst (redact everything inherited False target scope v))"
proof (induction v arbitrary: inherited target scope)
  case (Arr xs)
  then show ?case by (auto simp: redact_eqs)
next
  case (Obj fs)
  obtain m sc r where eq: "fst (redact everything inherited False target scope (Obj fs)) =
    Obj (map (\<lambda>e. (fst e, fst (redact everything m False False sc (snd e)))) (filter (\<lambda>e. \<not> merchantEntry r e) fs))"
    by (rule redact_everything_Obj)
  show ?case unfolding eq by (auto simp: merchantEntry_def intro: Obj snds.intros)
qed auto

lemma redact_everything_Undefined [simp]:
  "fst (redact everything inherited False target scope v) = Undefined \<longleftrightarrow> v = Undefined"
  by (cases v) (auto simp: redact_eqs)

subsection \<open>The comparison of canonical texts\<close>

text \<open>
  The comparison only sees a change if the texts differ: what a redaction drops makes the text shorter.
  The length does not depend on the order of the entries.
\<close>

lemma length_joinTexts: "length (joinTexts xs) = sum_list (map (\<lambda>x. Suc (length x)) xs) - 1"
  by (induction xs rule: joinTexts.induct) auto

lemma sum_list_insertBy: "sum_list (map f (insertBy lt x ys)) = (f x + sum_list (map f ys) :: nat)"
  by (induction ys) auto

lemma sum_list_sortBy: "sum_list (map f (sortBy lt xs)) = (sum_list (map f xs) :: nat)"
  by (induction xs) (simp_all add: sortBy_def sum_list_insertBy)

definition entryLength :: "(string \<Rightarrow> string \<Rightarrow> bool) \<Rightarrow> string \<times> jsval \<Rightarrow> nat" where
  "entryLength lt e = length (jsonString (fst e)) + length (canonical lt (snd e)) + 2"

lemma canonicals_eq_map: "canonicals lt xs = map (canonical lt) xs"
  by (induction xs) auto

lemma canonicalEntries_eq_map: "canonicalEntries lt fs = map (\<lambda>e. (fst e, canonical lt (snd e))) fs"
  by (induction fs) auto

lemma length_canonical_Arr: "length (canonical lt (Arr xs)) = sum_list (map (\<lambda>x. Suc (length (canonical lt x))) xs) - 1 + 2"
  by (simp add: canonicals_eq_map length_joinTexts comp_def)

lemma length_canonical_Obj: "length (canonical lt (Obj fs)) = sum_list (map (entryLength lt) fs) - 1 + 2"
proof -
  have "length (canonical lt (Obj fs)) =
      sum_list (map (\<lambda>(k, t). Suc (length (jsonString k @ '':'' @ t))) (sortBy (\<lambda>a b. lt (fst a) (fst b)) (canonicalEntries lt fs))) - 1 + 2"
    by (simp add: length_joinTexts comp_def case_prod_unfold)
  also have "\<dots> = sum_list (map (entryLength lt) fs) - 1 + 2"
    by (simp only: sum_list_sortBy canonicalEntries_eq_map) (simp add: entryLength_def [abs_def] comp_def)
  finally show ?thesis .
qed

lemma sum_shrinks:
  fixes w :: "'a \<Rightarrow> nat"
  assumes "\<And>x. x \<in> set xs \<Longrightarrow> keep x \<Longrightarrow> w (h x) < w x \<or> h x = x"
    and "\<And>x. x \<in> set xs \<Longrightarrow> \<not> keep x \<Longrightarrow> 2 \<le> w x" and pos: "\<And>x. 0 < w x"
  shows "map h (filter keep xs) = xs \<or>
    sum_list (map w (map h (filter keep xs))) - 1 < sum_list (map w xs) - 1"
proof -
  let ?A = "\<lambda>xs. sum_list (map w (map h (filter keep xs)))" and ?B = "\<lambda>xs. sum_list (map w xs)"
  have "map h (filter keep xs) = xs \<or> ?A xs < ?B xs \<and> (?A xs = 0 \<longrightarrow> 2 \<le> ?B xs)"
    using assms(1,2)
  proof (induction xs)
    case (Cons x xs)
    have IH: "map h (filter keep xs) = xs \<or> ?A xs < ?B xs \<and> (?A xs = 0 \<longrightarrow> 2 \<le> ?B xs)"
      by (rule Cons.IH) (use Cons.prems in auto)
    then have le: "?A xs \<le> ?B xs" by (elim disjE conjE) (simp_all only: order_refl less_imp_le)
    show ?case
    proof (cases "keep x")
      case True
      then have "w (h x) < w x \<or> h x = x" using Cons.prems(1) by simp
      then show ?thesis using IH le pos [of "h x"] True by auto
    next
      case False
      then have "2 \<le> w x" using Cons.prems(2) by simp
      then show ?thesis using le False by simp
    qed
  qed simp
  then show ?thesis by (elim disjE conjE) (simp only: simp_thms, linarith)
qed

lemma redact_everything_shorter:
  "length (canonical lt (fst (redact everything inherited False target scope v))) < length (canonical lt v) \<or>
   fst (redact everything inherited False target scope v) = v"
proof (induction v arbitrary: inherited target scope)
  case (Arr xs)
  let ?h = "\<lambda>x. fst (redact everything inherited False False scope x)"
  have eq: "fst (redact everything inherited False target scope (Arr xs)) = Arr (map ?h (filter (\<lambda>x. x \<noteq> Undefined) xs))"
    by (simp only: redact_everything_Arr filter_map comp_def redact_everything_Undefined)
  have "map ?h (filter (\<lambda>x. x \<noteq> Undefined) xs) = xs \<or>
      sum_list (map (\<lambda>x. Suc (length (canonical lt x))) (map ?h (filter (\<lambda>x. x \<noteq> Undefined) xs))) - 1 <
      sum_list (map (\<lambda>x. Suc (length (canonical lt x))) xs) - 1"
    by (rule sum_shrinks) (use Arr in auto)
  then show ?case unfolding eq length_canonical_Arr by auto
next
  case (Obj fs)
  obtain m sc r where eq: "fst (redact everything inherited False target scope (Obj fs)) =
    Obj (map (\<lambda>e. (fst e, fst (redact everything m False False sc (snd e)))) (filter (\<lambda>e. \<not> merchantEntry r e) fs))"
    by (rule redact_everything_Obj)
  let ?h = "\<lambda>e. (fst e, fst (redact everything m False False sc (snd e)))"
  have "entryLength lt (?h e) < entryLength lt e \<or> ?h e = e" if "e \<in> set fs" for e
    using Obj [of e "snd e" m False sc] that by (cases e) (auto simp: entryLength_def)
  then have "map ?h (filter (\<lambda>e. \<not> merchantEntry r e) fs) = fs \<or>
      sum_list (map (entryLength lt) (map ?h (filter (\<lambda>e. \<not> merchantEntry r e) fs))) - 1 < sum_list (map (entryLength lt) fs) - 1"
    by (intro sum_shrinks) (auto simp: entryLength_def)
  then show ?case unfolding eq length_canonical_Obj by auto
qed auto

subsection \<open>The rows that are read\<close>

abbreviation lowered :: "char \<Rightarrow> char" where
  "lowered c \<equiv> (if is_upper c then char_of (code c + 32) else c)"

lemma startsWith_map: "startsWith p s \<Longrightarrow> startsWith (map f p) (map f s)"
  by (induction p s rule: startsWith.induct) auto

lemma containsText_map: "containsText p s \<Longrightarrow> containsText (map f p) (map f s)"
  by (induction s) (use startsWith_map in \<open>fastforce+\<close>)

lemma merchantKey_text: "merchantKey k \<Longrightarrow> containsText (CHR 0x22 # ''merchant'') (jsonString k)"
  unfolding merchantKey_def merchantKeys_def
  by (simp, elim disjE) (hypsubst, code_simp)+

lemma jsonTexts_eq_map: "jsonTexts xs = map jsonText xs"
  by (induction xs) auto

lemma jsonEntries_eq_map:
  "jsonEntries fs = map (\<lambda>e. jsonString (fst e) @ '':'' @ jsonText (snd e)) (filter (\<lambda>e. snd e \<noteq> Undefined) fs)"
  by (induction fs) auto

lemma merchant_text: "\<not> merchantFree v \<Longrightarrow> containsText (CHR 0x22 # ''merchant'') (jsonText v)"
proof (induction v)
  case (Arr xs)
  then obtain x where x: "x \<in> set xs" "\<not> merchantFree x" by auto
  then have "containsText (CHR 0x22 # ''merchant'') (joinTexts (jsonTexts xs))"
    by (intro containsText_joinTexts [of "jsonText x"] Arr.IH) (simp_all add: jsonTexts_eq_map)
  then show ?case by (auto intro!: containsText_append_left)
next
  case (Obj fs)
  then obtain k x where e: "(k, x) \<in> set fs" "x \<noteq> Undefined" "merchantKey k \<or> \<not> merchantFree x" by auto
  then have "containsText (CHR 0x22 # ''merchant'') (jsonString k @ '':'' @ jsonText x)"
    using merchantKey_text Obj.IH [of "(k, x)" x]
    by (auto intro: containsText_append_left containsText_append_right containsText_append_right [where s = "_ @ [_]", simplified])
  then have "containsText (CHR 0x22 # ''merchant'') (joinTexts (jsonEntries fs))"
    using e by (intro containsText_joinTexts [of "jsonString k @ '':'' @ jsonText x"]) (force simp: jsonEntries_eq_map)+
  then show ?case by (auto intro!: containsText_append_left)
qed auto

lemma merchant_mentioned: "\<not> mentionsMerchant v \<Longrightarrow> merchantFree v"
proof (rule ccontr)
  assume "\<not> mentionsMerchant v" "\<not> merchantFree v"
  then have "containsText (map lowered (CHR 0x22 # ''merchant'')) (map lowered (jsonText v))"
    by (intro containsText_map merchant_text)
  moreover have "map lowered (CHR 0x22 # ''merchant'') = CHR 0x22 # ''merchant''" by code_simp
  ultimately have "mentionsMerchant v" unfolding mentionsMerchant_def by metis
  then show False using \<open>\<not> mentionsMerchant v\<close> by blast
qed

subsection \<open>Rows\<close>

definition columnClean :: "string \<times> jsval option \<Rightarrow> bool" where
  "columnClean c \<longleftrightarrow> (case snd c of None \<Rightarrow> True | Some v \<Rightarrow> merchantFree v)"

definition copyClean :: "copy_row \<Rightarrow> bool" where
  "copyClean row \<longleftrightarrow> list_all columnClean (cp_columns row)"

lemma storedJsons_eq_map: "storedJsons xs = map storedJson xs"
  by (induction xs) auto

lemma storedEntries_eq_map: "storedEntries fs = map (\<lambda>(k, x). (k, storedJson x)) (filter (\<lambda>e. snd e \<noteq> Undefined) fs)"
  by (induction fs) auto

lemma storedJson_free: "merchantFree v \<Longrightarrow> merchantFree (storedJson v)"
proof (induction v)
  case (Obj fs)
  then show ?case by (fastforce simp: storedEntries_eq_map intro: snds.intros)
qed (auto simp: storedJsons_eq_map)

lemma supersedeCopy_columns [simp]: "cp_columns (fst (supersedeCopy row)) = cp_columns row"
  by (simp add: supersedeCopy_def)

text \<open>Processing a column cleans it, and changes no column of another name.\<close>

lemma redactColumn_everything:
  assumes "set (cp_columns row) \<subseteq> Collect columnClean \<union> set (c # rest)"
  shows "set (cp_columns (fst (redactColumn env everything (row, n) c))) \<subseteq> Collect columnClean \<union> set rest"
proof -
  obtain k content where c: "c = (k, content)" by (cases c)
  show ?thesis
  proof (cases content)
    case None
    then show ?thesis using assms by (auto simp: redactColumn_def c columnClean_def)
  next
    case (Some v)
    let ?target = "cp_table row = ''review_items'' \<and> k = ''evidence'' \<and> cp_classifier row = ''merchant''"
    let ?cleaned = "fst (redact everything None False ?target None v)"
    have free: "merchantFree ?cleaned" by (rule redact_everything_free)
    show ?thesis
    proof (cases "canonical (me_localeLess env) v = canonical (me_localeLess env) ?cleaned")
      case True
      then have "?cleaned = v" using redact_everything_shorter [of "me_localeLess env" None ?target None v] by auto
      then have "columnClean c" using free by (simp add: c Some columnClean_def)
      then show ?thesis using assms True by (auto simp: redactColumn_def c Some Let_def)
    next
      case False
      have "cp_columns (fst (redactColumn env everything (row, n) c)) =
          map (\<lambda>(k', w). (k', if k' = k then Some (storedJson ?cleaned) else w)) (cp_columns row)"
        using False by (auto simp: redactColumn_def c Some Let_def case_prod_unfold)
      moreover have "columnClean (k', if k' = k then Some (storedJson ?cleaned) else w) \<or>
          (k', if k' = k then Some (storedJson ?cleaned) else w) \<in> set rest" if "(k', w) \<in> set (cp_columns row)" for k' w
        using subsetD [OF assms that] storedJson_free [OF free] by (auto simp: c columnClean_def)
      ultimately show ?thesis by auto
    qed
  qed
qed

lemma redactColumns_everything:
  "set (cp_columns (fst acc)) \<subseteq> Collect columnClean \<union> set cs \<Longrightarrow>
   set (cp_columns (fst (foldl (redactColumn env everything) acc cs))) \<subseteq> Collect columnClean"
proof (induction cs arbitrary: acc)
  case (Cons c cs)
  then show ?case using redactColumn_everything [of "fst acc" c cs env "snd acc"] by simp
qed simp

lemma redactCopy_everything: "copyClean (fst (redactCopy env everything row))"
proof (cases "copySelected everything row")
  case True
  then show ?thesis using redactColumns_everything [of "(row, 0)" "cp_columns row" env]
    by (auto simp: redactCopy_def copyClean_def list_all_iff)
next
  case False
  have "merchantFree v" if "(k, Some v) \<in> set (cp_columns row)" for k v
    using False that by (intro merchant_mentioned) (force simp: copySelected_def everything_def list_ex_iff)
  then show ?thesis using False
    by (auto simp: redactCopy_def copyClean_def columnClean_def list_all_iff split: option.splits)
qed

subsection \<open>Content without merchant entries\<close>

text \<open>A value that was parsed from a JSON text has no \<open>undefined\<close> in it.\<close>

fun parsedJson :: "jsval \<Rightarrow> bool" where
  "parsedJson Undefined \<longleftrightarrow> False"
| "parsedJson (Big _) \<longleftrightarrow> False"
| "parsedJson (Arr xs) \<longleftrightarrow> (\<forall>x \<in> set xs. parsedJson x)"
| "parsedJson (Obj fs) \<longleftrightarrow> (\<forall>(_, x) \<in> set fs. parsedJson x)"
| "parsedJson v \<longleftrightarrow> True"

lemma redact_free: "merchantFree v \<Longrightarrow> parsedJson v \<Longrightarrow> fst (redact opts inherited False False scope v) = v"
proof (induction v arbitrary: inherited scope)
  case (Arr xs)
  then have "map (\<lambda>x. fst (redact opts inherited False False scope x)) xs = xs"
    by (intro map_idI) auto
  moreover have "filter (\<lambda>x. x \<noteq> Undefined) xs = xs"
    using Arr.prems(2) by (auto simp: filter_id_conv)
  ultimately show ?case by (simp add: redact_eqs comp_def)
next
  case (Obj fs)
  have e: "\<not> merchantKey k" "fst (redact opts m False False sc x) = x" if "(k, x) \<in> set fs" for k x m sc
  proof -
    have "parsedJson x" using Obj.prems(2) that by auto
    then have "x \<noteq> Undefined" by auto
    then have "\<not> merchantKey k \<and> merchantFree x" using bspec [OF Obj.prems(1) [unfolded merchantFree.simps] that] by simp
    then show "\<not> merchantKey k" "fst (redact opts m False False sc x) = x"
      using Obj.IH [OF that, of x] \<open>parsedJson x\<close> by auto
  qed
  have "filter (\<lambda>e. \<not> droppedEntry opts m False sc selected False e) fs = fs" for m sc selected
    by (auto simp: filter_id_conv droppedEntry_def e)
  moreover have "map (\<lambda>e. (fst e, fst (redact opts m (merchantKey (fst e)) False sc (snd e)))) fs = fs" for m sc
    by (rule map_idI) (auto simp: e)
  moreover have "\<not> list_ex (\<lambda>p. merchantKey (fst p)) fs" by (auto simp: list_ex_iff e)
  ultimately show ?case by (simp add: redact_eqs)
qed auto

definition ordinaryCopy :: "copy_row \<Rightarrow> bool" where
  "ordinaryCopy row \<longleftrightarrow> \<not> (cp_table row = ''review_items'' \<and> cp_classifier row = ''merchant'') \<and>
     (\<forall>c \<in> set (cp_columns row). \<forall>v. snd c = Some v \<longrightarrow> parsedJson v \<and> merchantFree v)"

lemma redactColumn_free:
  assumes "ordinaryCopy row" "c \<in> set (cp_columns row)"
  shows "redactColumn env opts (row, n) c = (row, n)"
proof (cases "snd c")
  case (Some v)
  then have "fst (redact opts None False False None v) = v"
    using assms by (intro redact_free) (auto simp: ordinaryCopy_def)
  moreover have "(cp_table row = ''review_items'' \<and> fst c = ''evidence'' \<and> cp_classifier row = ''merchant'') = False"
    using assms(1) by (auto simp: ordinaryCopy_def)
  ultimately have "redactColumn env opts (row, n) (fst c, snd c) = (row, n)"
    unfolding redactColumn_def by (simp only: Some prod.case option.case Let_def simp_thms if_True)
  then show ?thesis by simp
qed (cases c, simp add: redactColumn_def)

lemma redactCopy_free: "ordinaryCopy row \<Longrightarrow> redactCopy env opts row = (row, 0)"
proof -
  assume row: "ordinaryCopy row"
  have "set cs \<subseteq> set (cp_columns row) \<Longrightarrow> foldl (redactColumn env opts) (row, 0) cs = (row, 0)" for cs
    by (induction cs) (simp_all add: redactColumn_free row)
  then show ?thesis by (simp add: redactCopy_def)
qed

subsection \<open>Properties\<close>

text \<open>
  C26. After the reconciliation of a restored copy no merchant entry is left at any depth of any JSON
  column of the tables that hold derived copies: neither the filter on the text of the columns nor the
  comparison of canonical texts misses one. A reconciliation that fails changes nothing.
\<close>

theorem restored_copies_clean:
  "case reconcileMerchantRestore env now s of
     (Inr _, t) \<Rightarrow> list_all copyClean (md_copies t) \<and> length (md_copies t) = length (md_copies s)
   | (Inl _, t) \<Rightarrow> t = s"
proof -
  have "list_all copyClean (map fst (map (redactCopy env everything) rows))" for rows
    by (simp add: list_all_iff redactCopy_everything)
  moreover have "md_copies (updateAttempts p f t) = md_copies t" for p f t
    by (simp add: updateAttempts_def)
  ultimately show ?thesis
    by (simp add: reconcileMerchantRestore_def redactScope_def redactMerchantDerivedCopies_def Let_def split: sum.splits)
qed

text \<open>
  C39. A redaction, whatever it selects, leaves a row as it is whose JSON columns hold no merchant entry,
  unless the row is a review item made by the merchant classifier, whose source revision is derived.
\<close>

theorem redaction_conservative:
  assumes "i < length rows" "ordinaryCopy (rows ! i)"
  shows "fst (redactMerchantDerivedCopies env opts rows) ! i = rows ! i \<and>
    snd (redactMerchantDerivedCopies env opts rows) =
      snd (redactMerchantDerivedCopies env opts (take i rows @ drop (Suc i) rows))"
proof -
  have "rows = take i rows @ rows ! i # drop (Suc i) rows" using assms(1) by (rule id_take_nth_drop)
  then have "sum_list (map (snd \<circ> redactCopy env opts) rows) =
      sum_list (map (snd \<circ> redactCopy env opts) (take i rows @ rows ! i # drop (Suc i) rows))" by simp
  then show ?thesis
    by (simp add: redactMerchantDerivedCopies_def Let_def redactCopy_free assms)
qed

lemma redaction_conservative_witness:
  "ordinaryCopy ([sampleCopy] ! 0) \<and>
   fst (redactMerchantDerivedCopies sampleMerchantEnv (everything\<lparr>rx_budgetId := Some ''b1''\<rparr>) [sampleCopy]) ! 0 = sampleCopy"
proof -
  have "ordinaryCopy ([sampleCopy] ! 0)"
    by (simp add: ordinaryCopy_def sampleCopy_def merchantKey_def merchantKeys_def)
  then show ?thesis
    using redaction_conservative [of 0 "[sampleCopy]" sampleMerchantEnv "everything\<lparr>rx_budgetId := Some ''b1''\<rparr>"] by simp
qed

end
