(* ===== verification/Spec2Isabelle.thy ===== *)
theory Spec2Isabelle
  imports Authorization_Props Governance_Revocation Governance_Props Value_Props Job_Props Outbox_Props
    Idempotency Invitations Review_Props Research_Props Redact_Props
begin

text \<open>
  BalanceFrame: the workflow store and its governance.

  \<^bold>\<open>The program.\<close> BalanceFrame is a TypeScript monorepo that lets people and delegated software agents
  review and change a household budget. What may happen is decided by the governance store
  (\<^verbatim>\<open>packages/workflow-store/src/governance.ts\<close>): spaces with members, versioned approval policies,
  resource grants with restrictions, agents with delegations and credentials, and one evaluator that
  every read, proposal, approval and execution asks. What is under way is kept by the workflow store
  (\<^verbatim>\<open>packages/workflow-store/src/store.ts\<close>): candidate jobs and notification deliveries that workers
  hold under leases, idempotency records of executions, audit records, registration, review items. What
  is known about merchants, and the paid searches for it, is the merchant workflow
  (\<^verbatim>\<open>packages/workflow-store/src/merchant.ts\<close>). All are classes over one synchronous SQLite connection;
  every method runs to completion before another starts, so an execution is a sequence of operations,
  and the development proves its properties of all of them.

  \<^bold>\<open>How it is modelled.\<close>
  \<^item> \<open>Prelude\<close>: a method is a function from the store to a value or a JavaScript error and the store it
    leaves (\<open>op\<close>); a transaction restores the tables when its body throws; a table is the list of its
    rows, with \<open>insertRow\<close> for \<open>INSERT\<close> under uniqueness constraints and \<open>updateWhere\<close> for \<open>UPDATE\<close>;
    \<open>triple\<close> and its rules are pre- and postconditions of operations.
  \<^item> \<open>Js_Value\<close>, \<open>Iso_Time\<close>: JSON values, texts and numbers as the code inspects them; \<open>isoTime\<close> and
    \<open>toISOString\<close> on the proleptic Gregorian calendar; the order of texts.
  \<^item> \<open>Grant_Restrictions\<close>, \<open>Approval_Policy\<close>, \<open>Auth_Payload\<close>: the parsers and the arithmetic of
    \<^verbatim>\<open>governance.ts\<close> (\<open>parseRestrictions\<close>, \<open>delegatedRestrictions\<close>, \<open>parsePolicy\<close>, \<open>operationList\<close>,
    \<open>payloadResources\<close>, \<open>financialTotals\<close>, \<open>prepareAuthorizationPayload\<close>).
  \<^item> \<open>Governance_Store\<close>, \<open>Governance_Ops\<close>, \<open>Agent_Ops\<close>: the tables of \<^verbatim>\<open>migrateGovernance\<close> as the record
    \<open>gov_db\<close> and one definition per method of the class \<open>GovernanceStore\<close>.
  \<^item> \<open>Authorization\<close>: \<open>authorizeForPurpose\<close>, stage by stage with the reason of every denial, and the
    methods that call it.
  \<^item> \<open>Job_Queue\<close>, \<open>Notification_Outbox\<close>: the candidate jobs and the notifications of \<^verbatim>\<open>store.ts\<close>, each
    prepared SQL statement and each method a definition.
  \<^item> \<open>Idempotency\<close>, \<open>Audit_Trail\<close>, \<open>Registration\<close>, \<open>Invitations\<close>: idempotency records, the audit
    records of the store, the registration of the first owner, and the invitations of further members,
    whose redemption runs the governance store's \<open>acceptInvitedMembership\<close> in its own transaction.
  \<^item> \<open>Review_Queue\<close>: review items with their transitions, approvals, corrections and undo.
  \<^item> \<open>Json_Text\<close>: the text of JSON values and the canonical text that digests and comparisons use.
  \<^item> \<open>Merchant_Data\<close>, \<open>Merchant_Store\<close>, \<open>Merchant_Research\<close>, \<open>Merchant_Redact\<close>: the schemas of \<^verbatim>\<open>merchant.ts\<close>,
    its tables with policies, decisions and evidence, the research attempts from reservation to
    settlement with erasure, pruning and restored copies, and the redaction of copies that other
    tables hold. \<open>runMerchant\<close> runs any sequence of these operations. The authority callback is a field of
    the request; SHA-256, \<open>localeCompare\<close> and the time zones of the runtime are fields of \<open>merchant_env\<close>.

  Identifiers from \<open>randomUUID\<close>, the clock, and results of library calls (a credential check, a token
  digest) are arguments or fields of the state, so every statement holds for all of them.

  \<^bold>\<open>Interfaces.\<close> Six locales carry the proofs that several operations or tables share.
  \<^item> \<open>gov_invariant\<close> (\<open>Governance_Invariant\<close>): a predicate that the elementary writes of the governance
    store keep is kept by every operation and every sequence of operations. Its interpretations are
    the consistency of the tables, the growth of the audit trail, and the tombstones below.
  \<^item> \<open>gov_tombstone\<close> (\<open>Governance_Revocation\<close>): it extends \<open>gov_invariant\<close> by a mark that no operation
    removes and the fact that the evaluator honours it; deletion of a space, revocation of a
    membership, agent, delegation or credential and replacement of a policy are its interpretations.
  \<^item> \<open>lease_store\<close> (\<open>Lease\<close>): work handed out under leases; interpreted by the candidate jobs and by the
    notification outbox.
  \<^item> \<open>invitation_invariant\<close> (\<open>Invitations\<close>): a predicate on the table of invitations that its statements
    keep is kept by every operation; interpreted by the lifecycle of a row and by the uniqueness of
    tokens.
  \<^item> \<open>attempt_invariant\<close> (\<open>Research_Refine\<close>): a predicate on the table of research attempts that the
    elementary changes of the abstract ledger keep holds in every reachable state; interpreted by the
    quotas and by the spacing of launches.
  \<^item> \<open>attempt_fate\<close> (\<open>Research_Props\<close>): what the moves of one attempt keep of it is kept by all operations;
    interpreted by the charge of unsettled attempts and by settlements.

  \<^bold>\<open>What is shown.\<close>
  \<^item> \<open>Authorization_Props\<close>: what an allowed request of a person or an agent satisfies, that nothing in
    the payload escapes the check, and when approval is required.
  \<^item> \<open>Governance_Revocation\<close>: every kind of revocation is final over all later operations; \<open>withdraws\<close> puts
    them together.
  \<^item> \<open>Governance_Props\<close>: consistency of reachable stores, uniqueness of current memberships, atomicity of
    operations that throw, who may change the control state, compare-and-swap of policies,
    attenuation of delegations, the rights of a creator, append-only audit.
  \<^item> \<open>Value_Props\<close>: round trips of instants and stored values, text order as time order, the approval
    count as a maximum, exact 64-bit totals.
  \<^item> \<open>Job_Props\<close>, \<open>Outbox_Props\<close>: consistency, refinement of and exclusivity under leases, finality,
    accounting of failures and attempts, idempotent enqueueing, deduplication, retries.
  \<^item> \<open>Idempotency\<close>, \<open>Audit_Trail\<close>, \<open>Registration\<close>: one owner per key and the binding of a key, reading
    back audit records, one owner per deployment.
  \<^item> \<open>Invitations\<close>: the one-way lifecycle of an invitation and the soundness of its redemption.
  \<^item> \<open>Review_Props\<close>: the operations on review items refine an abstract queue of elementary changes; from
    it follow the recorded history, the quorum of approvals, one open item per issue and the
    meaning of versions; public moves are authorized by the governance store.
  \<^item> \<open>Research_Refine\<close>, \<open>Research_Control\<close>, \<open>Research_Props\<close>: the operations of the merchant workflow refine an
    abstract ledger of attempts, from which follow the quotas, the rate of launches, the charges of
    what was sent and the finality of settlements; consent and the quarantine of restored copies hold
    until they are lifted. \<open>Redact_Props\<close>: a reconciled copy is free of merchant content, and redaction
    leaves everything else alone. \<open>Research_Sample\<close> holds the concrete tables of the instances.

  \<^bold>\<open>Bounds.\<close> No definition needs fuel: all recursion is structural or over a list. Instants are
  unbounded integers of milliseconds; \<open>date_range\<close> is the range of JavaScript dates, outside which
  \<open>toISOString\<close> throws, and \<open>iso_range\<close> the years that print with four digits. Counters are unbounded;
  the money sums carry the source's own 64-bit bound.

  \<^bold>\<open>Not modelled.\<close> Of the workflow store: proposals with their approvals and executions, whose tables also
  carry the plans of the ledger connector; suggestions, findings, saved filters and notification
  policies, which are stored and listed without rules of their own; the batch publication of reviews
  with its rule sets; the erasure of a whole budget, which deletes rows of all of these; the liquidity
  store, a second store of the same size. Of the merchant workflow: the enrichment cache, whose schema
  rests on the URL parser of the runtime. Of the application: the services that call the stores and
  the ledger connector in turn, transaction evidence, receipts and wallets. The connector to Actual
  Budget, the model providers, the servers and the user interface are input and output around
  third-party packages; the protocol bindings are generated; the Rust crates are another program.
  SQL is modelled by its effect on rows: indexes that carry no uniqueness constraint, and the order
  of rows that compare equal, are not. A JSON column is the value it encodes; that a stored text was
  written by \<open>JSON.stringify\<close>, without other spacing or escapes, is what the filter on merchant content
  rests on.
\<close>

end
